(* ===== verification/Afp_Prelude.thy ===== *)
theory Afp_Prelude
  imports Main "HOL-Library.Word" "HOL-Library.Monad_Syntax"
begin

text \<open>
  What every component of the model shares: machine integers and bytes, the two byte orders in
  which the client stores integers in a packet, bounds-checked reads and writes of a C buffer, C
  strings and the string functions of the C library that the sources call.

  A buffer is a list of bytes. Every access through a pointer is an operation of type
  \<open>'a option\<close>, and \<open>None\<close> is the undefined behaviour of C: the access falls outside of the object.
  The target is a little-endian machine, the one for which the sources define \<open>hton64\<close> as a swap.
\<close>

unbundle bit_operations_syntax

named_theorems wire_simps \<open>packets: lengths, reads after writes\<close>
named_theorems return_simps \<open>outcomes of fallible operations\<close>

subsection \<open>Integers and bytes\<close>

type_synonym byte = "8 word"
type_synonym u16 = "16 word"
type_synonym u32 = "32 word"
type_synonym u64 = "64 word"

text \<open>Integers in network byte order, as \<open>htons\<close>, \<open>htonl\<close> and the macro \<open>hton64\<close> leave them in
  memory.\<close>

definition be16 :: "u16 \<Rightarrow> byte list" where
  "be16 w = [ucast (drop_bit 8 w), ucast w]"

definition be32 :: "u32 \<Rightarrow> byte list" where
  "be32 w = be16 (ucast (drop_bit 16 w)) @ be16 (ucast w)"

definition be64 :: "u64 \<Rightarrow> byte list" where
  "be64 w = be32 (ucast (drop_bit 32 w)) @ be32 (ucast w)"

text \<open>An integer that is stored without a conversion.\<close>

definition le32 :: "u32 \<Rightarrow> byte list" where
  "le32 w = rev (be32 w)"

text \<open>Bounds-checked reads. The suffix \<open>le\<close> marks the places where the sources use a field of a
  packet without \<open>ntohs\<close> or \<open>ntohl\<close>.\<close>

definition rd8 :: "byte list \<Rightarrow> nat \<Rightarrow> byte option" where
  "rd8 b p = (if p < length b then Some (b ! p) else None)"

definition rd16 :: "byte list \<Rightarrow> nat \<Rightarrow> u16 option" where
  "rd16 b p = do {h \<leftarrow> rd8 b p; l \<leftarrow> rd8 b (p + 1); Some (push_bit 8 (ucast h) OR ucast l)}"

definition rd32 :: "byte list \<Rightarrow> nat \<Rightarrow> u32 option" where
  "rd32 b p = do {h \<leftarrow> rd16 b p; l \<leftarrow> rd16 b (p + 2); Some (push_bit 16 (ucast h) OR ucast l)}"

definition rd64 :: "byte list \<Rightarrow> nat \<Rightarrow> u64 option" where
  "rd64 b p = do {h \<leftarrow> rd32 b p; l \<leftarrow> rd32 b (p + 4); Some (push_bit 32 (ucast h) OR ucast l)}"

definition rd16le :: "byte list \<Rightarrow> nat \<Rightarrow> u16 option" where
  "rd16le b p = do {l \<leftarrow> rd8 b p; h \<leftarrow> rd8 b (p + 1); Some (push_bit 8 (ucast h) OR ucast l)}"

definition rd32le :: "byte list \<Rightarrow> nat \<Rightarrow> u32 option" where
  "rd32le b p = do {l \<leftarrow> rd16le b p; h \<leftarrow> rd16le b (p + 2); Some (push_bit 16 (ucast h) OR ucast l)}"

definition rd_bytes :: "byte list \<Rightarrow> nat \<Rightarrow> nat \<Rightarrow> byte list option" where
  "rd_bytes b p n = (if p + n \<le> length b then Some (take n (drop p b)) else None)"

definition wr_bytes :: "byte list \<Rightarrow> nat \<Rightarrow> byte list \<Rightarrow> byte list option" where
  "wr_bytes b p xs = (if p + length xs \<le> length b
     then Some (take p b @ xs @ drop (p + length xs) b) else None)"

lemma length_be16 [simp, wire_simps]: "length (be16 w) = 2"
  by (simp add: be16_def)

lemma length_be32 [simp, wire_simps]: "length (be32 w) = 4"
  by (simp add: be32_def)

lemma length_be64 [simp, wire_simps]: "length (be64 w) = 8"
  by (simp add: be64_def)

lemma length_le32 [simp, wire_simps]: "length (le32 w) = 4"
  by (simp add: le32_def)

lemma join_be16:
  "push_bit 8 (ucast (ucast (drop_bit 8 w) :: byte)) OR ucast (ucast w :: byte) = (w :: u16)"
  by (rule bit_word_eqI) (auto simp: bit_simps)

lemma join_be32:
  "push_bit 16 (ucast (ucast (drop_bit 16 w) :: u16)) OR ucast (ucast w :: u16) = (w :: u32)"
  by (rule bit_word_eqI) (auto simp: bit_simps)

lemma join_be64:
  "push_bit 32 (ucast (ucast (drop_bit 32 w) :: u32)) OR ucast (ucast w :: u32) = (w :: u64)"
  by (rule bit_word_eqI) (auto simp: bit_simps)

text \<open>Reading at the position where a field was written gives back the field; the position is any
  expression equal to the length of what precedes.\<close>

lemma rd8_at: "p = length xs \<Longrightarrow> rd8 (xs @ b # ys) p = Some b"
  by (simp add: rd8_def)

lemma rd8_append1: "p < length xs \<Longrightarrow> rd8 (xs @ ys) p = rd8 xs p"
  by (simp add: rd8_def nth_append)

lemma rd8_append2: "length xs \<le> p \<Longrightarrow> rd8 (xs @ ys) p = rd8 ys (p - length xs)"
  by (auto simp: rd8_def nth_append)

lemma rd8_Cons: "rd8 (x # xs) p = (if p = 0 then Some x else rd8 xs (p - 1))"
  by (auto simp: rd8_def nth_Cons')

lemma rd8_Nil [simp]: "rd8 [] p = None"
  by (simp add: rd8_def)

lemma rd16_at:
  assumes "p = length xs"
  shows "rd16 (xs @ be16 w @ ys) p = Some w"
  using assms by (simp add: rd16_def be16_def rd8_append2 rd8_Cons join_be16)

lemma rd32_at:
  assumes "p = length xs"
  shows "rd32 (xs @ be32 w @ ys) p = Some w"
proof -
  have "rd16 (xs @ be32 w @ ys) p = Some (ucast (drop_bit 16 w))"
    using assms by (simp add: be32_def rd16_at)
  moreover have "rd16 ((xs @ be16 (ucast (drop_bit 16 w))) @ be16 (ucast w) @ ys) (p + 2) = Some (ucast w)"
    by (rule rd16_at) (simp add: assms)
  ultimately show ?thesis
    by (simp add: rd32_def be32_def join_be32)
qed

lemma rd64_at:
  assumes "p = length xs"
  shows "rd64 (xs @ be64 w @ ys) p = Some w"
proof -
  have "rd32 (xs @ be64 w @ ys) p = Some (ucast (drop_bit 32 w))"
    using assms by (simp add: be64_def rd32_at)
  moreover have "rd32 ((xs @ be32 (ucast (drop_bit 32 w))) @ be32 (ucast w) @ ys) (p + 4) = Some (ucast w)"
    by (rule rd32_at) (simp add: assms)
  ultimately show ?thesis
    by (simp add: rd64_def be64_def join_be64)
qed

lemma rd_bytes_at:
  assumes "p = length xs" and "n = length zs"
  shows "rd_bytes (xs @ zs @ ys) p n = Some zs"
  using assms by (simp add: rd_bytes_def)

lemma rd8_eq_None_iff [return_simps]: "rd8 b p = None \<longleftrightarrow> length b \<le> p"
  by (auto simp: rd8_def)

lemma rd16_eq_None_iff [return_simps]: "rd16 b p = None \<longleftrightarrow> length b < p + 2"
  by (auto simp: rd16_def rd8_def bind_eq_None_conv)

lemma rd32_eq_None_iff [return_simps]: "rd32 b p = None \<longleftrightarrow> length b < p + 4"
  by (auto simp: rd32_def rd16_def rd8_def bind_eq_None_conv)

lemma rd64_eq_None_iff [return_simps]: "rd64 b p = None \<longleftrightarrow> length b < p + 8"
  by (auto simp: rd64_def rd32_def rd16_def rd8_def bind_eq_None_conv)

lemma rd_bytes_eq_None_iff [return_simps]: "rd_bytes b p n = None \<longleftrightarrow> length b < p + n"
  by (auto simp: rd_bytes_def)

lemma length_wr_bytes: "wr_bytes b p xs = Some b' \<Longrightarrow> length b' = length b"
  by (auto simp: wr_bytes_def split: if_splits)

text \<open>The reads only look at the bytes below the end of the field, so what follows a packet in its
  buffer does not matter.\<close>

lemma rd16_append1: "p + 2 \<le> length xs \<Longrightarrow> rd16 (xs @ ys) p = rd16 xs p"
  by (simp add: rd16_def rd8_append1)

lemma rd32_append1: "p + 4 \<le> length xs \<Longrightarrow> rd32 (xs @ ys) p = rd32 xs p"
  by (simp add: rd32_def rd16_append1)

lemma rd64_append1: "p + 8 \<le> length xs \<Longrightarrow> rd64 (xs @ ys) p = rd64 xs p"
  by (simp add: rd64_def rd32_append1)

lemma rd16_append2: "length xs \<le> p \<Longrightarrow> rd16 (xs @ ys) p = rd16 ys (p - length xs)"
  by (simp add: rd16_def rd8_append2 Suc_diff_le)

lemma rd32_append2: "length xs \<le> p \<Longrightarrow> rd32 (xs @ ys) p = rd32 ys (p - length xs)"
  by (simp add: rd32_def rd16_append2 Suc_diff_le)

subsection \<open>A contract for fixed-width fields\<close>

text \<open>A field of a packet: an encoder of fixed width and the read that inverts it wherever the
  field stands.\<close>

locale wire_field =
  fixes enc :: "'a \<Rightarrow> byte list"
    and rd :: "byte list \<Rightarrow> nat \<Rightarrow> 'a option"
    and width :: nat
  assumes enc_width: "length (enc x) = width"
    and rd_enc: "p = length xs \<Longrightarrow> rd (xs @ enc x @ ys) p = Some x"
    and rd_bounds: "rd b p = None \<longleftrightarrow> length b < p + width"
begin

lemma rd_head: "rd (enc x @ ys) 0 = Some x"
  using rd_enc [of 0 "[]"] by simp

lemma enc_inject: "enc x = enc y \<longleftrightarrow> x = y"
proof
  assume "enc x = enc y"
  then have "Some x = Some y"
    by (metis rd_head)
  then show "x = y" by simp
qed simp

lemma rd_defined: "p + width \<le> length b \<Longrightarrow> \<exists>x. rd b p = Some x"
  using rd_bounds [of b p] by fastforce

lemma enc_prefix_free: "enc x @ xs = enc y @ ys \<longleftrightarrow> x = y \<and> xs = ys"
  by (simp add: enc_width enc_inject)

end

interpretation f8: wire_field "\<lambda>b. [b]" rd8 1
  by unfold_locales (auto simp: rd8_def)

interpretation f16: wire_field be16 rd16 2
  by unfold_locales (auto simp: rd16_at rd16_eq_None_iff)

interpretation f32: wire_field be32 rd32 4
  by unfold_locales (auto simp: rd32_at rd32_eq_None_iff)

interpretation f64: wire_field be64 rd64 8
  by unfold_locales (auto simp: rd64_at rd64_eq_None_iff)

subsection \<open>C strings\<close>

text \<open>A C string is the list of its characters without the terminator. The same characters in a
  packet are bytes.\<close>

definition byte_of_char :: "char \<Rightarrow> byte" where
  "byte_of_char c = word_of_nat (of_char c)"

definition char_of_byte :: "byte \<Rightarrow> char" where
  "char_of_byte b = char_of (unat b)"

abbreviation to_bytes :: "string \<Rightarrow> byte list" where
  "to_bytes \<equiv> map byte_of_char"

abbreviation of_bytes :: "byte list \<Rightarrow> string" where
  "of_bytes \<equiv> map char_of_byte"

lemma char_of_byte_of_char [simp]: "char_of_byte (byte_of_char c) = c"
  by (simp add: char_of_byte_def byte_of_char_def unat_of_nat)

lemma byte_of_char_of_byte [simp]: "byte_of_char (char_of_byte b) = b"
proof -
  have "unat b < 256"
    using unsigned_less [of b, where 'a = nat] by simp
  then show ?thesis
    by (simp add: char_of_byte_def byte_of_char_def)
qed

lemma of_bytes_to_bytes [simp]: "of_bytes (to_bytes s) = s"
  by (simp add: map_idI)

lemma to_bytes_of_bytes [simp]: "to_bytes (of_bytes b) = b"
  by (simp add: map_idI)

lemma char_of_byte_comp [simp]:
  "char_of_byte \<circ> byte_of_char = id" "byte_of_char \<circ> char_of_byte = id"
  by (simp_all add: fun_eq_iff)

lemma char_of_byte_0: "char_of_byte 0 = CHR 0x00"
  by (simp add: char_of_byte_def char_of_def)

lemma byte_of_char_eq_0_iff: "byte_of_char c = 0 \<longleftrightarrow> c = CHR 0x00"
  by (metis char_of_byte_0 char_of_byte_of_char byte_of_char_of_byte)

text \<open>The string a buffer holds: its bytes up to the first NUL.\<close>

definition c_str :: "byte list \<Rightarrow> string" where
  "c_str b = of_bytes (takeWhile (\<lambda>x. x \<noteq> 0) b)"

lemma c_str_padded:
  assumes "CHR 0x00 \<notin> set s"
  shows "c_str (to_bytes s @ replicate k 0) = s"
proof -
  have "takeWhile (\<lambda>x. x \<noteq> 0) (to_bytes s @ replicate k 0) = to_bytes s"
    using assms by (induction s) (auto simp: byte_of_char_eq_0_iff)
  then show ?thesis
    by (simp add: c_str_def)
qed

text \<open>\<open>strchr\<close> and \<open>strrchr\<close> as the index of the character, \<open>strncpy\<close> and \<open>snprintf\<close> to a buffer of
  \<open>n\<close> bytes as the string the buffer holds after them.\<close>

fun strchr :: "'a list \<Rightarrow> 'a \<Rightarrow> nat option" where
  "strchr [] c = None"
| "strchr (x # xs) c = (if x = c then Some 0 else map_option Suc (strchr xs c))"

definition strrchr :: "'a list \<Rightarrow> 'a \<Rightarrow> nat option" where
  "strrchr s c = map_option (\<lambda>i. length s - 1 - i) (strchr (rev s) c)"

lemma strchr_eq_None_iff [return_simps]: "strchr s c = None \<longleftrightarrow> c \<notin> set s"
  by (induction s) auto

lemma strchr_SomeD:
  "strchr s c = Some i \<Longrightarrow> i < length s \<and> s ! i = c \<and> c \<notin> set (take i s)"
  by (induction s arbitrary: i) (auto split: if_splits)

lemma strchr_append: "c \<notin> set xs \<Longrightarrow> strchr (xs @ c # ys) c = Some (length xs)"
  by (induction xs) auto

lemma strrchr_eq_None_iff [return_simps]: "strrchr s c = None \<longleftrightarrow> c \<notin> set s"
  by (simp add: strrchr_def strchr_eq_None_iff)

lemma strrchr_append: "c \<notin> set ys \<Longrightarrow> strrchr (xs @ c # ys) c = Some (length xs)"
  by (simp add: strrchr_def strchr_append)

lemma strrchr_SomeD:
  assumes "strrchr s c = Some i"
  shows "i < length s" "s ! i = c" "c \<notin> set (drop (Suc i) s)"
proof -
  have "c \<in> set s"
    using assms strrchr_eq_None_iff [of s c] by auto
  then obtain xs ys where s: "s = xs @ c # ys" "c \<notin> set ys"
    by (metis split_list_last)
  then have "i = length xs"
    using assms strrchr_append [of c ys xs] by simp
  then show "i < length s" "s ! i = c" "c \<notin> set (drop (Suc i) s)"
    using s by simp_all
qed

text \<open>\<open>strstr\<close>: the offset of the first occurrence.\<close>

definition starts_with :: "'a list \<Rightarrow> 'a list \<Rightarrow> bool" where
  "starts_with p s \<longleftrightarrow> take (length p) s = p"

fun strstr :: "'a list \<Rightarrow> 'a list \<Rightarrow> nat option" where
  "strstr [] needle = (if needle = [] then Some 0 else None)"
| "strstr (x # xs) needle = (if starts_with needle (x # xs) then Some 0 else map_option Suc (strstr xs needle))"

lemma starts_with_iff: "starts_with p s \<longleftrightarrow> (\<exists>zs. s = p @ zs)"
  by (auto simp: starts_with_def) (metis append_take_drop_id)

lemma strstr_first:
  assumes "c \<notin> set d"
  shows "strstr (d @ (c # pat) @ r) (c # pat) = Some (length d)"
  using assms by (induction d) (auto simp: starts_with_def)

lemma strstr_behind_char:
  assumes "strstr d pat = None" "c \<notin> set pat" "pat \<noteq> []"
  shows "strstr (d @ c # pat @ r) pat = Some (length d + 1)"
  using assms(1)
proof (induction d)
  case Nil
  have "\<not> starts_with pat (c # pat @ r)"
    using assms(2,3) by (cases pat) (auto simp: starts_with_def)
  moreover have "strstr (pat @ r) pat = Some 0"
    using assms(3) by (cases pat) (simp_all add: starts_with_def)
  ultimately show ?case
    by simp
next
  case (Cons x d)
  have no: "\<not> starts_with pat (x # d)" "strstr d pat = None"
    using Cons.prems by (auto split: if_splits)
  have "\<not> starts_with pat (x # d @ c # pat @ r)"
  proof
    assume "starts_with pat (x # d @ c # pat @ r)"
    then obtain zs where zs: "(x # d) @ c # pat @ r = pat @ zs"
      by (auto simp: starts_with_iff)
    obtain us where us: "x # d = pat @ us \<or> (x # d) @ us = pat \<and> c # pat @ r = us @ zs"
      using zs unfolding append_eq_append_conv2 by blast
    have "us = [] \<or> c \<in> set pat" if "(x # d) @ us = pat" "c # pat @ r = us @ zs"
      using that by (cases us) auto
    then have "starts_with pat (x # d)"
      using us assms(2) by (auto simp: starts_with_iff)
    then show False
      using no(1) by contradiction
  qed
  then show ?case
    using Cons.IH no(2) by simp
qed

text \<open>Numbers as \<open>%u\<close>, \<open>%d\<close>, \<open>%x\<close> and \<open>%o\<close> print them.\<close>

fun decimal :: "nat \<Rightarrow> string" where
  "decimal n = (if n < 10 then [char_of (48 + n)] else decimal (n div 10) @ [char_of (48 + n mod 10)])"

declare decimal.simps [simp del]

definition signed_decimal :: "int \<Rightarrow> string" where
  "signed_decimal n = (if n < 0 then CHR ''-'' # decimal (nat (- n)) else decimal (nat n))"

fun hexadecimal :: "nat \<Rightarrow> string" where
  "hexadecimal n = (if n < 16 then [''0123456789abcdef'' ! n] else hexadecimal (n div 16) @ [''0123456789abcdef'' ! (n mod 16)])"

declare hexadecimal.simps [simp del]

fun octal :: "nat \<Rightarrow> string" where
  "octal n = (if n < 8 then [''01234567'' ! n] else octal (n div 8) @ [''01234567'' ! (n mod 8)])"

declare octal.simps [simp del]

definition line :: "string \<Rightarrow> string" where
  "line t = t @ [CHR 0x0A]"

end
