(* ===== verification/Afp_Protocol.thy ===== *)
theory Afp_Protocol
  imports Afp_Prelude
begin

text \<open>
  The constants of the Apple Filing Protocol and of the Data Stream Interface, under the names and
  values of \<open>afp_protocol.h\<close>, \<open>dsi_protocol.h\<close>, \<open>dsi.h\<close>, \<open>afp.h\<close>, \<open>uams_def.h\<close>, \<open>map_def.h\<close> and
  \<open>resource.h\<close>, and the values of \<open>errno\<close> and of the mode bits the client uses (Linux). They are
  abbreviations, so the proofs see the numbers.
\<close>

subsection \<open>Sizes\<close>

abbreviation (input) AFP_SERVER_NAME_LEN :: nat where "AFP_SERVER_NAME_LEN \<equiv> 33"

abbreviation (input) AFP_SERVER_NAME_UTF8_LEN :: nat where "AFP_SERVER_NAME_UTF8_LEN \<equiv> 255"

abbreviation (input) AFP_VOLUME_NAME_LEN :: nat where "AFP_VOLUME_NAME_LEN \<equiv> 33"

abbreviation (input) AFP_VOLUME_NAME_UTF8_LEN :: nat where "AFP_VOLUME_NAME_UTF8_LEN \<equiv> 33"

abbreviation (input) AFP_SIGNATURE_LEN :: nat where "AFP_SIGNATURE_LEN \<equiv> 16"

abbreviation (input) AFP_MACHINETYPE_LEN :: nat where "AFP_MACHINETYPE_LEN \<equiv> 33"

abbreviation (input) AFP_LOGINMESG_LEN :: nat where "AFP_LOGINMESG_LEN \<equiv> 200"

abbreviation (input) AFP_VOLPASS_LEN :: nat where "AFP_VOLPASS_LEN \<equiv> 8"

abbreviation (input) AFP_ZONE_LEN :: nat where "AFP_ZONE_LEN \<equiv> 255"

abbreviation (input) AFP_SERVER_ICON_LEN :: nat where "AFP_SERVER_ICON_LEN \<equiv> 256"

abbreviation (input) AFP_MAX_USERNAME_LEN :: nat where "AFP_MAX_USERNAME_LEN \<equiv> 127"

abbreviation (input) AFP_MAX_PASSWORD_LEN :: nat where "AFP_MAX_PASSWORD_LEN \<equiv> 127"

abbreviation (input) AFP_UAM_LENGTH :: nat where "AFP_UAM_LENGTH \<equiv> 24"

abbreviation (input) AFP_MAX_PATH :: nat where "AFP_MAX_PATH \<equiv> 768"

abbreviation (input) AFP_MAX_VERSION_LENGTH :: nat where "AFP_MAX_VERSION_LENGTH \<equiv> 16"

abbreviation (input) AFP_TOKEN_MAX_LEN :: nat where "AFP_TOKEN_MAX_LEN \<equiv> 256"

abbreviation (input) SERVER_MAX_VERSIONS :: nat where "SERVER_MAX_VERSIONS \<equiv> 10"

abbreviation (input) SERVER_MAX_UAMS :: nat where "SERVER_MAX_UAMS \<equiv> 10"

abbreviation (input) AFP_DEFAULT_ATTENTION_QUANTUM :: nat where "AFP_DEFAULT_ATTENTION_QUANTUM \<equiv> 1024"

abbreviation (input) AFP_MAX_AFP2_FILESIZE :: nat where "AFP_MAX_AFP2_FILESIZE \<equiv> 4294967296"

abbreviation (input) AFP_ROOT_DID :: u32 where "AFP_ROOT_DID \<equiv> 2"

subsection \<open>Path and fork types, access modes\<close>

abbreviation (input) kFPShortName :: byte where "kFPShortName \<equiv> 1"

abbreviation (input) kFPLongName :: byte where "kFPLongName \<equiv> 2"

abbreviation (input) kFPUTF8Name :: byte where "kFPUTF8Name \<equiv> 3"

abbreviation (input) AFP_FORKTYPE_DATA :: byte where "AFP_FORKTYPE_DATA \<equiv> 0"

abbreviation (input) AFP_FORKTYPE_RESOURCE :: byte where "AFP_FORKTYPE_RESOURCE \<equiv> 0x80"

abbreviation (input) kFPSoftCreate :: byte where "kFPSoftCreate \<equiv> 0"

abbreviation (input) kFPHardCreate :: byte where "kFPHardCreate \<equiv> 0x80"

abbreviation (input) ByteRangeLock_Lock :: byte where "ByteRangeLock_Lock \<equiv> 0"

abbreviation (input) ByteRangeLock_Unlock :: byte where "ByteRangeLock_Unlock \<equiv> 1"

abbreviation (input) kUserIDToName :: byte where "kUserIDToName \<equiv> 1"

abbreviation (input) kUserIDToUTF8Name :: byte where "kUserIDToUTF8Name \<equiv> 3"

abbreviation (input) HasConfigInfo :: byte where "HasConfigInfo \<equiv> 1"

abbreviation (input) HasPassword :: byte where "HasPassword \<equiv> 0x80"

abbreviation (input) AFP_OPENFORK_ALLOWREAD :: u16 where "AFP_OPENFORK_ALLOWREAD \<equiv> 1"

abbreviation (input) AFP_OPENFORK_ALLOWWRITE :: u16 where "AFP_OPENFORK_ALLOWWRITE \<equiv> 2"

abbreviation (input) AFP_OPENFORK_DENYREAD :: u16 where "AFP_OPENFORK_DENYREAD \<equiv> 0x10"

abbreviation (input) AFP_OPENFORK_DENYWRITE :: u16 where "AFP_OPENFORK_DENYWRITE \<equiv> 0x20"

abbreviation (input) AFPMESG_LOGIN :: u16 where "AFPMESG_LOGIN \<equiv> 0"

abbreviation (input) AFPMESG_SERVER :: u16 where "AFPMESG_SERVER \<equiv> 1"

abbreviation (input) AFP_GETSRVRMSG_UTF8 :: u16 where "AFP_GETSRVRMSG_UTF8 \<equiv> 2"

abbreviation (input) AFP_GETSRVRMSG_GETMSG :: u16 where "AFP_GETSRVRMSG_GETMSG \<equiv> 1"

abbreviation (input) kFPGetUserInfo_USER_ID :: u16 where "kFPGetUserInfo_USER_ID \<equiv> 1"

abbreviation (input) kFPGetUserInfo_PRI_GROUPID :: u16 where "kFPGetUserInfo_PRI_GROUPID \<equiv> 2"

abbreviation (input) kLoginWithoutID :: u16 where "kLoginWithoutID \<equiv> 0"

abbreviation (input) kLoginWithID :: u16 where "kLoginWithID \<equiv> 1"

abbreviation (input) kReconnWithID :: u16 where "kReconnWithID \<equiv> 2"

abbreviation (input) kLoginWithTimeAndID :: u16 where "kLoginWithTimeAndID \<equiv> 3"

abbreviation (input) kReconnWithTimeAndID :: u16 where "kReconnWithTimeAndID \<equiv> 4"

abbreviation (input) kRecon1Login :: u16 where "kRecon1Login \<equiv> 5"

abbreviation (input) kRecon1ReconnectLogin :: u16 where "kRecon1ReconnectLogin \<equiv> 6"

abbreviation (input) kRecon1Refresh :: u16 where "kRecon1Refresh \<equiv> 7"

abbreviation (input) kGetKerberosSessionKey :: u16 where "kGetKerberosSessionKey \<equiv> 8"

subsection \<open>Volume attributes\<close>

abbreviation (input) kReadOnly :: u16 where "kReadOnly \<equiv> 0x01"

abbreviation (input) kHasVolumePassword :: u16 where "kHasVolumePassword \<equiv> 0x02"

abbreviation (input) kSupportsFileIDs :: u16 where "kSupportsFileIDs \<equiv> 0x04"

abbreviation (input) kSupportsCatSearch :: u16 where "kSupportsCatSearch \<equiv> 0x08"

abbreviation (input) kSupportsBlankAccessPrivs :: u16 where "kSupportsBlankAccessPrivs \<equiv> 0x10"

abbreviation (input) kSupportsUnixPrivs :: u16 where "kSupportsUnixPrivs \<equiv> 0x20"

abbreviation (input) AFP_VOL_FIXED :: u16 where "AFP_VOL_FIXED \<equiv> 2"

abbreviation (input) kSupportsUTF8Names :: u16 where "kSupportsUTF8Names \<equiv> 0x40"

abbreviation (input) kNoNetworkUserIDs :: u16 where "kNoNetworkUserIDs \<equiv> 0x80"

abbreviation (input) kDefaultPrivsFromParent :: u16 where "kDefaultPrivsFromParent \<equiv> 0x100"

abbreviation (input) kNoExchangeFiles :: u16 where "kNoExchangeFiles \<equiv> 0x200"

abbreviation (input) kSupportsExtAttrs :: u16 where "kSupportsExtAttrs \<equiv> 0x400"

abbreviation (input) kSupportsACLs :: u16 where "kSupportsACLs \<equiv> 0x800"

subsection \<open>Directory bitmap\<close>

abbreviation (input) kFPAttributeBit :: u16 where "kFPAttributeBit \<equiv> 0x1"

abbreviation (input) kFPParentDirIDBit :: u16 where "kFPParentDirIDBit \<equiv> 0x2"

abbreviation (input) kFPCreateDateBit :: u16 where "kFPCreateDateBit \<equiv> 0x4"

abbreviation (input) kFPModDateBit :: u16 where "kFPModDateBit \<equiv> 0x8"

abbreviation (input) kFPBackupDateBit :: u16 where "kFPBackupDateBit \<equiv> 0x10"

abbreviation (input) kFPFinderInfoBit :: u16 where "kFPFinderInfoBit \<equiv> 0x20"

abbreviation (input) kFPLongNameBit :: u16 where "kFPLongNameBit \<equiv> 0x40"

abbreviation (input) kFPShortNameBit :: u16 where "kFPShortNameBit \<equiv> 0x80"

abbreviation (input) kFPNodeIDBit :: u16 where "kFPNodeIDBit \<equiv> 0x100"

abbreviation (input) kFPOffspringCountBit :: u16 where "kFPOffspringCountBit \<equiv> 0x0200"

abbreviation (input) kFPOwnerIDBit :: u16 where "kFPOwnerIDBit \<equiv> 0x0400"

abbreviation (input) kFPGroupIDBit :: u16 where "kFPGroupIDBit \<equiv> 0x0800"

abbreviation (input) kFPAccessRightsBit :: u16 where "kFPAccessRightsBit \<equiv> 0x1000"

abbreviation (input) kFPProDOSInfoBit :: u16 where "kFPProDOSInfoBit \<equiv> 0x2000"

abbreviation (input) kFPUTF8NameBit :: u16 where "kFPUTF8NameBit \<equiv> 0x2000"

abbreviation (input) kFPUnixPrivsBit :: u16 where "kFPUnixPrivsBit \<equiv> 0x8000"

subsection \<open>File bitmap\<close>

abbreviation (input) kFPDataForkLenBit :: u16 where "kFPDataForkLenBit \<equiv> 0x0200"

abbreviation (input) kFPRsrcForkLenBit :: u16 where "kFPRsrcForkLenBit \<equiv> 0x0400"

abbreviation (input) kFPExtDataForkLenBit :: u16 where "kFPExtDataForkLenBit \<equiv> 0x0800"

abbreviation (input) kFPLaunchLimitBit :: u16 where "kFPLaunchLimitBit \<equiv> 0x1000"

abbreviation (input) kFPExtRsrcForkLenBit :: u16 where "kFPExtRsrcForkLenBit \<equiv> 0x4000"

subsection \<open>Volume bitmap\<close>

abbreviation (input) kFPBadVolPre222Bitmap :: u16 where "kFPBadVolPre222Bitmap \<equiv> 0xfe00"

abbreviation (input) kFPBadVolBitmap :: u16 where "kFPBadVolBitmap \<equiv> 0xf000"

abbreviation (input) kFPVolAttributeBit :: u16 where "kFPVolAttributeBit \<equiv> 0x1"

abbreviation (input) kFPVolSignatureBit :: u16 where "kFPVolSignatureBit \<equiv> 0x2"

abbreviation (input) kFPVolCreateDateBit :: u16 where "kFPVolCreateDateBit \<equiv> 0x4"

abbreviation (input) kFPVolModDateBit :: u16 where "kFPVolModDateBit \<equiv> 0x8"

abbreviation (input) kFPVolBackupDateBit :: u16 where "kFPVolBackupDateBit \<equiv> 0x10"

abbreviation (input) kFPVolIDBit :: u16 where "kFPVolIDBit \<equiv> 0x20"

abbreviation (input) kFPVolBytesFreeBit :: u16 where "kFPVolBytesFreeBit \<equiv> 0x40"

abbreviation (input) kFPVolBytesTotalBit :: u16 where "kFPVolBytesTotalBit \<equiv> 0x80"

abbreviation (input) kFPVolNameBit :: u16 where "kFPVolNameBit \<equiv> 0x100"

abbreviation (input) kFPVolExtBytesFreeBit :: u16 where "kFPVolExtBytesFreeBit \<equiv> 0x200"

abbreviation (input) kFPVolExtBytesTotalBit :: u16 where "kFPVolExtBytesTotalBit \<equiv> 0x400"

abbreviation (input) kFPVolBlockSizeBit :: u16 where "kFPVolBlockSizeBit \<equiv> 0x800"

subsection \<open>Server flags\<close>

abbreviation (input) kSupportsCopyfile :: u16 where "kSupportsCopyfile \<equiv> 0x01"

abbreviation (input) kSupportsChgPwd :: u16 where "kSupportsChgPwd \<equiv> 0x02"

abbreviation (input) kDontAllowSavePwd :: u16 where "kDontAllowSavePwd \<equiv> 0x04"

abbreviation (input) kSupportsSrvrMsg :: u16 where "kSupportsSrvrMsg \<equiv> 0x08"

abbreviation (input) kSrvrSig :: u16 where "kSrvrSig \<equiv> 0x10"

abbreviation (input) kSupportsTCP :: u16 where "kSupportsTCP \<equiv> 0x20"

abbreviation (input) kSupportsSrvrNotify :: u16 where "kSupportsSrvrNotify \<equiv> 0x40"

abbreviation (input) kSupportsReconnect :: u16 where "kSupportsReconnect \<equiv> 0x80"

abbreviation (input) kSupportsDirServices :: u16 where "kSupportsDirServices \<equiv> 0x100"

abbreviation (input) kSupportsUTF8SrvrName :: u16 where "kSupportsUTF8SrvrName \<equiv> 0x200"

abbreviation (input) kSupportsUUIDs :: u16 where "kSupportsUUIDs \<equiv> 0x400"

abbreviation (input) kSupportsSuperClient :: u16 where "kSupportsSuperClient \<equiv> 0x8000"

subsection \<open>AFP function codes\<close>

abbreviation (input) afpByteRangeLock :: byte where "afpByteRangeLock \<equiv> 1"

abbreviation (input) afpCloseVol :: byte where "afpCloseVol \<equiv> 2"

abbreviation (input) afpCloseDir :: byte where "afpCloseDir \<equiv> 3"

abbreviation (input) afpCloseFork :: byte where "afpCloseFork \<equiv> 4"

abbreviation (input) afpCopyFile :: byte where "afpCopyFile \<equiv> 5"

abbreviation (input) afpCreateDir :: byte where "afpCreateDir \<equiv> 6"

abbreviation (input) afpCreateFile :: byte where "afpCreateFile \<equiv> 7"

abbreviation (input) afpDelete :: byte where "afpDelete \<equiv> 8"

abbreviation (input) afpEnumerate :: byte where "afpEnumerate \<equiv> 9"

abbreviation (input) afpFlush :: byte where "afpFlush \<equiv> 10"

abbreviation (input) afpFlushFork :: byte where "afpFlushFork \<equiv> 11"

abbreviation (input) afpGetForkParms :: byte where "afpGetForkParms \<equiv> 14"

abbreviation (input) afpGetSrvrInfo :: byte where "afpGetSrvrInfo \<equiv> 15"

abbreviation (input) afpGetSrvrParms :: byte where "afpGetSrvrParms \<equiv> 16"

abbreviation (input) afpGetVolParms :: byte where "afpGetVolParms \<equiv> 17"

abbreviation (input) afpLogin :: byte where "afpLogin \<equiv> 18"

abbreviation (input) afpLoginCont :: byte where "afpLoginCont \<equiv> 19"

abbreviation (input) afpLogout :: byte where "afpLogout \<equiv> 20"

abbreviation (input) afpMapID :: byte where "afpMapID \<equiv> 21"

abbreviation (input) afpMapName :: byte where "afpMapName \<equiv> 22"

abbreviation (input) afpMoveAndRename :: byte where "afpMoveAndRename \<equiv> 23"

abbreviation (input) afpOpenVol :: byte where "afpOpenVol \<equiv> 24"

abbreviation (input) afpOpenDir :: byte where "afpOpenDir \<equiv> 25"

abbreviation (input) afpOpenFork :: byte where "afpOpenFork \<equiv> 26"

abbreviation (input) afpRead :: byte where "afpRead \<equiv> 27"

abbreviation (input) afpRename :: byte where "afpRename \<equiv> 28"

abbreviation (input) afpSetDirParms :: byte where "afpSetDirParms \<equiv> 29"

abbreviation (input) afpSetFileParms :: byte where "afpSetFileParms \<equiv> 30"

abbreviation (input) afpSetForkParms :: byte where "afpSetForkParms \<equiv> 31"

abbreviation (input) afpSetVolParms :: byte where "afpSetVolParms \<equiv> 32"

abbreviation (input) afpWrite :: byte where "afpWrite \<equiv> 33"

abbreviation (input) afpGetFileDirParms :: byte where "afpGetFileDirParms \<equiv> 34"

abbreviation (input) afpSetFileDirParms :: byte where "afpSetFileDirParms \<equiv> 35"

abbreviation (input) afpChangePassword :: byte where "afpChangePassword \<equiv> 36"

abbreviation (input) afpGetUserInfo :: byte where "afpGetUserInfo \<equiv> 37"

abbreviation (input) afpGetSrvrMsg :: byte where "afpGetSrvrMsg \<equiv> 38"

abbreviation (input) afpOpenDT :: byte where "afpOpenDT \<equiv> 48"

abbreviation (input) afpCloseDT :: byte where "afpCloseDT \<equiv> 49"

abbreviation (input) afpGetIcon :: byte where "afpGetIcon \<equiv> 51"

abbreviation (input) afpGetIconInfo :: byte where "afpGetIconInfo \<equiv> 52"

abbreviation (input) afpAddComment :: byte where "afpAddComment \<equiv> 56"

abbreviation (input) afpRemoveComment :: byte where "afpRemoveComment \<equiv> 57"

abbreviation (input) afpGetComment :: byte where "afpGetComment \<equiv> 58"

abbreviation (input) afpByteRangeLockExt :: byte where "afpByteRangeLockExt \<equiv> 59"

abbreviation (input) afpReadExt :: byte where "afpReadExt \<equiv> 60"

abbreviation (input) afpWriteExt :: byte where "afpWriteExt \<equiv> 61"

abbreviation (input) afpGetAuthMethods :: byte where "afpGetAuthMethods \<equiv> 62"

abbreviation (input) afp_LoginExt :: byte where "afp_LoginExt \<equiv> 63"

abbreviation (input) afpGetSessionToken :: byte where "afpGetSessionToken \<equiv> 64"

abbreviation (input) afpDisconnectOldSession :: byte where "afpDisconnectOldSession \<equiv> 65"

abbreviation (input) afpEnumerateExt :: byte where "afpEnumerateExt \<equiv> 66"

abbreviation (input) afpCatSearchExt :: byte where "afpCatSearchExt \<equiv> 67"

abbreviation (input) afpEnumerateExt2 :: byte where "afpEnumerateExt2 \<equiv> 68"

abbreviation (input) afpGetExtAttr :: byte where "afpGetExtAttr \<equiv> 69"

abbreviation (input) afpSetExtAttr :: byte where "afpSetExtAttr \<equiv> 70"

abbreviation (input) afpRemoveExtAttr :: byte where "afpRemoveExtAttr \<equiv> 71"

abbreviation (input) afpListExtAttrs :: byte where "afpListExtAttrs \<equiv> 72"

abbreviation (input) afpZzzzz :: byte where "afpZzzzz \<equiv> 122"

abbreviation (input) afpAddIcon :: byte where "afpAddIcon \<equiv> 192"

subsection \<open>AFP result codes\<close>

abbreviation (input) kFPNoErr :: int where "kFPNoErr \<equiv> 0"

abbreviation (input) kASPSessClosed :: int where "kASPSessClosed \<equiv> - 1072"

abbreviation (input) kFPAccessDenied :: int where "kFPAccessDenied \<equiv> - 5000"

abbreviation (input) kFPAuthContinue :: int where "kFPAuthContinue \<equiv> - 5001"

abbreviation (input) kFPBadUAM :: int where "kFPBadUAM \<equiv> - 5002"

abbreviation (input) kFPBadVersNum :: int where "kFPBadVersNum \<equiv> - 5003"

abbreviation (input) kFPBitmapErr :: int where "kFPBitmapErr \<equiv> - 5004"

abbreviation (input) kFPCantMove :: int where "kFPCantMove \<equiv> - 5005"

abbreviation (input) kFPDenyConflict :: int where "kFPDenyConflict \<equiv> - 5006"

abbreviation (input) kFPDirNotEmpty :: int where "kFPDirNotEmpty \<equiv> - 5007"

abbreviation (input) kFPDiskFull :: int where "kFPDiskFull \<equiv> - 5008"

abbreviation (input) kFPEOFErr :: int where "kFPEOFErr \<equiv> - 5009"

abbreviation (input) kFPFileBusy :: int where "kFPFileBusy \<equiv> - 5010"

abbreviation (input) kFPFlatVol :: int where "kFPFlatVol \<equiv> - 5011"

abbreviation (input) kFPItemNotFound :: int where "kFPItemNotFound \<equiv> - 5012"

abbreviation (input) kFPLockErr :: int where "kFPLockErr \<equiv> - 5013"

abbreviation (input) kFPMiscErr :: int where "kFPMiscErr \<equiv> - 5014"

abbreviation (input) kFPNoMoreLocks :: int where "kFPNoMoreLocks \<equiv> - 5015"

abbreviation (input) kFPNoServer :: int where "kFPNoServer \<equiv> - 5016"

abbreviation (input) kFPObjectExists :: int where "kFPObjectExists \<equiv> - 5017"

abbreviation (input) kFPObjectNotFound :: int where "kFPObjectNotFound \<equiv> - 5018"

abbreviation (input) kFPParamErr :: int where "kFPParamErr \<equiv> - 5019"

abbreviation (input) kFPRangeNotLocked :: int where "kFPRangeNotLocked \<equiv> - 5020"

abbreviation (input) kFPRangeOverlap :: int where "kFPRangeOverlap \<equiv> - 5021"

abbreviation (input) kFPSessClosed :: int where "kFPSessClosed \<equiv> - 5022"

abbreviation (input) kFPUserNotAuth :: int where "kFPUserNotAuth \<equiv> - 5023"

abbreviation (input) kFPCallNotSupported :: int where "kFPCallNotSupported \<equiv> - 5024"

abbreviation (input) kFPObjectTypeErr :: int where "kFPObjectTypeErr \<equiv> - 5025"

abbreviation (input) kFPTooManyFilesOpen :: int where "kFPTooManyFilesOpen \<equiv> - 5026"

abbreviation (input) kFPServerGoingDown :: int where "kFPServerGoingDown \<equiv> - 5027"

abbreviation (input) kFPCantRename :: int where "kFPCantRename \<equiv> - 5028"

abbreviation (input) kFPDirNotFound :: int where "kFPDirNotFound \<equiv> - 5029"

abbreviation (input) kFPIconTypeError :: int where "kFPIconTypeError \<equiv> - 5030"

abbreviation (input) kFPVolLocked :: int where "kFPVolLocked \<equiv> - 5031"

abbreviation (input) kFPObjectLocked :: int where "kFPObjectLocked \<equiv> - 5032"

abbreviation (input) kFPContainsSharedErr :: int where "kFPContainsSharedErr \<equiv> - 5033"

abbreviation (input) kFPIDNotFound :: int where "kFPIDNotFound \<equiv> - 5034"

abbreviation (input) kFPIDExists :: int where "kFPIDExists \<equiv> - 5035"

abbreviation (input) kFPDiffVolErr :: int where "kFPDiffVolErr \<equiv> - 5036"

abbreviation (input) kFPCatalogChanged :: int where "kFPCatalogChanged \<equiv> - 5037"

abbreviation (input) kFPSameObjectErr :: int where "kFPSameObjectErr \<equiv> - 5038"

abbreviation (input) kFPBadIDErr :: int where "kFPBadIDErr \<equiv> - 5039"

abbreviation (input) kFPPwdSameErr :: int where "kFPPwdSameErr \<equiv> - 5040"

abbreviation (input) kFPPwdTooShortErr :: int where "kFPPwdTooShortErr \<equiv> - 5041"

abbreviation (input) kFPPwdExpiredErr :: int where "kFPPwdExpiredErr \<equiv> - 5042"

abbreviation (input) kFPInsideSharedErr :: int where "kFPInsideSharedErr \<equiv> - 5043"

abbreviation (input) kFPInsideTrashErr :: int where "kFPInsideTrashErr \<equiv> - 5044"

abbreviation (input) kFPPwdNeedsChangeErr :: int where "kFPPwdNeedsChangeErr \<equiv> - 5045"

abbreviation (input) kFPPwdPolicyErr :: int where "kFPPwdPolicyErr \<equiv> - 5046"

subsection \<open>DSI\<close>

abbreviation (input) DSI_REQUEST :: byte where "DSI_REQUEST \<equiv> 0"

abbreviation (input) DSI_REPLY :: byte where "DSI_REPLY \<equiv> 1"

abbreviation (input) DSI_DSICloseSession :: byte where "DSI_DSICloseSession \<equiv> 1"

abbreviation (input) DSI_DSICommand :: byte where "DSI_DSICommand \<equiv> 2"

abbreviation (input) DSI_DSIGetStatus :: byte where "DSI_DSIGetStatus \<equiv> 3"

abbreviation (input) DSI_DSIOpenSession :: byte where "DSI_DSIOpenSession \<equiv> 4"

abbreviation (input) DSI_DSITickle :: byte where "DSI_DSITickle \<equiv> 5"

abbreviation (input) DSI_DSIWrite :: byte where "DSI_DSIWrite \<equiv> 6"

abbreviation (input) DSI_DSIAttention :: byte where "DSI_DSIAttention \<equiv> 8"

abbreviation (input) DSI_BLOCK_TIMEOUT :: int where "DSI_BLOCK_TIMEOUT \<equiv> - 1"

abbreviation (input) DSI_DONT_WAIT :: int where "DSI_DONT_WAIT \<equiv> 0"

abbreviation (input) DSI_DEFAULT_TIMEOUT :: int where "DSI_DEFAULT_TIMEOUT \<equiv> 5"

abbreviation (input) DSI_OPENVOLUME_TIMEOUT :: int where "DSI_OPENVOLUME_TIMEOUT \<equiv> 20"

abbreviation (input) DSI_LOGIN_TIMEOUT :: int where "DSI_LOGIN_TIMEOUT \<equiv> 20"

abbreviation (input) AFPATTN_SHUTDOWN :: u16 where "AFPATTN_SHUTDOWN \<equiv> 0x8000"

abbreviation (input) AFPATTN_CRASH :: u16 where "AFPATTN_CRASH \<equiv> 0x4000"

abbreviation (input) AFPATTN_MESG :: u16 where "AFPATTN_MESG \<equiv> 0x2000"

abbreviation (input) AFPATTN_NORECONNECT :: u16 where "AFPATTN_NORECONNECT \<equiv> 0x1000"

subsection \<open>Client state\<close>

abbreviation (input) SERVER_STATE_CONNECTED :: int where "SERVER_STATE_CONNECTED \<equiv> 1"

abbreviation (input) SERVER_STATE_DISCONNECTED :: int where "SERVER_STATE_DISCONNECTED \<equiv> 2"

abbreviation (input) AFP_MAPPING_UNKNOWN :: int where "AFP_MAPPING_UNKNOWN \<equiv> 0"

abbreviation (input) AFP_MAPPING_COMMON :: int where "AFP_MAPPING_COMMON \<equiv> 1"

abbreviation (input) AFP_MAPPING_LOGINIDS :: int where "AFP_MAPPING_LOGINIDS \<equiv> 2"

abbreviation (input) AFP_MAPPING_NAME :: int where "AFP_MAPPING_NAME \<equiv> 3"

abbreviation (input) AFP_VOLUME_UNMOUNTED :: byte where "AFP_VOLUME_UNMOUNTED \<equiv> 0"

abbreviation (input) AFP_VOLUME_MOUNTED :: byte where "AFP_VOLUME_MOUNTED \<equiv> 1"

abbreviation (input) AFP_VOLUME_UNMOUNTING :: byte where "AFP_VOLUME_UNMOUNTING \<equiv> 2"

abbreviation (input) VOLUME_EXTRA_FLAGS_VOL_CHMOD_KNOWN :: u32 where "VOLUME_EXTRA_FLAGS_VOL_CHMOD_KNOWN \<equiv> 0x1"

abbreviation (input) VOLUME_EXTRA_FLAGS_VOL_CHMOD_BROKEN :: u32 where "VOLUME_EXTRA_FLAGS_VOL_CHMOD_BROKEN \<equiv> 0x2"

abbreviation (input) VOLUME_EXTRA_FLAGS_SHOW_APPLEDOUBLE :: u32 where "VOLUME_EXTRA_FLAGS_SHOW_APPLEDOUBLE \<equiv> 0x4"

abbreviation (input) VOLUME_EXTRA_FLAGS_VOL_SUPPORTS_UNIX :: u32 where "VOLUME_EXTRA_FLAGS_VOL_SUPPORTS_UNIX \<equiv> 0x8"

abbreviation (input) VOLUME_EXTRA_FLAGS_NO_LOCKING :: u32 where "VOLUME_EXTRA_FLAGS_NO_LOCKING \<equiv> 0x10"

abbreviation (input) VOLUME_EXTRA_FLAGS_IGNORE_UNIXPRIVS :: u32 where "VOLUME_EXTRA_FLAGS_IGNORE_UNIXPRIVS \<equiv> 0x20"

abbreviation (input) VOLUME_EXTRA_FLAGS_READONLY :: u32 where "VOLUME_EXTRA_FLAGS_READONLY \<equiv> 0x40"

abbreviation (input) UAM_NOUSERAUTHENT :: u32 where "UAM_NOUSERAUTHENT \<equiv> 0x1"

abbreviation (input) UAM_CLEARTXTPASSWRD :: u32 where "UAM_CLEARTXTPASSWRD \<equiv> 0x2"

abbreviation (input) UAM_RANDNUMEXCHANGE :: u32 where "UAM_RANDNUMEXCHANGE \<equiv> 0x4"

abbreviation (input) UAM_2WAYRANDNUM :: u32 where "UAM_2WAYRANDNUM \<equiv> 0x8"

abbreviation (input) UAM_DHCAST128 :: u32 where "UAM_DHCAST128 \<equiv> 0x10"

abbreviation (input) UAM_CLIENTKRB :: u32 where "UAM_CLIENTKRB \<equiv> 0x20"

abbreviation (input) UAM_DHX2 :: u32 where "UAM_DHX2 \<equiv> 0x40"

abbreviation (input) UAM_RECON1 :: u32 where "UAM_RECON1 \<equiv> 0x80"

abbreviation (input) AFP_META_NONE :: u32 where "AFP_META_NONE \<equiv> 0"

abbreviation (input) AFP_META_RESOURCE :: u32 where "AFP_META_RESOURCE \<equiv> 1"

abbreviation (input) AFP_META_APPLEDOUBLE :: u32 where "AFP_META_APPLEDOUBLE \<equiv> 2"

abbreviation (input) AFP_META_FINDERINFO :: u32 where "AFP_META_FINDERINFO \<equiv> 3"

abbreviation (input) AFP_META_COMMENT :: u32 where "AFP_META_COMMENT \<equiv> 4"

abbreviation (input) AFP_META_SERVER_ICON :: u32 where "AFP_META_SERVER_ICON \<equiv> 5"

subsection \<open>Values of \<open>errno\<close> and mode bits\<close>

abbreviation (input) EPERM :: int where "EPERM \<equiv> 1"

abbreviation (input) ENOENT :: int where "ENOENT \<equiv> 2"

abbreviation (input) EIO :: int where "EIO \<equiv> 5"

abbreviation (input) EBADF :: int where "EBADF \<equiv> 9"

abbreviation (input) ENOMEM :: int where "ENOMEM \<equiv> 12"

abbreviation (input) EACCES :: int where "EACCES \<equiv> 13"

abbreviation (input) EFAULT :: int where "EFAULT \<equiv> 14"

abbreviation (input) EBUSY :: int where "EBUSY \<equiv> 16"

abbreviation (input) EEXIST :: int where "EEXIST \<equiv> 17"

abbreviation (input) EXDEV :: int where "EXDEV \<equiv> 18"

abbreviation (input) ENOTDIR :: int where "ENOTDIR \<equiv> 20"

abbreviation (input) EISDIR :: int where "EISDIR \<equiv> 21"

abbreviation (input) EINVAL :: int where "EINVAL \<equiv> 22"

abbreviation (input) EMFILE :: int where "EMFILE \<equiv> 24"

abbreviation (input) EFBIG :: int where "EFBIG \<equiv> 27"

abbreviation (input) ENOSPC :: int where "ENOSPC \<equiv> 28"

abbreviation (input) EROFS :: int where "EROFS \<equiv> 30"

abbreviation (input) EPIPE :: int where "EPIPE \<equiv> 32"

abbreviation (input) ENAMETOOLONG :: int where "ENAMETOOLONG \<equiv> 36"

abbreviation (input) ENOSYS :: int where "ENOSYS \<equiv> 38"

abbreviation (input) ENOTEMPTY :: int where "ENOTEMPTY \<equiv> 39"

abbreviation (input) ENODATA :: int where "ENODATA \<equiv> 61"

abbreviation (input) EOVERFLOW :: int where "EOVERFLOW \<equiv> 75"

abbreviation (input) ETIMEDOUT :: int where "ETIMEDOUT \<equiv> 110"

abbreviation (input) S_IFMT :: u32 where "S_IFMT \<equiv> 0xF000"

abbreviation (input) S_IFDIR :: u32 where "S_IFDIR \<equiv> 0x4000"

abbreviation (input) S_IFREG :: u32 where "S_IFREG \<equiv> 0x8000"

abbreviation (input) S_IFLNK :: u32 where "S_IFLNK \<equiv> 0xA000"

abbreviation (input) S_IRUSR :: u32 where "S_IRUSR \<equiv> 0x100"

abbreviation (input) S_IWUSR :: u32 where "S_IWUSR \<equiv> 0x80"

abbreviation (input) S_IXUSR :: u32 where "S_IXUSR \<equiv> 0x40"

abbreviation (input) S_IRGRP :: u32 where "S_IRGRP \<equiv> 0x20"

abbreviation (input) S_IWGRP :: u32 where "S_IWGRP \<equiv> 0x10"

abbreviation (input) S_IXGRP :: u32 where "S_IXGRP \<equiv> 0x8"

abbreviation (input) S_IROTH :: u32 where "S_IROTH \<equiv> 0x4"

abbreviation (input) S_IWOTH :: u32 where "S_IWOTH \<equiv> 0x2"

abbreviation (input) S_IXOTH :: u32 where "S_IXOTH \<equiv> 0x1"

abbreviation (input) O_RDONLY :: u32 where "O_RDONLY \<equiv> 0"

abbreviation (input) O_WRONLY :: u32 where "O_WRONLY \<equiv> 1"

abbreviation (input) O_RDWR :: u32 where "O_RDWR \<equiv> 2"

abbreviation (input) O_CREAT :: u32 where "O_CREAT \<equiv> 0x40"

abbreviation (input) O_EXCL :: u32 where "O_EXCL \<equiv> 0x80"

abbreviation (input) O_TRUNC :: u32 where "O_TRUNC \<equiv> 0x200"

abbreviation (input) O_APPEND :: u32 where "O_APPEND \<equiv> 0x400"

abbreviation (input) O_LARGEFILE :: u32 where "O_LARGEFILE \<equiv> 0x8000"

abbreviation (input) AFP_CHMOD_ALLOWED_BITS_22 :: u32 where "AFP_CHMOD_ALLOWED_BITS_22 \<equiv> 0x81B6"

end
