(* ===== verification/Afp_Types.thy ===== *)
theory Afp_Types
  imports Afp_Protocol
begin

text \<open>
  The data of the client: the structures of \<open>afp.h\<close>, \<open>afp_protocol.h\<close> and \<open>dsi.h\<close> as records. A
  field carries the prefix of its structure (\<open>fi\<close>, \<open>vol\<close>, \<open>srv\<close>, \<open>req\<close>, ...), since the C structures
  share field names. A linked list is a list; a pointer that is compared (\<open>fi_addr\<close>, \<open>req_addr\<close>) is a number;
  mutexes, threads and the back pointer from a volume to its server are left out, and so are the
  fields no code reads (\<open>dsi\<close>, \<open>exit_flag\<close>, \<open>resource icons of a file\<close>).

  The state of a connection, \<open>client\<close>, is the server, the volume an operation works on, and the
  interaction so far. The outside of the program is the record \<open>env\<close>: the network with the remote
  server on it, which answers as a function of everything sent to it; the clock; the allocator, and
  what memory holds before it is written; the conversion of a server name by \<open>iconv\<close>; and the procedures that re-establish a lost session and
  tear down a closed one, which themselves send requests.
\<close>

subsection \<open>Files\<close>

record afp_unixprivs =
  up_uid :: u32
  up_gid :: u32
  up_permissions :: u32
  up_ua_permissions :: u32

record afp_file_info =
  fi_addr :: nat
  fi_attributes :: u16
  fi_did :: u32
  fi_creation_date :: u32
  fi_modification_date :: u32
  fi_backup_date :: u32
  fi_fileid :: u32
  fi_offspring :: u16
  fi_finderinfo :: "byte list"
  fi_name :: string
  fi_basename :: string
  fi_unixprivs :: afp_unixprivs
  fi_accessrights :: u32
  fi_isdir :: bool
  fi_size :: u64
  fi_resourcesize :: u64
  fi_resource :: u32
  fi_forkid :: u16
  fi_eof :: bool

definition zero_unixprivs :: afp_unixprivs where
  "zero_unixprivs = \<lparr>up_uid = 0, up_gid = 0, up_permissions = 0, up_ua_permissions = 0\<rparr>"

text \<open>A structure after \<open>memset(fp,0,sizeof(*fp))\<close>.\<close>

definition zero_file_info :: afp_file_info where
  "zero_file_info = \<lparr>fi_addr = 0, fi_attributes = 0, fi_did = 0, fi_creation_date = 0,
     fi_modification_date = 0, fi_backup_date = 0, fi_fileid = 0, fi_offspring = 0,
     fi_finderinfo = replicate 32 0, fi_name = [], fi_basename = [], fi_unixprivs = zero_unixprivs,
     fi_accessrights = 0, fi_isdir = False, fi_size = 0, fi_resourcesize = 0, fi_resource = 0,
     fi_forkid = 0, fi_eof = False\<rparr>"

record afp_rx_buffer =
  rx_size :: nat
  rx_maxsize :: nat
  rx_data :: "byte list"
  rx_errorcode :: int

text \<open>\<open>afp_comment\<close>, \<open>afp_icon\<close> and \<open>afp_extattr_info\<close> have the same three fields.\<close>

record afp_blob =
  blob_maxsize :: nat
  blob_size :: nat
  blob_data :: "byte list"

record afp_token =
  tok_length :: u32
  tok_data :: "byte list"

subsection \<open>Volumes\<close>

record did_cache_entry =
  dce_dirname :: string
  dce_did :: u32
  dce_time :: nat

record did_cache_stats =
  dcs_hits :: u64
  dcs_misses :: u64
  dcs_expired :: u64
  dcs_force_removed :: u64

record statvfs =
  f_bsize :: u64
  f_frsize :: u64
  f_blocks :: u64
  f_bfree :: u64
  f_bavail :: u64
  f_files :: u64
  f_ffree :: u64
  f_favail :: u64

record afp_volume =
  vol_volid :: u16
  vol_flags :: byte
  vol_attributes :: u16
  vol_signature :: u16
  vol_creation_date :: u32
  vol_modification_date :: u32
  vol_backup_date :: u32
  vol_stat :: statvfs
  vol_mounted :: byte
  vol_mountpoint :: string
  vol_volume_name :: string
  vol_volume_name_printable :: string
  vol_dtrefnum :: u16
  vol_volpassword :: "byte list"
  vol_extra_flags :: u32
  vol_did_cache_base :: "did_cache_entry list"
  vol_open_forks :: "afp_file_info list"
  vol_did_cache_stats :: did_cache_stats
  vol_mapping :: int

subsection \<open>Requests and servers\<close>

text \<open>What the pointer \<open>other\<close> of a request refers to: the place where the reply is stored.\<close>

datatype other =
    No_Other
  | Rx_Buffer afp_rx_buffer
  | File_Info afp_file_info
  | File_List "afp_file_info list"
  | Volume afp_volume
  | Out16 u16
  | Out32 u32
  | Out64 u64
  | User_Info u32 u32
  | Blob afp_blob
  | Token afp_token
  | Text string

record dsi_request =
  req_addr :: nat
  req_requestid :: u16
  req_subcommand :: byte
  req_other :: other
  req_wait :: int
  req_done_waiting :: bool
  req_return_code :: int

record dsi_stats =
  st_runt_packets :: u64
  st_incoming_dsi :: u64
  st_rx_bytes :: u64
  st_tx_bytes :: u64
  st_requests_pending :: u64

record afp_versions =
  av_name :: string
  av_number :: int

record passwd =
  pw_name :: string
  pw_uid :: u32
  pw_gid :: u32

datatype server_type =
    AFPFS_SERVER_TYPE_UNKNOWN
  | AFPFS_SERVER_TYPE_NETATALK
  | AFPFS_SERVER_TYPE_AIRPORT
  | AFPFS_SERVER_TYPE_MACINTOSH

record afp_server =
  srv_tx_quantum :: u32
  srv_rx_quantum :: u32
  srv_fd :: int
  srv_stats :: dsi_stats
  srv_server_name :: string
  srv_server_name_utf8 :: string
  srv_server_name_printable :: string
  srv_machine_type :: string
  srv_icon :: "byte list"
  srv_signature :: "byte list"
  srv_flags :: u16
  srv_connect_state :: int
  srv_server_type :: server_type
  srv_connect_time :: nat
  srv_supported_uams :: u32
  srv_using_uam :: u32
  srv_username :: string
  srv_password :: string
  srv_token :: afp_token
  srv_need_resume :: bool
  srv_requested_version :: byte
  srv_versions :: "byte list"
  srv_using_version :: afp_versions
  srv_volumes :: "afp_volume list"
  srv_lastrequestid :: u16
  srv_expectedrequestid :: u16
  srv_command_requests :: "dsi_request list"
  srv_loginmesg :: string
  srv_path_encoding :: byte
  srv_incoming_buffer :: "byte list"
  srv_data_read :: nat
  srv_bufsize :: nat
  srv_passwd :: passwd
  srv_server_uid :: u32
  srv_server_gid :: u32
  srv_server_gid_valid :: bool
  srv_attention_quantum :: u32
  srv_attention_buffer :: "byte list"

text \<open>\<open>afp_server_init\<close> (\<open>afp.c\<close>): the structure is cleared, then the defaults are set. The entry
  of \<open>getpwuid\<close> and the contents of the two fresh buffers are arguments; a version with no name stands
  for the null pointer in \<open>using_version\<close>.\<close>

definition zero_stats :: dsi_stats where
  "zero_stats = \<lparr>st_runt_packets = 0, st_incoming_dsi = 0, st_rx_bytes = 0, st_tx_bytes = 0,
     st_requests_pending = 0\<rparr>"

definition no_version :: afp_versions where
  "no_version = \<lparr>av_name = [], av_number = 0\<rparr>"

definition zero_token :: afp_token where
  "zero_token = \<lparr>tok_length = 0, tok_data = replicate AFP_TOKEN_MAX_LEN 0\<rparr>"

definition afp_server_init :: "passwd \<Rightarrow> byte list \<Rightarrow> byte list \<Rightarrow> afp_server" where
  "afp_server_init pw incoming attention = \<lparr>
     srv_tx_quantum = 0, srv_rx_quantum = 0, srv_fd = 0, srv_stats = zero_stats,
     srv_server_name = [], srv_server_name_utf8 = [], srv_server_name_printable = [],
     srv_machine_type = [], srv_icon = replicate 256 0, srv_signature = replicate 16 0,
     srv_flags = 0, srv_connect_state = SERVER_STATE_DISCONNECTED,
     srv_server_type = AFPFS_SERVER_TYPE_UNKNOWN, srv_connect_time = 0,
     srv_supported_uams = 0, srv_using_uam = 0, srv_username = [], srv_password = [],
     srv_token = zero_token, srv_need_resume = False, srv_requested_version = 0,
     srv_versions = replicate SERVER_MAX_VERSIONS 0, srv_using_version = no_version,
     srv_volumes = [], srv_lastrequestid = 0, srv_expectedrequestid = 0,
     srv_command_requests = [], srv_loginmesg = [], srv_path_encoding = kFPUTF8Name,
     srv_incoming_buffer = incoming, srv_data_read = 0, srv_bufsize = 4096,
     srv_passwd = pw, srv_server_uid = 0, srv_server_gid = 0, srv_server_gid_valid = False,
     srv_attention_quantum = word_of_nat AFP_DEFAULT_ATTENTION_QUANTUM,
     srv_attention_buffer = attention\<rparr>"

text \<open>A volume as the reply to \<open>FPGetSrvrParms\<close> creates it: a cleared structure.\<close>

definition zero_volume :: afp_volume where
  "zero_volume = \<lparr>vol_volid = 0, vol_flags = 0, vol_attributes = 0, vol_signature = 0,
     vol_creation_date = 0, vol_modification_date = 0, vol_backup_date = 0,
     vol_stat = \<lparr>f_bsize = 0, f_frsize = 0, f_blocks = 0, f_bfree = 0, f_bavail = 0, f_files = 0,
       f_ffree = 0, f_favail = 0\<rparr>,
     vol_mounted = AFP_VOLUME_UNMOUNTED, vol_mountpoint = [], vol_volume_name = [],
     vol_volume_name_printable = [], vol_dtrefnum = 0, vol_volpassword = replicate AFP_VOLPASS_LEN 0,
     vol_extra_flags = 0, vol_did_cache_base = [], vol_open_forks = [],
     vol_did_cache_stats = \<lparr>dcs_hits = 0, dcs_misses = 0, dcs_expired = 0, dcs_force_removed = 0\<rparr>,
     vol_mapping = AFP_MAPPING_UNKNOWN\<rparr>"

text \<open>A server in a session with AFP 3.2, the concrete instance the examples use.\<close>

definition example_server :: afp_server where
  "example_server = (afp_server_init \<lparr>pw_name = ''user'', pw_uid = 501, pw_gid = 20\<rparr>
     (replicate 4096 0) (replicate 1024 0))
     \<lparr>srv_using_version := \<lparr>av_name = ''AFP3.2'', av_number = 32\<rparr>,
      srv_connect_state := SERVER_STATE_CONNECTED, srv_fd := 3,
      srv_tx_quantum := 1024, srv_rx_quantum := 1024\<rparr>"

text \<open>Names the proofs use for parts of the server.\<close>

abbreviation requests_pending :: "afp_server \<Rightarrow> u64" where
  "requests_pending s \<equiv> st_requests_pending (srv_stats s)"

abbreviation version_number :: "afp_server \<Rightarrow> int" where
  "version_number s \<equiv> av_number (srv_using_version s)"

subsection \<open>The connection and its environment\<close>

text \<open>What the socket delivers: bytes of the server's replies in the pieces in which the kernel
  hands them over, the end of the connection, or an error of \<open>read\<close>.\<close>

datatype rx_event = Data "byte list" | Eof | Rx_Error

text \<open>What happens to a packet that is written to the socket: \<open>write\<close> fails with an \<open>errno\<close>, or
  the bytes go out and the listed events reach the socket while the sender waits.\<close>

datatype tx_result = Write_Error int | Sent "rx_event list"

text \<open>\<open>cl_sent\<close> is the list of the packets written so far, the oldest first; \<open>cl_ticks\<close> counts the
  readings of the clock; \<open>cl_fresh\<close> is the address of the next structure to be allocated; \<open>cl_registered\<close> says whether the server is in the list that
  \<open>server_still_valid\<close> searches; \<open>cl_send_mutex\<close> whether \<open>send_mutex\<close> is held.\<close>

record client =
  cl_srv :: afp_server
  cl_vol :: afp_volume
  cl_sent :: "byte list list"
  cl_ticks :: nat
  cl_fresh :: nat
  cl_registered :: bool
  cl_send_mutex :: bool
  cl_attention_threads :: nat

record env =
  env_net :: "byte list list \<Rightarrow> tx_result"
  env_clock :: "nat \<Rightarrow> nat"
  env_malloc :: "nat \<Rightarrow> bool"
  env_heap :: "nat \<Rightarrow> byte"
  env_stack :: afp_file_info
  env_reconnect :: "client \<Rightarrow> client option"
  env_close_session :: "client \<Rightarrow> client option"
  env_iconv :: "string \<Rightarrow> string option"
  env_uid :: u32
  env_gid :: u32

end
