(* ===== verification/Path_Utils.thy ===== *)
theory Path_Utils
  imports Afp_Types
begin

text \<open>
  \<open>lib/utils.c\<close>: Pascal strings, the path specification of a request, conversion of a Unix path
  into an AFP path, and the test of the length of file names. Buffers are lists of bytes and a
  destination pointer is a buffer with an offset.
\<close>

subsection \<open>Pascal strings\<close>

text \<open>\<open>copy_from_pascal b p max_len\<close>: the Pascal string at offset \<open>p\<close> of \<open>b\<close> is copied to a cleared
  buffer of \<open>max_len\<close> bytes; the result is the returned length and that buffer.\<close>

definition copy_from_pascal :: "byte list \<Rightarrow> nat \<Rightarrow> nat \<Rightarrow> (nat \<times> byte list) option" where
  "copy_from_pascal b p max_len = do {
     l \<leftarrow> rd8 b p;
     let len = (if max_len < unat l then max_len else unat l);
     d \<leftarrow> rd_bytes b (p + 1) len;
     Some (len, d @ replicate (max_len - len) 0)
   }"

definition copy_from_pascal_two ::
  "byte list \<Rightarrow> byte list \<Rightarrow> nat \<Rightarrow> nat \<Rightarrow> (nat \<times> byte list) option" where
  "copy_from_pascal_two dest b p max_len = do {
     l \<leftarrow> rd16 b p;
     let len = (if max_len < unat l then max_len else unat l);
     if len = 0 then Some (0, dest)
     else do {
       d \<leftarrow> rd_bytes b (p + 2) len;
       Some (len, d @ replicate (max_len - len) 0)
     }
   }"

definition utf8_to_string :: "byte list \<Rightarrow> byte list \<Rightarrow> nat \<Rightarrow> nat \<Rightarrow> (nat \<times> byte list) option" where
  "utf8_to_string dest b p maxlen = copy_from_pascal_two dest b (p + 4) maxlen"

definition copy_to_pascal :: "byte list \<Rightarrow> nat \<Rightarrow> byte list \<Rightarrow> (nat \<times> byte list) option" where
  "copy_to_pascal dest p src = do {
     let len = length src mod 256;
     dest \<leftarrow> wr_bytes dest p [word_of_nat len];
     dest \<leftarrow> wr_bytes dest (p + 1) (take len src);
     Some (len, dest)
   }"

definition copy_to_pascal_two :: "byte list \<Rightarrow> nat \<Rightarrow> byte list option \<Rightarrow> (nat \<times> byte list) option" where
  "copy_to_pascal_two dest p src = (case src of
     None \<Rightarrow> do {
       dest \<leftarrow> wr_bytes dest p [0, 0];
       Some (2, dest)
     }
   | Some s \<Rightarrow> do {
       let len = length s mod 65536;
       dest \<leftarrow> wr_bytes dest p (be16 (word_of_nat len));
       dest \<leftarrow> wr_bytes dest (p + 2) (take len s);
       Some (len, dest)
     })"

subsection \<open>Path specifications\<close>

definition sizeof_path_header :: "afp_server \<Rightarrow> nat" where
  "sizeof_path_header server =
     (if srv_path_encoding server = kFPUTF8Name then 7
      else if srv_path_encoding server = kFPLongName then 2
      else 0)"

text \<open>The buffer \<open>tmppathname\<close> of 255 bytes; its initial contents are never read.\<close>

definition copy_path :: "afp_server \<Rightarrow> byte list \<Rightarrow> nat \<Rightarrow> byte list \<Rightarrow> byte list option" where
  "copy_path server dest p pathname =
     (let encoding = srv_path_encoding server; tmppathname = replicate 255 0 in
      if encoding = kFPUTF8Name then do {
        dest \<leftarrow> wr_bytes dest p [encoding];
        dest \<leftarrow> wr_bytes dest (p + 1) (be32 0x08000103);
        (n, tmp) \<leftarrow> copy_to_pascal_two tmppathname 0 (Some pathname);
        let namelen = n mod 256;
        s \<leftarrow> rd_bytes tmp 0 (namelen + 2);
        wr_bytes dest (p + 5) s
      }
      else if encoding = kFPLongName then do {
        dest \<leftarrow> wr_bytes dest p [encoding];
        (n, tmp) \<leftarrow> copy_to_pascal tmppathname 0 pathname;
        let namelen = n mod 256;
        s \<leftarrow> rd_bytes tmp 0 (namelen + 1);
        wr_bytes dest (p + 1) s
      }
      else Some dest)"

definition slash_to_nul :: "byte \<Rightarrow> byte" where
  "slash_to_nul b = (if b = byte_of_char CHR ''/'' then 0 else b)"

definition unixpath_to_afppath :: "afp_server \<Rightarrow> byte list \<Rightarrow> nat \<Rightarrow> byte list option" where
  "unixpath_to_afppath server buf p =
     (let encoding = srv_path_encoding server in
      if encoding = kFPUTF8Name then do {
        len \<leftarrow> rd16 buf (p + 5);
        s \<leftarrow> rd_bytes buf (p + 7) (unat len);
        wr_bytes buf (p + 7) (map slash_to_nul s)
      }
      else if encoding = kFPLongName then do {
        len \<leftarrow> rd8 buf (p + 1);
        s \<leftarrow> rd_bytes buf (p + 2) (unat len);
        wr_bytes buf (p + 2) (map slash_to_nul s)
      }
      else Some buf)"

subsection \<open>File names\<close>

text \<open>The loop of \<open>invalid_filename\<close> on what remains of the name after the pointer \<open>p\<close>.\<close>

function invalid_components :: "nat \<Rightarrow> string \<Rightarrow> bool" where
  "invalid_components maxlen s =
     (case strchr s CHR ''/'' of
        Some k \<Rightarrow> (if k > maxlen then True else invalid_components maxlen (drop (Suc k) s))
      | None \<Rightarrow> length s > maxlen)"
  by pat_completeness auto

termination
  by (relation "measure (\<lambda>(m, s). length s)") (auto dest: strchr_SomeD)

declare invalid_components.simps [simp del]

definition max_filename :: "afp_server \<Rightarrow> nat" where
  "max_filename server =
     (if version_number server < 30 then 31
      else if srv_path_encoding server = kFPUTF8Name then 1024
      else 255)"

text \<open>An empty name makes the loop start behind the terminator of the string: \<open>None\<close>.\<close>

definition invalid_filename :: "afp_server \<Rightarrow> string \<Rightarrow> bool option" where
  "invalid_filename server filename =
     (if filename = ''/'' then Some False
      else case filename of
        [] \<Rightarrow> None
      | c # p \<Rightarrow> Some (invalid_components (max_filename server) p))"

subsection \<open>Attributes of a file\<close>

record unix_stat =
  st_mode :: u32
  st_nlink :: u64
  st_uid :: u32
  st_gid :: u32
  st_size :: u64
  st_blksize :: u64
  st_blocks :: u64
  st_ctime :: u32
  st_mtime :: u32

definition zero_stat :: unix_stat where
  "zero_stat = \<lparr>st_mode = 0, st_nlink = 0, st_uid = 0, st_gid = 0, st_size = 0, st_blksize = 0,
     st_blocks = 0, st_ctime = 0, st_mtime = 0\<rparr>"

definition afp_unixpriv_to_stat :: "afp_file_info \<Rightarrow> unix_stat" where
  "afp_unixpriv_to_stat fp =
     (let up = fi_unixprivs fp in
      zero_stat\<lparr>st_mode := (if up_permissions up \<noteq> 0 then up_permissions up else up_ua_permissions up),
        st_uid := up_uid up, st_gid := up_gid up\<rparr>)"

subsection \<open>Dates\<close>

text \<open>\<open>AD_DATE_FROM_UNIX\<close> and \<open>AD_DATE_TO_UNIX\<close> (\<open>afp_internal.h\<close>) without their byte swaps, which the
  encoders and the reads of a packet do.\<close>

definition ad_date_from_unix :: "u32 \<Rightarrow> u32" where
  "ad_date_from_unix x = x - 946684800"

definition ad_date_to_unix :: "u32 \<Rightarrow> u32" where
  "ad_date_to_unix x = x + 946684800"

lemma ad_date_round_trip [simp]:
  "ad_date_to_unix (ad_date_from_unix x) = x" "ad_date_from_unix (ad_date_to_unix x) = x"
  by (simp_all add: ad_date_to_unix_def ad_date_from_unix_def)

subsection \<open>Writes to a buffer\<close>

lemma wr_bytes_None_iff [return_simps]: "wr_bytes b p xs = None \<longleftrightarrow> length b < p + length xs"
  by (auto simp: wr_bytes_def)

lemma wr_bytes_fits:
  "p + length xs \<le> length b \<Longrightarrow> wr_bytes b p xs = Some (take p b @ xs @ drop (p + length xs) b)"
  by (simp add: wr_bytes_def)

text \<open>Two adjacent writes are one write.\<close>

lemma wr_bytes_adjacent:
  assumes "q = p + length xs"
  shows "(wr_bytes b p xs \<bind> (\<lambda>b. wr_bytes b q ys)) = wr_bytes b p (xs @ ys)"
proof (cases "p + length xs \<le> length b")
  case True
  then have "min (length b) p = p" "length b - (p + length xs) + p + length xs = length b"
    by auto
  with True assms show ?thesis
    by (auto simp: wr_bytes_def ac_simps)
qed (auto simp: wr_bytes_def)

lemma wr_bytes_adjacent_bind:
  assumes "q = p + length xs"
  shows "(wr_bytes b p xs \<bind> (\<lambda>b. wr_bytes b q ys \<bind> f)) = (wr_bytes b p (xs @ ys) \<bind> f)"
  by (simp add: wr_bytes_adjacent [OF assms, symmetric] Option.bind_assoc)

lemma rd_wr_bytes:
  "p + length xs + length ys \<le> length b \<Longrightarrow>
   rd_bytes (take p b @ xs @ ys @ zs) (p + length xs) (length ys) = Some ys"
  using rd_bytes_at [of "p + length xs" "take p b @ xs" "length ys" ys zs] by simp

subsection \<open>Properties of Pascal strings\<close>

lemma copy_to_pascal_eq:
  assumes "length src < 256"
  shows "copy_to_pascal dest p src =
    map_option (Pair (length src)) (wr_bytes dest p (word_of_nat (length src) # src))"
  using assms wr_bytes_adjacent_bind [of "p + 1" p "[word_of_nat (length src)]" dest src
      "\<lambda>d. Some (length src, d)"]
  by (simp add: copy_to_pascal_def Let_def map_conv_bind_option comp_def)

lemma copy_to_pascal_two_eq:
  assumes "length src < 65536"
  shows "copy_to_pascal_two dest p (Some src) =
    map_option (Pair (length src)) (wr_bytes dest p (be16 (word_of_nat (length src)) @ src))"
  using assms wr_bytes_adjacent_bind [of "p + 2" p "be16 (word_of_nat (length src))" dest src
      "\<lambda>d. Some (length src, d)"]
  by (simp add: copy_to_pascal_two_def Let_def map_conv_bind_option comp_def)

lemma copy_from_pascal_at:
  assumes "p = length xs" "n = length s" "n < 256"
  shows "copy_from_pascal (xs @ word_of_nat n # s @ ys) p max_len =
    Some (min max_len n, take max_len s @ replicate (max_len - n) 0)"
proof -
  have "rd_bytes (xs @ word_of_nat n # s @ ys) (p + 1) (min max_len n) = Some (take max_len s)"
    using assms by (auto simp: rd_bytes_def min_def)
  moreover have "unat (word_of_nat n :: byte) = n"
    using assms by (simp add: unat_of_nat)
  ultimately show ?thesis
    using assms by (auto simp: copy_from_pascal_def rd8_at Let_def min_def)
qed

lemma copy_from_pascal_two_at:
  assumes "p = length xs" "n = length s" "n < 65536"
  shows "copy_from_pascal_two dest (xs @ be16 (word_of_nat n) @ s @ ys) p max_len =
    Some (min max_len n,
      if min max_len n = 0 then dest else take max_len s @ replicate (max_len - n) 0)"
proof -
  have "rd_bytes (xs @ be16 (word_of_nat n) @ s @ ys) (p + 2) (min max_len n) = Some (take max_len s)"
    using assms by (auto simp: rd_bytes_def min_def)
  moreover have "unat (word_of_nat n :: u16) = n"
    using assms by (simp add: unat_of_nat)
  ultimately show ?thesis
    using assms by (auto simp: copy_from_pascal_two_def rd16_at Let_def min_def)
qed

subsection \<open>Properties of path specifications\<close>

text \<open>The path specification a server expects: type, text encoding hint (Unicode only), length, and
  the name with NUL for each separator.\<close>

definition path_header :: "afp_server \<Rightarrow> nat \<Rightarrow> byte list" where
  "path_header server n =
     (if srv_path_encoding server = kFPUTF8Name
      then kFPUTF8Name # be32 0x08000103 @ be16 (word_of_nat n)
      else if srv_path_encoding server = kFPLongName then [kFPLongName, word_of_nat n]
      else [])"

definition path_spec :: "afp_server \<Rightarrow> byte list \<Rightarrow> byte list" where
  "path_spec server name = path_header server (length name) @ map slash_to_nul name"

definition path_encoding_ok :: "afp_server \<Rightarrow> bool" where
  "path_encoding_ok server \<longleftrightarrow> srv_path_encoding server \<in> {kFPUTF8Name, kFPLongName}"

text \<open>The longest name that \<open>copy_path\<close> has room for.\<close>

definition max_path_name :: "afp_server \<Rightarrow> nat" where
  "max_path_name server = (if srv_path_encoding server = kFPUTF8Name then 253 else 254)"

lemma length_path_header [simp]: "length (path_header server n) = sizeof_path_header server"
  by (auto simp: path_header_def sizeof_path_header_def)

lemma length_path_spec [simp]:
  "length (path_spec server name) = sizeof_path_header server + length name"
  by (auto simp: path_spec_def)

lemma copy_path_utf8:
  assumes "srv_path_encoding server = kFPUTF8Name" "length name < 65536"
  shows "copy_path server dest p name =
    (if 253 < length name then None else wr_bytes dest p (path_header server (length name) @ name))"
proof (cases "253 < length name")
  case True
  then show ?thesis
    using assms
    by (auto simp: copy_path_def copy_to_pascal_two_eq Let_def wr_bytes_def bind_eq_None_conv)
next
  case False
  then have "copy_to_pascal_two (replicate 255 0) 0 (Some name) =
      Some (length name, be16 (word_of_nat (length name)) @ name @ replicate (253 - length name) 0)"
    using assms by (simp add: copy_to_pascal_two_eq wr_bytes_fits)
  moreover have "rd_bytes (be16 (word_of_nat (length name)) @ name @ replicate (253 - length name) 0)
      0 (length name + 2) = Some (be16 (word_of_nat (length name)) @ name)"
    using rd_bytes_at [of 0 "[]" "length name + 2" "be16 (word_of_nat (length name)) @ name"] by simp
  moreover have "length name mod 256 = length name"
    using False by simp
  ultimately show ?thesis
    using assms False
    by (simp add: copy_path_def path_header_def Let_def wr_bytes_adjacent wr_bytes_adjacent_bind)
qed

lemma copy_path_long:
  assumes "srv_path_encoding server = kFPLongName" "length name < 256"
  shows "copy_path server dest p name =
    (if 254 < length name then None else wr_bytes dest p (path_header server (length name) @ name))"
proof (cases "254 < length name")
  case True
  then show ?thesis
    using assms
    by (auto simp: copy_path_def copy_to_pascal_eq Let_def wr_bytes_def bind_eq_None_conv)
next
  case False
  then have "copy_to_pascal (replicate 255 0) 0 name =
      Some (length name, word_of_nat (length name) # name @ replicate (254 - length name) 0)"
    using assms by (simp add: copy_to_pascal_eq wr_bytes_fits)
  moreover have "rd_bytes (word_of_nat (length name) # name @ replicate (254 - length name) 0)
      0 (length name + 1) = Some (word_of_nat (length name) # name)"
    using rd_bytes_at [of 0 "[]" "length name + 1" "word_of_nat (length name) # name"] by simp
  moreover have "length name mod 256 = length name"
    using assms by simp
  ultimately show ?thesis
    using assms False
    by (simp add: copy_path_def path_header_def Let_def wr_bytes_adjacent wr_bytes_adjacent_bind)
qed

lemma unixpath_to_afppath_at:
  assumes "p = length xs" "path_encoding_ok server" "length name \<le> max_path_name server"
  shows "unixpath_to_afppath server (xs @ path_header server (length name) @ name @ ys) p =
    Some (xs @ path_spec server name @ ys)"
proof -
  let ?b = "xs @ path_header server (length name) @ name @ ys"
  let ?n = "sizeof_path_header server"
  have rd: "rd_bytes ?b (p + ?n) (length name) = Some name"
    using rd_bytes_at [of "p + ?n" "xs @ path_header server (length name)" "length name" name ys] assms
    by simp
  have wr: "wr_bytes ?b (p + ?n) (map slash_to_nul name) = Some (xs @ path_spec server name @ ys)"
    using assms(1) by (simp add: wr_bytes_def path_spec_def)
  show ?thesis
  proof (cases "srv_path_encoding server = kFPUTF8Name")
    case True
    have "rd16 ((xs @ kFPUTF8Name # be32 0x08000103) @ be16 (word_of_nat (length name)) @ name @ ys) (p + 5)
        = Some (word_of_nat (length name))"
      by (rule rd16_at) (simp add: assms)
    with True rd wr show ?thesis
      using assms
      by (simp add: unixpath_to_afppath_def path_header_def sizeof_path_header_def max_path_name_def
          unat_of_nat Let_def)
  next
    case False
    then have enc: "srv_path_encoding server = kFPLongName"
      using assms by (simp add: path_encoding_ok_def)
    have "rd8 ((xs @ [kFPLongName]) @ word_of_nat (length name) # name @ ys) (p + 1)
        = Some (word_of_nat (length name))"
      by (rule rd8_at) (simp add: assms)
    with enc rd wr show ?thesis
      using assms
      by (simp add: unixpath_to_afppath_def path_header_def sizeof_path_header_def max_path_name_def
          unat_of_nat Let_def)
  qed
qed

text \<open>The two calls by which a request writes its path: \<open>ys\<close> is the space it has reserved, \<open>zs\<close> the rest of
  the packet.\<close>

lemma copy_path_then_unixpath:
  assumes "path_encoding_ok server" "length name \<le> max_path_name server"
    and "p = length xs" "length ys = sizeof_path_header server + length name"
  shows "(copy_path server (xs @ ys @ zs) p name \<bind> (\<lambda>b. unixpath_to_afppath server b p)) =
    Some (xs @ path_spec server name @ zs)"
proof -
  have "copy_path server (xs @ ys @ zs) p name =
      wr_bytes (xs @ ys @ zs) p (path_header server (length name) @ name)"
    using assms by (auto simp: path_encoding_ok_def max_path_name_def copy_path_utf8 copy_path_long)
  also have "\<dots> = Some (xs @ path_header server (length name) @ name @ zs)"
    using assms(3,4) by (simp add: wr_bytes_def)
  finally show ?thesis
    using unixpath_to_afppath_at [of p xs server name zs] assms by simp
qed

lemma copy_path_None:
  assumes "path_encoding_ok server" "max_path_name server < length name" "length name < 256"
  shows "copy_path server dest p name = None"
  using assms by (auto simp: path_encoding_ok_def max_path_name_def copy_path_utf8 copy_path_long
      split: if_splits)

lemma slash_to_nul_inverse:
  assumes "0 \<notin> set name"
  shows "map (\<lambda>b. if b = 0 then byte_of_char CHR ''/'' else b) (map slash_to_nul name) = name"
  using assms by (induction name) (auto simp: slash_to_nul_def byte_of_char_def)

subsection \<open>Properties of file names\<close>

fun components :: "string \<Rightarrow> string list" where
  "components [] = [[]]"
| "components (c # s) =
     (if c = CHR ''/'' then [] # components s
      else case components s of x # xs \<Rightarrow> (c # x) # xs | [] \<Rightarrow> [[c]])"

lemma components_no_slash: "CHR ''/'' \<notin> set s \<Longrightarrow> components s = [s]"
  by (induction s) auto

lemma components_slash: "CHR ''/'' \<notin> set xs \<Longrightarrow> components (xs @ CHR ''/'' # ys) = xs # components ys"
  by (induction xs) auto

lemma components_strchr:
  assumes "strchr s CHR ''/'' = Some k"
  shows "components s = take k s # components (drop (Suc k) s)"
  using components_slash [of "take k s" "drop (Suc k) s"] strchr_SomeD [OF assms]
  by (metis id_take_nth_drop)

lemma invalid_components_iff:
  "invalid_components maxlen s \<longleftrightarrow> (\<exists>c\<in>set (components s). maxlen < length c)"
proof (induction maxlen s rule: invalid_components.induct)
  case (1 maxlen s)
  show ?case
  proof (cases "strchr s CHR ''/''")
    case None
    then have "CHR ''/'' \<notin> set s"
      by (simp add: strchr_eq_None_iff)
    with None show ?thesis
      by (simp add: invalid_components.simps [of maxlen s] components_no_slash)
  next
    case (Some k)
    have "min (length s) k = k"
      using strchr_SomeD [OF Some] by simp
    then show ?thesis
      using 1 Some by (simp add: invalid_components.simps [of maxlen s] components_strchr)
  qed
qed

subsection \<open>Main results\<close>

text \<open>A string of fewer than 256 bytes that \<open>copy_to_pascal\<close> stores at any place of a buffer with
  room for it is read back by \<open>copy_from_pascal\<close>: the returned length is the length of the string and
  the destination is the string followed by NUL bytes.\<close>

theorem pascal_round_trip:
  assumes "length s < 256" and "p + length s < length dest" and "length s < max_len"
  shows "\<exists>d. copy_to_pascal dest p s = Some (length s, d) \<and>
    copy_from_pascal d p max_len = Some (length s, s @ replicate (max_len - length s) 0)"
proof -
  have "copy_from_pascal (take p dest @ word_of_nat (length s) # s @ drop (Suc (p + length s)) dest)
      p max_len = Some (length s, s @ replicate (max_len - length s) 0)"
    using copy_from_pascal_at [of p "take p dest" "length s" s] assms by (simp add: min_def)
  then show ?thesis
    using assms by (simp add: copy_to_pascal_eq wr_bytes_fits)
qed

theorem pascal_round_trip_witness:
  "copy_to_pascal [0, 0, 0, 0] 1 [65, 66] = Some (2, [0, 2, 65, 66]) \<and>
   copy_from_pascal [0, 2, 65, 66] 1 4 = Some (2, [65, 66, 0, 0])"
proof -
  have "copy_to_pascal [0, 0, 0, 0] 1 [65, 66] = Some (2, [0, 2, 65, 66])"
    by (simp add: copy_to_pascal_def wr_bytes_def Let_def)
  then show ?thesis
    using pascal_round_trip [of "[65, 66]" 1 "[0, 0, 0, 0]" 4] by (simp add: numeral_2_eq_2)
qed

text \<open>The two calls by which every request writes its path, \<open>copy_path\<close> and then
  \<open>unixpath_to_afppath\<close>, fill the space reserved at the end of a request exactly with the path
  specification of the protocol, as long as the name has at most 253 (Unicode) or 254 (long name)
  bytes.\<close>

theorem request_path_layout:
  assumes "path_encoding_ok server" and "length name \<le> max_path_name server"
    and "length space = sizeof_path_header server + length name"
  shows "(copy_path server (msg @ space) (length msg) name
      \<bind> (\<lambda>b. unixpath_to_afppath server b (length msg))) = Some (msg @ path_spec server name)"
  using copy_path_then_unixpath [of server name "length msg" msg space "[]"] assms by simp

theorem request_path_layout_witness:
  "(copy_path example_server ([7] @ replicate 11 1) (length [7]) (to_bytes ''/a/b'')
      \<bind> (\<lambda>b. unixpath_to_afppath example_server b (length [7]))) =
   Some ([7] @ [3, 8, 0, 1, 3, 0, 4, 0, 97, 0, 98])"
proof -
  have "path_spec example_server (to_bytes ''/a/b'') = [3, 8, 0, 1, 3, 0, 4, 0, 97, 0, 98]"
    by (simp add: path_spec_def path_header_def example_server_def afp_server_init_def be32_def
        be16_def slash_to_nul_def byte_of_char_def)
  then show ?thesis
    using request_path_layout [of example_server "to_bytes ''/a/b''" "replicate 11 1" "[7]"]
    by (simp add: path_encoding_ok_def max_path_name_def sizeof_path_header_def example_server_def
        afp_server_init_def)
qed

text \<open>(C34) \<open>invalid_filename\<close> accepts a path exactly when none of its components is longer than the
  limit for the protocol version and path encoding.\<close>

theorem invalid_filename_correct:
  "invalid_filename server (c # path) =
     Some (\<exists>x\<in>set (components path). max_filename server < length x)"
  by (auto simp: invalid_filename_def invalid_components_iff)

text \<open>(C35) On a connection with AFP 3 and Unicode names the limit that \<open>invalid_filename\<close> checks, 1024
  bytes, lies above the 253 bytes that fit the local buffer of \<open>copy_path\<close>: every name of 254 to 1024
  bytes is accepted and then written past the end of that buffer.\<close>

theorem copy_path_overflow:
  assumes "srv_path_encoding server = kFPUTF8Name" and "30 \<le> version_number server"
    and "CHR ''/'' \<notin> set name" and "length name \<in> {254..1024}"
  shows "invalid_filename server (CHR ''/'' # name) = Some False \<and>
    copy_path server dest p (to_bytes name) = None"
proof
  show "invalid_filename server (CHR ''/'' # name) = Some False"
    using assms
    by (auto simp: invalid_filename_def invalid_components_iff components_no_slash max_filename_def)
  show "copy_path server dest p (to_bytes name) = None"
    using assms by (simp add: copy_path_utf8)
qed

theorem copy_path_overflow_witness:
  "invalid_filename example_server (CHR ''/'' # replicate 300 CHR ''a'') = Some False \<and>
   copy_path example_server (replicate 400 0) 0 (to_bytes (replicate 300 CHR ''a'')) = None"
  using copy_path_overflow [of example_server "replicate 300 CHR ''a''" "replicate 400 0" 0]
  by (simp add: example_server_def afp_server_init_def)

end
