(* ===== verification/Unicode_Conv.thy ===== *)
theory Unicode_Conv
  imports Path_Utils Unicode_Table
begin

text \<open>
  \<open>lib/unicode.c\<close> and \<open>lib/codepage.c\<close>: conversion between UTF-8 and UCS-2, composition of characters
  by a uniform binary search in the table, and the conversion of paths between the decomposed form
  AFP servers use and the form of Unix. A UTF-8 string in memory is followed by a NUL byte.
\<close>

subsection \<open>Composition of two characters\<close>

text \<open>The loop of \<open>UCS2precompose\<close>: the list is the array \<open>delta\<close> from index \<open>j\<close> on. \<open>None\<close> is an access
  outside of \<open>table\<close> or \<open>delta\<close>.\<close>

fun precompose_search :: "int \<Rightarrow> int \<Rightarrow> int list \<Rightarrow> int option" where
  "precompose_search needle i [] = None"
| "precompose_search needle i (d # ds) =
     (if d = 0 then Some (- 1)
      else if i < 0 \<or> int (length table) \<le> i then None
      else if needle < snd (table ! nat i)
        then (case ds of [] \<Rightarrow> None | d' # _ \<Rightarrow> precompose_search needle (i - d') ds)
      else if needle > snd (table ! nat i)
        then (case ds of [] \<Rightarrow> None | d' # _ \<Rightarrow> precompose_search needle (i + d') ds)
      else Some (fst (table ! nat i)))"

definition precompose_needle :: "u16 \<Rightarrow> u16 \<Rightarrow> int" where
  "precompose_needle first second = uint first * 65536 + uint second"

definition UCS2precompose :: "u16 \<Rightarrow> u16 \<Rightarrow> int option" where
  "UCS2precompose first second = precompose_search (precompose_needle first second) (hd delta) delta"

subsection \<open>UTF-8 and UCS-2\<close>

text \<open>The number of leading ones of a byte: the loop of \<open>mbCharLen\<close> with \<open>mask\<close> at bit \<open>k\<close>.\<close>

fun leading_ones :: "byte \<Rightarrow> nat \<Rightarrow> nat" where
  "leading_ones c 0 = (if bit c 0 then 1 else 0)"
| "leading_ones c (Suc k) = (if bit c (Suc k) then Suc (leading_ones c k) else 0)"

definition mbCharLen :: "byte \<Rightarrow> nat" where
  "mbCharLen c = (if c \<noteq> 0 then
       (let count = leading_ones c 7 in if count = 0 then 1 else if count = 1 then 0 else count)
     else 0)"

text \<open>The decoding of one character of \<open>clen\<close> bytes at the start of the memory \<open>p\<close>.\<close>

definition utf8_char :: "nat \<Rightarrow> byte list \<Rightarrow> u16 option" where
  "utf8_char clen p =
     (if clen = 1 then do {p0 \<leftarrow> rd8 p 0; Some (ucast p0)}
      else if clen = 2 then do {
        p0 \<leftarrow> rd8 p 0;
        p1 \<leftarrow> rd8 p 1;
        let c16 = ucast (p1 AND 0x3f) + push_bit 6 (ucast (p0 AND 0x1f));
        Some (if c16 > 0x7f \<and> p1 AND 0xC0 = 0x80 then c16 else 0x2a)
      }
      else if clen = 3 then do {
        p0 \<leftarrow> rd8 p 0;
        p1 \<leftarrow> rd8 p 1;
        p2 \<leftarrow> rd8 p 2;
        let c16 = ucast (p2 AND 0x3f) + push_bit 6 (ucast (p1 AND 0x3f)) + push_bit 12 (ucast (p0 AND 0xf));
        Some (if c16 > 0x7ff \<and> p1 AND 0xC0 = 0x80 \<and> p2 AND 0xC0 = 0x80 then c16 else 0x2a)
      }
      else Some 0x7e)"

text \<open>\<open>mbStrLen\<close> and the loop of \<open>UTF8toUCS2\<close> on the memory from the pointer \<open>p\<close> on, the terminator
  included.\<close>

function mbStrLen :: "byte list \<Rightarrow> nat option" where
  "mbStrLen p = do {
     c \<leftarrow> rd8 p 0;
     let clen = mbCharLen c;
     if clen = 0 then Some 0
     else do {len \<leftarrow> mbStrLen (drop clen p); Some (len + 1)}
   }"
  by pat_completeness auto

termination
  by (relation "measure length") (auto simp: rd8_def split: if_splits)

function utf8_loop :: "byte list \<Rightarrow> u16 list option" where
  "utf8_loop p = do {
     c \<leftarrow> rd8 p 0;
     let clen = mbCharLen c;
     if clen = 0 then Some []
     else do {x \<leftarrow> utf8_char clen p; rest \<leftarrow> utf8_loop (drop clen p); Some (x # rest)}
   }"
  by pat_completeness auto

termination
  by (relation "measure length") (auto simp: rd8_def split: if_splits)

declare mbStrLen.simps [simp del] utf8_loop.simps [simp del]

definition UTF8toUCS2 :: "byte list \<Rightarrow> u16 list option" where
  "UTF8toUCS2 str = do {
     _ \<leftarrow> mbStrLen (str @ [0]);
     utf8_loop (str @ [0])
   }"

text \<open>One character to UTF-8; \<open>p[0]\<close> is the low and \<open>p[1]\<close> the high byte of the character.\<close>

definition ucs2_char :: "u16 \<Rightarrow> byte list" where
  "ucs2_char c =
     (let p0 = ucast c :: byte; p1 = ucast (drop_bit 8 c) :: byte in
      if c < 0x0080 then [p0]
      else if c < 0x0800 then
        [0xc0 OR push_bit 2 (p1 AND 0x7) OR drop_bit 6 (p0 AND 0xc0), 0x80 OR (p0 AND 0x3f)]
      else
        [0xe0 OR drop_bit 4 (p1 AND 0xf0),
         0x80 OR push_bit 2 (p1 AND 0xf) OR drop_bit 6 (p0 AND 0xc0),
         0x80 OR (p0 AND 0x3f)])"

definition UCS2toUTF8 :: "u16 list \<Rightarrow> byte list" where
  "UCS2toUTF8 str16 = concat (map ucs2_char (takeWhile (\<lambda>c. c > 0) str16))"

definition str16len :: "u16 list \<Rightarrow> nat" where
  "str16len str16 = length (takeWhile (\<lambda>c. c \<noteq> 0) str16)"

subsection \<open>Decomposed and precomposed paths\<close>

text \<open>The loop of \<open>convert_utf8dec_to_utf8pre\<close> with the pending character \<open>prev\<close>: the characters it
  stores in \<open>path16pre\<close>.\<close>

fun precompose_path :: "u16 \<Rightarrow> u16 list \<Rightarrow> u16 list option" where
  "precompose_path prev [] = Some []"
| "precompose_path prev (c # cs) = do {
     (prev', out) \<leftarrow>
       (if prev > 0 then do {
          comp \<leftarrow> UCS2precompose prev c;
          Some (if comp \<noteq> - 1 then (word_of_int comp, []) else (c, [prev]))
        } else Some (c, []));
     rest \<leftarrow> precompose_path prev' cs;
     Some (out @ (if cs = [] then [prev'] else []) @ rest)
   }"

text \<open>\<open>path16pre\<close> has room for 384 characters, the terminator included; \<open>dest\<close> is an object of
  \<open>dest_len\<close> bytes, which the function does not look at.\<close>

definition convert_utf8dec_to_utf8pre :: "byte list \<Rightarrow> nat \<Rightarrow> byte list option" where
  "convert_utf8dec_to_utf8pre src dest_len = do {
     path16dec \<leftarrow> UTF8toUCS2 src;
     path16pre \<leftarrow> precompose_path 0 path16dec;
     if 384 \<le> length path16pre then None
     else do {
       let pathUTF8pre = UCS2toUTF8 path16pre;
       if dest_len \<le> length pathUTF8pre then None else Some pathUTF8pre
     }
   }"

text \<open>The loop of \<open>convert_utf8pre_to_utf8dec\<close> with \<open>j\<close> bytes written; \<open>None\<close> is a write behind the
  \<open>dest_len\<close> bytes of \<open>dest\<close>.\<close>

fun decompose_loop :: "byte list \<Rightarrow> nat \<Rightarrow> nat \<Rightarrow> byte list option" where
  "decompose_loop [] j dest_len = Some []"
| "decompose_loop (c # cs) j dest_len =
     (if \<not> j < dest_len then Some []
      else case cs of
        c1 # cs' \<Rightarrow>
          (if c = 0xc3 \<and> c1 = 0xa4 then
             (if j + 2 < dest_len
              then map_option ((@) [0x61, 0xcc, 0x88]) (decompose_loop cs' (j + 3) dest_len)
              else None)
           else map_option ((#) c) (decompose_loop cs (j + 1) dest_len))
      | [] \<Rightarrow> map_option ((#) c) (decompose_loop cs (j + 1) dest_len))"

definition convert_utf8pre_to_utf8dec :: "byte list \<Rightarrow> nat \<Rightarrow> (nat \<times> byte list) option" where
  "convert_utf8pre_to_utf8dec src dest_len =
     map_option (\<lambda>d. (length d, d)) (decompose_loop src 0 dest_len)"

text \<open>\<open>convert_path_to_unix\<close> and \<open>convert_path_to_afp\<close>: the returned value and the string left in
  \<open>dest\<close>, an object of \<open>dest_len\<close> bytes that is cleared first. For long names \<open>memcpy\<close> copies
  \<open>dest_len\<close> bytes, so \<open>dest\<close> holds the string when the string is shorter than that.\<close>

definition convert_path_to_unix :: "byte \<Rightarrow> string \<Rightarrow> nat \<Rightarrow> (int \<times> string) option" where
  "convert_path_to_unix encoding src dest_len =
     (if encoding = kFPUTF8Name then do {
        d \<leftarrow> convert_utf8dec_to_utf8pre (to_bytes src) dest_len;
        Some (0, of_bytes d)
      }
      else if encoding = kFPLongName then Some (0, take dest_len src)
      else Some (- 1, []))"

definition convert_path_to_afp :: "byte \<Rightarrow> string \<Rightarrow> nat \<Rightarrow> (int \<times> string) option" where
  "convert_path_to_afp encoding src dest_len =
     (if encoding = kFPUTF8Name then do {
        (_, d) \<leftarrow> convert_utf8pre_to_utf8dec (to_bytes src) dest_len;
        Some (0, of_bytes d)
      }
      else if encoding = kFPLongName then Some (0, take dest_len src)
      else Some (- 1, []))"

subsection \<open>The search\<close>

text \<open>The search at index \<open>i\<close> with the steps \<open>ds\<close> stays inside the table.\<close>

definition in_table :: "int \<Rightarrow> int list \<Rightarrow> bool" where
  "in_table i ds \<longleftrightarrow> (\<forall>d\<in>set ds. 0 \<le> d) \<and> 1 \<le> i - sum_list (tl ds) \<and> i + sum_list (tl ds) \<le> 997"

text \<open>With these steps the search reaches every index at distance at most \<open>r\<close>.\<close>

fun covers :: "int \<Rightarrow> int list \<Rightarrow> bool" where
  "covers r [] \<longleftrightarrow> False"
| "covers r (d # ds) \<longleftrightarrow> d \<noteq> 0 \<and>
     (r = 0 \<or> (case ds of [] \<Rightarrow> False | d' # _ \<Rightarrow> covers (max (r - d') (d' - 1)) ds))"

lemma in_table_step:
  assumes "in_table i (d # d' # ds)"
  shows "in_table (i - d') (d' # ds)" "in_table (i + d') (d' # ds)" "1 \<le> i" "i \<le> 997"
  using assms sum_list_nonneg [of ds] by (auto simp: in_table_def)

lemma table_less_iff:
  assumes "0 \<le> i" "i < 998" "0 \<le> k" "k < 998"
  shows "snd (table ! nat k) < snd (table ! nat i) \<longleftrightarrow> k < i"
proof -
  have mono: "snd (table ! a) < snd (table ! b)" if "a < b" "b < 998" for a b
    using ascending_nth_less [OF ascending_table, of a b] that by (simp add: length_table)
  have "k < i \<Longrightarrow> snd (table ! nat k) < snd (table ! nat i)"
    using mono [of "nat k" "nat i"] assms by simp
  moreover have "i < k \<Longrightarrow> snd (table ! nat i) < snd (table ! nat k)"
    using mono [of "nat i" "nat k"] assms by simp
  ultimately show ?thesis
    by (cases i k rule: linorder_cases) auto
qed

lemma search_found:
  assumes "covers r ds" "\<bar>k - i\<bar> \<le> r" "in_table i ds" "0 \<le> k" "k < 998"
  shows "precompose_search (snd (table ! nat k)) i ds = Some (fst (table ! nat k))"
  using assms
proof (induction ds arbitrary: r i)
  case (Cons d ds)
  have i: "1 \<le> i" "i \<le> 997"
    using Cons.prems sum_list_nonneg [of ds] by (auto simp: in_table_def)
  show ?case
  proof (cases "k = i")
    case True
    then show ?thesis
      using Cons.prems i by (simp add: length_table)
  next
    case False
    then have "r \<noteq> 0"
      using Cons.prems(2) by simp
    then obtain d' ds' where ds: "ds = d' # ds'" and cov: "covers (max (r - d') (d' - 1)) ds"
      using Cons.prems(1) by (cases ds) simp_all
    note step = in_table_step [OF Cons.prems(3) [unfolded ds]]
    have lt: "snd (table ! nat k) < snd (table ! nat i) \<longleftrightarrow> k < i"
      and gt: "snd (table ! nat i) < snd (table ! nat k) \<longleftrightarrow> i < k"
      using table_less_iff [of i k] table_less_iff [of k i] i Cons.prems by auto
    have "precompose_search (snd (table ! nat k)) (i - d') ds = Some (fst (table ! nat k))" if "k < i"
      by (rule Cons.IH [OF cov]) (use Cons.prems that step ds in auto)
    moreover have "precompose_search (snd (table ! nat k)) (i + d') ds = Some (fst (table ! nat k))" if "i < k"
      by (rule Cons.IH [OF cov]) (use Cons.prems that step ds in auto)
    ultimately show ?thesis
      using Cons.prems i lt gt ds False by (auto simp: length_table)
  qed
qed simp

lemma search_missing:
  assumes "needle \<notin> snd ` set (tl table)" "in_table i ds" "ds \<noteq> []" "last ds = 0"
  shows "precompose_search needle i ds = Some (- 1)"
  using assms
proof (induction ds arbitrary: i)
  case (Cons d ds)
  show ?case
  proof (cases "d = 0")
    case False
    then obtain d' ds' where ds: "ds = d' # ds'"
      using Cons.prems by (cases ds) auto
    note step = in_table_step [OF Cons.prems(2) [unfolded ds]]
    have "tl table ! (nat i - 1) = table ! nat i" "nat i - 1 < length (tl table)"
      using step by (auto simp: nth_tl length_table)
    then have "needle \<noteq> snd (table ! nat i)"
      using Cons.prems(1) by (metis image_eqI nth_mem)
    then show ?thesis
      using Cons False ds step by (auto simp: length_table)
  qed simp
qed simp

lemma delta_facts: "covers 498 delta" "in_table 499 delta" "delta \<noteq> []" "last delta = 0" "hd delta = 499"
  by (simp_all add: delta_def in_table_def)

subsection \<open>Encoding and decoding a character\<close>

lemma less_16_cases:
  "n < 16 \<Longrightarrow> n = 0 \<or> n = 1 \<or> n = 2 \<or> n = 3 \<or> n = 4 \<or> n = 5 \<or> n = 6 \<or> n = 7 \<or> n = 8 \<or> n = 9 \<or>
    n = 10 \<or> n = 11 \<or> n = 12 \<or> n = 13 \<or> n = 14 \<or> n = (15 :: nat)"
  by presburger

lemma low_six_bits: "x AND 0x3f = take_bit 6 x" for x :: byte
  by (simp add: take_bit_eq_mask mask_eq_exp_minus_1)

lemma u16_eqI:
  fixes a b :: u16
  assumes "bit a 0 = bit b 0" "bit a 1 = bit b 1" "bit a 2 = bit b 2" "bit a 3 = bit b 3"
    "bit a 4 = bit b 4" "bit a 5 = bit b 5" "bit a 6 = bit b 6" "bit a 7 = bit b 7"
    "bit a 8 = bit b 8" "bit a 9 = bit b 9" "bit a 10 = bit b 10" "bit a 11 = bit b 11"
    "bit a 12 = bit b 12" "bit a 13 = bit b 13" "bit a 14 = bit b 14" "bit a 15 = bit b 15"
  shows "a = b"
proof (rule bit_word_eqI)
  fix n assume "n < LENGTH(16)"
  then have "n < 16" by simp
  from less_16_cases [OF this] show "bit a n \<longleftrightarrow> bit b n"
    using assms by (elim disjE) simp_all
qed

lemma utf8_decode_two:
  assumes "\<And>n. 11 \<le> n \<Longrightarrow> \<not> bit c n"
  shows "ucast ((0x80 OR (ucast c AND 0x3f)) AND 0x3f :: byte) +
    push_bit 6 (ucast ((0xc0 OR push_bit 2 (ucast (drop_bit 8 c) AND 0x7) OR drop_bit 6 (ucast c AND 0xc0)) AND 0x1f :: byte)) = (c :: u16)"
  (is "?a + ?b = c")
proof -
  have "?a + ?b = ?a OR ?b"
    by (rule disjunctive_add) (auto simp: bit_simps low_six_bits)
  also have "\<dots> = c"
    by (rule u16_eqI) (simp_all add: bit_simps assms)
  finally show ?thesis .
qed
lemma utf8_decode_three:
  "ucast ((0x80 OR (ucast c AND 0x3f)) AND 0x3f :: byte) +
    push_bit 6 (ucast ((0x80 OR push_bit 2 (ucast (drop_bit 8 c) AND 0xf) OR drop_bit 6 (ucast c AND 0xc0)) AND 0x3f :: byte))
    + push_bit 12 (ucast ((0xe0 OR drop_bit 4 (ucast (drop_bit 8 c) AND 0xf0)) AND 0xf :: byte)) = (c :: u16)"
  (is "?a + ?b + ?d = c")
proof -
  have 1: "?a + ?b = ?a OR ?b"
    by (rule disjunctive_add) (auto simp: bit_simps low_six_bits)
  have 2: "(?a OR ?b) + ?d = (?a OR ?b) OR ?d"
    by (rule disjunctive_add) (auto simp: bit_simps low_six_bits)
  also have "\<dots> = c"
    by (rule u16_eqI) (simp_all add: bit_simps)
  finally show ?thesis
    unfolding 1 .
qed
lemma byte_eqI:
  fixes a b :: byte
  assumes "bit a 0 = bit b 0" "bit a 1 = bit b 1" "bit a 2 = bit b 2" "bit a 3 = bit b 3"
    "bit a 4 = bit b 4" "bit a 5 = bit b 5" "bit a 6 = bit b 6" "bit a 7 = bit b 7"
  shows "a = b"
proof (rule bit_word_eqI)
  fix n assume "n < LENGTH(8)"
  then have "n = 0 \<or> n = 1 \<or> n = 2 \<or> n = 3 \<or> n = 4 \<or> n = 5 \<or> n = 6 \<or> n = 7" by auto
  then show "bit a n \<longleftrightarrow> bit b n"
    using assms by (elim disjE) simp_all
qed

lemma high_bits_zero:
  fixes c :: "'a::len word"
  assumes "c < 2 ^ k" "k < LENGTH('a)" "k \<le> n"
  shows "\<not> bit c n"
proof -
  have "uint c < 2 ^ k"
    using assms by (simp add: word_2p_lem [of k c] word_size)
  then have "take_bit k (uint c) = uint c"
    by (simp add: take_bit_int_eq_self)
  then have "\<not> bit (uint c) n"
    using assms(3) by (metis bit_take_bit_iff linorder_not_less)
  then show ?thesis
    by (simp add: bit_uint_iff) (metis bit_imp_le_length)
qed

lemma mbCharLen_bits:
  "mbCharLen c =
     (if c = 0 then 0 else if \<not> bit c 7 then 1 else if \<not> bit c 6 then 0
      else if \<not> bit c 5 then 2 else if \<not> bit c 4 then 3 else leading_ones c 7)"
proof -
  have "leading_ones c 7 = (if bit c 7 then if bit c 6 then if bit c 5 then
      if bit c 4 then 4 + leading_ones c 3 else 3 else 2 else 1 else 0)"
    by (simp add: numeral_eq_Suc)
  then show ?thesis
    by (simp add: mbCharLen_def Let_def)
qed

lemma continuation_byte: "(0x80 OR (x AND 0x3f)) AND 0xC0 = (0x80 :: byte)"
  "(0x80 OR push_bit 2 (y AND 0xf) OR drop_bit 6 (x AND 0xc0)) AND 0xC0 = (0x80 :: byte)"
  by (rule byte_eqI; simp add: bit_simps)+

lemma ucs2_char_decode:
  assumes "c \<noteq> 0"
  shows "\<exists>b bs. ucs2_char c = b # bs \<and> mbCharLen b = Suc (length bs) \<and>
    utf8_char (Suc (length bs)) (b # bs @ rest) = Some c"
proof -
  consider "c < 0x80" | "0x80 \<le> c" "c < 0x800" | "0x800 \<le> c"
    by fastforce
  then show ?thesis
  proof cases
    case 1
    have hi: "\<not> bit c n" if "7 \<le> n" for n
      by (rule high_bits_zero [of _ 7]) (use 1 that in auto)
    have u: "ucast (ucast c :: byte) = c"
      by (rule u16_eqI) (simp_all add: bit_simps hi)
    then have "(ucast c :: byte) \<noteq> 0"
      using assms by (metis unsigned_0)
    moreover have "\<not> bit (ucast c :: byte) 7"
      by (simp add: bit_simps hi)
    ultimately show ?thesis
      using 1 u by (simp add: ucs2_char_def mbCharLen_bits utf8_char_def rd8_Cons)
  next
    case 2
    define b0 :: byte where "b0 = 0xc0 OR push_bit 2 (ucast (drop_bit 8 c) AND 0x7) OR drop_bit 6 (ucast c AND 0xc0)"
    define b1 :: byte where "b1 = 0x80 OR (ucast c AND 0x3f)"
    have hi: "\<not> bit c n" if "11 \<le> n" for n
      by (rule high_bits_zero [of _ 11]) (use 2 that in auto)
    have "ucast (b1 AND 0x3f) + push_bit 6 (ucast (b0 AND 0x1f)) = c"
      unfolding b0_def b1_def by (rule utf8_decode_two [OF hi])
    moreover have "b1 AND 0xC0 = 0x80"
      unfolding b1_def by (rule continuation_byte)
    moreover have "bit b0 7" "bit b0 6" "\<not> bit b0 5"
      by (simp_all add: b0_def bit_simps)
    moreover from this have "b0 \<noteq> 0" by auto
    moreover have "ucs2_char c = [b0, b1]"
      using 2 by (simp add: ucs2_char_def b0_def b1_def Let_def not_less)
    moreover have "0x7f < c"
      using 2(1) by (rule less_le_trans [rotated]) simp
    ultimately show ?thesis
      by (simp add: mbCharLen_bits utf8_char_def rd8_Cons)
  next
    case 3
    define b0 :: byte where "b0 = 0xe0 OR drop_bit 4 (ucast (drop_bit 8 c) AND 0xf0)"
    define b1 :: byte where "b1 = 0x80 OR push_bit 2 (ucast (drop_bit 8 c) AND 0xf) OR drop_bit 6 (ucast c AND 0xc0)"
    define b2 :: byte where "b2 = 0x80 OR (ucast c AND 0x3f)"
    have "ucast (b2 AND 0x3f) + push_bit 6 (ucast (b1 AND 0x3f)) + push_bit 12 (ucast (b0 AND 0xf)) = c"
      unfolding b0_def b1_def b2_def by (rule utf8_decode_three)
    moreover have "b1 AND 0xC0 = 0x80" "b2 AND 0xC0 = 0x80"
      unfolding b1_def b2_def by (rule continuation_byte)+
    moreover have "bit b0 7" "bit b0 6" "bit b0 5" "\<not> bit b0 4"
      by (simp_all add: b0_def bit_simps)
    moreover from this have "b0 \<noteq> 0" by auto
    moreover have "\<not> c < 0x80" "\<not> c < 0x800" "0x7ff < c"
      using 3 by (auto simp: word_less_nat_alt word_le_nat_alt)
    moreover from this have "ucs2_char c = [b0, b1, b2]"
      by (simp add: ucs2_char_def b0_def b1_def b2_def Let_def)
    ultimately show ?thesis
      by (simp add: mbCharLen_bits utf8_char_def rd8_Cons)
  qed
qed

subsection \<open>Encoding and decoding a string\<close>

lemma utf8_loop_char:
  assumes "c \<noteq> 0"
  shows "utf8_loop (ucs2_char c @ rest) = map_option ((#) c) (utf8_loop rest)"
proof -
  obtain b bs where c: "ucs2_char c = b # bs" "mbCharLen b = Suc (length bs)"
    "utf8_char (Suc (length bs)) (b # bs @ rest) = Some c"
    using ucs2_char_decode [OF assms, of rest] by auto
  then show ?thesis
    by (simp add: utf8_loop.simps [of "b # bs @ rest"] rd8_Cons Let_def map_conv_bind_option comp_def)
qed

lemma mbStrLen_char:
  assumes "c \<noteq> 0"
  shows "mbStrLen (ucs2_char c @ rest) = map_option Suc (mbStrLen rest)"
proof -
  obtain b bs where c: "ucs2_char c = b # bs" "mbCharLen b = Suc (length bs)"
    using ucs2_char_decode [OF assms, of rest] by auto
  then show ?thesis
    by (simp add: mbStrLen.simps [of "b # bs @ rest"] rd8_Cons Let_def map_conv_bind_option comp_def)
qed

lemma loops_at_terminator: "utf8_loop [0] = Some []" "mbStrLen [0] = Some 0"
  by (simp_all add: utf8_loop.simps [of "[0]"] mbStrLen.simps [of "[0]"] rd8_Cons mbCharLen_def)

lemma takeWhile_nonzero: "0 \<notin> set s \<Longrightarrow> takeWhile (\<lambda>c. 0 < c) s = s" for s :: "u16 list"
  by (induction s) (auto simp: word_gt_0)

lemma loops_on_string:
  assumes "0 \<notin> set s"
  shows "utf8_loop (UCS2toUTF8 s @ [0]) = Some s" "mbStrLen (UCS2toUTF8 s @ [0]) = Some (length s)"
proof -
  have "utf8_loop (concat (map ucs2_char s) @ [0]) = Some s"
    using assms by (induction s) (simp_all add: loops_at_terminator utf8_loop_char)
  moreover have "mbStrLen (concat (map ucs2_char s) @ [0]) = Some (length s)"
    using assms by (induction s) (simp_all add: loops_at_terminator mbStrLen_char)
  ultimately show "utf8_loop (UCS2toUTF8 s @ [0]) = Some s" "mbStrLen (UCS2toUTF8 s @ [0]) = Some (length s)"
    by (simp_all add: UCS2toUTF8_def takeWhile_nonzero assms)
qed

lemma UTF8toUCS2_UCS2toUTF8: "0 \<notin> set s \<Longrightarrow> UTF8toUCS2 (UCS2toUTF8 s) = Some s"
  by (simp add: UTF8toUCS2_def loops_on_string)

lemma length_ucs2_char: "length (ucs2_char c) \<in> {1..3}"
  by (auto simp: ucs2_char_def Let_def)

lemma UCS2precompose_table:
  "UCS2precompose a b = Some (case map_of (map prod.swap (tl table)) (precompose_needle a b) of
     None \<Rightarrow> - 1 | Some c \<Rightarrow> c)"
proof (cases "map_of (map prod.swap (tl table)) (precompose_needle a b)")
  case None
  then have "precompose_needle a b \<notin> snd ` set (tl table)"
    by (auto simp: map_of_eq_None_iff image_image)
  then show ?thesis
    using None by (simp add: UCS2precompose_def search_missing delta_facts)
next
  case (Some c)
  then have "(c, precompose_needle a b) \<in> set (tl table)"
    by (auto dest!: map_of_SomeD)
  then obtain k where k: "k < length (tl table)" "tl table ! k = (c, precompose_needle a b)"
    by (auto simp: in_set_conv_nth)
  then have "table ! nat (int (Suc k)) = (c, precompose_needle a b)" "Suc k < 998"
    by (auto simp: nth_tl length_table simp del: of_nat_Suc)
  moreover have "\<bar>int (Suc k) - 499\<bar> \<le> 498"
    using \<open>Suc k < 998\<close> by auto
  ultimately show ?thesis
    using Some search_found [OF delta_facts(1) _ delta_facts(2), of "int (Suc k)"]
    by (simp add: UCS2precompose_def delta_facts)
qed

text \<open>A string in which no two neighbours are composed.\<close>

fun composed :: "u16 list \<Rightarrow> bool" where
  "composed (a # b # s) \<longleftrightarrow> UCS2precompose a b = Some (- 1) \<and> composed (b # s)"
| "composed _ \<longleftrightarrow> True"

text \<open>The decomposed form: \<open>convert_utf8pre_to_utf8dec\<close> knows one composed character.\<close>

definition decomposed :: "u16 list \<Rightarrow> u16 list" where
  "decomposed s = concat (map (\<lambda>c. if c = 0xe4 then [0x61, 0x308] else [c]) s)"

lemma decomposed_simps [simp]:
  "decomposed [] = []" "decomposed (c # s) = (if c = 0xe4 then [0x61, 0x308] else [c]) @ decomposed s"
  "decomposed s = [] \<longleftrightarrow> s = []"
  by (cases s; simp add: decomposed_def)+

lemma decomposed_nonzero: "0 \<notin> set s \<Longrightarrow> 0 \<notin> set (decomposed s)"
  by (induction s) auto

lemma decomposed_longer: "length (concat (map ucs2_char s)) \<le> length (concat (map ucs2_char (decomposed s)))"
  by (induction s) (auto simp: ucs2_char_def Let_def)

lemma no_second_a: "\<forall>x\<in>set (tl table). snd x mod 65536 \<noteq> 0x61"
  by code_simp

lemma compose_a: "UCS2precompose p 0x61 = Some (- 1)"
proof -
  have "precompose_needle p 0x61 mod 65536 = 0x61"
    by (simp add: precompose_needle_def)
  then have "precompose_needle p 0x61 \<notin> snd ` set (tl table)"
    using no_second_a by auto
  then have "map_of (map prod.swap (tl table)) (precompose_needle p 0x61) = None"
    by (auto simp: map_of_eq_None_iff image_image)
  then show ?thesis
    by (simp add: UCS2precompose_table)
qed

lemma compose_a_umlaut: "UCS2precompose 0x61 0x308 = Some 0xe4"
  by code_simp

lemma precompose_decomposed:
  assumes "0 \<notin> set (p # s)" "composed (p # s)" "s \<noteq> []"
  shows "precompose_path p (decomposed s) = Some (p # s)"
  using assms
proof (induction s arbitrary: p)
  case (Cons c s)
  then have "0 < p" "UCS2precompose p c = Some (- 1)" "composed (c # s)"
    by (auto simp: word_gt_0)
  then show ?case
    using Cons by (cases "s = []") (auto simp: compose_a compose_a_umlaut)
qed simp

lemma precompose_decomposed_0:
  assumes "0 \<notin> set s" "composed s"
  shows "precompose_path 0 (decomposed s) = Some s"
proof (cases s)
  case (Cons c cs)
  then show ?thesis
    using assms precompose_decomposed [of c cs] by (cases "cs = []") (auto simp: compose_a_umlaut)
qed simp

lemma decompose_copy:
  assumes "j < n" "b = 0xc3 \<Longrightarrow> bs \<noteq> [] \<Longrightarrow> hd bs \<noteq> 0xa4"
  shows "decompose_loop (b # bs) j n = map_option ((#) b) (decompose_loop bs (j + 1) n)"
  using assms by (cases bs) auto

lemma decompose_char:
  assumes "c \<noteq> 0" "j + length (ucs2_char c) \<le> n" "c \<noteq> 0xe4"
  shows "decompose_loop (ucs2_char c @ bs) j n = map_option ((@) (ucs2_char c)) (decompose_loop bs (j + length (ucs2_char c)) n)"
proof -
  consider "c < 0x80" | "0x80 \<le> c" "c < 0x800" | "0x800 \<le> c"
    by fastforce
  then show ?thesis
  proof cases
    case 1
    have "\<not> bit c 7"
      by (rule high_bits_zero [of _ 7]) (use 1 in auto)
    then have "\<not> bit (ucast c :: byte) 7"
      by (simp add: bit_simps)
    moreover have "bit (0xc3 :: byte) 7"
      by simp
    ultimately have "(ucast c :: byte) \<noteq> 0xc3"
      by metis
    then show ?thesis
      using 1 assms(2) decompose_copy [of j n "ucast c" bs]
      by (cases "decompose_loop bs (Suc j) n") (simp_all add: ucs2_char_def del: decompose_loop.simps)
  next
    case 2
    define b0 :: byte where "b0 = 0xc0 OR push_bit 2 (ucast (drop_bit 8 c) AND 0x7) OR drop_bit 6 (ucast c AND 0xc0)"
    define b1 :: byte where "b1 = 0x80 OR (ucast c AND 0x3f)"
    have b: "ucs2_char c = [b0, b1]"
      using 2 by (simp add: ucs2_char_def b0_def b1_def Let_def not_less)
    have hi: "\<not> bit c n" if "11 \<le> n" for n
      by (rule high_bits_zero [of _ 11]) (use 2 that in auto)
    have "ucast (b1 AND 0x3f) + push_bit 6 (ucast (b0 AND 0x1f)) = c"
      unfolding b0_def b1_def by (rule utf8_decode_two [OF hi])
    then have "\<not> (b0 = 0xc3 \<and> b1 = 0xa4)"
      using assms(3) by auto
    moreover have "\<not> bit b1 6"
      by (simp add: b1_def bit_simps)
    then have "b1 \<noteq> 0xc3"
      by (auto simp: bit_simps)
    ultimately show ?thesis
      using assms(2) b decompose_copy [of j n b0 "b1 # bs"] decompose_copy [of "Suc j" n b1 bs]
      by (cases "decompose_loop bs (Suc (Suc j)) n") (simp_all del: decompose_loop.simps)
  next
    case 3
    define b0 :: byte where "b0 = 0xe0 OR drop_bit 4 (ucast (drop_bit 8 c) AND 0xf0)"
    define b1 :: byte where "b1 = 0x80 OR push_bit 2 (ucast (drop_bit 8 c) AND 0xf) OR drop_bit 6 (ucast c AND 0xc0)"
    define b2 :: byte where "b2 = 0x80 OR (ucast c AND 0x3f)"
    have "\<not> c < 0x80" "\<not> c < 0x800"
      using 3 by (auto simp: word_less_nat_alt word_le_nat_alt)
    then have b: "ucs2_char c = [b0, b1, b2]"
      by (simp add: ucs2_char_def b0_def b1_def b2_def Let_def)
    have "bit b0 5" "\<not> bit b1 6" "\<not> bit b2 6"
      by (simp_all add: b0_def b1_def b2_def bit_simps)
    then have "b0 \<noteq> 0xc3" "b1 \<noteq> 0xc3" "b2 \<noteq> 0xc3"
      by (auto simp: bit_simps)
    then show ?thesis
      using assms(2) b decompose_copy [of j n b0 "b1 # b2 # bs"] decompose_copy [of "Suc j" n b1 "b2 # bs"]
        decompose_copy [of "Suc (Suc j)" n b2 bs]
      by (cases "decompose_loop bs (Suc (Suc (Suc j))) n") (simp_all add: numeral_3_eq_3 del: decompose_loop.simps)
  qed
qed

lemma decompose_string:
  assumes "0 \<notin> set s" "j + length (concat (map ucs2_char (decomposed s))) \<le> n"
  shows "decompose_loop (concat (map ucs2_char s)) j n = Some (concat (map ucs2_char (decomposed s)))"
  using assms
proof (induction s arbitrary: j)
  case (Cons c s)
  have e4: "ucs2_char 0xe4 = [0xc3, 0xa4]" "ucs2_char 0x61 = [0x61]" "ucs2_char 0x308 = [0xcc, 0x88]"
    by (simp_all add: ucs2_char_def)
  show ?case
    using Cons by (cases "c = 0xe4") (simp_all add: e4 decompose_char)
qed simp

subsection \<open>Main results\<close>

text \<open>(C27) The uniform binary search of \<open>UCS2precompose\<close> stays inside its arrays and agrees with looking
  the pair up in the table: it returns the composed character of every pair that has an entry, and -1
  for every other pair.\<close>

theorem UCS2precompose_lookup:
  "UCS2precompose a b = Some (case map_of (map prod.swap (tl table)) (precompose_needle a b) of
     None \<Rightarrow> - 1 | Some c \<Rightarrow> c)"
  by (rule UCS2precompose_table)

text \<open>(C19) Decoding what \<open>UCS2toUTF8\<close> produced gives back the string, for every string of 16-bit
  characters other than the terminator, and the decoder never reads past the end of its input.\<close>

theorem utf8_round_trip:
  assumes "0 \<notin> set s"
  shows "UTF8toUCS2 (UCS2toUTF8 s) = Some s"
  using assms by (rule UTF8toUCS2_UCS2toUTF8)

theorem utf8_round_trip_witness:
  "UCS2toUTF8 [0x41, 0xe4, 0x20ac] = [0x41, 0xc3, 0xa4, 0xe2, 0x82, 0xac] \<and>
   UTF8toUCS2 [0x41, 0xc3, 0xa4, 0xe2, 0x82, 0xac] = Some [0x41, 0xe4, 0x20ac]"
proof -
  have "UCS2toUTF8 [0x41, 0xe4, 0x20ac] = [0x41, 0xc3, 0xa4, 0xe2, 0x82, 0xac]"
    by (simp add: UCS2toUTF8_def ucs2_char_def)
  then show ?thesis
    using utf8_round_trip [of "[0x41, 0xe4, 0x20ac]"] by simp
qed

text \<open>(C26) A path goes to the server and back. \<open>convert_path_to_afp\<close> decomposes the one character it knows, and \<open>convert_path_to_unix\<close> gives back
  the path it started from, for every path in which no two neighbouring characters have a composition and whose decomposed form fits into
  \<open>dest\<close>. With 384 characters or more the way back writes past the end of its local array, although paths may have up to 768 bytes.\<close>

theorem path_round_trip:
  assumes "0 \<notin> set s" and "composed s" and "length (UCS2toUTF8 (decomposed s)) < n"
  shows "convert_path_to_afp kFPUTF8Name (of_bytes (UCS2toUTF8 s)) n = Some (0, of_bytes (UCS2toUTF8 (decomposed s))) \<and>
    convert_path_to_unix kFPUTF8Name (of_bytes (UCS2toUTF8 (decomposed s))) n =
      (if 384 \<le> length s then None else Some (0, of_bytes (UCS2toUTF8 s)))"
proof -
  have d: "0 \<notin> set (decomposed s)"
    using assms(1) by (rule decomposed_nonzero)
  have len: "length (UCS2toUTF8 s) \<le> length (UCS2toUTF8 (decomposed s))"
    using assms(1) d by (simp add: UCS2toUTF8_def takeWhile_nonzero decomposed_longer)
  have "decompose_loop (UCS2toUTF8 s) 0 n = Some (UCS2toUTF8 (decomposed s))"
    using decompose_string [OF assms(1), of 0 n] assms(1,3) d by (simp add: UCS2toUTF8_def takeWhile_nonzero)
  moreover have "convert_utf8dec_to_utf8pre (UCS2toUTF8 (decomposed s)) n = (if 384 \<le> length s then None else Some (UCS2toUTF8 s))"
    using assms len d by (simp add: convert_utf8dec_to_utf8pre_def UTF8toUCS2_UCS2toUTF8 precompose_decomposed_0 Let_def)
  ultimately show ?thesis
    by (simp add: convert_path_to_afp_def convert_path_to_unix_def convert_utf8pre_to_utf8dec_def)
qed

theorem path_round_trip_witness:
  "convert_path_to_afp kFPUTF8Name (of_bytes [0x2f, 0xc3, 0xa4, 0x62]) 768 = Some (0, of_bytes [0x2f, 0x61, 0xcc, 0x88, 0x62]) \<and>
   convert_path_to_unix kFPUTF8Name (of_bytes [0x2f, 0x61, 0xcc, 0x88, 0x62]) 768 = Some (0, of_bytes [0x2f, 0xc3, 0xa4, 0x62])"
proof -
  have "UCS2precompose 0x2f 0xe4 = Some (- 1)" "UCS2precompose 0xe4 0x62 = Some (- 1)"
    by code_simp+
  moreover have "UCS2toUTF8 [0x2f, 0xe4, 0x62] = [0x2f, 0xc3, 0xa4, 0x62]"
    "UCS2toUTF8 [0x2f, 0x61, 0x308, 0x62] = [0x2f, 0x61, 0xcc, 0x88, 0x62]"
    by (simp_all add: UCS2toUTF8_def ucs2_char_def)
  ultimately show ?thesis
    using path_round_trip [of "[0x2f, 0xe4, 0x62]" 768] by simp
qed

end
