(* ===== verification/Reply_Block.thy ===== *)
theory Reply_Block
  imports Path_Utils
begin

text \<open>
  \<open>lib/proto_replyblock.c\<close>: the parameters of a file or directory in a reply. Which parameters are
  present is told by a bitmap, and they follow each other in the order of the bits; names stand behind
  the parameters and are referred to by an offset. The list \<open>buf\<close> is the memory from the start of the
  block to the end of the buffer it lies in.
\<close>

subsection \<open>Reading one parameter\<close>

definition has_bit :: "u16 \<Rightarrow> u16 \<Rightarrow> bool" where
  "has_bit bitmap b \<longleftrightarrow> bitmap AND b \<noteq> 0"

text \<open>If the bit is set, the parameter at the pointer \<open>p2\<close> is read and stored, and the pointer
  advances by the width of the parameter.\<close>

definition param :: "bool \<Rightarrow> (byte list \<Rightarrow> nat \<Rightarrow> 'a option) \<Rightarrow> nat \<Rightarrow> ('a \<Rightarrow> 's \<Rightarrow> 's) \<Rightarrow> byte list \<Rightarrow>
    nat \<times> 's \<Rightarrow> (nat \<times> 's) option" where
  "param c rd w store buf ps =
     (if c then do {x \<leftarrow> rd buf (fst ps); Some (fst ps + w, store x (snd ps))} else Some ps)"

text \<open>A parameter that is stepped over without being read.\<close>

definition skip :: "bool \<Rightarrow> nat \<Rightarrow> nat \<times> 's \<Rightarrow> (nat \<times> 's) option" where
  "skip c w ps = Some (if c then fst ps + w else fst ps, snd ps)"

definition rd_longname :: "byte list \<Rightarrow> nat \<Rightarrow> string option" where
  "rd_longname buf p = do {
     off \<leftarrow> rd16 buf p;
     (_, d) \<leftarrow> copy_from_pascal buf (unat off) AFP_MAX_PATH;
     Some (c_str d)
   }"

text \<open>An empty UTF-8 name leaves the destination as it was: \<open>Some None\<close>.\<close>

definition rd_utf8name :: "byte list \<Rightarrow> nat \<Rightarrow> string option option" where
  "rd_utf8name buf p = do {
     off \<leftarrow> rd16 buf p;
     (len, d) \<leftarrow> copy_from_pascal_two [] buf (unat off + 4) AFP_MAX_PATH;
     Some (if len = 0 then None else Some (c_str d))
   }"

definition parse_reply_block ::
  "byte list \<Rightarrow> bool \<Rightarrow> u16 \<Rightarrow> u16 \<Rightarrow> afp_file_info \<Rightarrow> afp_file_info option" where
  "parse_reply_block buf isdir filebitmap dirbitmap filecur =
     (let bitmap = (if isdir then dirbitmap else filebitmap);
          has = has_bit bitmap in
      do {
        s \<leftarrow> Some (0, zero_file_info\<lparr>fi_addr := fi_addr filecur, fi_isdir := isdir\<rparr>);
        s \<leftarrow> param (has kFPAttributeBit) rd16 2 (\<lambda>x. fi_attributes_update (\<lambda>_. x)) buf s;
        s \<leftarrow> param (has kFPParentDirIDBit) rd32 4 (\<lambda>x. fi_did_update (\<lambda>_. x)) buf s;
        s \<leftarrow> param (has kFPCreateDateBit) rd32 4
               (\<lambda>x. fi_creation_date_update (\<lambda>_. ad_date_to_unix x)) buf s;
        s \<leftarrow> param (has kFPModDateBit) rd32 4
               (\<lambda>x. fi_modification_date_update (\<lambda>_. ad_date_to_unix x)) buf s;
        s \<leftarrow> param (has kFPBackupDateBit) rd32 4
               (\<lambda>x. fi_backup_date_update (\<lambda>_. ad_date_to_unix x)) buf s;
        s \<leftarrow> param (has kFPFinderInfoBit) (\<lambda>b p. rd_bytes b p 32) 32
               (\<lambda>x. fi_finderinfo_update (\<lambda>_. x)) buf s;
        s \<leftarrow> param (has kFPLongNameBit) rd_longname 2 (\<lambda>x. fi_name_update (\<lambda>_. x)) buf s;
        s \<leftarrow> skip (has kFPShortNameBit) 2 s;
        s \<leftarrow> param (has kFPNodeIDBit) rd32 4 (\<lambda>x. fi_fileid_update (\<lambda>_. x)) buf s;
        s \<leftarrow> param (isdir \<and> has kFPOffspringCountBit) rd16 2 (\<lambda>x. fi_offspring_update (\<lambda>_. x)) buf s;
        s \<leftarrow> param (isdir \<and> has kFPOwnerIDBit) rd32 4
               (\<lambda>x. fi_unixprivs_update (up_uid_update (\<lambda>_. x))) buf s;
        s \<leftarrow> param (isdir \<and> has kFPGroupIDBit) rd32 4
               (\<lambda>x. fi_unixprivs_update (up_gid_update (\<lambda>_. x))) buf s;
        s \<leftarrow> param (isdir \<and> has kFPAccessRightsBit) rd32 4
               (\<lambda>x. fi_accessrights_update (\<lambda>_. x)) buf s;
        s \<leftarrow> param (\<not> isdir \<and> has kFPDataForkLenBit) rd32 4 (\<lambda>x. fi_size_update (\<lambda>_. ucast x)) buf s;
        s \<leftarrow> param (\<not> isdir \<and> has kFPRsrcForkLenBit) rd32 4
               (\<lambda>x. fi_resourcesize_update (\<lambda>_. ucast x)) buf s;
        s \<leftarrow> param (\<not> isdir \<and> has kFPExtDataForkLenBit) rd64 8 (\<lambda>x. fi_size_update (\<lambda>_. x)) buf s;
        s \<leftarrow> skip (\<not> isdir \<and> has kFPLaunchLimitBit) 2 s;
        s \<leftarrow> param (has kFPUTF8NameBit) rd_utf8name 6
               (\<lambda>x. fi_name_update (\<lambda>old. case x of None \<Rightarrow> old | Some n \<Rightarrow> n)) buf s;
        s \<leftarrow> param (has kFPExtRsrcForkLenBit) rd64 8 (\<lambda>x. fi_resourcesize_update (\<lambda>_. x)) buf s;
        s \<leftarrow> param (has kFPUnixPrivsBit) rd32 4 (\<lambda>x. fi_unixprivs_update (up_uid_update (\<lambda>_. x))) buf s;
        s \<leftarrow> param (has kFPUnixPrivsBit) rd32 4 (\<lambda>x. fi_unixprivs_update (up_gid_update (\<lambda>_. x))) buf s;
        s \<leftarrow> param (has kFPUnixPrivsBit) rd32 4
               (\<lambda>x. fi_unixprivs_update (up_permissions_update (\<lambda>_. x))) buf s;
        s \<leftarrow> param (has kFPUnixPrivsBit) rd32 4
               (\<lambda>x. fi_unixprivs_update (up_ua_permissions_update (\<lambda>_. x))) buf s;
        Some (snd s)
      })"

subsection \<open>The blocks a server sends\<close>

text \<open>The parameters of \<open>fi\<close> selected by a bitmap, with the offsets of the two names; \<open>w\<close> and \<open>l\<close> are
  the parameters the client ignores (offset of the short name and launch limit).\<close>

definition opt_bytes :: "bool \<Rightarrow> byte list \<Rightarrow> byte list" where
  "opt_bytes c b = (if c then b else [])"

definition block_params ::
  "u16 \<Rightarrow> bool \<Rightarrow> afp_file_info \<Rightarrow> u16 \<Rightarrow> u16 \<Rightarrow> u16 \<Rightarrow> u16 \<Rightarrow> byte list" where
  "block_params bitmap isdir fi offl offu w l =
     (let has = has_bit bitmap in
      opt_bytes (has kFPAttributeBit) (be16 (fi_attributes fi)) @
      opt_bytes (has kFPParentDirIDBit) (be32 (fi_did fi)) @
      opt_bytes (has kFPCreateDateBit) (be32 (ad_date_from_unix (fi_creation_date fi))) @
      opt_bytes (has kFPModDateBit) (be32 (ad_date_from_unix (fi_modification_date fi))) @
      opt_bytes (has kFPBackupDateBit) (be32 (ad_date_from_unix (fi_backup_date fi))) @
      opt_bytes (has kFPFinderInfoBit) (fi_finderinfo fi) @
      opt_bytes (has kFPLongNameBit) (be16 offl) @
      opt_bytes (has kFPShortNameBit) (be16 w) @
      opt_bytes (has kFPNodeIDBit) (be32 (fi_fileid fi)) @
      opt_bytes (isdir \<and> has kFPOffspringCountBit) (be16 (fi_offspring fi)) @
      opt_bytes (isdir \<and> has kFPOwnerIDBit) (be32 (up_uid (fi_unixprivs fi))) @
      opt_bytes (isdir \<and> has kFPGroupIDBit) (be32 (up_gid (fi_unixprivs fi))) @
      opt_bytes (isdir \<and> has kFPAccessRightsBit) (be32 (fi_accessrights fi)) @
      opt_bytes (\<not> isdir \<and> has kFPDataForkLenBit) (be32 (ucast (fi_size fi))) @
      opt_bytes (\<not> isdir \<and> has kFPRsrcForkLenBit) (be32 (ucast (fi_resourcesize fi))) @
      opt_bytes (\<not> isdir \<and> has kFPExtDataForkLenBit) (be64 (fi_size fi)) @
      opt_bytes (\<not> isdir \<and> has kFPLaunchLimitBit) (be16 l) @
      opt_bytes (has kFPUTF8NameBit) (be16 offu @ be32 0) @
      opt_bytes (has kFPExtRsrcForkLenBit) (be64 (fi_resourcesize fi)) @
      opt_bytes (has kFPUnixPrivsBit) (be32 (up_uid (fi_unixprivs fi))) @
      opt_bytes (has kFPUnixPrivsBit) (be32 (up_gid (fi_unixprivs fi))) @
      opt_bytes (has kFPUnixPrivsBit) (be32 (up_permissions (fi_unixprivs fi))) @
      opt_bytes (has kFPUnixPrivsBit) (be32 (up_ua_permissions (fi_unixprivs fi))))"

text \<open>A block: the parameters, then the two names; the offsets count from the start of the block.\<close>

definition params_length :: "u16 \<Rightarrow> bool \<Rightarrow> nat" where
  "params_length bitmap isdir = length (block_params bitmap isdir zero_file_info 0 0 0 0)"

definition name_area :: "string \<Rightarrow> string \<Rightarrow> byte list" where
  "name_area lname uname = (word_of_nat (length lname) # to_bytes lname) @
     be32 0x08000103 @ be16 (word_of_nat (length uname)) @ to_bytes uname"

definition reply_block ::
  "u16 \<Rightarrow> bool \<Rightarrow> afp_file_info \<Rightarrow> string \<Rightarrow> string \<Rightarrow> u16 \<Rightarrow> u16 \<Rightarrow> byte list" where
  "reply_block bitmap isdir fi lname uname w l =
     (let n = params_length bitmap isdir in
      block_params bitmap isdir fi (word_of_nat n) (word_of_nat (n + 1 + length lname)) w l @
      name_area lname uname)"

text \<open>What the client knows of the file after parsing the block: the selected parameters, and zero
  for the others.\<close>

definition selected ::
  "u16 \<Rightarrow> bool \<Rightarrow> afp_file_info \<Rightarrow> string \<Rightarrow> string \<Rightarrow> afp_file_info \<Rightarrow> afp_file_info" where
  "selected bitmap isdir fi lname uname filecur =
     (let has = has_bit bitmap; up = fi_unixprivs fi in
      \<lparr>fi_addr = fi_addr filecur,
       fi_attributes = (if has kFPAttributeBit then fi_attributes fi else 0),
       fi_did = (if has kFPParentDirIDBit then fi_did fi else 0),
       fi_creation_date = (if has kFPCreateDateBit then fi_creation_date fi else 0),
       fi_modification_date = (if has kFPModDateBit then fi_modification_date fi else 0),
       fi_backup_date = (if has kFPBackupDateBit then fi_backup_date fi else 0),
       fi_fileid = (if has kFPNodeIDBit then fi_fileid fi else 0),
       fi_offspring = (if isdir \<and> has kFPOffspringCountBit then fi_offspring fi else 0),
       fi_finderinfo = (if has kFPFinderInfoBit then fi_finderinfo fi else replicate 32 0),
       fi_name = (if has kFPUTF8NameBit \<and> uname \<noteq> [] then uname
         else if has kFPLongNameBit then lname else []),
       fi_basename = [],
       fi_unixprivs = \<lparr>
         up_uid = (if has kFPUnixPrivsBit \<or> isdir \<and> has kFPOwnerIDBit then up_uid up else 0),
         up_gid = (if has kFPUnixPrivsBit \<or> isdir \<and> has kFPGroupIDBit then up_gid up else 0),
         up_permissions = (if has kFPUnixPrivsBit then up_permissions up else 0),
         up_ua_permissions = (if has kFPUnixPrivsBit then up_ua_permissions up else 0)\<rparr>,
       fi_accessrights = (if isdir \<and> has kFPAccessRightsBit then fi_accessrights fi else 0),
       fi_isdir = isdir,
       fi_size = (if \<not> isdir \<and> has kFPExtDataForkLenBit then fi_size fi
         else if \<not> isdir \<and> has kFPDataForkLenBit then ucast (ucast (fi_size fi) :: u32) else 0),
       fi_resourcesize = (if has kFPExtRsrcForkLenBit then fi_resourcesize fi
         else if \<not> isdir \<and> has kFPRsrcForkLenBit then ucast (ucast (fi_resourcesize fi) :: u32)
         else 0),
       fi_resource = 0,
       fi_forkid = 0,
       fi_eof = False\<rparr>)"

subsection \<open>Walking over a block\<close>

text \<open>From position \<open>p\<close> on, \<open>buf\<close> holds \<open>rest\<close>.\<close>

definition holds_at :: "byte list \<Rightarrow> nat \<Rightarrow> byte list \<Rightarrow> bool" where
  "holds_at buf p rest \<longleftrightarrow> p \<le> length buf \<and> drop p buf = rest"

lemma holds_at_split:
  assumes "holds_at buf p (xs @ ys)"
  shows "buf = take p buf @ xs @ ys" "p = length (take p buf)" "holds_at buf (p + length xs) ys"
proof -
  show "buf = take p buf @ xs @ ys"
    using assms by (metis append_take_drop_id holds_at_def)
  show "p = length (take p buf)"
    using assms by (simp add: holds_at_def)
  have "length buf - p = length xs + length ys"
    using assms by (metis holds_at_def length_append length_drop)
  moreover have "drop (p + length xs) buf = drop (length xs) (drop p buf)"
    by (simp add: add.commute)
  ultimately show "holds_at buf (p + length xs) ys"
    using assms by (auto simp: holds_at_def simp del: drop_drop)
qed

context wire_field
begin

lemma rd_holds_at: "holds_at buf p (enc x @ rest) \<Longrightarrow> rd buf p = Some x"
  using holds_at_split(1,2) [of buf p "enc x" rest] rd_enc by metis

lemma param_chain:
  assumes upd: "\<And>s. U (\<lambda>y. y) s = s"
    and at: "holds_at buf p (opt_bytes c (enc x) @ rest)"
    and next_param: "\<And>p'. holds_at buf p' rest \<Longrightarrow> k (p', U (\<lambda>old. if c then g x old else old) s) = r"
  shows "(param c rd width (\<lambda>x. U (g x)) buf (p, s) \<bind> k) = r"
proof (cases c)
  case True
  then have "rd buf p = Some x" "holds_at buf (p + width) rest"
    using at rd_holds_at [of buf p x rest] holds_at_split(3) [of buf p "enc x" rest]
    by (simp_all add: opt_bytes_def enc_width)
  then show ?thesis
    using True next_param by (simp add: param_def)
next
  case False
  then show ?thesis
    using at next_param [of p] by (simp add: param_def opt_bytes_def upd)
qed

end

lemma skip_chain:
  assumes "holds_at buf p (opt_bytes c b @ rest)" "length b = w"
    and "\<And>p'. holds_at buf p' rest \<Longrightarrow> k (p', s) = r"
  shows "(skip c w (p, s) \<bind> k) = r"
  using assms holds_at_split(3) [of buf p b rest] by (cases c) (auto simp: skip_def opt_bytes_def)

text \<open>The same step for a read that is known to succeed.\<close>

lemma read_chain:
  assumes upd: "\<And>s. U (\<lambda>y. y) s = s"
    and at: "holds_at buf p (opt_bytes c b @ rest)" "length b = w"
    and rd: "c \<Longrightarrow> rd buf p = Some x"
    and next_param: "\<And>p'. holds_at buf p' rest \<Longrightarrow> k (p', U (\<lambda>old. if c then g x old else old) s) = r"
  shows "(param c rd w (\<lambda>x. U (g x)) buf (p, s) \<bind> k) = r"
  using at rd next_param [of p] next_param [of "p + w"] holds_at_split(3) [of buf p b rest]
  by (cases c) (auto simp: param_def opt_bytes_def upd)

subsection \<open>The steps of the parser\<close>

text \<open>Storing what was there changes nothing, for each parameter the parser stores.\<close>

lemma update_id:
  "fi_attributes_update (\<lambda>y. y) s = s" "fi_did_update (\<lambda>y. y) s = s"
  "fi_creation_date_update (\<lambda>y. y) s = s" "fi_modification_date_update (\<lambda>y. y) s = s"
  "fi_backup_date_update (\<lambda>y. y) s = s" "fi_fileid_update (\<lambda>y. y) s = s"
  "fi_offspring_update (\<lambda>y. y) s = s" "fi_accessrights_update (\<lambda>y. y) s = s"
  "fi_size_update (\<lambda>y. y) s = s" "fi_resourcesize_update (\<lambda>y. y) s = s"
  "fi_finderinfo_update (\<lambda>y. y) s = s" "fi_name_update (\<lambda>y. y) s = s"
  "fi_unixprivs_update (\<lambda>y. y) s = s"
  by (cases s; simp)+

lemma update_privs_id:
  "fi_unixprivs_update (up_uid_update (\<lambda>y. y)) s = s" "fi_unixprivs_update (up_gid_update (\<lambda>y. y)) s = s"
  "fi_unixprivs_update (up_permissions_update (\<lambda>y. y)) s = s"
  "fi_unixprivs_update (up_ua_permissions_update (\<lambda>y. y)) s = s"
  by (cases s; simp)+

lemmas step_attributes = f16.param_chain [where U = "fi_attributes_update", OF update_id(1)]
lemmas step_did = f32.param_chain [where U = "fi_did_update", OF update_id(2)]
lemmas step_creation_date = f32.param_chain [where U = "fi_creation_date_update", OF update_id(3)]
lemmas step_modification_date = f32.param_chain [where U = "fi_modification_date_update", OF update_id(4)]
lemmas step_backup_date = f32.param_chain [where U = "fi_backup_date_update", OF update_id(5)]
lemmas step_fileid = f32.param_chain [where U = "fi_fileid_update", OF update_id(6)]
lemmas step_offspring = f16.param_chain [where U = "fi_offspring_update", OF update_id(7)]
lemmas step_accessrights = f32.param_chain [where U = "fi_accessrights_update", OF update_id(8)]
lemmas step_size = f32.param_chain [where U = "fi_size_update", OF update_id(9)]
lemmas step_resourcesize = f32.param_chain [where U = "fi_resourcesize_update", OF update_id(10)]
lemmas step_size64 = f64.param_chain [where U = "fi_size_update", OF update_id(9)]
lemmas step_resourcesize64 = f64.param_chain [where U = "fi_resourcesize_update", OF update_id(10)]
lemmas step_uid = f32.param_chain [where U = "\<lambda>g. fi_unixprivs_update (up_uid_update g)", OF update_privs_id(1)]
lemmas step_gid = f32.param_chain [where U = "\<lambda>g. fi_unixprivs_update (up_gid_update g)", OF update_privs_id(2)]
lemmas step_permissions = f32.param_chain [where U = "\<lambda>g. fi_unixprivs_update (up_permissions_update g)", OF update_privs_id(3)]
lemmas step_ua_permissions = f32.param_chain [where U = "\<lambda>g. fi_unixprivs_update (up_ua_permissions_update g)", OF update_privs_id(4)]
lemmas step_finderinfo = read_chain [where U = fi_finderinfo_update, OF update_id(11)]
lemmas step_name = read_chain [where U = fi_name_update, OF update_id(12)]

lemmas steps = step_attributes step_did step_creation_date step_modification_date step_backup_date
  step_fileid step_offspring step_accessrights step_size step_resourcesize step_size64
  step_resourcesize64 step_uid step_gid step_permissions step_ua_permissions

lemma length_opt_bytes: "length b \<le> n \<Longrightarrow> length (opt_bytes c b) \<le> n"
  by (simp add: opt_bytes_def)

lemma params_length_bound:
  "params_length bitmap isdir \<le> 2 + (4 + (4 + (4 + (4 + (32 + (2 + (2 + (4 + (2 + (4 + (4 + (4 + (4 +
     (4 + (8 + (2 + (6 + (8 + (4 + (4 + (4 + 4)))))))))))))))))))))"
  unfolding params_length_def block_params_def Let_def length_append
  by (intro add_mono length_opt_bytes) (simp_all add: zero_file_info_def)

lemma length_if_opt_bytes: "length (opt_bytes c b) = (if c then length b else 0)"
  by (simp add: opt_bytes_def)

lemma length_block_params:
  "length (fi_finderinfo fi) = 32 \<Longrightarrow>
   length (block_params bitmap isdir fi offl offu w l) = params_length bitmap isdir"
  by (simp add: params_length_def block_params_def length_if_opt_bytes zero_file_info_def Let_def
      cong: if_cong)

lemma rd_longname_at:
  assumes "holds_at buf p (be16 (word_of_nat n) @ r)" "n < 65536"
    and "holds_at buf n ((word_of_nat (length s) # to_bytes s) @ r')"
    and "CHR 0x00 \<notin> set s" "length s < 256"
  shows "rd_longname buf p = Some s"
proof -
  have "copy_from_pascal (take n buf @ word_of_nat (length s) # to_bytes s @ r') n 768
      = Some (min 768 (length s), take 768 (to_bytes s) @ replicate (768 - length s) 0)"
    by (rule copy_from_pascal_at) (use holds_at_split(2) [OF assms(3)] assms(5) in simp_all)
  then have "copy_from_pascal buf n 768 = Some (length s, to_bytes s @ replicate (768 - length s) 0)"
    using holds_at_split(1) [OF assms(3)] assms(5) by simp
  then show ?thesis
    using f16.rd_holds_at [OF assms(1)] assms by (simp add: rd_longname_def unat_of_nat c_str_padded)
qed

lemma rd_utf8name_at:
  assumes "holds_at buf p (be16 (word_of_nat n) @ r)" "n < 65536"
    and "holds_at buf n (be32 hint @ be16 (word_of_nat (length s)) @ to_bytes s @ r')"
    and "CHR 0x00 \<notin> set s" "length s \<le> 768"
  shows "rd_utf8name buf p = Some (if s = [] then None else Some s)"
proof -
  note h = holds_at_split(3) [OF assms(3)]
  have "copy_from_pascal_two [] (take (n + 4) buf @ be16 (word_of_nat (length s)) @ to_bytes s @ r')
      (n + 4) 768 = Some (min 768 (length s), if min 768 (length s) = 0 then []
        else take 768 (to_bytes s) @ replicate (768 - length s) 0)"
    by (rule copy_from_pascal_two_at) (use holds_at_split(2) [OF h] assms(5) in simp_all)
  then have "copy_from_pascal_two [] buf (n + 4) 768 = Some (length s, if s = [] then []
      else to_bytes s @ replicate (768 - length s) 0)"
    using holds_at_split(1) [OF h] assms(5) by (simp add: min_def)
  then show ?thesis
    using f16.rd_holds_at [OF assms(1)] assms by (simp add: rd_utf8name_def unat_of_nat c_str_padded)
qed

lemma parse_reply_block_reply_block:
  assumes finder: "length (fi_finderinfo fi) = 32"
    and lname: "CHR 0x00 \<notin> set lname" "length lname < 256"
    and uname: "CHR 0x00 \<notin> set uname" "length uname \<le> 768"
    and bitmap: "(if isdir then dirbitmap else filebitmap) = bitmap"
  shows "parse_reply_block (reply_block bitmap isdir fi lname uname w l @ rest)
      isdir filebitmap dirbitmap filecur = Some (selected bitmap isdir fi lname uname filecur)"
    (is "parse_reply_block ?buf _ _ _ _ = _")
proof -
  let ?n = "params_length bitmap isdir"
  let ?params = "block_params bitmap isdir fi (word_of_nat ?n) (word_of_nat (?n + 1 + length lname)) w l"
  have n: "?n < 65536" "?n + 1 + length lname < 65536"
    using params_length_bound [of bitmap isdir] lname by simp_all
  have buf: "?buf = ?params @ name_area lname uname @ rest"
    by (simp add: reply_block_def Let_def)
  have at0: "holds_at ?buf 0 (?params @ name_area lname uname @ rest)"
    using buf by (simp add: holds_at_def)
  have "holds_at ?buf ?n ((word_of_nat (length lname) # to_bytes lname) @
      be32 0x08000103 @ be16 (word_of_nat (length uname)) @ to_bytes uname @ rest)"
    using holds_at_split(3) [OF at0] length_block_params [OF finder] by (simp add: name_area_def)
  note names = this holds_at_split(3) [OF this]
  have l: "rd_longname ?buf p = Some lname" if "holds_at ?buf p (be16 (word_of_nat ?n) @ r)" for p r
    by (rule rd_longname_at [OF that n(1) names(1) lname])
  have u: "rd_utf8name ?buf p = Some (if uname = [] then None else Some uname)"
    if "holds_at ?buf p (be16 (word_of_nat (?n + 1 + length lname)) @ r)" for p r
    by (rule rd_utf8name_at [OF that n(2) _ uname]) (use names(2) in \<open>simp add: add.assoc\<close>)
  have f: "rd_bytes ?buf p 32 = Some (fi_finderinfo fi)" if "holds_at ?buf p (fi_finderinfo fi @ r)" for p r
    using holds_at_split(1,2) [OF that] rd_bytes_at finder by metis
  show ?thesis
    using at0 unfolding parse_reply_block_def bitmap block_params_def Let_def append_assoc bind.simps
    apply -
    apply (rule steps, assumption)+
    apply (rule step_finderinfo, assumption, simp add: finder, simp add: opt_bytes_def f)
    apply (rule step_name, assumption, simp, simp add: opt_bytes_def l)
    apply (rule skip_chain, assumption, simp)
    apply (rule steps, assumption)+
    apply (rule skip_chain, assumption, simp)
    apply (rule step_name, assumption, simp, simp add: opt_bytes_def u)
    apply (rule steps, assumption)+
    apply (simp (no_asm) add: selected_def zero_file_info_def zero_unixprivs_def Let_def)
    apply blast
    done
qed

subsection \<open>Main results\<close>

text \<open>(C22) Whatever parameters a bitmap selects, \<open>parse_reply_block\<close> recovers from the block a server
  sends exactly these parameters, both names included, and leaves the others at zero; what follows the
  block in the buffer does not matter. Names must be free of NUL, and at most 255 (long name) and 768
  (UTF-8) bytes long.\<close>

theorem parse_reply_block_correct:
  assumes "length (fi_finderinfo fi) = 32"
    and "CHR 0x00 \<notin> set lname" and "length lname < 256"
    and "CHR 0x00 \<notin> set uname" and "length uname \<le> 768"
  shows "parse_reply_block
      (reply_block (if isdir then dirbitmap else filebitmap) isdir fi lname uname w l @ rest)
      isdir filebitmap dirbitmap filecur =
    Some (selected (if isdir then dirbitmap else filebitmap) isdir fi lname uname filecur)"
  by (rule parse_reply_block_reply_block) (use assms in auto)

theorem parse_reply_block_correct_witness:
  "\<exists>blk. parse_reply_block (blk @ []) True 0 0x2103 zero_file_info =
    Some (zero_file_info\<lparr>fi_isdir := True, fi_attributes := 5, fi_did := 2, fi_fileid := 17,
      fi_name := ''dir''\<rparr>)"
  using parse_reply_block_correct [of "zero_file_info\<lparr>fi_attributes := 5, fi_did := 2, fi_fileid := 17\<rparr>"
      "''d''" "''dir''" True "0x2103" 0 0 0 "[]" zero_file_info]
  by (intro exI [of _ "reply_block 0x2103 True
        (zero_file_info\<lparr>fi_attributes := 5, fi_did := 2, fi_fileid := 17\<rparr>) ''d'' ''dir'' 0 0"])
     (simp add: selected_def has_bit_def zero_file_info_def zero_unixprivs_def)

end
