(* ===== verification/Proto_Replies.thy ===== *)
theory Proto_Replies
  imports Reply_Block Unicode_Conv
begin

text \<open>
  The handlers of replies, \<open>afp_*_reply\<close> in \<open>lib/proto_*.c\<close>, and their dispatch in \<open>afp_reply\<close>
  (\<open>lib/afp.c\<close>). A handler gets the whole incoming buffer \<open>buf\<close>, whose first 16 bytes are the DSI
  header, the number \<open>sz\<close> (\<open>size\<close> in the sources) of bytes received, and the place \<open>other\<close> where the caller wants the
  result. It returns its return value and the new contents of that place; \<open>None\<close> is an access outside
  of a buffer, or a place of the wrong type.
\<close>

subsection \<open>The header of a reply\<close>

text \<open>The error code as the handlers see it: they compare the field without swapping its bytes.\<close>

definition raw_error_code :: "byte list \<Rightarrow> int option" where
  "raw_error_code buf = map_option sint (rd32le buf 4)"

definition afp_blank_reply :: "byte list \<Rightarrow> int option" where
  "afp_blank_reply buf = raw_error_code buf"

subsection \<open>Files (\<open>proto_files.c\<close>)\<close>

text \<open>\<open>afp_read_reply\<close> and \<open>afp_readext_reply\<close>, which have the same body.\<close>

definition afp_read_reply :: "afp_server \<Rightarrow> byte list \<Rightarrow> nat \<Rightarrow> afp_rx_buffer \<Rightarrow> (int \<times> afp_rx_buffer) option" where
  "afp_read_reply server buf sz rx = do {
     let n = min (sz - 16) (unat (srv_rx_quantum server));
     d \<leftarrow> rd_bytes buf 16 n;
     data \<leftarrow> wr_bytes (rx_data rx) 0 d;
     e \<leftarrow> rd32 buf 4;
     Some (0, rx\<lparr>rx_data := data, rx_size := n, rx_errorcode := sint e\<rparr>)
   }"

definition afp_getfiledirparms_reply ::
  "byte list \<Rightarrow> nat \<Rightarrow> afp_file_info \<Rightarrow> (int \<times> afp_file_info) option" where
  "afp_getfiledirparms_reply buf sz filecur = do {
     e \<leftarrow> raw_error_code buf;
     if e \<noteq> 0 then Some (e, filecur)
     else if sz < 22 then Some (- 1, filecur)
     else do {
       filebitmap \<leftarrow> rd16 buf 16;
       dirbitmap \<leftarrow> rd16 buf 18;
       isdir \<leftarrow> rd8 buf 20;
       fi \<leftarrow> parse_reply_block (drop 22 buf) (isdir \<noteq> 0) filebitmap dirbitmap filecur;
       Some (0, fi\<lparr>fi_isdir := (isdir \<noteq> 0)\<rparr>)
     }
   }"

text \<open>\<open>written\<close> is read as a 64-bit field; \<open>ntohl\<close> of it keeps the first four bytes.\<close>

definition afp_write_reply :: "byte list \<Rightarrow> nat \<Rightarrow> (int \<times> u32) option" where
  "afp_write_reply buf sz =
     (if sz < 24 then Some (0, 0) else map_option (Pair 0) (rd32 buf 16))"

definition afp_writeext_reply :: "byte list \<Rightarrow> nat \<Rightarrow> (int \<times> u64) option" where
  "afp_writeext_reply buf sz =
     (if sz < 24 then Some (0, 0) else map_option (Pair 0) (rd64 buf 16))"

subsection \<open>Directories (\<open>proto_directory.c\<close>)\<close>

text \<open>The handler clears the first two bytes of the directory identifier only.\<close>

definition afp_createdir_reply :: "byte list \<Rightarrow> nat \<Rightarrow> u32 \<Rightarrow> (int \<times> u32) option" where
  "afp_createdir_reply buf sz did = do {
     let did = did AND 0xFFFF0000;
     e \<leftarrow> raw_error_code buf;
     if e \<noteq> 0 then Some (e, did)
     else if sz < 20 then Some (- 1, did)
     else Some (0, did)
   }"

text \<open>The size of \<open>struct afp_file_info\<close>, allocated for every entry.\<close>

abbreviation (input) sizeof_afp_file_info :: nat where "sizeof_afp_file_info \<equiv> 2448"

text \<open>The loop over the entries with the pointer at \<open>p\<close>. \<open>Some None\<close> is an early return with -1, which
  leaves the place of the result alone.\<close>

fun enumerate_entries ::
  "(nat \<Rightarrow> bool) \<Rightarrow> byte list \<Rightarrow> nat \<Rightarrow> u16 \<Rightarrow> u16 \<Rightarrow> nat \<Rightarrow> nat \<Rightarrow> afp_file_info list option option" where
  "enumerate_entries malloc buf sz filebitmap dirbitmap 0 p = Some (Some [])"
| "enumerate_entries malloc buf sz filebitmap dirbitmap (Suc n) p =
     (if sz < p then Some None
      else if \<not> malloc sizeof_afp_file_info then Some None
      else do {
        isdir \<leftarrow> rd8 buf (p + 1);
        fi \<leftarrow> parse_reply_block (drop (p + 2) buf) (isdir \<noteq> 0) filebitmap dirbitmap zero_file_info;
        entry_size \<leftarrow> rd8 buf p;
        rest \<leftarrow> enumerate_entries malloc buf sz filebitmap dirbitmap n (p + unat entry_size);
        Some (map_option ((#) fi) rest)
      })"

definition afp_enumerate_reply ::
  "(nat \<Rightarrow> bool) \<Rightarrow> byte list \<Rightarrow> nat \<Rightarrow> afp_file_info list \<Rightarrow> (int \<times> afp_file_info list) option" where
  "afp_enumerate_reply malloc buf sz files = do {
     e \<leftarrow> raw_error_code buf;
     if e \<noteq> 0 then Some (e, files)
     else if sz < 22 then Some (- 1, files)
     else do {
       filebitmap \<leftarrow> rd16 buf 16;
       dirbitmap \<leftarrow> rd16 buf 18;
       reqcount \<leftarrow> rd16 buf 20;
       r \<leftarrow> enumerate_entries malloc buf sz filebitmap dirbitmap (unat reqcount) 22;
       Some (case r of None \<Rightarrow> (- 1, files) | Some filebase \<Rightarrow> (0, filebase))
     }
   }"

fun enumerateext2_entries ::
  "(nat \<Rightarrow> bool) \<Rightarrow> byte list \<Rightarrow> u16 \<Rightarrow> u16 \<Rightarrow> nat \<Rightarrow> nat \<Rightarrow> afp_file_info list option option" where
  "enumerateext2_entries malloc buf filebitmap dirbitmap 0 p = Some (Some [])"
| "enumerateext2_entries malloc buf filebitmap dirbitmap (Suc n) p =
     (if \<not> malloc sizeof_afp_file_info then Some None
      else do {
        isdir \<leftarrow> rd8 buf (p + 2);
        fi \<leftarrow> parse_reply_block (drop (p + 4) buf) (isdir \<noteq> 0) filebitmap dirbitmap zero_file_info;
        entry_size \<leftarrow> rd16 buf p;
        rest \<leftarrow> enumerateext2_entries malloc buf filebitmap dirbitmap n (p + unat entry_size);
        Some (map_option ((#) fi) rest)
      })"

definition afp_enumerateext2_reply ::
  "(nat \<Rightarrow> bool) \<Rightarrow> byte list \<Rightarrow> nat \<Rightarrow> afp_file_info list \<Rightarrow> (int \<times> afp_file_info list) option" where
  "afp_enumerateext2_reply malloc buf sz files = do {
     e \<leftarrow> raw_error_code buf;
     if e \<noteq> 0 then Some (e, files)
     else if sz < 22 then Some (- 1, files)
     else do {
       filebitmap \<leftarrow> rd16 buf 16;
       dirbitmap \<leftarrow> rd16 buf 18;
       reqcount \<leftarrow> rd16 buf 20;
       r \<leftarrow> enumerateext2_entries malloc buf filebitmap dirbitmap (unat reqcount) 22;
       Some (case r of None \<Rightarrow> (- 1, files) | Some filebase \<Rightarrow> (0, filebase))
     }
   }"

subsection \<open>Forks (\<open>proto_fork.c\<close>)\<close>

definition afp_openfork_reply :: "byte list \<Rightarrow> nat \<Rightarrow> afp_file_info \<Rightarrow> (int \<times> afp_file_info) option" where
  "afp_openfork_reply buf sz fp = do {
     e \<leftarrow> raw_error_code buf;
     if e = kFPNoErr \<or> e = kFPDenyConflict then
       (if sz < 20 then Some (- 1, fp)
        else do {forkid \<leftarrow> rd16 buf 18; Some (0, fp\<lparr>fi_forkid := forkid\<rparr>)})
     else Some (0, fp)
   }"

definition afp_byterangelock_reply :: "byte list \<Rightarrow> nat \<Rightarrow> (int \<times> u32) option" where
  "afp_byterangelock_reply buf sz = do {
     off \<leftarrow> (if 24 \<le> sz then rd32 buf 16 else Some 0);
     e \<leftarrow> raw_error_code buf;
     Some (e, off)
   }"

definition afp_byterangelockext_reply :: "byte list \<Rightarrow> nat \<Rightarrow> (int \<times> u64) option" where
  "afp_byterangelockext_reply buf sz = do {
     off \<leftarrow> (if 24 \<le> sz then rd64 buf 16 else Some 0);
     e \<leftarrow> raw_error_code buf;
     Some (e, off)
   }"

subsection \<open>Volumes (\<open>proto_volume.c\<close>)\<close>

text \<open>The one check of the size in \<open>parse_volbitmap_reply\<close> compares the start of the buffer with its
  end and never fires. The list \<open>msg\<close> is the memory from the first parameter on.\<close>

definition parse_volbitmap_reply :: "afp_volume \<Rightarrow> u16 \<Rightarrow> byte list \<Rightarrow> afp_volume option" where
  "parse_volbitmap_reply tmpvol bitmap msg =
     (let has = has_bit bitmap in
      do {
        s \<leftarrow> Some (0, tmpvol);
        s \<leftarrow> param (has kFPVolAttributeBit) rd16 2 (\<lambda>x. vol_attributes_update (\<lambda>_. x)) msg s;
        s \<leftarrow> param (has kFPVolSignatureBit) rd16 2 (\<lambda>x. vol_signature_update (\<lambda>_. x)) msg s;
        s \<leftarrow> param (has kFPVolCreateDateBit) rd32 4
               (\<lambda>x. vol_creation_date_update (\<lambda>_. ad_date_to_unix x)) msg s;
        s \<leftarrow> param (has kFPVolModDateBit) rd32 4
               (\<lambda>x. vol_modification_date_update (\<lambda>_. ad_date_to_unix x)) msg s;
        s \<leftarrow> param (has kFPVolBackupDateBit) rd32 4
               (\<lambda>x. vol_backup_date_update (\<lambda>_. ad_date_to_unix x)) msg s;
        s \<leftarrow> param (has kFPVolIDBit) rd16 2 (\<lambda>x. vol_volid_update (\<lambda>_. x)) msg s;
        s \<leftarrow> param (has kFPVolBytesFreeBit) rd32 4
               (\<lambda>x. vol_stat_update (f_bfree_update (\<lambda>_. ucast x))) msg s;
        s \<leftarrow> param (has kFPVolBytesTotalBit) rd32 4
               (\<lambda>x. vol_stat_update (f_blocks_update (\<lambda>_. ucast x))) msg s;
        s \<leftarrow> param (has kFPVolNameBit) rd16 2 (\<lambda>x v. v) msg s;
        s \<leftarrow> param (has kFPVolExtBytesFreeBit) rd64 8
               (\<lambda>x. vol_stat_update (f_bfree_update (\<lambda>_. x))) msg s;
        s \<leftarrow> param (has kFPVolExtBytesTotalBit) rd64 8
               (\<lambda>x. vol_stat_update (f_blocks_update (\<lambda>_. x))) msg s;
        s \<leftarrow> param (has kFPVolBlockSizeBit) rd32 4
               (\<lambda>x. vol_stat_update (f_bsize_update (\<lambda>_. ucast x))) msg s;
        Some (snd s)
      })"

definition afp_volopen_reply :: "byte list \<Rightarrow> nat \<Rightarrow> afp_volume \<Rightarrow> (int \<times> afp_volume) option" where
  "afp_volopen_reply buf sz volume =
     (if sz < 18 then Some (- 1, volume)
      else do {
        bitmap \<leftarrow> rd16 buf 16;
        v \<leftarrow> parse_volbitmap_reply volume bitmap (drop 18 buf);
        if vol_attributes v AND kSupportsUTF8Names \<noteq> 0 then do {
          d \<leftarrow> convert_utf8dec_to_utf8pre (to_bytes (vol_volume_name v)) AFP_VOLUME_NAME_UTF8_LEN;
          Some (0, v\<lparr>vol_volume_name_printable := of_bytes d\<rparr>)
        }
        else Some (0, v\<lparr>vol_volume_name_printable := vol_volume_name v\<rparr>)
      })"

definition afp_getvolparms_reply :: "byte list \<Rightarrow> nat \<Rightarrow> afp_volume \<Rightarrow> (int \<times> afp_volume) option" where
  "afp_getvolparms_reply buf sz volume =
     (if sz < 18 then Some (- 1, volume)
      else do {
        bitmap \<leftarrow> rd16 buf 16;
        v \<leftarrow> parse_volbitmap_reply volume bitmap (drop 18 buf);
        Some (0, v)
      })"

subsection \<open>Desktop database and extended attributes (\<open>proto_desktop.c\<close>, \<open>proto_attr.c\<close>)\<close>

text \<open>The data of an icon or a comment has room for \<open>blob_maxsize\<close> bytes, that of extended attributes
  for 1024.\<close>

definition afp_geticon_reply :: "byte list \<Rightarrow> nat \<Rightarrow> afp_blob \<Rightarrow> (int \<times> afp_blob) option" where
  "afp_geticon_reply buf sz icon =
     (let len = sz - 16 in
      if sz < 16 + blob_maxsize icon then Some (- 1, icon)
      else if blob_maxsize icon < len then None
      else do {d \<leftarrow> rd_bytes buf 16 len; Some (0, icon\<lparr>blob_size := len, blob_data := d\<rparr>)})"

definition afp_getcomment_reply :: "byte list \<Rightarrow> nat \<Rightarrow> afp_blob \<Rightarrow> (int \<times> afp_blob) option" where
  "afp_getcomment_reply buf sz comment =
     (if sz < 16 then Some (- 1, comment)
      else do {
        commentlen \<leftarrow> rd8 buf 16;
        let avail = (if sz < 17 then 2 ^ 64 - 1 else sz - 17);
        let len = min (min avail (blob_maxsize comment)) (unat commentlen);
        d \<leftarrow> rd_bytes buf 17 len;
        Some (0, comment\<lparr>blob_size := len, blob_data := d\<rparr>)
      })"

definition afp_opendt_reply :: "byte list \<Rightarrow> nat \<Rightarrow> u16 \<Rightarrow> (int \<times> u16) option" where
  "afp_opendt_reply buf sz refnum =
     (if sz < 18 then Some (- 1, refnum) else map_option (Pair 0) (rd16 buf 16))"

definition afp_listextattrs_reply :: "byte list \<Rightarrow> nat \<Rightarrow> afp_blob \<Rightarrow> (int \<times> afp_blob) option" where
  "afp_listextattrs_reply buf sz i = do {
     datalength \<leftarrow> rd32 buf 18;
     let len = min (blob_maxsize i) (unat datalength);
     if 1024 < len then None
     else do {d \<leftarrow> rd_bytes buf 22 len; Some (0, i\<lparr>blob_size := len, blob_data := d\<rparr>)}
   }"

subsection \<open>Users (\<open>proto_map.c\<close>)\<close>

definition afp_getuserinfo_reply :: "byte list \<Rightarrow> nat \<Rightarrow> (int \<times> u32 \<times> u32) option" where
  "afp_getuserinfo_reply buf sz =
     (if sz < 16 then Some (- 1, 0, 0)
      else do {
        bitmap \<leftarrow> rd16 buf 16;
        e \<leftarrow> raw_error_code buf;
        if e \<noteq> kFPNoErr then Some (- 1, 0, 0)
        else if bitmap AND kFPGetUserInfo_USER_ID \<noteq> 0 then do {
          uid \<leftarrow> rd32 buf 18;
          gid \<leftarrow> (if bitmap AND kFPGetUserInfo_PRI_GROUPID \<noteq> 0 then rd32 buf 22 else Some 0);
          Some (0, uid, gid)
        }
        else do {
          gid \<leftarrow> (if bitmap AND kFPGetUserInfo_PRI_GROUPID \<noteq> 0 then rd32 buf 18 else Some 0);
          Some (0, 0, gid)
        }
      })"

definition afp_mapid_reply :: "byte list \<Rightarrow> nat \<Rightarrow> string \<Rightarrow> (int \<times> string) option" where
  "afp_mapid_reply buf sz name =
     (if sz < 16 then Some (- 1, name)
      else do {
        e \<leftarrow> raw_error_code buf;
        if e \<noteq> kFPNoErr then Some (- 1, name)
        else do {
          (len, d) \<leftarrow> copy_from_pascal_two [] buf 16 255;
          Some (0, if len = 0 then name else c_str d)
        }
      })"

definition afp_mapname_reply :: "byte list \<Rightarrow> nat \<Rightarrow> u32 \<Rightarrow> (int \<times> u32) option" where
  "afp_mapname_reply buf sz uid =
     (if sz < 16 then Some (- 1, uid) else map_option (Pair 0) (rd32 buf 16))"

subsection \<open>Login, server and session (\<open>proto_login.c\<close>, \<open>proto_server.c\<close>, \<open>proto_session.c\<close>)\<close>

text \<open>\<open>afp_login_reply\<close> and \<open>afp_changepassword_reply\<close>, which have the same body.\<close>

definition afp_login_reply :: "byte list \<Rightarrow> nat \<Rightarrow> afp_rx_buffer option \<Rightarrow> (int \<times> afp_rx_buffer option) option" where
  "afp_login_reply buf sz rx = (case rx of
     None \<Rightarrow> Some (0, None)
   | Some r \<Rightarrow>
       (let n = sz - 16 in
        if 0 < n then do {
          d \<leftarrow> rd_bytes buf 16 (min n (rx_maxsize r));
          data \<leftarrow> wr_bytes (rx_data r) 0 d;
          Some (0, Some (r\<lparr>rx_data := data\<rparr>))
        }
        else Some (0, rx)))"

text \<open>The loop over the volumes of \<open>afp_getsrvrparms_reply\<close>, with the pointer at \<open>p\<close>.\<close>

fun srvrparms_volumes :: "afp_server \<Rightarrow> byte list \<Rightarrow> nat \<Rightarrow> nat \<Rightarrow> afp_volume list option" where
  "srvrparms_volumes server msg 0 p = Some []"
| "srvrparms_volumes server msg (Suc n) p = do {
     flags \<leftarrow> rd8 msg p;
     (len, d) \<leftarrow> copy_from_pascal msg (p + 1) AFP_VOLUME_NAME_LEN;
     let name = c_str d;
     printable \<leftarrow> (if version_number server < 30 then Some name
       else map_option of_bytes (convert_utf8dec_to_utf8pre (to_bytes name) AFP_VOLUME_NAME_UTF8_LEN));
     rest \<leftarrow> srvrparms_volumes server msg n (p + 1 + (len + 1));
     Some (zero_volume\<lparr>vol_flags := flags, vol_volume_name := name,
       vol_volume_name_printable := printable\<rparr> # rest)
   }"

definition afp_getsrvrparms_reply :: "afp_server \<Rightarrow> byte list \<Rightarrow> nat \<Rightarrow> (int \<times> afp_server) option" where
  "afp_getsrvrparms_reply server msg sz =
     (if sz < 21 then Some (- 1, server)
      else do {
        time \<leftarrow> rd32 msg 16;
        numvolumes \<leftarrow> rd8 msg 20;
        vols \<leftarrow> srvrparms_volumes server msg (unat numvolumes) 21;
        Some (0, server\<lparr>srv_connect_time := unat (ad_date_to_unix time), srv_volumes := vols\<rparr>)
      })"

definition afp_getsrvrmsg_reply :: "byte list \<Rightarrow> nat \<Rightarrow> string \<Rightarrow> (int \<times> string) option" where
  "afp_getsrvrmsg_reply buf sz mesg =
     (if sz < 20 then Some (- 1, mesg)
      else do {
        messagebitmap \<leftarrow> rd16 buf 18;
        if messagebitmap AND AFP_GETSRVRMSG_UTF8 \<noteq> 0 then do {
          (len, d) \<leftarrow> copy_from_pascal_two [] buf 20 200;
          Some (0, if len = 0 then mesg else c_str d)
        }
        else do {
          (_, d) \<leftarrow> copy_from_pascal buf 20 200;
          Some (0, c_str d)
        }
      })"

text \<open>The token is an argument that may be a null pointer. Its length is compared with the length
  field of the header, from which the size of a header is taken off although the field does not
  count it.\<close>

definition afp_getsessiontoken_reply :: "byte list \<Rightarrow> afp_token option \<Rightarrow> (int \<times> afp_token option) option" where
  "afp_getsessiontoken_reply buf token = do {
     hlen \<leftarrow> rd32 buf 8;
     if unat hlen \<le> 16 then Some (0, map_option (\<lambda>t. t\<lparr>tok_length := 0\<rparr>) token)
     else do {
       token_len \<leftarrow> rd32 buf 16;
       if AFP_TOKEN_MAX_LEN < unat token_len \<or> unat hlen - 16 < unat token_len then Some (- 1, token)
       else (case token of
           None \<Rightarrow> Some (0, None)
         | Some t \<Rightarrow> do {
             d \<leftarrow> rd_bytes buf 20 (unat token_len);
             data \<leftarrow> wr_bytes (tok_data t) 0 d;
             Some (0, Some (t\<lparr>tok_data := data, tok_length := token_len\<rparr>))
           })
     }
   }"

subsection \<open>Dispatch\<close>

text \<open>The subcommands for which \<open>afp_replies\<close> has \<open>afp_blank_reply\<close>.\<close>

definition blank_subcommands :: "byte list" where
  "blank_subcommands = [afpCloseVol, afpCloseFork, afpCreateFile, afpDelete, afpFlush, afpFlushFork,
     afpLogout, afpMoveAndRename, afpRename, afpSetDirParms, afpSetFileParms, afpSetForkParms,
     afpSetFileDirParms, afpCloseDT, afpAddComment, afpDisconnectOldSession, 76, 78, 79]"

definition store_reply :: "afp_server \<Rightarrow> ('a \<Rightarrow> other) \<Rightarrow> (int \<times> 'a) option \<Rightarrow> (int \<times> afp_server \<times> other) option" where
  "store_reply server wrap r = map_option (\<lambda>(rc, x). (rc, server, wrap x)) r"

text \<open>\<open>afp_reply\<close>: the entry of the table \<open>afp_replies\<close> for the subcommand is called on the incoming
  buffer; a subcommand without an entry is reported and returns 0.\<close>

definition afp_reply ::
  "(nat \<Rightarrow> bool) \<Rightarrow> byte \<Rightarrow> afp_server \<Rightarrow> other \<Rightarrow> (int \<times> afp_server \<times> other) option" where
  "afp_reply malloc subcommand server other =
     (let buf = srv_incoming_buffer server; sz = srv_data_read server in
      if sz < 16 then Some (- 1, server, other)
      else if subcommand \<in> set blank_subcommands
        then map_option (\<lambda>rc. (rc, server, other)) (afp_blank_reply buf)
      else if subcommand = afpGetSrvrParms
        then map_option (\<lambda>(rc, s). (rc, s, other)) (afp_getsrvrparms_reply server buf sz)
      else if subcommand \<in> {afpByteRangeLock, afpWrite} then (case other of
          Out32 x \<Rightarrow> store_reply server Out32 (if subcommand = afpWrite then afp_write_reply buf sz
            else afp_byterangelock_reply buf sz) | _ \<Rightarrow> None)
      else if subcommand \<in> {afpByteRangeLockExt, afpWriteExt} then (case other of
          Out64 x \<Rightarrow> store_reply server Out64 (if subcommand = afpWriteExt then afp_writeext_reply buf sz
            else afp_byterangelockext_reply buf sz) | _ \<Rightarrow> None)
      else if subcommand = afpCreateDir then (case other of
          Out32 x \<Rightarrow> store_reply server Out32 (afp_createdir_reply buf sz x) | _ \<Rightarrow> None)
      else if subcommand = afpEnumerate then (case other of
          File_List x \<Rightarrow> store_reply server File_List (afp_enumerate_reply malloc buf sz x) | _ \<Rightarrow> None)
      else if subcommand = afpEnumerateExt2 then (case other of
          File_List x \<Rightarrow> store_reply server File_List (afp_enumerateext2_reply malloc buf sz x) | _ \<Rightarrow> None)
      else if subcommand = afpGetVolParms then (case other of
          Volume x \<Rightarrow> store_reply server Volume (afp_getvolparms_reply buf sz x)
        | No_Other \<Rightarrow> Some (- 1, server, other) | _ \<Rightarrow> None)
      else if subcommand = afpOpenVol then (case other of
          Volume x \<Rightarrow> store_reply server Volume (afp_volopen_reply buf sz x) | _ \<Rightarrow> None)
      else if subcommand \<in> {afpLogin, afpLoginCont, afpChangePassword} then (case other of
          Rx_Buffer x \<Rightarrow> store_reply server (case_option other Rx_Buffer) (afp_login_reply buf sz (Some x))
        | No_Other \<Rightarrow> Some (0, server, other) | _ \<Rightarrow> None)
      else if subcommand = afpMapID then (case other of
          Text x \<Rightarrow> store_reply server Text (afp_mapid_reply buf sz x) | _ \<Rightarrow> None)
      else if subcommand = afpMapName then (case other of
          Out32 x \<Rightarrow> store_reply server Out32 (afp_mapname_reply buf sz x) | _ \<Rightarrow> None)
      else if subcommand = afpOpenFork then (case other of
          File_Info x \<Rightarrow> store_reply server File_Info (afp_openfork_reply buf sz x) | _ \<Rightarrow> None)
      else if subcommand \<in> {afpRead, afpReadExt} then (case other of
          Rx_Buffer x \<Rightarrow> store_reply server Rx_Buffer (afp_read_reply server buf sz x) | _ \<Rightarrow> None)
      else if subcommand = afpGetFileDirParms then (case other of
          File_Info x \<Rightarrow> store_reply server File_Info (afp_getfiledirparms_reply buf sz x) | _ \<Rightarrow> None)
      else if subcommand = afpGetUserInfo then (case other of
          User_Info u g \<Rightarrow> store_reply server (case_prod User_Info) (afp_getuserinfo_reply buf sz) | _ \<Rightarrow> None)
      else if subcommand = afpGetSrvrMsg then (case other of
          Text x \<Rightarrow> store_reply server Text (afp_getsrvrmsg_reply buf sz x) | _ \<Rightarrow> None)
      else if subcommand = afpOpenDT then (case other of
          Out16 x \<Rightarrow> store_reply server Out16 (afp_opendt_reply buf sz x) | _ \<Rightarrow> None)
      else if subcommand = afpGetIcon then (case other of
          Blob x \<Rightarrow> store_reply server Blob (afp_geticon_reply buf sz x) | _ \<Rightarrow> None)
      else if subcommand = afpGetComment then (case other of
          Blob x \<Rightarrow> store_reply server Blob (afp_getcomment_reply buf sz x) | _ \<Rightarrow> None)
      else if subcommand = afpGetSessionToken then (case other of
          Token x \<Rightarrow> store_reply server (case_option other Token) (afp_getsessiontoken_reply buf (Some x))
        | No_Other \<Rightarrow> store_reply server (\<lambda>_. No_Other) (afp_getsessiontoken_reply buf None) | _ \<Rightarrow> None)
      else if subcommand = afpListExtAttrs then (case other of
          Blob x \<Rightarrow> store_reply server Blob (afp_listextattrs_reply buf sz x) | _ \<Rightarrow> None)
      else Some (0, server, other))"

subsection \<open>Replies a server sends to an enumeration\<close>

text \<open>An entry of a directory: whether it is a directory, its parameters, its two names, and the two
  parameters that clients ignore.\<close>

type_synonym dir_entry = "bool \<times> afp_file_info \<times> string \<times> string \<times> u16 \<times> u16"

definition entry_block :: "u16 \<Rightarrow> u16 \<Rightarrow> dir_entry \<Rightarrow> byte list" where
  "entry_block filebitmap dirbitmap = (\<lambda>(isdir, fi, lname, uname, w, l).
     reply_block (if isdir then dirbitmap else filebitmap) isdir fi lname uname w l)"

definition ext2_entry :: "u16 \<Rightarrow> u16 \<Rightarrow> dir_entry \<Rightarrow> byte list" where
  "ext2_entry filebitmap dirbitmap x =
     be16 (word_of_nat (4 + length (entry_block filebitmap dirbitmap x))) @
     [if fst x then 0x80 else 0, 0] @ entry_block filebitmap dirbitmap x"

definition entry_info :: "u16 \<Rightarrow> u16 \<Rightarrow> dir_entry \<Rightarrow> afp_file_info" where
  "entry_info filebitmap dirbitmap = (\<lambda>(isdir, fi, lname, uname, w, l).
     selected (if isdir then dirbitmap else filebitmap) isdir fi lname uname zero_file_info)"

definition entry_ok :: "dir_entry \<Rightarrow> bool" where
  "entry_ok = (\<lambda>(isdir, fi, lname, uname, w, l). length (fi_finderinfo fi) = 32 \<and>
     CHR 0x00 \<notin> set lname \<and> length lname < 256 \<and> CHR 0x00 \<notin> set uname \<and> length uname \<le> 768)"

text \<open>A successful reply: a header of 16 bytes whose error code is zero, bitmaps, count, entries.\<close>

definition ext2_reply :: "byte list \<Rightarrow> u16 \<Rightarrow> u16 \<Rightarrow> dir_entry list \<Rightarrow> byte list" where
  "ext2_reply header filebitmap dirbitmap es =
     header @ be16 filebitmap @ be16 dirbitmap @ be16 (word_of_nat (length es)) @
     concat (map (ext2_entry filebitmap dirbitmap) es)"

definition success_header :: "byte list \<Rightarrow> bool" where
  "success_header header \<longleftrightarrow> length header = 16 \<and> rd32le header 4 = Some 0"

lemma length_reply_block:
  assumes "length (fi_finderinfo fi) = 32"
  shows "length (reply_block bitmap isdir fi lname uname w l) =
    params_length bitmap isdir + (length lname + length uname + 7)"
  using length_block_params [OF assms] by (simp add: reply_block_def name_area_def Let_def)

lemma length_entry_block: "entry_ok x \<Longrightarrow> length (entry_block filebitmap dirbitmap x) < 4096"
  using params_length_bound [of "if fst x then dirbitmap else filebitmap" "fst x"]
  by (auto simp: entry_ok_def entry_block_def length_reply_block split: prod.splits)

lemma parse_entry:
  assumes "entry_ok x"
  shows "parse_reply_block (entry_block filebitmap dirbitmap x @ rest) (fst x) filebitmap dirbitmap
    zero_file_info = Some (entry_info filebitmap dirbitmap x)"
  using assms parse_reply_block_reply_block
  by (cases x) (simp add: entry_ok_def entry_block_def entry_info_def)

lemma enumerateext2_entries_correct:
  assumes "malloc sizeof_afp_file_info" "\<forall>x\<in>set es. entry_ok x"
    and "holds_at buf p (concat (map (ext2_entry filebitmap dirbitmap) es) @ rest)"
  shows "enumerateext2_entries malloc buf filebitmap dirbitmap (length es) p =
    Some (Some (map (entry_info filebitmap dirbitmap) es))"
  using assms(2,3)
proof (induction es arbitrary: p)
  case (Cons x es)
  let ?blk = "entry_block filebitmap dirbitmap x"
  let ?more = "concat (map (ext2_entry filebitmap dirbitmap) es) @ rest"
  have ok: "entry_ok x" "length ?blk < 4096"
    using Cons.prems length_entry_block by auto
  have at: "holds_at buf p (be16 (word_of_nat (4 + length ?blk)) @ [if fst x then 0x80 else 0, 0] @ ?blk @ ?more)"
    using Cons.prems(2) by (simp add: ext2_entry_def [of filebitmap dirbitmap x] split del: if_split)
  note at2 = holds_at_split(3) [OF at]
  have at4: "holds_at buf (p + 4) (?blk @ ?more)"
    using holds_at_split(3) [OF at2] by (simp add: eval_nat_numeral)
  have "rd16 buf p = Some (word_of_nat (4 + length ?blk))"
    by (rule f16.rd_holds_at [OF at])
  moreover have "rd8 buf (p + 2) = Some (if fst x then 0x80 else 0)"
    using at2 by (intro f8.rd_holds_at [of _ _ _ "0 # ?blk @ ?more"]) simp
  moreover have "drop (p + 4) buf = ?blk @ ?more"
    using at4 by (simp add: holds_at_def)
  moreover have "holds_at buf (p + (4 + length ?blk)) ?more"
    using holds_at_split(3) [OF at4] by (simp add: add.assoc)
  moreover have "unat (word_of_nat (4 + length ?blk) :: u16) = 4 + length ?blk"
    unfolding unat_of_nat using ok(2) by simp
  ultimately show ?case
    using Cons.IH [of "p + (4 + length ?blk)"] Cons.prems ok assms(1) parse_entry [OF ok(1)]
    by auto
qed simp

lemma rd32le_append1: "p + 4 \<le> length xs \<Longrightarrow> rd32le (xs @ ys) p = rd32le xs p"
  by (simp add: rd32le_def rd16le_def rd8_append1)

lemma raw_error_code_success: "success_header header \<Longrightarrow> raw_error_code (header @ rest) = Some 0"
  by (simp add: success_header_def raw_error_code_def rd32le_append1)

lemma ext2_reply_parsed:
  assumes "success_header header" and "\<forall>x\<in>set es. entry_ok x" and "length es < 65536"
    and "malloc sizeof_afp_file_info"
    and "sz = length (ext2_reply header filebitmap dirbitmap es)"
  shows "afp_enumerateext2_reply malloc (ext2_reply header filebitmap dirbitmap es @ rest) sz files =
    Some (0, map (entry_info filebitmap dirbitmap) es)"
proof -
  let ?buf = "ext2_reply header filebitmap dirbitmap es @ rest"
  have h: "length header = 16" "raw_error_code ?buf = Some 0"
    using assms(1) raw_error_code_success by (auto simp: success_header_def ext2_reply_def)
  have a16: "holds_at ?buf 16 (be16 filebitmap @ be16 dirbitmap @ be16 (word_of_nat (length es)) @
      concat (map (ext2_entry filebitmap dirbitmap) es) @ rest)"
    using h(1) by (simp add: holds_at_def ext2_reply_def)
  note a18 = holds_at_split(3) [OF a16]
  note a20 = holds_at_split(3) [OF a18]
  note a22 = holds_at_split(3) [OF a20]
  have "enumerateext2_entries malloc ?buf filebitmap dirbitmap (length es) 22 =
      Some (Some (map (entry_info filebitmap dirbitmap) es))"
    by (rule enumerateext2_entries_correct) (use assms a22 in simp_all)
  moreover have "\<not> sz < 22"
    using h(1) assms(5) by (simp add: ext2_reply_def)
  ultimately show ?thesis
    using f16.rd_holds_at [OF a16] f16.rd_holds_at [OF a18] f16.rd_holds_at [OF a20] h(2) assms(3)
    by (simp add: afp_enumerateext2_reply_def unat_of_nat)
qed

subsection \<open>Main results\<close>

text \<open>(C20) From the reply to \<open>FPEnumerateExt2\<close> the client builds exactly the list of the entries the
  server put into it, in order, each with the parameters selected by the bitmap of its kind. Nothing is
  read outside of the reply.\<close>

theorem enumerateext2_reply_correct:
  assumes "success_header header" and "\<forall>x\<in>set es. entry_ok x" and "length es < 65536"
    and "malloc sizeof_afp_file_info"
    and "sz = length (ext2_reply header filebitmap dirbitmap es)"
  shows "afp_enumerateext2_reply malloc (ext2_reply header filebitmap dirbitmap es @ rest) sz files =
    Some (0, map (entry_info filebitmap dirbitmap) es)"
  by (rule ext2_reply_parsed [where malloc = malloc, OF assms])

definition example_entries :: "dir_entry list" where
  "example_entries = [(False, zero_file_info\<lparr>fi_size := 5\<rparr>, ''a'', ''a'', 0, 0),
     (True, zero_file_info\<lparr>fi_fileid := 17\<rparr>, ''d'', ''d'', 0, 0)]"

theorem enumerateext2_reply_correct_witness:
  "\<exists>reply. map_option (map_prod id (map fi_name))
     (afp_enumerateext2_reply (\<lambda>_. True) reply (length reply) []) = Some (0, [''a'', ''d''])"
proof -
  let ?r = "ext2_reply (replicate 16 0) 0x2800 0x2100 example_entries"
  have "success_header (replicate 16 0)"
    by (simp add: success_header_def rd32le_def rd16le_def rd8_def)
  moreover have "\<forall>x\<in>set example_entries. entry_ok x"
    by (simp add: example_entries_def entry_ok_def zero_file_info_def)
  moreover have "length example_entries < 65536"
    by (simp add: example_entries_def)
  ultimately have "afp_enumerateext2_reply (\<lambda>_. True) (?r @ []) (length ?r) [] =
      Some (0, map (entry_info 0x2800 0x2100) example_entries)"
    by (intro enumerateext2_reply_correct) simp_all
  then show ?thesis
    by (intro exI [of _ ?r]) (simp add: example_entries_def entry_info_def selected_def has_bit_def)
qed

end
