(* ===== verification/Uams_Def.thy ===== *)
theory Uams_Def
  imports Afp_Types
begin

text \<open>
  \<open>lib/uams_def.c\<close> and \<open>lib/map_def.c\<close>: the names of the authentication methods and of the mappings of
  user identifiers, with their conversion to numbers and back.
\<close>

text \<open>\<open>strcasecmp\<close> of the C library in the C locale.\<close>

definition to_lower :: "char \<Rightarrow> char" where
  "to_lower c = (let n = of_char c :: nat in if 65 \<le> n \<and> n \<le> 90 then char_of (n + 32) else c)"

definition strcaseeq :: "string \<Rightarrow> string \<Rightarrow> bool" where
  "strcaseeq a b \<longleftrightarrow> map to_lower a = map to_lower b"

definition afp_strings :: "string list" where
  "afp_strings = [''No User Authent'', ''Cleartxt Passwrd'', ''Randnum Exchange'',
     ''2-Way Randnum Exchange'', ''DHCAST128'', ''Client Krb v2'', ''DHX2'', ''Recon1'', '''']"

text \<open>The loop of \<open>uam_string_to_bitmap\<close> at index \<open>i\<close>; the empty string ends the table.\<close>

fun uam_loop :: "string \<Rightarrow> nat \<Rightarrow> string list \<Rightarrow> u32" where
  "uam_loop name i [] = 0"
| "uam_loop name i (s # ss) =
     (if s = [] then 0 else if strcaseeq name s then push_bit i 1 else uam_loop name (Suc i) ss)"

definition uam_string_to_bitmap :: "string \<Rightarrow> u32" where
  "uam_string_to_bitmap name = uam_loop name 0 afp_strings"

text \<open>The loop of \<open>uam_bitmap_to_string\<close> from index \<open>i - 1\<close> down. \<open>None\<close> is an access behind the
  table, \<open>Some None\<close> the null pointer.\<close>

fun uam_string_loop :: "u32 \<Rightarrow> nat \<Rightarrow> string option option" where
  "uam_string_loop bitmap 0 = Some None"
| "uam_string_loop bitmap (Suc i) =
     (if bit bitmap i then (if i < length afp_strings then Some (Some (afp_strings ! i)) else None)
      else uam_string_loop bitmap i)"

definition uam_bitmap_to_string :: "u32 \<Rightarrow> string option option" where
  "uam_bitmap_to_string bitmap = uam_string_loop bitmap 16"

definition afp_map_strings :: "string list" where
  "afp_map_strings = [''Unknown'', ''Common user directory'', ''Login ids'', ''Name mapped'', '''']"

definition get_mapping_name :: "afp_volume \<Rightarrow> string option" where
  "get_mapping_name volume =
     (if 0 \<le> vol_mapping volume \<and> nat (vol_mapping volume) < length afp_map_strings
      then Some (afp_map_strings ! nat (vol_mapping volume)) else None)"

fun map_loop :: "string \<Rightarrow> nat \<Rightarrow> string list \<Rightarrow> nat" where
  "map_loop name i [] = 0"
| "map_loop name i (s # ss) =
     (if s = [] then 0 else if strcaseeq name s then i else map_loop name (Suc i) ss)"

definition map_string_to_num :: "string \<Rightarrow> nat" where
  "map_string_to_num name = map_loop name 0 afp_map_strings"

subsection \<open>Main results\<close>

text \<open>The name of every single authentication method is converted back to the bit of the method,
  in whatever case it is written.\<close>

theorem uam_names_round_trip:
  assumes "i < 8" and "map to_lower name = map to_lower (afp_strings ! i)"
  shows "uam_bitmap_to_string (push_bit i 1) = Some (Some (afp_strings ! i)) \<and>
    uam_string_to_bitmap name = push_bit i 1"
proof -
  have i: "i = 0 \<or> i = 1 \<or> i = 2 \<or> i = 3 \<or> i = 4 \<or> i = 5 \<or> i = 6 \<or> i = 7"
    using assms(1) by auto
  have "uam_string_to_bitmap name = uam_string_to_bitmap (afp_strings ! i)"
    using assms(2) by (simp add: uam_string_to_bitmap_def afp_strings_def strcaseeq_def)
  moreover have "uam_string_to_bitmap (afp_strings ! i) = push_bit i 1"
    using i by (elim disjE)
      (simp_all add: uam_string_to_bitmap_def afp_strings_def strcaseeq_def to_lower_def)
  moreover have "uam_bitmap_to_string (push_bit i 1) = Some (Some (afp_strings ! i))"
    using i by (elim disjE)
      (simp_all add: uam_bitmap_to_string_def afp_strings_def numeral_eq_Suc bit_simps)
  ultimately show ?thesis
    by simp
qed

theorem uam_names_round_trip_witness:
  "uam_bitmap_to_string UAM_DHX2 = Some (Some ''DHX2'') \<and> uam_string_to_bitmap ''dhx2'' = UAM_DHX2"
proof -
  have "map to_lower ''dhx2'' = map to_lower (afp_strings ! 6)"
    by code_simp
  then show ?thesis
    using uam_names_round_trip [of 6 "''dhx2''"] by (simp add: afp_strings_def)
qed

end
