(* ===== verification/Dsi.thy ===== *)
theory Dsi
  imports Proto_Replies Uams_Def
begin

text \<open>
  \<open>lib/dsi.c\<close>: the Data Stream Interface. A request is entered into the queue of the server, written to
  the socket, and its sender waits. The main loop (\<open>lib/loop.c\<close>) reads the socket piece by piece with
  \<open>dsi_recv\<close>, which collects a packet, finds the request it answers, runs the handler of the reply and
  wakes up the sender.

  The two threads meet in \<open>dsi_send\<close>: while the sender waits, the loop processes what the socket
  delivers, which is the list of events of \<open>Sent\<close>. The result \<open>None\<close> stands for a call that does not
  return: an access outside of a buffer, a null pointer, a lock that is never released, or a wait
  without a timeout for a reply that does not come.
\<close>

subsection \<open>Headers\<close>

record dsi_header =
  hdr_flags :: byte
  hdr_command :: byte
  hdr_requestid :: u16
  hdr_return_code :: u32
  hdr_length :: u32
  hdr_reserved :: u32

definition dsi_header_bytes :: "dsi_header \<Rightarrow> byte list" where
  "dsi_header_bytes h = [hdr_flags h, hdr_command h] @ be16 (hdr_requestid h) @
     be32 (hdr_return_code h) @ be32 (hdr_length h) @ be32 (hdr_reserved h)"

definition dsi_header_of :: "byte list \<Rightarrow> dsi_header option" where
  "dsi_header_of b = do {
     flags \<leftarrow> rd8 b 0;
     command \<leftarrow> rd8 b 1;
     requestid \<leftarrow> rd16 b 2;
     return_code \<leftarrow> rd32 b 4;
     len \<leftarrow> rd32 b 8;
     reserved \<leftarrow> rd32 b 12;
     Some \<lparr>hdr_flags = flags, hdr_command = command, hdr_requestid = requestid,
       hdr_return_code = return_code, hdr_length = len, hdr_reserved = reserved\<rparr>
   }"

definition dsi_setup_header :: "byte \<Rightarrow> afp_server \<Rightarrow> afp_server \<times> byte list" where
  "dsi_setup_header command server =
     (let rid = (if srv_lastrequestid server = 65535 then 0 else srv_lastrequestid server + 1);
          server = server\<lparr>srv_lastrequestid := rid, srv_expectedrequestid := rid\<rparr> in
      (server, dsi_header_bytes \<lparr>hdr_flags = 0, hdr_command = command,
         hdr_requestid = srv_lastrequestid server, hdr_return_code = 0, hdr_length = 0,
         hdr_reserved = 0\<rparr>))"

text \<open>\<open>header->length=htonl(size-sizeof(struct dsi_header))\<close> on the packet \<open>msg\<close>.\<close>

definition set_length :: "byte list \<Rightarrow> byte list" where
  "set_length msg = take 8 msg @ be32 (word_of_nat (length msg) - 16) @ drop 12 msg"

subsection \<open>The queue of requests\<close>

abbreviation map_srv :: "(afp_server \<Rightarrow> afp_server) \<Rightarrow> client \<Rightarrow> client" where
  "map_srv \<equiv> cl_srv_update"

abbreviation queue :: "client \<Rightarrow> dsi_request list" where
  "queue c \<equiv> srv_command_requests (cl_srv c)"

definition server_still_valid :: "client \<Rightarrow> bool" where
  "server_still_valid c = cl_registered c"

definition dsi_queue_request :: "int \<Rightarrow> byte \<Rightarrow> other \<Rightarrow> client \<Rightarrow> nat \<times> client" where
  "dsi_queue_request wait subcommand other c =
     (let a = cl_fresh c;
          new_request = \<lparr>req_addr = a, req_requestid = srv_lastrequestid (cl_srv c),
            req_subcommand = subcommand, req_other = other, req_wait = wait,
            req_done_waiting = False, req_return_code = 0\<rparr> in
      (a, map_srv (\<lambda>s. s\<lparr>srv_command_requests := srv_command_requests s @ [new_request],
            srv_stats := st_requests_pending_update (\<lambda>n. n + 1) (srv_stats s)\<rparr>)
          (c\<lparr>cl_fresh := a + 1\<rparr>)))"

definition dsi_find_request :: "afp_server \<Rightarrow> u16 \<Rightarrow> dsi_request option" where
  "dsi_find_request server request_id =
     find (\<lambda>p. request_id = req_requestid p) (srv_command_requests server)"

fun unlink_request :: "nat \<Rightarrow> dsi_request list \<Rightarrow> dsi_request list option" where
  "unlink_request a [] = None"
| "unlink_request a (p # ps) = (if req_addr p = a then Some ps else map_option ((#) p) (unlink_request a ps))"

definition dsi_remove_from_request_queue :: "nat \<Rightarrow> client \<Rightarrow> int \<times> client" where
  "dsi_remove_from_request_queue toremove c =
     (if \<not> server_still_valid c then (- 1, c)
      else case unlink_request toremove (queue c) of
        Some q \<Rightarrow> (0, map_srv (\<lambda>s. s\<lparr>srv_command_requests := q,
            srv_stats := st_requests_pending_update (\<lambda>n. n - 1) (srv_stats s)\<rparr>) c)
      | None \<Rightarrow> (- 1, c))"

text \<open>Assignments through the pointer to a request.\<close>

definition update_request :: "nat \<Rightarrow> (dsi_request \<Rightarrow> dsi_request) \<Rightarrow> client \<Rightarrow> client" where
  "update_request a f = map_srv (srv_command_requests_update (map (\<lambda>r. if req_addr r = a then f r else r)))"

definition request_at :: "nat \<Rightarrow> client \<Rightarrow> dsi_request option" where
  "request_at a c = find (\<lambda>r. req_addr r = a) (queue c)"

subsection \<open>Sending: up to the write\<close>

abbreviation (input) sizeof_dsi_request :: nat where "sizeof_dsi_request \<equiv> 128"

text \<open>The part of \<open>dsi_send\<close> before the wait. \<open>Inl\<close> is a return from \<open>dsi_send\<close>, \<open>Inr\<close> the address of
  the request and what the socket delivers next. After \<open>EPIPE\<close> and \<open>EBADF\<close> the function returns with
  \<open>send_mutex\<close> locked and the request queued.\<close>

definition dsi_start :: "env \<Rightarrow> byte list \<Rightarrow> int \<Rightarrow> byte \<Rightarrow> other \<Rightarrow> client \<Rightarrow>
    ((int + nat \<times> rx_event list) \<times> client) option" where
  "dsi_start e msg wait subcommand other c =
     (let msg = set_length msg in
      if \<not> server_still_valid c \<or> srv_fd (cl_srv c) = 0 then Some (Inl (- 1), c)
      else if \<not> env_malloc e sizeof_dsi_request then Some (Inl (- 1), c)
      else do {
        let (new_request, c) = dsi_queue_request wait subcommand other c;
        c \<leftarrow> (if srv_connect_state (cl_srv c) = SERVER_STATE_DISCONNECTED
               then env_reconnect e c else Some c);
        if cl_send_mutex c then None
        else do {
          let c = c\<lparr>cl_sent := cl_sent c @ [msg]\<rparr>;
          case env_net e (cl_sent c) of
            Write_Error errno \<Rightarrow>
              (if errno = EPIPE \<or> errno = EBADF then
                 Some (Inl (- 1), map_srv (srv_connect_state_update (\<lambda>_. SERVER_STATE_DISCONNECTED))
                   (c\<lparr>cl_send_mutex := True\<rparr>))
               else Some (Inl (- 1), snd (dsi_remove_from_request_queue new_request c)))
          | Sent evs \<Rightarrow>
              Some (Inr (new_request, evs),
                map_srv (srv_stats_update (st_tx_bytes_update (\<lambda>n. n + word_of_nat (length msg)))) c)
        }
      })"

subsection \<open>Packets the server sends by itself\<close>

text \<open>The answer to a tickle is sent without waiting.\<close>

definition dsi_incoming_tickle :: "env \<Rightarrow> client \<Rightarrow> client option" where
  "dsi_incoming_tickle e c = do {
     let (server, header) = dsi_setup_header DSI_DSITickle (cl_srv c);
     (r, c) \<leftarrow> dsi_start e header 0 0 No_Other (c\<lparr>cl_srv := server\<rparr>);
     Some (case r of
         Inl _ \<Rightarrow> c
       | Inr (new_request, _) \<Rightarrow> snd (dsi_remove_from_request_queue new_request c))
   }"

definition loop_disconnect :: "client \<Rightarrow> client" where
  "loop_disconnect c =
     (if srv_connect_state (cl_srv c) \<noteq> SERVER_STATE_CONNECTED then c
      else map_srv (\<lambda>s. s\<lparr>srv_connect_state := SERVER_STATE_DISCONNECTED, srv_need_resume := True\<rparr>) c)"

subsection \<open>Replies of the session layer\<close>

definition dsi_opensession_reply :: "afp_server \<Rightarrow> afp_server option" where
  "dsi_opensession_reply server = do {
     q \<leftarrow> rd32 (srv_incoming_buffer server) 18;
     Some (server\<lparr>srv_tx_quantum := q\<rparr>)
   }"

definition afp_versions_table :: "afp_versions list" where
  "afp_versions_table = [
     \<lparr>av_name = ''AFPVersion 1.1'', av_number = 11\<rparr>, \<lparr>av_name = ''AFPVersion 2.0'', av_number = 20\<rparr>,
     \<lparr>av_name = ''AFPVersion 2.1'', av_number = 21\<rparr>, \<lparr>av_name = ''AFP2.2'', av_number = 22\<rparr>,
     \<lparr>av_name = ''AFPX03'', av_number = 30\<rparr>, \<lparr>av_name = ''AFP3.1'', av_number = 31\<rparr>,
     \<lparr>av_name = ''AFP3.2'', av_number = 32\<rparr>]"

text \<open>The versions of the reply that the client knows: the loop over \<open>n\<close> names from \<open>p\<close> on.\<close>

fun parse_version_names :: "byte list \<Rightarrow> nat \<Rightarrow> nat \<Rightarrow> byte list option" where
  "parse_version_names msg 0 p = Some []"
| "parse_version_names msg (Suc n) p = do {
     (len, d) \<leftarrow> copy_from_pascal msg p 33;
     rest \<leftarrow> parse_version_names msg n (p + (len + 1));
     Some ((case find (\<lambda>v. av_name v = c_str d) afp_versions_table of
         Some v \<Rightarrow> [word_of_int (av_number v)] | None \<Rightarrow> []) @ rest)
   }"

definition dsi_parse_versions :: "byte list \<Rightarrow> nat \<Rightarrow> afp_server \<Rightarrow> afp_server option" where
  "dsi_parse_versions msg p server = do {
     num_versions \<leftarrow> rd8 msg p;
     vs \<leftarrow> parse_version_names msg (min SERVER_MAX_VERSIONS (unat num_versions)) (p + 1);
     Some (server\<lparr>srv_versions := vs @ replicate (SERVER_MAX_VERSIONS - length vs) 0\<rparr>)
   }"

fun parse_uam_names :: "byte list \<Rightarrow> nat \<Rightarrow> nat \<Rightarrow> u32 option" where
  "parse_uam_names msg 0 p = Some 0"
| "parse_uam_names msg (Suc n) p = do {
     (len, d) \<leftarrow> copy_from_pascal msg p AFP_UAM_LENGTH;
     rest \<leftarrow> parse_uam_names msg n (p + (len + 1));
     Some (uam_string_to_bitmap (c_str d) OR rest)
   }"

definition dsi_parse_uams :: "byte list \<Rightarrow> nat \<Rightarrow> afp_server \<Rightarrow> afp_server option" where
  "dsi_parse_uams msg p server = do {
     num_uams \<leftarrow> rd8 msg p;
     uams \<leftarrow> parse_uam_names msg (min SERVER_MAX_UAMS (unat num_uams)) (p + 1);
     Some (server\<lparr>srv_supported_uams := uams\<rparr>)
   }"

text \<open>The parts of \<open>dsi_getstatus_reply\<close>. \<open>machine_type\<close> has 17 bytes and \<open>icon\<close> follows it in the
  structure; the copy of 33 bytes runs over into the icon.\<close>

definition getstatus_machine :: "byte list \<Rightarrow> nat \<Rightarrow> nat \<Rightarrow> afp_server \<Rightarrow> afp_server option" where
  "getstatus_machine buf machine_offset icon_offset server = do {
     (_, d) \<leftarrow> copy_from_pascal buf (16 + machine_offset) AFP_MACHINETYPE_LEN;
     let icon = drop 17 d @ drop 16 (srv_icon server);
     icon \<leftarrow> (if 0 < icon_offset then rd_bytes buf (16 + icon_offset) 256 else Some icon);
     Some (server\<lparr>srv_machine_type := c_str (take 17 d @ icon), srv_icon := icon\<rparr>)
   }"

text \<open>The UTF-8 name of the server at \<open>p2\<close>, with the second attempt one byte further.\<close>

definition getstatus_utf8_name :: "byte list \<Rightarrow> nat \<Rightarrow> afp_server \<Rightarrow> afp_server option" where
  "getstatus_utf8_name buf p2 server = do {
     (len, d) \<leftarrow> copy_from_pascal buf p2 AFP_SERVER_NAME_UTF8_LEN;
     (len, d) \<leftarrow> (if len = 0 then copy_from_pascal buf (p2 + 1) AFP_SERVER_NAME_UTF8_LEN
                  else Some (len, d));
     let name = c_str d;
     printable \<leftarrow> convert_utf8dec_to_utf8pre (to_bytes name) AFP_SERVER_NAME_UTF8_LEN;
     Some (server\<lparr>srv_server_name_utf8 := name, srv_server_name_printable := of_bytes printable\<rparr>)
   }"

definition dsi_getstatus_reply :: "env \<Rightarrow> afp_server \<Rightarrow> afp_server option" where
  "dsi_getstatus_reply e server =
     (let buf = srv_incoming_buffer server in
      if srv_data_read server < 34 then Some server
      else do {
        machine_offset \<leftarrow> rd16 buf 16;
        version_offset \<leftarrow> rd16 buf 18;
        uams_offset \<leftarrow> rd16 buf 20;
        icon_offset \<leftarrow> rd16 buf 22;
        flags \<leftarrow> rd16 buf 24;
        server \<leftarrow> getstatus_machine buf (unat machine_offset) (unat icon_offset) server;
        server \<leftarrow> dsi_parse_versions buf (16 + unat version_offset) server;
        server \<leftarrow> dsi_parse_uams buf (16 + unat uams_offset) server;
        let server = server\<lparr>srv_flags := flags\<rparr>;
        (len, d) \<leftarrow> copy_from_pascal buf 26 AFP_SERVER_NAME_LEN;
        let server = server\<lparr>srv_server_name := c_str d\<rparr>;
        let p = 26 + (len + 1);
        let p = (if odd p then p + 1 else p);
        offset \<leftarrow> rd16 buf p;
        signature \<leftarrow> rd_bytes buf (16 + unat offset) AFP_SIGNATURE_LEN;
        let server = server\<lparr>srv_signature := signature\<rparr>;
        let p = p + 2;
        let p = (if flags AND kSupportsTCP \<noteq> 0 then p + 2 else p);
        let p = (if flags AND kSupportsDirServices \<noteq> 0 then p + 2 else p);
        if flags AND kSupportsUTF8SrvrName \<noteq> 0 then do {
          offset \<leftarrow> rd16 buf p;
          getstatus_utf8_name buf (16 + unat offset + 1) server
        }
        else Some (case env_iconv e (srv_server_name server) of
            None \<Rightarrow> server
          | Some name \<Rightarrow> server\<lparr>srv_server_name_printable := name\<rparr>)
      })"

subsection \<open>Receiving\<close>

text \<open>\<open>read\<close> on the socket: the returned value, the bytes, and what remains to be delivered.\<close>

fun sock_read :: "rx_event \<Rightarrow> nat \<Rightarrow> int \<times> byte list \<times> rx_event option" where
  "sock_read (Data bs) n =
     (int (length (take n bs)), take n bs, if drop n bs = [] then None else Some (Data (drop n bs)))"
| "sock_read Eof n = (0, [], Some Eof)"
| "sock_read Rx_Error n = (- 1, [], None)"

abbreviation recv_buf :: "client \<Rightarrow> byte list" where
  "recv_buf c \<equiv> srv_incoming_buffer (cl_srv c)"

abbreviation recv_count :: "client \<Rightarrow> nat" where
  "recv_count c \<equiv> srv_data_read (cl_srv c)"

definition count_rx :: "nat \<Rightarrow> client \<Rightarrow> client" where
  "count_rx n = map_srv (srv_stats_update (st_rx_bytes_update (\<lambda>x. x + word_of_nat n)))"

type_synonym recv_result = "(int \<times> rx_event option \<times> client) option"

text \<open>The label \<open>out\<close>: the sender is woken up, or a request nobody waits for is dropped.\<close>

definition dsi_out :: "nat option \<Rightarrow> rx_event option \<Rightarrow> client \<Rightarrow> recv_result" where
  "dsi_out request left c = (case request of
     None \<Rightarrow> Some (0, left, c)
   | Some a \<Rightarrow> (case request_at a c of
         None \<Rightarrow> None
       | Some r \<Rightarrow>
           (if req_wait r \<noteq> 0
            then Some (0, left, update_request a (\<lambda>r. r\<lparr>req_wait := 0, req_done_waiting := True\<rparr>) c)
            else Some (0, left, snd (dsi_remove_from_request_queue a c)))))"

text \<open>The label \<open>after_processing\<close>: bytes behind the packet are moved to the front.\<close>

definition dsi_after_processing :: "env \<Rightarrow> nat option \<Rightarrow> rx_event option \<Rightarrow> client \<Rightarrow> recv_result" where
  "dsi_after_processing e request left c = do {
     len \<leftarrow> rd32 (recv_buf c) 8;
     if recv_count c = unat len + 16 then dsi_out request left (map_srv (srv_data_read_update (\<lambda>_. 0)) c)
     else do {
       let size_to_copy = unat (word_of_nat (recv_count c) - (len + 16) :: u32);
       if \<not> size_to_copy < unat len \<and> \<not> env_malloc e size_to_copy then Some (- 1, left, c)
       else do {
         d \<leftarrow> rd_bytes (recv_buf c) (unat len) size_to_copy;
         buf \<leftarrow> wr_bytes (recv_buf c) 0 d;
         dsi_out request left (map_srv (\<lambda>s. s\<lparr>srv_incoming_buffer := buf,
           srv_data_read := srv_data_read s - size_to_copy\<rparr>) c)
       }
     }
   }"

text \<open>\<open>dsi_command_reply\<close>: for a read it takes more data off the socket first, then the handler of the
  reply runs on what is in the buffer. The result is the new state and what remains on the socket.\<close>

definition dsi_command_reply :: "env \<Rightarrow> dsi_request \<Rightarrow> rx_event option \<Rightarrow> client \<Rightarrow> (rx_event option \<times> client) option" where
  "dsi_command_reply e request left c =
     (let subcommand = req_subcommand request;
          reply = (\<lambda>other left c. map_option (\<lambda>(_, server, other').
            (left, update_request (req_addr request) (req_other_update (\<lambda>_. other')) (c\<lparr>cl_srv := server\<rparr>)))
            (afp_reply (env_malloc e) subcommand (cl_srv c) other)) in
      if recv_count c < 16 then Some (left, c)
      else if subcommand = 0 then Some (left, c)
      else if subcommand = afpRead \<or> subcommand = afpReadExt then
        (case (req_other request, left) of
           (Rx_Buffer rx, Some ev) \<Rightarrow>
             (case sock_read ev (rx_maxsize rx - rx_size rx) of (ret, d, left) \<Rightarrow>
                if ret < 0 then Some (left, c)
                else do {
                  data \<leftarrow> wr_bytes (rx_data rx) (rx_size rx) d;
                  let c = update_request (req_addr request)
                    (req_other_update (\<lambda>_. Rx_Buffer (rx\<lparr>rx_data := data\<rparr>))) (count_rx (length d) c);
                  if ret = 0 then Some (left, c)
                  else reply (Rx_Buffer (rx\<lparr>rx_data := data\<rparr>)) left
                    (map_srv (srv_data_read_update (\<lambda>n. n + length d)) c)
                })
         | _ \<Rightarrow> None)
      else reply (req_other request) left c)"

text \<open>The label \<open>process_packet\<close>.\<close>

definition dsi_process_packet ::
  "env \<Rightarrow> bool \<Rightarrow> dsi_request option \<Rightarrow> rx_event option \<Rightarrow> client \<Rightarrow> recv_result" where
  "dsi_process_packet e runt_packet request left c = do {
     command \<leftarrow> rd8 (recv_buf c) 1;
     let after = dsi_after_processing e (map_option req_addr request);
     if command = DSI_DSICloseSession then do {c \<leftarrow> env_close_session e c; after left (loop_disconnect c)}
     else if command = DSI_DSIGetStatus then do {
       server \<leftarrow> dsi_getstatus_reply e (cl_srv c);
       after left (c\<lparr>cl_srv := server\<rparr>)
     }
     else if command = DSI_DSIOpenSession then do {
       server \<leftarrow> dsi_opensession_reply (cl_srv c);
       after left (c\<lparr>cl_srv := server\<rparr>)
     }
     else if command = DSI_DSITickle then do {c \<leftarrow> dsi_incoming_tickle e c; after left c}
     else if command = DSI_DSIWrite \<or> command = DSI_DSICommand then
       (if runt_packet then after left c
        else case request of
            None \<Rightarrow> None
          | Some r \<Rightarrow> do {(left, c) \<leftarrow> dsi_command_reply e r left c; after left c})
     else if command = DSI_DSIAttention then do {
       d \<leftarrow> rd_bytes (recv_buf c) 0 (recv_count c);
       attention \<leftarrow> wr_bytes (srv_attention_buffer (cl_srv c)) 0 d;
       after left (map_srv (srv_attention_buffer_update (\<lambda>_. attention))
         (c\<lparr>cl_attention_threads := cl_attention_threads c + 1\<rparr>))
     }
     else Some (- 1, left, c)
   }"

text \<open>The branch of \<open>dsi_recv\<close> for replies to \<open>FPRead\<close>: the data goes straight to the buffer of the
  caller. \<open>len\<close> is the length field of the header.\<close>

definition dsi_recv_read :: "env \<Rightarrow> dsi_request \<Rightarrow> nat \<Rightarrow> rx_event option \<Rightarrow> client \<Rightarrow> recv_result" where
  "dsi_recv_read e request len left c = (case req_other request of
     Rx_Buffer rx \<Rightarrow>
       (if recv_count c = 16 \<and> len = 0
        then dsi_out (Some (req_addr request)) left (map_srv (srv_data_read_update (\<lambda>_. 0)) c)
        else if rx_maxsize rx = 0 then Some (- 1, left, c)
        else case left of
          None \<Rightarrow> None
        | Some ev \<Rightarrow>
            (let room = rx_maxsize rx - rx_size rx;
                 missing = (if rx_size rx \<le> len then len - rx_size rx else 2 ^ 32 + len - rx_size rx) in
             case sock_read ev (min room missing) of (ret, d, left) \<Rightarrow>
               if ret \<le> 0 then Some (- 1, left, c)
               else do {
                 data \<leftarrow> wr_bytes (rx_data rx) (rx_size rx) d;
                 let rx = rx\<lparr>rx_data := data, rx_size := rx_size rx + length d\<rparr>;
                 let request = request\<lparr>req_other := Rx_Buffer rx\<rparr>;
                 let c = update_request (req_addr request) (req_other_update (\<lambda>_. Rx_Buffer rx))
                   (count_rx (length d) c);
                 if len = rx_size rx then
                   (if recv_count c = 16
                    then dsi_out (Some (req_addr request)) left (map_srv (srv_data_read_update (\<lambda>_. 0)) c)
                    else if \<not> env_malloc e (recv_count c - 16) then Some (- 1, left, c)
                    else do {
                      d \<leftarrow> rd_bytes (recv_buf c) 16 (recv_count c - 16);
                      buf \<leftarrow> wr_bytes (recv_buf c) 0 d;
                      dsi_process_packet e False (Some request) left (map_srv (\<lambda>s. s\<lparr>
                        srv_incoming_buffer := buf, srv_data_read := srv_data_read s - 16\<rparr>) c)
                    })
                 else Some (0, left, c)
               }))
   | _ \<Rightarrow> None)"

text \<open>The branch for every other packet: the rest of the packet is read behind the header.\<close>

definition dsi_recv_rest ::
  "env \<Rightarrow> bool \<Rightarrow> dsi_request option \<Rightarrow> nat \<Rightarrow> rx_event option \<Rightarrow> client \<Rightarrow> recv_result" where
  "dsi_recv_rest e runt_packet request len left c =
     (if recv_count c = 16 \<and> len = 0 then dsi_process_packet e runt_packet request left c
      else case left of
        None \<Rightarrow> None
      | Some ev \<Rightarrow>
          (case sock_read ev (min len (srv_bufsize (cl_srv c))) of (ret, d, left) \<Rightarrow>
             if ret \<le> 0 then Some (- 1, left, c)
             else do {
               buf \<leftarrow> wr_bytes (recv_buf c) (recv_count c) d;
               let c = map_srv (\<lambda>s. s\<lparr>srv_incoming_buffer := buf,
                 srv_data_read := srv_data_read s + length d\<rparr>) (count_rx (length d) c);
               if recv_count c < len + 16 then Some (0, left, c)
               else if runt_packet then dsi_after_processing e (map_option req_addr request) left c
               else dsi_process_packet e runt_packet request left c
             }))"

text \<open>The label \<open>gotenough\<close>: the header is complete; the request it answers is looked up by its
  identifier, whether the packet is a reply or a request of the server.\<close>

definition dsi_gotenough :: "env \<Rightarrow> rx_event option \<Rightarrow> client \<Rightarrow> recv_result" where
  "dsi_gotenough e left c = do {
     h \<leftarrow> dsi_header_of (recv_buf c);
     let request = map_option (req_return_code_update (\<lambda>_. sint (hdr_return_code h)))
       (dsi_find_request (cl_srv c) (hdr_requestid h));
     let runt_packet = (request = None \<and> hdr_flags h = DSI_REPLY);
     let c = (if runt_packet
       then map_srv (srv_stats_update (st_runt_packets_update (\<lambda>n. n + 1))) c else c);
     let c = (case request of
         None \<Rightarrow> c
       | Some r \<Rightarrow> update_request (req_addr r)
           (req_return_code_update (\<lambda>_. sint (hdr_return_code h))) c);
     case request of
       Some r \<Rightarrow> (if req_subcommand r = afpRead \<or> req_subcommand r = afpReadExt
         then dsi_recv_read e r (unat (hdr_length h)) left c
         else dsi_recv_rest e runt_packet request (unat (hdr_length h)) left c)
     | None \<Rightarrow> dsi_recv_rest e runt_packet request (unat (hdr_length h)) left c
   }"

text \<open>\<open>dsi_recv\<close>, called when the socket has something to deliver: \<open>ev\<close>. The result is the returned
  value, what is left of \<open>ev\<close>, and the new state.\<close>

definition dsi_recv :: "env \<Rightarrow> rx_event \<Rightarrow> client \<Rightarrow> recv_result" where
  "dsi_recv e ev c =
     (if recv_count c < 16 then
        (case sock_read ev (16 - recv_count c) of (ret, d, left) \<Rightarrow>
           if ret \<le> 0 then Some (- 1, left, c)
           else do {
             buf \<leftarrow> wr_bytes (recv_buf c) (recv_count c) d;
             let c = map_srv (\<lambda>s. s\<lparr>srv_incoming_buffer := buf,
               srv_data_read := srv_data_read s + length d\<rparr>) (count_rx (length d) c);
             len \<leftarrow> rd32 buf 8;
             if recv_count c = 16 \<and> len = 0 then dsi_gotenough e left c else Some (0, left, c)
           })
      else dsi_gotenough e (Some ev) c)"

text \<open>The main loop on the events of one socket: \<open>process_server_fds\<close> for each readiness.\<close>

partial_function (option) dsi_events :: "env \<Rightarrow> rx_event list \<Rightarrow> client \<Rightarrow> client option" where
  "dsi_events e evs c = (case evs of
     [] \<Rightarrow> Some c
   | ev # rest \<Rightarrow>
       dsi_recv e ev c \<bind> (\<lambda>(ret, left, c).
         if ret = - 1 then Some (loop_disconnect c)
         else dsi_events e (case left of None \<Rightarrow> rest | Some l \<Rightarrow> l # rest) c))"

subsection \<open>Sending\<close>

text \<open>\<open>dsi_send\<close>: the result is the returned value, the new contents of \<open>other\<close>, and the new state.\<close>

definition dsi_send :: "env \<Rightarrow> byte list \<Rightarrow> int \<Rightarrow> byte \<Rightarrow> other \<Rightarrow> client \<Rightarrow> (int \<times> other \<times> client) option" where
  "dsi_send e msg wait subcommand other c = do {
     (r, c) \<leftarrow> dsi_start e msg wait subcommand other c;
     case r of
       Inl rc \<Rightarrow> Some (rc, other, c)
     | Inr (a, evs) \<Rightarrow>
         (if wait = 0 then Some (0, other, snd (dsi_remove_from_request_queue a c))
          else do {
            c \<leftarrow> dsi_events e evs c;
            r \<leftarrow> request_at a c;
            if req_done_waiting r
            then Some (req_return_code r, req_other r, snd (dsi_remove_from_request_queue a c))
            else if wait < 0 then None
            else Some (ETIMEDOUT, req_other r, snd (dsi_remove_from_request_queue a c))
          })
   }"

text \<open>The three requests of the session layer, with the arguments the sources give to \<open>dsi_send\<close>.\<close>

definition dsi_getstatus :: "env \<Rightarrow> client \<Rightarrow> (int \<times> client) option" where
  "dsi_getstatus e c =
     (if \<not> env_malloc e 1024 then Some (- 1, c)
      else do {
        let rx = \<lparr>rx_size = 0, rx_maxsize = 1024, rx_data = replicate 1024 0, rx_errorcode = 0\<rparr>;
        let (server, header) = dsi_setup_header DSI_DSIGetStatus (cl_srv c);
        (ret, _, c) \<leftarrow> dsi_send e header 60 0 (Rx_Buffer rx) (c\<lparr>cl_srv := server\<rparr>);
        Some (ret, c)
      })"

definition dsi_sendtickle :: "env \<Rightarrow> client \<Rightarrow> (int \<times> client) option" where
  "dsi_sendtickle e c = do {
     let (server, header) = dsi_setup_header DSI_DSITickle (cl_srv c);
     (_, _, c) \<leftarrow> dsi_send e header 1 0 No_Other (c\<lparr>cl_srv := server\<rparr>);
     Some (0, c)
   }"

definition dsi_opensession :: "env \<Rightarrow> client \<Rightarrow> (int \<times> client) option" where
  "dsi_opensession e c = do {
     let (server, header) = dsi_setup_header DSI_DSIOpenSession (cl_srv c);
     let msg = header @ [1, 4] @ be32 (srv_attention_quantum server);
     (_, _, c) \<leftarrow> dsi_send e msg 1 255 No_Other (c\<lparr>cl_srv := server\<rparr>);
     Some (0, c)
   }"

end
