(* ===== verification/Dsi_Queue.thy ===== *)
theory Dsi_Queue
  imports Dsi
begin

text \<open>
  The queue of requests and the headers of \<open>lib/dsi.c\<close>: identifiers of requests, the contract of a
  pool of structures that are linked into a list and unlinked by their address, and its instance for
  the queue.
\<close>

subsection \<open>A pool of linked structures\<close>

text \<open>\<open>add x s\<close> allocates a structure and links it, \<open>del a s\<close> unlinks the one at address \<open>a\<close>.\<close>

locale pool =
  fixes addrs :: "'s \<Rightarrow> nat set"
    and wf :: "'s \<Rightarrow> bool"
    and add :: "'a \<Rightarrow> 's \<Rightarrow> nat \<times> 's"
    and del :: "nat \<Rightarrow> 's \<Rightarrow> 's"
  assumes add_wf: "wf s \<Longrightarrow> wf (snd (add x s))"
    and add_addrs: "wf s \<Longrightarrow> addrs (snd (add x s)) = insert (fst (add x s)) (addrs s)"
    and add_fresh: "wf s \<Longrightarrow> fst (add x s) \<notin> addrs s"
    and del_wf: "wf s \<Longrightarrow> wf (del a s)"
    and del_addrs: "wf s \<Longrightarrow> addrs (del a s) = addrs s - {a}"
begin

lemma del_add: "wf s \<Longrightarrow> addrs (del (fst (add x s)) (snd (add x s))) = addrs s"
  by (simp add: add_addrs add_fresh add_wf del_addrs)

lemma del_other: "wf s \<Longrightarrow> b \<in> addrs s \<Longrightarrow> a \<noteq> b \<Longrightarrow> b \<in> addrs (del a s)"
  by (simp add: del_addrs)

lemma add_neq_add: "wf s \<Longrightarrow> fst (add y (snd (add x s))) \<noteq> fst (add x s)"
  using add_fresh [of "snd (add x s)" y] by (simp add: add_addrs add_wf)

lemma del_commute: "wf s \<Longrightarrow> addrs (del a (del b s)) = addrs (del b (del a s))"
  by (auto simp: del_addrs del_wf)

lemma del_idem: "wf s \<Longrightarrow> addrs (del a (del a s)) = addrs (del a s)"
  by (simp add: del_addrs del_wf)

end

subsection \<open>The queue of requests as a pool\<close>

definition queue_ok :: "client \<Rightarrow> bool" where
  "queue_ok c \<longleftrightarrow> server_still_valid c \<and> distinct (map req_addr (queue c)) \<and>
     (\<forall>r\<in>set (queue c). req_addr r < cl_fresh c) \<and>
     requests_pending (cl_srv c) = word_of_nat (length (queue c))"

definition queue_addrs :: "client \<Rightarrow> nat set" where
  "queue_addrs c = req_addr ` set (queue c)"

lemma filter_other_addr: "a \<notin> req_addr ` set q \<Longrightarrow> filter (\<lambda>r. req_addr r \<noteq> a) q = q"
  by (induction q) auto

lemma unlink_request_eq:
  "distinct (map req_addr q) \<Longrightarrow> unlink_request a q =
     (if a \<in> req_addr ` set q then Some (filter (\<lambda>r. req_addr r \<noteq> a) q) else None)"
  by (induction q) (auto simp: filter_other_addr)

lemma length_filter_addr:
  "distinct (map req_addr q) \<Longrightarrow> a \<in> req_addr ` set q \<Longrightarrow>
   length q = Suc (length (filter (\<lambda>r. req_addr r \<noteq> a) q))"
  by (induction q) (auto simp: filter_other_addr)

lemma remove_from_queue:
  assumes "queue_ok c"
  shows "queue (snd (dsi_remove_from_request_queue a c)) = filter (\<lambda>r. req_addr r \<noteq> a) (queue c)"
    and "queue_ok (snd (dsi_remove_from_request_queue a c))"
    and "cl_fresh (snd (dsi_remove_from_request_queue a c)) = cl_fresh c"
proof -
  have no: "filter (\<lambda>r. req_addr r \<noteq> a) (queue c) = queue c" if "a \<notin> req_addr ` set (queue c)"
    using that by (rule filter_other_addr)
  show "queue (snd (dsi_remove_from_request_queue a c)) = filter (\<lambda>r. req_addr r \<noteq> a) (queue c)"
    using assms no by (auto simp: dsi_remove_from_request_queue_def queue_ok_def unlink_request_eq)
  show "queue_ok (snd (dsi_remove_from_request_queue a c))"
    using assms length_filter_addr [of "queue c" a]
    by (auto simp: dsi_remove_from_request_queue_def queue_ok_def unlink_request_eq server_still_valid_def
        distinct_map_filter)
  show "cl_fresh (snd (dsi_remove_from_request_queue a c)) = cl_fresh c"
    by (auto simp: dsi_remove_from_request_queue_def split: option.splits)
qed

lemma queue_request:
  assumes "queue_ok c"
  shows "fst (dsi_queue_request w s x c) = cl_fresh c"
    and "queue (snd (dsi_queue_request w s x c)) = queue c @
      [\<lparr>req_addr = cl_fresh c, req_requestid = srv_lastrequestid (cl_srv c), req_subcommand = s,
        req_other = x, req_wait = w, req_done_waiting = False, req_return_code = 0\<rparr>]"
    and "queue_ok (snd (dsi_queue_request w s x c))"
  using assms by (auto simp: dsi_queue_request_def queue_ok_def server_still_valid_def Let_def)

interpretation rq: pool queue_addrs queue_ok "\<lambda>(w, s, x). dsi_queue_request w s x"
  "\<lambda>a c. snd (dsi_remove_from_request_queue a c)"
proof (unfold_locales, goal_cases)
  case (1 s x)
  then show ?case by (simp add: queue_request split: prod.splits)
next
  case (2 s x)
  then show ?case by (simp add: queue_request queue_addrs_def split: prod.splits)
next
  case (3 s x)
  then show ?case by (auto simp: queue_request queue_addrs_def queue_ok_def split: prod.splits)
next
  case (4 s a)
  then show ?case by (rule remove_from_queue)
next
  case (5 s a)
  then show ?case by (auto simp: remove_from_queue queue_addrs_def)
qed

subsection \<open>Headers and identifiers\<close>

lemma length_dsi_header_bytes [simp]: "length (dsi_header_bytes h) = 16"
  by (simp add: dsi_header_bytes_def)

lemma dsi_header_of_bytes: "dsi_header_of (dsi_header_bytes h @ rest) = Some h"
proof -
  let ?b = "dsi_header_bytes h @ rest"
  have a2: "holds_at ?b 2 (be16 (hdr_requestid h) @ be32 (hdr_return_code h) @ be32 (hdr_length h) @
      be32 (hdr_reserved h) @ rest)"
    by (simp add: holds_at_def dsi_header_bytes_def)
  note a4 = holds_at_split(3) [OF a2]
  note a8 = holds_at_split(3) [OF a4]
  note a12 = holds_at_split(3) [OF a8]
  have "rd8 ?b 0 = Some (hdr_flags h)" "rd8 ?b 1 = Some (hdr_command h)"
    by (simp_all add: dsi_header_bytes_def rd8_Cons)
  then show ?thesis
    using f16.rd_holds_at [OF a2] f32.rd_holds_at [OF a4] f32.rd_holds_at [OF a8]
      f32.rd_holds_at [OF a12]
    by (simp add: dsi_header_of_def numeral_eq_Suc)
qed

lemma setup_header_id: "srv_lastrequestid (fst (dsi_setup_header cmd s)) = srv_lastrequestid s + 1"
  by (auto simp: dsi_setup_header_def Let_def)

fun request_ids :: "nat \<Rightarrow> byte \<Rightarrow> afp_server \<Rightarrow> u16 list" where
  "request_ids 0 cmd s = []"
| "request_ids (Suc n) cmd s =
     (let s' = fst (dsi_setup_header cmd s) in srv_lastrequestid s' # request_ids n cmd s')"

lemma request_ids_eq:
  "request_ids n cmd s = map (\<lambda>k. srv_lastrequestid s + 1 + word_of_nat k) [0..<n]"
proof (induction n arbitrary: s)
  case (Suc n)
  have "map (\<lambda>k. srv_lastrequestid s + 1 + word_of_nat k) [0..<Suc n] =
      (srv_lastrequestid s + 1) # map (\<lambda>k. srv_lastrequestid s + 1 + 1 + word_of_nat k) [0..<n]"
    unfolding upt_conv_Cons [OF zero_less_Suc]
    by (simp add: map_Suc_upt [symmetric] add.assoc del: upt_Suc)
  then show ?case
    using Suc by (simp add: setup_header_id Let_def add.assoc)
qed simp

subsection \<open>Main results\<close>

text \<open>The DSI header written in network byte order is read back unchanged, whatever follows it.\<close>

theorem dsi_header_round_trip: "dsi_header_of (dsi_header_bytes h @ rest) = Some h"
  by (rule dsi_header_of_bytes)

text \<open>The identifiers that \<open>dsi_setup_header\<close> hands out wrap around at 16 bits, and 65536
  successive ones are pairwise different.\<close>

theorem request_ids_distinct:
  assumes "n \<le> 65536"
  shows "distinct (request_ids n cmd s)"
proof -
  have "inj_on (\<lambda>k. word_of_nat k :: u16) {0..<n}"
  proof (rule inj_onI)
    fix i j assume ij: "i \<in> {0..<n}" "j \<in> {0..<n}" "word_of_nat i = (word_of_nat j :: u16)"
    then have "unat (word_of_nat i :: u16) = unat (word_of_nat j :: u16)"
      by simp
    then have "i mod 65536 = j mod 65536"
      unfolding unat_of_nat by simp
    then show "i = j"
      using ij assms by simp
  qed
  then show ?thesis
    by (auto simp: request_ids_eq distinct_map inj_on_def)
qed

theorem request_ids_distinct_witness:
  "distinct (request_ids 3 DSI_DSICommand (example_server\<lparr>srv_lastrequestid := 65534\<rparr>)) \<and>
   request_ids 3 DSI_DSICommand (example_server\<lparr>srv_lastrequestid := 65534\<rparr>) = [65535, 0, 1]"
  using request_ids_distinct [of 3 DSI_DSICommand "example_server\<lparr>srv_lastrequestid := 65534\<rparr>"]
  by (simp add: request_ids_eq upt_rec)

text \<open>Entering a request into a consistent queue and removing it again restores the queue and the
  number of pending requests, and both steps keep the queue consistent: distinct addresses below the
  next free one, and \<open>requests_pending\<close> equal to the length.\<close>

theorem queue_request_remove:
  assumes "queue_ok c"
  shows "queue_ok (snd (dsi_queue_request w s x c)) \<and>
    queue (snd (dsi_remove_from_request_queue (fst (dsi_queue_request w s x c))
      (snd (dsi_queue_request w s x c)))) = queue c \<and>
    queue_ok (snd (dsi_remove_from_request_queue (fst (dsi_queue_request w s x c))
      (snd (dsi_queue_request w s x c))))"
proof -
  have "filter (\<lambda>r. req_addr r \<noteq> cl_fresh c) (queue c) = queue c"
    using assms by (intro filter_other_addr) (auto simp: queue_ok_def)
  then show ?thesis
    using assms by (simp add: queue_request remove_from_queue)
qed

definition example_client :: client where
  "example_client = \<lparr>cl_srv = example_server, cl_vol = zero_volume, cl_sent = [], cl_ticks = 0,
     cl_fresh = 0, cl_registered = True, cl_send_mutex = False, cl_attention_threads = 0\<rparr>"

lemma example_client_ok: "queue_ok example_client"
  by (simp add: queue_ok_def example_client_def example_server_def afp_server_init_def zero_stats_def
      server_still_valid_def)

theorem queue_request_remove_witness:
  "queue_ok (snd (dsi_queue_request 5 afpDelete No_Other example_client)) \<and>
   queue (snd (dsi_remove_from_request_queue 0
     (snd (dsi_queue_request 5 afpDelete No_Other example_client)))) = []"
  using queue_request_remove [OF example_client_ok, of 5 afpDelete No_Other]
  by (simp add: queue_request example_client_ok)
     (simp add: example_client_def example_server_def afp_server_init_def)

end
