(* ===== verification/Dsi_Receive.thy ===== *)
theory Dsi_Receive
  imports Dsi_Queue
begin

text \<open>
  What \<open>dsi_recv\<close> does with the bytes of a packet: it puts a packet together from whatever pieces the
  socket delivers, hands it to the request it answers, and wakes up the sender.
\<close>

subsection \<open>States while a packet comes in\<close>

text \<open>The state after the bytes \<open>bs\<close> of a packet have been read into an empty buffer.\<close>

definition received :: "byte list \<Rightarrow> client \<Rightarrow> client" where
  "received bs c = map_srv (\<lambda>s. s\<lparr>srv_incoming_buffer := bs @ drop (length bs) (srv_incoming_buffer s),
     srv_data_read := length bs\<rparr>) (count_rx (length bs) c)"

text \<open>The request at \<open>a\<close> has been given the return code of the header.\<close>

definition replied :: "nat \<Rightarrow> int \<Rightarrow> client \<Rightarrow> client" where
  "replied a rc = update_request a (req_return_code_update (\<lambda>_. rc))"

definition incoming :: "bool \<Rightarrow> nat \<Rightarrow> int \<Rightarrow> byte list \<Rightarrow> client \<Rightarrow> client" where
  "incoming k a rc bs c = received bs (if k then replied a rc c else c)"

text \<open>The receive buffer is empty and has the size the client gave it.\<close>

definition buffer_ok :: "client \<Rightarrow> bool" where
  "buffer_ok c \<longleftrightarrow> recv_count c = 0 \<and> length (recv_buf c) = 4096 \<and> srv_bufsize (cl_srv c) = 4096"

lemma replied_simps [simp]:
  "recv_count (replied a rc c) = recv_count c" "recv_buf (replied a rc c) = recv_buf c"
  "srv_bufsize (cl_srv (replied a rc c)) = srv_bufsize (cl_srv c)"
  by (simp_all add: replied_def update_request_def)

lemma count_rx_simps [simp]:
  "recv_count (count_rx n c) = recv_count c" "recv_buf (count_rx n c) = recv_buf c"
  "srv_bufsize (cl_srv (count_rx n c)) = srv_bufsize (cl_srv c)" "queue (count_rx n c) = queue c"
  by (simp_all add: count_rx_def)

lemma received_simps [simp]:
  "recv_count (received bs c) = length bs"
  "recv_buf (received bs c) = bs @ drop (length bs) (recv_buf c)"
  "srv_bufsize (cl_srv (received bs c)) = srv_bufsize (cl_srv c)"
  "queue (received bs c) = queue c"
  by (simp_all add: received_def)

lemma incoming_simps [simp]:
  "recv_count (incoming k a rc bs c) = length bs"
  "recv_buf (incoming k a rc bs c) = bs @ drop (length bs) (recv_buf c)"
  "srv_bufsize (cl_srv (incoming k a rc bs c)) = srv_bufsize (cl_srv c)"
  by (simp_all add: incoming_def)

lemma replied_idem: "replied a rc (replied a rc c) = replied a rc c"
  by (simp add: replied_def update_request_def comp_def)

lemma replied_received: "replied a rc (received bs c) = received bs (replied a rc c)"
  by (simp add: replied_def update_request_def received_def count_rx_def)

lemma replied_incoming: "replied a rc (incoming k a rc bs c) = incoming True a rc bs c"
  by (simp add: incoming_def replied_received replied_idem)

lemma store_append:
  assumes "length bs + length d \<le> length buf"
  shows "wr_bytes (bs @ drop (length bs) buf) (length bs) d = Some ((bs @ d) @ drop (length (bs @ d)) buf)"
  using assms by (simp add: wr_bytes_def add.commute)

lemma received_more:
  "map_srv (\<lambda>s. s\<lparr>srv_incoming_buffer := (bs @ d) @ drop (length (bs @ d)) (recv_buf c),
       srv_data_read := srv_data_read s + length d\<rparr>) (count_rx (length d) (received bs c)) =
   received (bs @ d) c"
  by (simp add: received_def count_rx_def comp_def add.assoc)

lemma incoming_more:
  "map_srv (\<lambda>s. s\<lparr>srv_incoming_buffer := (bs @ d) @ drop (length (bs @ d)) (recv_buf c),
       srv_data_read := srv_data_read s + length d\<rparr>) (count_rx (length d) (incoming k a rc bs c)) =
   incoming k a rc (bs @ d) c"
  using received_more [where c = "if k then replied a rc c else c" and bs = bs and d = d]
  by (cases k) (simp_all add: incoming_def)

subsection \<open>Looking up the request\<close>

lemma find_request_update:
  assumes "\<And>r. req_requestid (f r) = req_requestid r"
  shows "dsi_find_request (cl_srv (update_request a f c)) rid =
    map_option (\<lambda>r. if req_addr r = a then f r else r) (dsi_find_request (cl_srv c) rid)"
proof -
  have "find (\<lambda>p. rid = req_requestid p) (map (\<lambda>r. if req_addr r = a then f r else r) q) =
      map_option (\<lambda>r. if req_addr r = a then f r else r) (find (\<lambda>p. rid = req_requestid p) q)" for q
    using assms by (induction q) auto
  then show ?thesis
    by (simp add: update_request_def dsi_find_request_def)
qed

lemma find_request_received [simp]:
  "dsi_find_request (cl_srv (received bs c)) rid = dsi_find_request (cl_srv c) rid"
  by (simp add: dsi_find_request_def)

lemma find_request_incoming:
  assumes "dsi_find_request (cl_srv c) rid = Some r" "req_addr r = a"
  shows "map_option (req_return_code_update (\<lambda>_. rc)) (dsi_find_request (cl_srv (incoming k a rc bs c)) rid)
    = Some (r\<lparr>req_return_code := rc\<rparr>)"
  using assms by (cases k) (simp_all add: incoming_def replied_def find_request_update)

text \<open>A packet whose header announces its length and whose identifier is that of the queued request
  \<open>r\<close>, which is not a read.\<close>

definition answers :: "dsi_header \<Rightarrow> byte list \<Rightarrow> dsi_request \<Rightarrow> client \<Rightarrow> bool" where
  "answers h body r c \<longleftrightarrow> unat (hdr_length h) = length body \<and> length body \<le> 4080 \<and>
     dsi_find_request (cl_srv c) (hdr_requestid h) = Some r \<and>
     req_subcommand r \<noteq> afpRead \<and> req_subcommand r \<noteq> afpReadExt"

abbreviation return_code_of :: "dsi_header \<Rightarrow> int" where
  "return_code_of h \<equiv> sint (hdr_return_code h)"

lemma gotenough_incoming:
  assumes "answers h body r c" "length bs = 16 + n" "take 16 bs = dsi_header_bytes h"
  shows "dsi_gotenough e left (incoming k (req_addr r) (return_code_of h) bs c) =
    dsi_recv_rest e False (Some (r\<lparr>req_return_code := return_code_of h\<rparr>)) (length body) left
      (incoming True (req_addr r) (return_code_of h) bs c)"
proof -
  let ?c = "incoming k (req_addr r) (return_code_of h) bs c"
  have "bs = dsi_header_bytes h @ drop 16 bs"
    using assms(3) by (metis append_take_drop_id)
  then have "dsi_header_of (recv_buf ?c) = Some h"
    using dsi_header_of_bytes by (metis append.assoc incoming_simps(2))
  moreover obtain r0 where r0: "dsi_find_request (cl_srv ?c) (hdr_requestid h) = Some r0"
    "r0\<lparr>req_return_code := return_code_of h\<rparr> = r\<lparr>req_return_code := return_code_of h\<rparr>"
    using find_request_incoming [of c "hdr_requestid h" r "req_addr r" "return_code_of h" k bs] assms(1)
    by (auto simp: answers_def)
  moreover have "req_addr r0 = req_addr r" "req_subcommand r0 = req_subcommand r"
    using arg_cong [OF r0(2), of req_addr] arg_cong [OF r0(2), of req_subcommand] by simp_all
  ultimately show ?thesis
    using assms(1) by (simp add: dsi_gotenough_def answers_def replied_incoming flip: replied_def)
qed

subsection \<open>One call of \<open>dsi_recv\<close>\<close>

abbreviation packet :: "dsi_header \<Rightarrow> byte list \<Rightarrow> byte list" where
  "packet h body \<equiv> dsi_header_bytes h @ body"

lemma take_16_prefix:
  assumes "bs @ rest = packet h body" "16 \<le> length bs"
  shows "take 16 bs = dsi_header_bytes h"
proof -
  have "take 16 (bs @ rest) = take 16 bs"
    using assms(2) by simp
  then show ?thesis
    using assms(1) by simp
qed

lemma recv_body:
  assumes ans: "answers h body r c" and ok: "buffer_ok c"
    and pkt: "bs @ d @ rest = packet h body" and bs: "16 \<le> length bs" and d: "d \<noteq> []"
  shows "dsi_recv e (Data d) (incoming k (req_addr r) (return_code_of h) bs c) =
    (if rest \<noteq> [] then Some (0, None, incoming True (req_addr r) (return_code_of h) (bs @ d) c)
     else dsi_process_packet e False (Some (r\<lparr>req_return_code := return_code_of h\<rparr>)) None
       (incoming True (req_addr r) (return_code_of h) (bs @ d) c))"
proof -
  have len: "length bs + length d + length rest = 16 + length body"
    using arg_cong [OF pkt, of length] by simp
  have "length d \<noteq> 0" "length body \<le> 4080"
    using d ans by (auto simp: answers_def)
  then have "length d \<le> length body \<and> length d \<le> 4096 \<and> 0 < length body \<and> length bs + length d \<le> 4096"
    using len bs by linarith
  note dl = this [THEN conjunct1] this [THEN conjunct2, THEN conjunct1]
    this [THEN conjunct2, THEN conjunct2, THEN conjunct1] this [THEN conjunct2, THEN conjunct2, THEN conjunct2]
  let ?c = "incoming True (req_addr r) (return_code_of h) bs c"
  have "dsi_recv e (Data d) (incoming k (req_addr r) (return_code_of h) bs c) =
      dsi_recv_rest e False (Some (r\<lparr>req_return_code := return_code_of h\<rparr>)) (length body) (Some (Data d)) ?c"
    using gotenough_incoming [OF ans, of bs "length bs - 16"] take_16_prefix [OF pkt bs] bs
    by (simp add: dsi_recv_def)
  moreover have "\<dots> = (if length bs + length d < length body + 16
      then Some (0, None, incoming True (req_addr r) (return_code_of h) (bs @ d) c)
      else dsi_process_packet e False (Some (r\<lparr>req_return_code := return_code_of h\<rparr>)) None
       (incoming True (req_addr r) (return_code_of h) (bs @ d) c))"
    using dl d ok store_append [of bs d "recv_buf c"]
      incoming_more [where bs = bs and d = d and k = True and a = "req_addr r" and rc = "return_code_of h"]
    by (simp add: dsi_recv_rest_def buffer_ok_def Let_def)
  moreover have "length bs + length d < length body + 16 \<longleftrightarrow> rest \<noteq> []"
    using len by (cases rest) auto
  ultimately show ?thesis
    by simp
qed

text \<open>The bytes of the header, whatever the packet answers.\<close>

lemma recv_header_bytes:
  assumes ok: "buffer_ok c" and len: "unat (hdr_length h) = length body"
    and pkt: "bs @ d @ rest = packet h body" and bs: "length bs < 16" and d: "d \<noteq> []"
    and x: "x = take (16 - length bs) d"
  shows "dsi_recv e (Data d) (received bs c) =
    (let left = (if drop (16 - length bs) d = [] then None else Some (Data (drop (16 - length bs) d))) in
     if length (bs @ x) = 16 \<and> body = [] then dsi_gotenough e left (received (bs @ x) c)
     else Some (0, left, received (bs @ x) c))"
proof -
  let ?left = "if drop (16 - length bs) d = [] then None else Some (Data (drop (16 - length bs) d))"
  let ?c = "received (bs @ x) c"
  have xl: "x \<noteq> []" "length bs + length x \<le> 4096"
    using bs d x by (cases d; auto)+
  have sr: "sock_read (Data d) (16 - length bs) = (int (length x), x, ?left)"
    using x by simp
  have wr: "wr_bytes (bs @ drop (length bs) (recv_buf c)) (length bs) x = Some (recv_buf ?c)"
    using store_append [of bs x "recv_buf c"] xl ok by (simp add: buffer_ok_def)
  obtain n where rd: "rd32 (recv_buf ?c) 8 = Some n"
    using f32.rd_defined [of 8 "recv_buf ?c"] ok xl by (auto simp: buffer_ok_def)
  have full: "n = 0 \<longleftrightarrow> body = []" if 16: "length (bs @ x) = 16"
  proof -
    have "x @ drop (16 - length bs) d = d"
      using x by simp
    then have "(bs @ x) @ (drop (16 - length bs) d @ rest) = packet h body"
      using pkt by (metis append.assoc)
    from take_16_prefix [OF this] have "bs @ x = dsi_header_bytes h"
      using 16 by simp
    then have "dsi_header_of (recv_buf ?c) = Some h"
      by (simp add: dsi_header_of_bytes)
    then have "n = hdr_length h"
      using rd by (auto simp: dsi_header_of_def split: bind_splits)
    then show ?thesis
      using len by (auto simp: unat_eq_0 [symmetric])
  qed
  have "dsi_recv e (Data d) (received bs c) =
     (if length (bs @ x) = 16 \<and> n = 0 then dsi_gotenough e ?left ?c else Some (0, ?left, ?c))"
    using bs xl wr rd sr received_more [where bs = bs and d = x and c = c]
    by (cases "length bs + length x = 16 \<and> n = 0"; cases "drop (16 - length bs) d = []")
       (auto simp: dsi_recv_def Let_def simp del: sock_read.simps)
  then show ?thesis
    using full by (auto simp: Let_def)
qed

lemma recv_header:
  assumes ans: "answers h body r c" and ok: "buffer_ok c"
    and pkt: "bs @ d @ rest = packet h body" and bs: "length bs < 16" and d: "d \<noteq> []"
    and x: "x = take (16 - length bs) d"
  shows "dsi_recv e (Data d) (incoming False (req_addr r) (return_code_of h) bs c) =
    (let left = (if drop (16 - length bs) d = [] then None else Some (Data (drop (16 - length bs) d))) in
     if length (bs @ x) = 16 \<and> body = []
     then dsi_process_packet e False (Some (r\<lparr>req_return_code := return_code_of h\<rparr>)) left
       (incoming True (req_addr r) (return_code_of h) (bs @ x) c)
     else Some (0, left, incoming False (req_addr r) (return_code_of h) (bs @ x) c))"
proof -
  have "unat (hdr_length h) = length body"
    using ans by (simp add: answers_def)
  note rh = recv_header_bytes [OF ok this pkt bs d x, of e]
  have start: "incoming False a rc b c = received b c" for a rc b
    by (simp add: incoming_def)
  have "dsi_gotenough e left (received (bs @ x) c) =
      dsi_process_packet e False (Some (r\<lparr>req_return_code := return_code_of h\<rparr>)) left
        (incoming True (req_addr r) (return_code_of h) (bs @ x) c)"
    if 16: "length (bs @ x) = 16" "body = []" for left
  proof -
    have "x @ drop (16 - length bs) d = d"
      using x by simp
    then have "(bs @ x) @ (drop (16 - length bs) d @ rest) = packet h body"
      using pkt by (metis append.assoc)
    from take_16_prefix [OF this] have "take 16 (bs @ x) = dsi_header_bytes h"
      using 16 by simp
    then show ?thesis
      using gotenough_incoming [OF ans, of "bs @ x" 0 e left False] 16 start
      by (simp add: dsi_recv_rest_def)
  qed
  then show ?thesis
    using rh start by (simp add: Let_def)
qed

subsection \<open>A packet in pieces\<close>

definition finish :: "env \<Rightarrow> rx_event list \<Rightarrow> int \<times> rx_event option \<times> client \<Rightarrow> client option" where
  "finish e rest = (\<lambda>(ret, left, c).
     if ret = - 1 then Some (loop_disconnect c)
     else dsi_events e (case left of None \<Rightarrow> rest | Some l \<Rightarrow> l # rest) c)"

lemma dsi_events_Nil [simp]: "dsi_events e [] c = Some c"
  by (simp add: dsi_events.simps)

lemma dsi_events_Cons: "dsi_events e (ev # rest) c = dsi_recv e ev c \<bind> finish e rest"
  by (subst dsi_events.simps) (simp add: finish_def)

lemma finish_0 [simp]: "finish e rest (0, left, c) = dsi_events e (case left of None \<Rightarrow> rest | Some l \<Rightarrow> l # rest) c"
  by (simp add: finish_def)

text \<open>Events are the non-empty pieces of the rest of the packet.\<close>

lemma events_in_pieces:
  assumes "answers h body r c" "buffer_ok c"
    and "bs @ concat chunks = packet h body" "chunks \<noteq> []" "[] \<notin> set chunks"
    and "k \<longrightarrow> 16 \<le> length bs"
  shows "dsi_events e (map Data chunks) (incoming k (req_addr r) (return_code_of h) bs c) =
    dsi_process_packet e False (Some (r\<lparr>req_return_code := return_code_of h\<rparr>)) None
      (incoming True (req_addr r) (return_code_of h) (packet h body) c) \<bind> finish e []"
  using assms(3-6)
proof (induction "length (concat chunks)" arbitrary: chunks bs k rule: less_induct)
  case less
  obtain d ds where ch: "chunks = d # ds" "d \<noteq> []" "[] \<notin> set ds"
    using less.prems by (cases chunks) auto
  have pkt: "bs @ d @ concat ds = packet h body"
    using less.prems ch by simp
  have ds: "ds = [] \<longleftrightarrow> concat ds = []"
    using ch(3) by (cases ds) auto
  let ?a = "req_addr r" and ?rc = "return_code_of h"
  show ?case
  proof (cases "16 \<le> length bs")
    case True
    then show ?thesis
      using recv_body [OF assms(1,2) pkt True ch(2), of e k] less.hyps [of ds "bs @ d" True]
        less.prems ch ds pkt
      by (cases "ds = []") (auto simp: dsi_events_Cons)
  next
    case False
    define x where "x = take (16 - length bs) d"
    define y where "y = drop (16 - length bs) d"
    define chunks' where "chunks' = (if y = [] then [] else [y]) @ ds"
    have xy: "x @ y = d"
      by (simp add: x_def y_def)
    have cat: "(bs @ x) @ concat chunks' = packet h body"
      using pkt xy by (auto simp: chunks'_def)
    have "length y < length d"
      using ch(2) False by (cases d) (auto simp: y_def)
    then have chunks': "[] \<notin> set chunks'" "length (concat chunks') < length (concat chunks)"
      using ch by (auto simp: chunks'_def)
    have "\<not> k"
      using less.prems(4) False by auto
    note rh = recv_header [OF assms(1,2) pkt _ ch(2) refl, of e, folded x_def y_def]
    have none: "chunks' = []" if "concat chunks' = []"
      using that chunks'(1) by (cases chunks') auto
    show ?thesis
    proof (cases "length (bs @ x) = 16 \<and> body = []")
      case True
      have "length (bs @ x) + length (concat chunks') = 16 + length body"
        using arg_cong [OF cat, of length] by simp
      then have "length (concat chunks') = 0"
        unfolding True [THEN conjunct1] True [THEN conjunct2] list.size by linarith
      then have "concat chunks' = []"
        by (rule length_0_conv [THEN iffD1])
      then have n: "chunks' = []"
        by (rule none)
      then have yd: "y = []" "ds = []"
        by (simp_all add: chunks'_def split: if_splits)
      have "bs @ x = packet h body"
        using cat unfolding n by simp
      with yd show ?thesis
        using rh False True ch \<open>\<not> k\<close> by (simp add: dsi_events_Cons)
    next
      case ne: False
      have "chunks' \<noteq> []"
      proof
        assume "chunks' = []"
        then have "length (bs @ x) = 16 + length body"
          using arg_cong [OF cat, of length] by simp
        moreover have "length (bs @ x) \<le> 16"
          using False by (simp add: x_def)
        ultimately show False
          using ne by auto
      qed
      then have "dsi_events e (map Data chunks') (incoming False ?a ?rc (bs @ x) c) =
          dsi_process_packet e False (Some (r\<lparr>req_return_code := ?rc\<rparr>)) None
            (incoming True ?a ?rc (packet h body) c) \<bind> finish e []"
        using less.hyps [of chunks' "bs @ x" False] cat chunks' by simp
      then show ?thesis
        using rh False ne ch \<open>\<not> k\<close>
        by (cases "y = []") (auto simp: dsi_events_Cons Let_def chunks'_def)
    qed
  qed
qed

subsection \<open>The reply to a command\<close>

text \<open>No handler touches the queue, the buffer or the statistics.\<close>

definition same_frame :: "afp_server \<Rightarrow> afp_server \<Rightarrow> bool" where
  "same_frame s s' \<longleftrightarrow> srv_command_requests s' = srv_command_requests s \<and>
     srv_incoming_buffer s' = srv_incoming_buffer s \<and> srv_data_read s' = srv_data_read s \<and>
     srv_stats s' = srv_stats s"

lemma same_frame_refl [simp]: "same_frame s s"
  by (simp add: same_frame_def)

lemma store_reply_server: "store_reply server wrap r = Some (rc, server', x) \<Longrightarrow> server' = server"
  by (auto simp: store_reply_def)

lemma srvrparms_frame: "afp_getsrvrparms_reply s buf sz = Some (rc, s') \<Longrightarrow> same_frame s s'"
  by (auto simp: afp_getsrvrparms_reply_def same_frame_def split: if_splits bind_splits)

lemma afp_reply_server:
  assumes "afp_reply m sub s x = Some (rc, s', x')" "sub \<noteq> afpGetSrvrParms"
  shows "s' = s"
  using assms
  by (auto simp: afp_reply_def Let_def dest!: store_reply_server split: if_splits other.splits)

lemma afp_reply_frame: "afp_reply m sub s x = Some (rc, s', x') \<Longrightarrow> same_frame s s'"
  using afp_reply_server [of m sub s x rc s' x']
  by (cases "sub = afpGetSrvrParms")
     (auto simp: afp_reply_def blank_subcommands_def Let_def dest!: srvrparms_frame split: if_splits)

lemma update_request_queue:
  assumes "queue d = q @ [r]" "req_addr r = a" "a \<notin> req_addr ` set q"
  shows "queue (update_request a f d) = q @ [f r]"
proof -
  have "map (\<lambda>r. if req_addr r = a then f r else r) q = q"
    using assms(3) by (intro map_idI) auto
  then show ?thesis
    using assms(1,2) by (simp add: update_request_def)
qed

lemma update_request_eq:
  assumes "queue d = q @ [r]" "req_addr r = a" "a \<notin> req_addr ` set q"
  shows "update_request a f d = map_srv (srv_command_requests_update (\<lambda>_. q @ [f r])) d"
proof -
  have "map (\<lambda>r. if req_addr r = a then f r else r) q = q"
    using assms(3) by (intro map_idI) auto
  then show ?thesis
    using assms(1,2) by (cases d; cases "cl_srv d") (simp add: update_request_def)
qed

lemma request_at_last:
  assumes "queue d = q @ [r]" "req_addr r = a" "a \<notin> req_addr ` set q"
  shows "request_at a d = Some r"
proof -
  have "find (\<lambda>r. req_addr r = a) (q @ [r]) = Some r"
    using assms(2,3) by (induction q) auto
  then show ?thesis
    using assms(1) by (simp add: request_at_def)
qed

text \<open>The request \<open>r\<close>, the last one of the queue, when its reply has been processed.\<close>

definition completed :: "dsi_request \<Rightarrow> int \<Rightarrow> other \<Rightarrow> dsi_request" where
  "completed r rc x = r\<lparr>req_return_code := rc, req_other := x, req_wait := 0, req_done_waiting := True\<rparr>"

lemma process_command_reply:
  assumes q: "queue c = q @ [r\<lparr>req_return_code := rc\<rparr>]" "req_addr r \<notin> req_addr ` set q"
    and buf: "recv_buf c = packet h body @ rest" "recv_count c = length (packet h body)"
    and len: "unat (hdr_length h) = length body"
    and cmd: "hdr_command h \<in> {DSI_DSICommand, DSI_DSIWrite}"
    and sub: "req_subcommand r \<notin> {0, afpRead, afpReadExt}" "req_wait r \<noteq> 0"
    and reply: "afp_reply (env_malloc e) (req_subcommand r) (cl_srv c) (req_other r) = Some (rc', s', x)"
  shows "dsi_process_packet e False (Some (r\<lparr>req_return_code := rc\<rparr>)) left c =
    Some (0, left, c\<lparr>cl_srv := s'\<lparr>srv_command_requests := q @ [completed r rc x], srv_data_read := 0\<rparr>\<rparr>)"
proof -
  have fr: "srv_command_requests s' = q @ [r\<lparr>req_return_code := rc\<rparr>]" "srv_incoming_buffer s' = recv_buf c"
    "srv_data_read s' = recv_count c"
    using afp_reply_frame [OF reply] q by (simp_all add: same_frame_def)
  let ?r = "r\<lparr>req_return_code := rc, req_other := x\<rparr>"
  let ?c = "c\<lparr>cl_srv := s'\<lparr>srv_command_requests := q @ [?r]\<rparr>\<rparr>"
  have u: "update_request (req_addr r) (req_other_update (\<lambda>_. x)) (c\<lparr>cl_srv := s'\<rparr>) = ?c"
    using update_request_eq [of "c\<lparr>cl_srv := s'\<rparr>" q "r\<lparr>req_return_code := rc\<rparr>" "req_addr r"] q fr by simp
  have cr: "dsi_command_reply e (r\<lparr>req_return_code := rc\<rparr>) left c = Some (left, ?c)"
    using reply sub buf u by (simp add: dsi_command_reply_def)
  have rd: "rd8 (recv_buf c) 1 = Some (hdr_command h)" "rd32 (recv_buf c) 8 = Some (hdr_length h)"
    using dsi_header_of_bytes [of h "body @ rest"] buf(1)
    by (auto simp: dsi_header_of_def split: bind_splits)
  have "dsi_after_processing e (Some (req_addr r)) left ?c =
      dsi_out (Some (req_addr r)) left (map_srv (srv_data_read_update (\<lambda>_. 0)) ?c)"
    using rd(2) fr buf(2) len by (simp add: dsi_after_processing_def)
  also have "\<dots> = Some (0, left, c\<lparr>cl_srv := s'\<lparr>srv_command_requests := q @ [completed r rc x], srv_data_read := 0\<rparr>\<rparr>)"
    using request_at_last [of "map_srv (srv_data_read_update (\<lambda>_. 0)) ?c" q ?r "req_addr r"]
      update_request_eq [of "map_srv (srv_data_read_update (\<lambda>_. 0)) ?c" q ?r "req_addr r"
        "\<lambda>r. r\<lparr>req_wait := 0, req_done_waiting := True\<rparr>"] q sub(2)
    by (simp add: dsi_out_def completed_def)
  finally show ?thesis
    using cmd rd(1) cr by (auto simp: dsi_process_packet_def)
qed

end
