(* ===== verification/Dsi_Send.thy ===== *)
theory Dsi_Send
  imports Dsi_Receive
begin

text \<open>
  \<open>dsi_send\<close> as its callers see it: the request goes out, the reply comes back in whatever pieces, its
  handler fills the result, and the connection is as idle as before. This is the interface on which
  every AFP request rests. Then what happens when the connection is lost, and when the server sends
  packets of its own.
\<close>

subsection \<open>The state of a session\<close>

definition session_ready :: "client \<Rightarrow> bool" where
  "session_ready c \<longleftrightarrow> queue_ok c \<and> buffer_ok c \<and> srv_fd (cl_srv c) \<noteq> 0 \<and>
     srv_connect_state (cl_srv c) = SERVER_STATE_CONNECTED \<and> \<not> cl_send_mutex c \<and>
     (\<forall>r\<in>set (queue c). req_requestid r \<noteq> srv_lastrequestid (cl_srv c))"

text \<open>The state after a request \<open>msg\<close> and its reply: the packet is recorded, one request has been
  allocated and freed, and the buffer and the statistics have changed.\<close>

definition after_exchange :: "byte list \<Rightarrow> byte list \<Rightarrow> dsi_stats \<Rightarrow> client \<Rightarrow> client" where
  "after_exchange msg buf stats c = c\<lparr>cl_sent := cl_sent c @ [set_length msg], cl_fresh := cl_fresh c + 1,
     cl_srv := (cl_srv c)\<lparr>srv_incoming_buffer := buf, srv_stats := stats\<rparr>\<rparr>"

lemma queue_after_exchange [simp]: "queue (after_exchange msg buf stats c) = queue c"
  by (simp add: after_exchange_def)

lemma session_ready_after_exchange:
  assumes "session_ready c" "length buf = 4096" "st_requests_pending stats = requests_pending (cl_srv c)"
  shows "session_ready (after_exchange msg buf stats c)"
  using assms
  by (auto simp: session_ready_def queue_ok_def buffer_ok_def after_exchange_def server_still_valid_def)

text \<open>The request as it stands in the queue.\<close>

definition new_request :: "int \<Rightarrow> byte \<Rightarrow> other \<Rightarrow> client \<Rightarrow> dsi_request" where
  "new_request w sub x c = \<lparr>req_addr = cl_fresh c, req_requestid = srv_lastrequestid (cl_srv c),
     req_subcommand = sub, req_other = x, req_wait = w, req_done_waiting = False, req_return_code = 0\<rparr>"

text \<open>The state in which the sender waits.\<close>

definition waiting :: "byte list \<Rightarrow> int \<Rightarrow> byte \<Rightarrow> other \<Rightarrow> client \<Rightarrow> client" where
  "waiting msg w sub x c = c\<lparr>cl_sent := cl_sent c @ [set_length msg], cl_fresh := cl_fresh c + 1,
     cl_srv := (cl_srv c)\<lparr>srv_command_requests := queue c @ [new_request w sub x c],
       srv_stats := (srv_stats (cl_srv c))\<lparr>st_requests_pending := requests_pending (cl_srv c) + 1,
         st_tx_bytes := st_tx_bytes (srv_stats (cl_srv c)) + word_of_nat (length (set_length msg))\<rparr>\<rparr>\<rparr>"

lemma dsi_start_sent:
  assumes "session_ready c" "env_malloc e sizeof_dsi_request"
    and "env_net e (cl_sent c @ [set_length msg]) = Sent evs"
  shows "dsi_start e msg w sub x c = Some (Inr (cl_fresh c, evs), waiting msg w sub x c)"
  using assms
  by (simp add: dsi_start_def session_ready_def queue_ok_def dsi_queue_request_def new_request_def
      waiting_def Let_def)

lemma waiting_simps [simp]:
  "queue (waiting msg w sub x c) = queue c @ [new_request w sub x c]"
  "recv_count (waiting msg w sub x c) = recv_count c" "recv_buf (waiting msg w sub x c) = recv_buf c"
  "srv_bufsize (cl_srv (waiting msg w sub x c)) = srv_bufsize (cl_srv c)"
  by (simp_all add: waiting_def)

lemma new_request_addr:
  assumes "session_ready c"
  shows "cl_fresh c \<notin> req_addr ` set (queue c)"
  using assms by (auto simp: session_ready_def queue_ok_def)

lemma find_new_request:
  assumes "session_ready c"
  shows "dsi_find_request (cl_srv (waiting msg w sub x c)) (srv_lastrequestid (cl_srv c)) =
    Some (new_request w sub x c)"
proof -
  have "find (\<lambda>p. srv_lastrequestid (cl_srv c) = req_requestid p) (q @ [new_request w sub x c]) =
      Some (new_request w sub x c)"
    if "\<forall>r\<in>set q. req_requestid r \<noteq> srv_lastrequestid (cl_srv c)" for q
    using that by (induction q) (auto simp: new_request_def)
  then show ?thesis
    using assms by (auto simp: dsi_find_request_def session_ready_def)
qed

subsection \<open>Request and reply\<close>

text \<open>The header of the reply to the current request, for a body of this length.\<close>

definition reply_header :: "client \<Rightarrow> dsi_header \<Rightarrow> byte list \<Rightarrow> bool" where
  "reply_header c h body \<longleftrightarrow> hdr_requestid h = srv_lastrequestid (cl_srv c) \<and>
     hdr_command h \<in> {DSI_DSICommand, DSI_DSIWrite} \<and>
     unat (hdr_length h) = length body \<and> length body \<le> 4080"

lemma incoming_waiting_queue:
  assumes "session_ready c"
  shows "queue (incoming True (cl_fresh c) rc bs (waiting msg w sub x c)) =
    queue c @ [(new_request w sub x c)\<lparr>req_return_code := rc\<rparr>]"
  using new_request_addr [OF assms]
  by (simp add: incoming_def replied_def
      update_request_queue [where q = "queue c" and r = "new_request w sub x c"] new_request_def)

lemma dsi_send_reply_events:
  assumes ready: "session_ready c"
    and chunks: "[] \<notin> set chunks" "concat chunks = packet h body"
    and h: "reply_header c h body"
    and sub: "sub \<notin> {0, afpRead, afpReadExt}" "w \<noteq> 0"
    and reply: "\<And>s. srv_incoming_buffer s = packet h body @ drop (16 + length body) (recv_buf c) \<Longrightarrow>
      srv_data_read s = 16 + length body \<Longrightarrow> \<exists>rc'. afp_reply (env_malloc e) sub s x = Some (rc', s, x')"
  shows "dsi_events e (map Data chunks) (waiting msg w sub x c) =
    (let d = incoming True (cl_fresh c) (return_code_of h) (packet h body) (waiting msg w sub x c) in
     Some (d\<lparr>cl_srv := (cl_srv d)\<lparr>srv_command_requests :=
       queue c @ [completed (new_request w sub x c) (return_code_of h) x'], srv_data_read := 0\<rparr>\<rparr>))"
proof -
  let ?w = "waiting msg w sub x c" and ?r = "new_request w sub x c"
  let ?d = "incoming True (cl_fresh c) (return_code_of h) (packet h body) ?w"
  have a: "req_addr ?r = cl_fresh c"
    by (simp add: new_request_def)
  have ans: "answers h body ?r ?w"
    using h sub find_new_request [OF ready] by (simp add: answers_def reply_header_def new_request_def)
  have ok: "buffer_ok ?w"
    using ready by (simp add: session_ready_def buffer_ok_def)
  have start: "incoming False (cl_fresh c) (return_code_of h) [] ?w = ?w"
    using ok by (cases ?w; cases "cl_srv ?w"; cases "srv_stats (cl_srv ?w)")
      (simp add: incoming_def received_def count_rx_def buffer_ok_def)
  obtain rc' where rc': "afp_reply (env_malloc e) sub (cl_srv ?d) x = Some (rc', cl_srv ?d, x')"
    using reply [of "cl_srv ?d"] by auto
  have "chunks \<noteq> []"
    using chunks(2) by (cases chunks) (auto simp: dsi_header_bytes_def)
  then have "dsi_events e (map Data chunks) ?w =
      dsi_process_packet e False (Some (?r\<lparr>req_return_code := return_code_of h\<rparr>)) None ?d \<bind> finish e []"
    using events_in_pieces [OF ans ok, of "[]" chunks False e] chunks start a by simp
  moreover have "dsi_process_packet e False (Some (?r\<lparr>req_return_code := return_code_of h\<rparr>)) None ?d =
      Some (0, None, ?d\<lparr>cl_srv := (cl_srv ?d)\<lparr>srv_command_requests :=
        queue c @ [completed ?r (return_code_of h) x'], srv_data_read := 0\<rparr>\<rparr>)"
  proof (rule process_command_reply)
    show "queue ?d = queue c @ [?r\<lparr>req_return_code := return_code_of h\<rparr>]"
      by (rule incoming_waiting_queue [OF ready])
    show "req_addr ?r \<notin> req_addr ` set (queue c)"
      using new_request_addr [OF ready] a by simp
    show "recv_buf ?d = packet h body @ drop (16 + length body) (recv_buf c)"
      by simp
    show "recv_count ?d = length (packet h body)"
      by simp
    show "unat (hdr_length h) = length body" "hdr_command h \<in> {DSI_DSICommand, DSI_DSIWrite}"
      using h by (simp_all add: reply_header_def)
    show "req_subcommand ?r \<notin> {0, afpRead, afpReadExt}" "req_wait ?r \<noteq> 0"
      using sub by (simp_all add: new_request_def)
    show "afp_reply (env_malloc e) (req_subcommand ?r) (cl_srv ?d) (req_other ?r) =
        Some (rc', cl_srv ?d, x')"
      using rc' by (simp add: new_request_def)
  qed
  ultimately show ?thesis
    by (simp add: Let_def)
qed

lemma unlink_last:
  "a \<notin> req_addr ` set q \<Longrightarrow> req_addr r = a \<Longrightarrow> unlink_request a (q @ [r]) = Some q"
  by (induction q) auto

lemma remove_completed:
  assumes ready: "session_ready c" and r: "req_addr r = cl_fresh c"
    and d: "d = incoming True (cl_fresh c) rc bs (waiting msg w sub x c)"
  shows "\<exists>stats. snd (dsi_remove_from_request_queue (cl_fresh c)
      (d\<lparr>cl_srv := (cl_srv d)\<lparr>srv_command_requests := queue c @ [r], srv_data_read := 0\<rparr>\<rparr>)) =
    after_exchange msg (bs @ drop (length bs) (recv_buf c)) stats c \<and>
    st_requests_pending stats = requests_pending (cl_srv c)"
proof -
  have "unlink_request (cl_fresh c) (queue c @ [r]) = Some (queue c)"
    using unlink_last [OF new_request_addr [OF ready] r] .
  moreover have "recv_count c = 0" "cl_registered c"
    using ready by (simp_all add: session_ready_def buffer_ok_def queue_ok_def server_still_valid_def)
  ultimately show ?thesis
    by (cases c; cases "cl_srv c"; cases "srv_stats (cl_srv c)")
       (simp add: d dsi_remove_from_request_queue_def server_still_valid_def incoming_def received_def
         replied_def update_request_def count_rx_def waiting_def after_exchange_def)
qed

text \<open>The exchange of a request and its reply.\<close>

lemma dsi_send_exchange:
  assumes ready: "session_ready c" and malloc: "env_malloc e sizeof_dsi_request"
    and net: "env_net e (cl_sent c @ [set_length msg]) = Sent (map Data chunks)"
    and chunks: "[] \<notin> set chunks" "concat chunks = packet h body"
    and h: "reply_header c h body"
    and sub: "sub \<notin> {0, afpRead, afpReadExt}" "w \<noteq> 0"
    and reply: "\<And>s. srv_incoming_buffer s = packet h body @ drop (16 + length body) (recv_buf c) \<Longrightarrow>
      srv_data_read s = 16 + length body \<Longrightarrow> \<exists>rc'. afp_reply (env_malloc e) sub s x = Some (rc', s, x')"
  shows "\<exists>stats. dsi_send e msg w sub x c = Some (return_code_of h, x',
      after_exchange msg (packet h body @ drop (16 + length body) (recv_buf c)) stats c) \<and>
    st_requests_pending stats = requests_pending (cl_srv c)"
proof -
  let ?d = "incoming True (cl_fresh c) (return_code_of h) (packet h body) (waiting msg w sub x c)"
  let ?r = "completed (new_request w sub x c) (return_code_of h) x'"
  let ?c = "?d\<lparr>cl_srv := (cl_srv ?d)\<lparr>srv_command_requests := queue c @ [?r], srv_data_read := 0\<rparr>\<rparr>"
  have a: "req_addr ?r = cl_fresh c"
    by (simp add: completed_def new_request_def)
  have "request_at (cl_fresh c) ?c = Some ?r"
    by (rule request_at_last [of _ "queue c"]) (use a new_request_addr [OF ready] in simp_all)
  moreover obtain stats where "snd (dsi_remove_from_request_queue (cl_fresh c) ?c) =
      after_exchange msg (packet h body @ drop (length (packet h body)) (recv_buf c)) stats c"
    "st_requests_pending stats = requests_pending (cl_srv c)"
    using remove_completed [OF ready a refl] by blast
  ultimately show ?thesis
    using dsi_start_sent [OF ready malloc net, of w sub x] sub(2)
      dsi_send_reply_events [OF ready chunks h sub reply, of msg]
    by (intro exI [of _ stats]) (simp add: dsi_send_def Let_def completed_def)
qed

text \<open>A request without a reply.\<close>

lemma dsi_send_no_reply:
  assumes "session_ready c" and "env_malloc e sizeof_dsi_request" and "0 < w"
    and "env_net e (cl_sent c @ [set_length msg]) = Sent []"
  shows "\<exists>stats. dsi_send e msg w sub x c = Some (ETIMEDOUT, x, after_exchange msg (recv_buf c) stats c) \<and>
    st_requests_pending stats = requests_pending (cl_srv c)"
proof -
  let ?w = "waiting msg w sub x c" and ?r = "new_request w sub x c"
  have r: "req_addr ?r = cl_fresh c" "\<not> req_done_waiting ?r" "req_other ?r = x"
    by (simp_all add: new_request_def)
  have at: "request_at (cl_fresh c) ?w = Some ?r"
    by (rule request_at_last [of _ "queue c"]) (use r new_request_addr [OF assms(1)] in simp_all)
  have ul: "unlink_request (cl_fresh c) (queue c @ [?r]) = Some (queue c)"
    using unlink_last [OF new_request_addr [OF assms(1)] r(1)] .
  let ?c = "snd (dsi_remove_from_request_queue (cl_fresh c) ?w)"
  have send: "dsi_send e msg w sub x c = Some (ETIMEDOUT, x, ?c)"
    using dsi_start_sent [OF assms(1,2,4), of w sub x] at r assms(3) by (simp add: dsi_send_def)
  have "?c = after_exchange msg (recv_buf c) (srv_stats (cl_srv ?c)) c"
    "st_requests_pending (srv_stats (cl_srv ?c)) = requests_pending (cl_srv c)"
    using ul assms(1)
    by (cases c; cases "cl_srv c"; simp add: dsi_remove_from_request_queue_def server_still_valid_def
        session_ready_def queue_ok_def waiting_def after_exchange_def)+
  then show ?thesis
    using send by metis
qed

subsection \<open>Main results\<close>

text \<open>(C8) The contract of \<open>dsi_send\<close>. In a ready session, when the server answers a command with a
  packet of at most 4080 bytes behind the header, cut into pieces in any way, \<open>dsi_send\<close> returns the
  return code of that packet and the result its handler computes from it; the queue of requests and the
  number of pending ones are as before, and the session is ready again.\<close>

theorem dsi_send_correct:
  assumes "session_ready c" and "env_malloc e sizeof_dsi_request"
    and "env_net e (cl_sent c @ [set_length msg]) = Sent (map Data chunks)"
    and "[] \<notin> set chunks" and "concat chunks = packet h body"
    and "reply_header c h body" and "sub \<notin> {0, afpRead, afpReadExt}" and "w \<noteq> 0"
    and "\<And>s. srv_incoming_buffer s = packet h body @ drop (16 + length body) (recv_buf c) \<Longrightarrow>
      srv_data_read s = 16 + length body \<Longrightarrow> \<exists>rc'. afp_reply (env_malloc e) sub s x = Some (rc', s, x')"
  shows "\<exists>c'. dsi_send e msg w sub x c = Some (return_code_of h, x', c') \<and> session_ready c' \<and>
    queue c' = queue c \<and> cl_vol c' = cl_vol c \<and> cl_sent c' = cl_sent c @ [set_length msg]"
proof -
  obtain stats where s: "dsi_send e msg w sub x c = Some (return_code_of h, x',
      after_exchange msg (packet h body @ drop (16 + length body) (recv_buf c)) stats c)"
    "st_requests_pending stats = requests_pending (cl_srv c)"
    using dsi_send_exchange [OF assms] by blast
  have "length (packet h body @ drop (16 + length body) (recv_buf c)) = 4096"
    using assms(1,6) by (simp add: session_ready_def buffer_ok_def reply_header_def)
  then show ?thesis
    using s session_ready_after_exchange [OF assms(1) _ s(2)] by (auto simp: after_exchange_def)
qed

text \<open>An environment in which everything but the network is as simple as can be.\<close>

definition example_env :: "(byte list list \<Rightarrow> tx_result) \<Rightarrow> env" where
  "example_env net = \<lparr>env_net = net, env_clock = (\<lambda>_. 0), env_malloc = (\<lambda>_. True), env_heap = (\<lambda>_. 0),
     env_stack = zero_file_info, env_reconnect = Some, env_close_session = Some, env_iconv = (\<lambda>_. None), 
     env_uid = 501, env_gid = 20\<rparr>"

lemma example_client_ready: "session_ready example_client"
  using example_client_ok
  by (simp add: session_ready_def buffer_ok_def example_client_def example_server_def afp_server_init_def)

definition not_found_header :: dsi_header where
  "not_found_header = \<lparr>hdr_flags = DSI_REPLY, hdr_command = DSI_DSICommand, hdr_requestid = 0,
     hdr_return_code = word_of_int kFPObjectNotFound, hdr_length = 0, hdr_reserved = 0\<rparr>"

lemma blank_reply_unchanged:
  assumes "sub \<in> set blank_subcommands" "srv_incoming_buffer s = packet h body @ rest"
    and "16 \<le> srv_data_read s"
  shows "\<exists>rc. afp_reply m sub s x = Some (rc, s, x)"
proof -
  have "\<exists>w. rd32le (packet h body @ rest) 4 = Some w"
    by (simp add: dsi_header_bytes_def rd32le_def rd16le_def rd8_def)
  then show ?thesis
    using assms by (auto simp: afp_reply_def afp_blank_reply_def raw_error_code_def)
qed

theorem dsi_send_correct_witness:
  "\<exists>c'. dsi_send (example_env (\<lambda>_. Sent (map Data
       [take 5 (dsi_header_bytes not_found_header), drop 5 (dsi_header_bytes not_found_header)])))
     (replicate 20 0) 5 afpDelete No_Other example_client = Some (kFPObjectNotFound, No_Other, c') \<and>
   session_ready c'"
proof -
  let ?b = "dsi_header_bytes not_found_header"
  let ?e = "example_env (\<lambda>_. Sent (map Data [take 5 ?b, drop 5 ?b]))"
  have h: "reply_header example_client not_found_header []"
    by (simp add: reply_header_def not_found_header_def example_client_def example_server_def
        afp_server_init_def)
  obtain rc where rc: "rd32le (packet not_found_header []) 4 = Some rc"
    by (simp add: dsi_header_bytes_def rd32le_def rd16le_def rd8_def)
  have reply: "\<exists>rc'. afp_reply (env_malloc ?e) afpDelete s No_Other = Some (rc', s, No_Other)"
    if "srv_incoming_buffer s = packet not_found_header [] @ drop (16 + length []) (recv_buf example_client)"
      "srv_data_read s = 16 + length []" for s
    using that rc
    by (simp add: afp_reply_def blank_subcommands_def afp_blank_reply_def raw_error_code_def rd32le_append1)
  have "length ?b = 16" "?b \<noteq> []"
    by (simp, simp add: dsi_header_bytes_def)
  then have "[] \<notin> set [take 5 ?b, drop 5 ?b]" "concat [take 5 ?b, drop 5 ?b] = packet not_found_header []"
    by auto
  then obtain c' where "dsi_send ?e (replicate 20 0) 5 afpDelete No_Other example_client =
      Some (return_code_of not_found_header, No_Other, c')" "session_ready c'"
    using dsi_send_correct [OF example_client_ready _ _ _ _ h _ _ reply, where w = 5 and
        msg = "replicate 20 0" and chunks = "[take 5 ?b, drop 5 ?b]"]
    by (auto simp: example_env_def)
  then show ?thesis
    by (simp add: not_found_header_def)
qed

text \<open>(C36) A lost connection. When the write of a request fails with \<open>EPIPE\<close>, \<open>dsi_send\<close> returns -1
  but leaves the request in the queue and \<open>send_mutex\<close> locked; unless re-establishing the session
  releases that lock, which nothing in the client does, no later request returns.\<close>

theorem lost_connection_blocks_requests:
  assumes "session_ready c" and "env_malloc e sizeof_dsi_request"
    and "env_net e (cl_sent c @ [set_length msg]) = Write_Error EPIPE"
    and "\<And>d d'. env_reconnect e d = Some d' \<Longrightarrow> cl_send_mutex d' = cl_send_mutex d"
  shows "\<exists>c'. dsi_send e msg w sub x c = Some (- 1, x, c') \<and>
    queue c' = queue c @ [new_request w sub x c] \<and> dsi_send e msg' w' sub' x' c' = None"
proof -
  let ?c = "(waiting msg w sub x c)\<lparr>cl_send_mutex := True,
    cl_srv := (cl_srv (waiting msg w sub x c))\<lparr>srv_connect_state := SERVER_STATE_DISCONNECTED,
      srv_stats := (srv_stats (cl_srv c))\<lparr>st_requests_pending := requests_pending (cl_srv c) + 1\<rparr>\<rparr>\<rparr>"
  have "dsi_send e msg w sub x c = Some (- 1, x, ?c)"
    using assms(1-3)
    by (cases c; cases "cl_srv c"; cases "srv_stats (cl_srv c)")
       (simp add: dsi_send_def dsi_start_def session_ready_def queue_ok_def dsi_queue_request_def
        new_request_def waiting_def server_still_valid_def Let_def)
  moreover have "dsi_send e msg' w' sub' x' ?c = None"
  proof -
    have "cl_send_mutex d'" if "env_reconnect e (snd (dsi_queue_request w' sub' x' ?c)) = Some d'" for d'
      using assms(4) [OF that] by (simp add: dsi_queue_request_def Let_def)
    then have "dsi_start e msg' w' sub' x' ?c = None"
      using assms(1,2)
      by (auto simp: dsi_start_def session_ready_def queue_ok_def dsi_queue_request_def
          server_still_valid_def waiting_def Let_def split: bind_splits)
    then show ?thesis
      by (simp add: dsi_send_def)
  qed
  ultimately show ?thesis
    by (intro exI [of _ ?c]) simp
qed

theorem lost_connection_blocks_requests_witness:
  "\<exists>c'. dsi_send (example_env (\<lambda>_. Write_Error EPIPE)) (replicate 20 0) 5 afpDelete No_Other example_client
      = Some (- 1, No_Other, c') \<and>
    dsi_send (example_env (\<lambda>_. Write_Error EPIPE)) (replicate 20 0) 5 afpDelete No_Other c' = None"
  using lost_connection_blocks_requests [OF example_client_ready,
      of "example_env (\<lambda>_. Write_Error EPIPE)" "replicate 20 0" 5 afpDelete No_Other
         "replicate 20 0" 5 afpDelete No_Other]
  by (auto simp: example_env_def)

text \<open>No reply. When nothing arrives while the sender waits, \<open>dsi_send\<close> returns \<open>ETIMEDOUT\<close>, leaves
  the result alone, takes the request off the queue again, and the session stays ready.\<close>

theorem dsi_send_timeout:
  assumes "session_ready c" and "env_malloc e sizeof_dsi_request" and "0 < w"
    and "env_net e (cl_sent c @ [set_length msg]) = Sent []"
  shows "\<exists>c'. dsi_send e msg w sub x c = Some (ETIMEDOUT, x, c') \<and> queue c' = queue c \<and> session_ready c'"
proof -
  obtain stats where s: "dsi_send e msg w sub x c = Some (ETIMEDOUT, x, after_exchange msg (recv_buf c) stats c)"
    "st_requests_pending stats = requests_pending (cl_srv c)"
    using dsi_send_no_reply [OF assms] by blast
  have "length (recv_buf c) = 4096"
    using assms(1) by (simp add: session_ready_def buffer_ok_def)
  then show ?thesis
    using s session_ready_after_exchange [OF assms(1) _ s(2)] by auto
qed

theorem dsi_send_timeout_witness:
  "\<exists>c'. dsi_send (example_env (\<lambda>_. Sent [])) (replicate 20 0) 5 afpDelete No_Other example_client =
    Some (ETIMEDOUT, No_Other, c')"
  using dsi_send_timeout [OF example_client_ready,
      of "example_env (\<lambda>_. Sent [])" 5 "replicate 20 0" afpDelete No_Other]
  by (auto simp: example_env_def)

end
