(* ===== verification/Dsi_Packets.thy ===== *)
theory Dsi_Packets
  imports Dsi_Send
begin

text \<open>
  Packets that are not the reply the client waits for: the tickles of the server, and packets larger
  than the receive buffer.
\<close>

subsection \<open>Tickles\<close>

text \<open>The state after a tickle has been answered: one more identifier and one more packet.\<close>

definition tickled :: "dsi_stats \<Rightarrow> client \<Rightarrow> client" where
  "tickled stats c =
     c\<lparr>cl_sent := cl_sent c @ [set_length (snd (dsi_setup_header DSI_DSITickle (cl_srv c)))],
       cl_fresh := cl_fresh c + 1,
       cl_srv := (fst (dsi_setup_header DSI_DSITickle (cl_srv c)))\<lparr>srv_stats := stats\<rparr>\<rparr>"

abbreviation tickle_answer :: "client \<Rightarrow> byte list" where
  "tickle_answer c \<equiv> set_length (snd (dsi_setup_header DSI_DSITickle (cl_srv c)))"

lemma setup_header_frame [simp]:
  "srv_command_requests (fst (dsi_setup_header cmd s)) = srv_command_requests s"
  "srv_stats (fst (dsi_setup_header cmd s)) = srv_stats s"
  "srv_fd (fst (dsi_setup_header cmd s)) = srv_fd s"
  "srv_connect_state (fst (dsi_setup_header cmd s)) = srv_connect_state s"
  "srv_incoming_buffer (fst (dsi_setup_header cmd s)) = srv_incoming_buffer s"
  "srv_data_read (fst (dsi_setup_header cmd s)) = srv_data_read s"
  "srv_bufsize (fst (dsi_setup_header cmd s)) = srv_bufsize s"
  by (simp_all add: dsi_setup_header_def Let_def)

lemma tickled_simps [simp]:
  "queue (tickled stats c) = queue c" "recv_buf (tickled stats c) = recv_buf c"
  "recv_count (tickled stats c) = recv_count c" "cl_sent (tickled stats c) = cl_sent c @ [tickle_answer c]"
  by (simp_all add: tickled_def)

lemma incoming_tickle:
  assumes "queue_ok c" "srv_fd (cl_srv c) \<noteq> 0" "srv_connect_state (cl_srv c) = SERVER_STATE_CONNECTED"
    "\<not> cl_send_mutex c" "env_malloc e sizeof_dsi_request" "env_net e (cl_sent c @ [tickle_answer c]) = Sent evs"
  shows "\<exists>stats. dsi_incoming_tickle e c = Some (tickled stats c) \<and>
    st_requests_pending stats = requests_pending (cl_srv c)"
proof -
  obtain server header where sh: "dsi_setup_header DSI_DSITickle (cl_srv c) = (server, header)"
    by fastforce
  note fr = setup_header_frame [of DSI_DSITickle "cl_srv c", unfolded sh fst_conv]
  let ?r = "\<lparr>req_addr = cl_fresh c, req_requestid = srv_lastrequestid server, req_subcommand = 0,
    req_other = No_Other, req_wait = 0, req_done_waiting = False, req_return_code = 0\<rparr>"
  have "cl_fresh c \<notin> req_addr ` set (queue c)"
    using assms(1) by (auto simp: queue_ok_def)
  then have "unlink_request (cl_fresh c) (queue c @ [?r]) = Some (queue c)"
    by (rule unlink_last) simp
  then have "dsi_incoming_tickle e c = Some (tickled (st_tx_bytes_update
      (\<lambda>n. n + word_of_nat (length (set_length header))) (srv_stats (cl_srv c))) c)"
    using assms fr sh
    by (cases c; cases server; cases "srv_stats (cl_srv c)")
      (simp add: dsi_incoming_tickle_def dsi_start_def dsi_queue_request_def queue_ok_def tickled_def
        server_still_valid_def dsi_remove_from_request_queue_def Let_def)
  then show ?thesis
    by auto
qed

text \<open>The keep-alive. A tickle of the server is answered by a tickle with a fresh identifier; nothing
  else of the session changes: no request is left behind, and the next request still finds the session
  ready unless its identifier is one that is still waiting.\<close>

theorem tickle_answered:
  assumes "session_ready c" and "env_malloc e sizeof_dsi_request"
    and "env_net e (cl_sent c @ [tickle_answer c]) = Sent evs"
    and "\<forall>r\<in>set (queue c). req_requestid r \<noteq> srv_lastrequestid (cl_srv c) + 1"
  shows "\<exists>c'. dsi_incoming_tickle e c = Some c' \<and> queue c' = queue c \<and> session_ready c' \<and>
    cl_sent c' = cl_sent c @ [tickle_answer c] \<and>
    srv_lastrequestid (cl_srv c') = srv_lastrequestid (cl_srv c) + 1"
proof -
  obtain stats where t: "dsi_incoming_tickle e c = Some (tickled stats c)"
    "st_requests_pending stats = requests_pending (cl_srv c)"
    using incoming_tickle [OF _ _ _ _ assms(2,3)] assms(1) by (auto simp: session_ready_def)
  have id: "srv_lastrequestid (cl_srv (tickled stats c)) = srv_lastrequestid (cl_srv c) + 1"
    by (simp add: tickled_def setup_header_id)
  have "session_ready (tickled stats c)"
    using assms(1,4) t(2) id
    by (auto simp: session_ready_def queue_ok_def buffer_ok_def server_still_valid_def tickled_def)
  then show ?thesis
    using t(1) id by auto
qed

theorem tickle_answered_witness:
  "\<exists>c'. dsi_incoming_tickle (example_env (\<lambda>_. Sent [])) example_client = Some c' \<and> session_ready c'"
  using tickle_answered [OF example_client_ready, of "example_env (\<lambda>_. Sent [])" "[]"]
  by (auto simp: example_env_def example_client_def example_server_def afp_server_init_def)

lemma waiting_queue_ok:
  assumes "session_ready c"
  shows "queue_ok (incoming True (cl_fresh c) rc bs (waiting msg w sub x c))"
  using assms incoming_waiting_queue [OF assms, of rc bs msg w sub x]
  by (auto simp: session_ready_def queue_ok_def new_request_def server_still_valid_def incoming_def
      received_def replied_def update_request_def count_rx_def waiting_def)

lemma tickle_wakes_sender:
  assumes ready: "session_ready c" and malloc: "env_malloc e sizeof_dsi_request"
    and further: "\<And>p. \<exists>evs. env_net e (cl_sent c @ [set_length msg] @ [p]) = Sent evs"
    and h: "hdr_command h = DSI_DSITickle" "hdr_requestid h = srv_lastrequestid (cl_srv c)" "hdr_length h = 0"
    and sub: "sub \<notin> {afpRead, afpReadExt}" "w \<noteq> 0"
  shows "\<exists>d. dsi_events e [Data (dsi_header_bytes h)] (waiting msg w sub x c) = Some d \<and>
    queue d = queue c @ [completed (new_request w sub x c) (return_code_of h) x]"
proof -
  let ?w = "waiting msg w sub x c" and ?r = "new_request w sub x c"
  let ?d = "incoming True (cl_fresh c) (return_code_of h) (packet h []) ?w"
  let ?r' = "?r\<lparr>req_return_code := return_code_of h\<rparr>"
  have a: "req_addr ?r = cl_fresh c" "req_wait ?r = w" "req_other ?r = x" "\<not> req_done_waiting ?r"
    by (simp_all add: new_request_def)
  have ans: "answers h [] ?r ?w"
    using h sub find_new_request [OF ready] by (simp add: answers_def new_request_def)
  have ok: "buffer_ok ?w"
    using ready by (simp add: session_ready_def buffer_ok_def)
  have start: "incoming False (cl_fresh c) (return_code_of h) [] ?w = ?w"
    using ok by (cases ?w; cases "cl_srv ?w"; cases "srv_stats (cl_srv ?w)")
      (simp add: incoming_def received_def count_rx_def buffer_ok_def)
  have q: "queue ?d = queue c @ [?r']"
    by (rule incoming_waiting_queue [OF ready])
  have sent: "cl_sent ?d = cl_sent c @ [set_length msg]" "srv_fd (cl_srv ?d) = srv_fd (cl_srv c)"
    "srv_connect_state (cl_srv ?d) = srv_connect_state (cl_srv c)" "cl_send_mutex ?d = cl_send_mutex c"
    by (simp_all add: incoming_def received_def replied_def update_request_def count_rx_def waiting_def)
  obtain evs where net: "env_net e (cl_sent ?d @ [tickle_answer ?d]) = Sent evs"
    using further [of "tickle_answer ?d"] sent(1) by auto
  obtain stats where tick: "dsi_incoming_tickle e ?d = Some (tickled stats ?d)"
    using incoming_tickle [OF waiting_queue_ok [OF ready] _ _ _ malloc net] sent ready
    by (auto simp: session_ready_def)
  let ?t = "map_srv (srv_data_read_update (\<lambda>_. 0)) (tickled stats ?d)"
  have na: "cl_fresh c \<notin> req_addr ` set (queue c)"
    by (rule new_request_addr [OF ready])
  have rd: "rd8 (recv_buf ?d) 1 = Some DSI_DSITickle" "rd32 (recv_buf ?d) 8 = Some 0"
    using dsi_header_of_bytes [of h "drop 16 (recv_buf c)"] h
    by (auto simp: dsi_header_of_def split: bind_splits)
  have "dsi_process_packet e False (Some ?r') None ?d = dsi_out (Some (cl_fresh c)) None ?t"
    using rd tick a(1) by (simp add: dsi_process_packet_def dsi_after_processing_def)
  also have "\<dots> = Some (0, None, update_request (cl_fresh c) (\<lambda>r. r\<lparr>req_wait := 0, req_done_waiting := True\<rparr>) ?t)"
    using request_at_last [of ?t "queue c" ?r' "cl_fresh c"] q na a sub(2) by (simp add: dsi_out_def)
  finally have "dsi_events e (map Data [dsi_header_bytes h]) ?w =
      Some (update_request (cl_fresh c) (\<lambda>r. r\<lparr>req_wait := 0, req_done_waiting := True\<rparr>) ?t)"
    using events_in_pieces [OF ans ok, of "[]" "[dsi_header_bytes h]" False e] start a(1)
    by (simp add: dsi_header_bytes_def)
  moreover have "queue (update_request (cl_fresh c) (\<lambda>r. r\<lparr>req_wait := 0, req_done_waiting := True\<rparr>) ?t) =
      queue c @ [completed ?r (return_code_of h) x]"
    using update_request_queue [of ?t "queue c" ?r' "cl_fresh c"] q na a by (simp add: completed_def)
  ultimately show ?thesis
    by auto
qed

text \<open>(C37) Requests of the server have identifiers of their own, but the client looks every packet up
  in its queue. A tickle whose identifier is that of the request the client waits for is taken for the
  reply: \<open>dsi_send\<close> returns the return code of the tickle, 0 as a rule, with the result untouched.\<close>

theorem tickle_taken_for_reply:
  assumes "session_ready c" and "env_malloc e sizeof_dsi_request"
    and "env_net e (cl_sent c @ [set_length msg]) = Sent [Data (dsi_header_bytes h)]"
    and "\<And>p. \<exists>evs. env_net e (cl_sent c @ [set_length msg] @ [p]) = Sent evs"
    and "hdr_flags h = DSI_REQUEST" and "hdr_command h = DSI_DSITickle"
    and "hdr_requestid h = srv_lastrequestid (cl_srv c)" and "hdr_length h = 0"
    and "sub \<notin> {afpRead, afpReadExt}" and "w \<noteq> 0"
  shows "\<exists>c'. dsi_send e msg w sub x c = Some (return_code_of h, x, c')"
proof -
  let ?r = "completed (new_request w sub x c) (return_code_of h) x"
  obtain d where d: "dsi_events e [Data (dsi_header_bytes h)] (waiting msg w sub x c) = Some d"
    "queue d = queue c @ [?r]"
    using tickle_wakes_sender [OF assms(1,2,4,6-10)] by blast
  have "request_at (cl_fresh c) d = Some ?r"
    using request_at_last [OF d(2)] new_request_addr [OF assms(1)] by (simp add: completed_def new_request_def)
  then show ?thesis
    using dsi_start_sent [OF assms(1-3), of w sub x] d(1) assms(10)
    by (simp add: dsi_send_def completed_def)
qed

definition tickle_header :: dsi_header where
  "tickle_header = \<lparr>hdr_flags = DSI_REQUEST, hdr_command = DSI_DSITickle, hdr_requestid = 0,
     hdr_return_code = 0, hdr_length = 0, hdr_reserved = 0\<rparr>"

theorem tickle_taken_for_reply_witness:
  "\<exists>c'. dsi_send (example_env (\<lambda>sent. Sent [Data (dsi_header_bytes tickle_header)])) (replicate 20 0) 5
      afpDelete No_Other example_client = Some (0, No_Other, c')"
  using tickle_taken_for_reply [OF example_client_ready,
      of "example_env (\<lambda>sent. Sent [Data (dsi_header_bytes tickle_header)])" "replicate 20 0" tickle_header
         afpDelete 5 No_Other]
  by (auto simp: example_env_def tickle_header_def example_client_def example_server_def
      afp_server_init_def)

subsection \<open>Packets larger than the buffer\<close>

text \<open>(C38) The receive buffer has 4096 bytes for the header and the body, but the read behind the header
  is limited to 4096 bytes as well: a body of more than 4080 bytes that is there in one piece is written
  past the end of the buffer.\<close>

theorem large_packet_overflows:
  assumes "buffer_ok c" and "unat (hdr_length h) = length body" and "4080 < length body"
    and "\<forall>r\<in>set (queue c). req_subcommand r \<notin> {afpRead, afpReadExt}"
  shows "dsi_events e [Data (dsi_header_bytes h), Data body] c = None"
proof -
  let ?b = "dsi_header_bytes h" and ?c = "received (dsi_header_bytes h) c"
  have nz: "hdr_length h \<noteq> 0" "?b \<noteq> []"
    using assms(2,3) by (auto simp: dsi_header_bytes_def)
  have hdr: "dsi_header_of (recv_buf ?c) = Some h"
    by (simp add: dsi_header_of_bytes)
  then have rd: "rd32 (recv_buf ?c) 8 = Some (hdr_length h)"
    by (auto simp: dsi_header_of_def split: bind_splits)
  have "wr_bytes (recv_buf c) 0 ?b = Some (recv_buf ?c)"
    using store_append [of "[]" ?b "recv_buf c"] assms(1) by (simp add: buffer_ok_def)
  moreover have "received [] c = c"
    using assms(1) by (cases c; cases "cl_srv c"; cases "srv_stats (cl_srv c)")
      (simp add: received_def count_rx_def buffer_ok_def)
  ultimately have first: "dsi_recv e (Data ?b) c = Some (0, None, ?c)"
    using received_more [where bs = "[]" and d = ?b and c = c] assms(1) rd nz
    by (simp add: dsi_recv_def buffer_ok_def)
  have "dsi_recv_rest e k r (length body) (Some (Data body)) d = None"
    if "recv_count d = 16" "length (recv_buf d) = 4096" "srv_bufsize (cl_srv d) = 4096" for k r d
    using that assms(3) by (auto simp: dsi_recv_rest_def wr_bytes_def Let_def)
  note rest = this
  have "dsi_recv e (Data body) ?c = dsi_gotenough e (Some (Data body)) ?c"
    by (simp add: dsi_recv_def)
  also have "\<dots> = None"
  proof (cases "dsi_find_request (cl_srv c) (hdr_requestid h)")
    case None
    then show ?thesis
      using hdr rest assms(1,2) by (simp add: dsi_gotenough_def buffer_ok_def Let_def)
  next
    case (Some r)
    then have "req_subcommand r \<notin> {afpRead, afpReadExt}"
      using assms(4) by (auto simp: dsi_find_request_def find_Some_iff)
    with Some show ?thesis
      using hdr rest assms(1,2) by (simp add: dsi_gotenough_def buffer_ok_def Let_def flip: replied_def)
  qed
  finally show ?thesis
    using first by (simp add: dsi_events_Cons)
qed

definition large_header :: dsi_header where
  "large_header = \<lparr>hdr_flags = DSI_REPLY, hdr_command = DSI_DSICommand, hdr_requestid = 1,
     hdr_return_code = 0, hdr_length = 4081, hdr_reserved = 0\<rparr>"

theorem large_packet_overflows_witness:
  "dsi_events (example_env (\<lambda>_. Sent [])) [Data (dsi_header_bytes large_header), Data (replicate 4081 0)]
     example_client = None"
  by (rule large_packet_overflows)
     (use example_client_ready in \<open>simp_all add: session_ready_def large_header_def example_client_def
       example_server_def afp_server_init_def\<close>)

end
