(* ===== verification/Proto_Requests.thy ===== *)
theory Proto_Requests
  imports Dsi_Packets
begin

text \<open>
  The requests of the Apple Filing Protocol (\<open>lib/proto_files.c\<close>, \<open>proto_directory.c\<close>,
  \<open>proto_fork.c\<close>, \<open>proto_volume.c\<close>, \<open>proto_desktop.c\<close>, \<open>proto_attr.c\<close>, \<open>proto_map.c\<close>,
  \<open>proto_login.c\<close>, \<open>proto_server.c\<close>, \<open>proto_session.c\<close>). Each builds a packet, field by field in the
  order of its packed structure, and hands it to \<open>dsi_send\<close> with the place for the reply.

  The volume of a request is the volume of the connection. The result of a request is the value it
  returns, the values it stores through its pointers, and the new state.
\<close>

subsection \<open>Building blocks\<close>

text \<open>Fresh memory, and an integer of it.\<close>

definition fresh :: "env \<Rightarrow> nat \<Rightarrow> byte list" where
  "fresh e n = map (env_heap e) [0..<n]"

definition unset32 :: "env \<Rightarrow> u32" where
  "unset32 e = (case rd32 (fresh e 4) 0 of Some w \<Rightarrow> w | None \<Rightarrow> 0)"

text \<open>\<open>dsi_setup_header\<close> on the server of the connection.\<close>

definition request_header :: "byte \<Rightarrow> client \<Rightarrow> client \<times> byte list" where
  "request_header command c =
     (let (server, header) = dsi_setup_header command (cl_srv c) in (c\<lparr>cl_srv := server\<rparr>, header))"

text \<open>A request of fixed size: the fields behind the header, and the call of \<open>dsi_send\<close>.\<close>

definition send_fields ::
  "env \<Rightarrow> byte list \<Rightarrow> int \<Rightarrow> byte \<Rightarrow> other \<Rightarrow> client \<Rightarrow> (int \<times> other \<times> client) option" where
  "send_fields e flds timeout subcommand other c =
     (let (c, header) = request_header DSI_DSICommand c in
      dsi_send e (header @ flds) timeout subcommand other c)"

definition returned :: "(int \<times> other \<times> client) option \<Rightarrow> (int \<times> client) option" where
  "returned r = map_option (\<lambda>(ret, _, c). (ret, c)) r"

text \<open>The places for results.\<close>

definition returned32 :: "(int \<times> other \<times> client) option \<Rightarrow> (int \<times> u32 \<times> client) option" where
  "returned32 r = do {(ret, x, c) \<leftarrow> r; case x of Out32 w \<Rightarrow> Some (ret, w, c) | _ \<Rightarrow> None}"

definition returned64 :: "(int \<times> other \<times> client) option \<Rightarrow> (int \<times> u64 \<times> client) option" where
  "returned64 r = do {(ret, x, c) \<leftarrow> r; case x of Out64 w \<Rightarrow> Some (ret, w, c) | _ \<Rightarrow> None}"

definition returned_info :: "(int \<times> other \<times> client) option \<Rightarrow> (int \<times> afp_file_info \<times> client) option" where
  "returned_info r = do {(ret, x, c) \<leftarrow> r; case x of File_Info fi \<Rightarrow> Some (ret, fi, c) | _ \<Rightarrow> None}"

definition returned_list :: "(int \<times> other \<times> client) option \<Rightarrow> (int \<times> afp_file_info list \<times> client) option" where
  "returned_list r = do {(ret, x, c) \<leftarrow> r; case x of File_List l \<Rightarrow> Some (ret, l, c) | _ \<Rightarrow> None}"

definition returned_rx :: "(int \<times> other \<times> client) option \<Rightarrow> (int \<times> afp_rx_buffer \<times> client) option" where
  "returned_rx r = do {(ret, x, c) \<leftarrow> r; case x of Rx_Buffer rx \<Rightarrow> Some (ret, rx, c) | _ \<Rightarrow> None}"

definition returned_blob :: "(int \<times> other \<times> client) option \<Rightarrow> (int \<times> afp_blob \<times> client) option" where
  "returned_blob r = do {(ret, x, c) \<leftarrow> r; case x of Blob b \<Rightarrow> Some (ret, b, c) | _ \<Rightarrow> None}"

definition returned_text :: "(int \<times> other \<times> client) option \<Rightarrow> (int \<times> string \<times> client) option" where
  "returned_text r = do {(ret, x, c) \<leftarrow> r; case x of Text s \<Rightarrow> Some (ret, s, c) | _ \<Rightarrow> None}"

text \<open>The result is stored in the volume of the connection.\<close>

definition returned_volume :: "(int \<times> other \<times> client) option \<Rightarrow> (int \<times> client) option" where
  "returned_volume r = do {(ret, x, c) \<leftarrow> r; case x of Volume v \<Rightarrow> Some (ret, c\<lparr>cl_vol := v\<rparr>) | _ \<Rightarrow> None}"

abbreviation volid :: "client \<Rightarrow> byte list" where
  "volid c \<equiv> be16 (vol_volid (cl_vol c))"

text \<open>The two calls that write a path at offset \<open>p\<close> of a packet.\<close>

definition put_path :: "afp_server \<Rightarrow> byte list \<Rightarrow> nat \<Rightarrow> string \<Rightarrow> byte list option" where
  "put_path server msg p pathname = do {
     msg \<leftarrow> copy_path server msg p (to_bytes pathname);
     unixpath_to_afppath server msg p
   }"

abbreviation path_room :: "afp_server \<Rightarrow> string \<Rightarrow> nat" where
  "path_room server pathname \<equiv> sizeof_path_header server + length pathname"

text \<open>A request with one path behind its fields, the body that \<open>afp_delete\<close>, \<open>afp_getfiledirparms\<close>,
  \<open>afp_createfile\<close>, \<open>afp_createdir\<close>, \<open>afp_openfork\<close>, the enumerations, \<open>afp_listextattr\<close> and
  \<open>afp_setextattr\<close> share: \<open>malloc\<close>, the header, the fields, the path, \<open>dsi_send\<close>.\<close>

definition send_path :: "env \<Rightarrow> byte list \<Rightarrow> string \<Rightarrow> byte \<Rightarrow> other \<Rightarrow> client \<Rightarrow> (int \<times> other \<times> client) option" where
  "send_path e flds pathname subcommand other c =
     (let room = path_room (cl_srv c) pathname in
      if \<not> env_malloc e (16 + length flds + room) then Some (- 1, other, c)
      else do {
        let (c, header) = request_header DSI_DSICommand c;
        msg \<leftarrow> put_path (cl_srv c) (header @ flds @ fresh e room) (16 + length flds) pathname;
        dsi_send e msg DSI_DEFAULT_TIMEOUT subcommand other c
      })"

subsection \<open>Files (\<open>proto_files.c\<close>)\<close>

text \<open>The parameters behind the path. The attributes are stored through a pointer to \<open>char\<close>: of the
  two bytes only the first is written.\<close>

definition setparms_data :: "u16 \<Rightarrow> afp_file_info \<Rightarrow> byte list" where
  "setparms_data bitmap fp =
     (if has_bit bitmap kFPAttributeBit then [ucast (drop_bit 8 (fi_attributes fp)), 0] else []) @
     (if has_bit bitmap kFPCreateDateBit then be32 (ad_date_from_unix (fi_creation_date fp)) else []) @
     (if has_bit bitmap kFPModDateBit then be32 (ad_date_from_unix (fi_modification_date fp)) else []) @
     (if has_bit bitmap kFPBackupDateBit then be32 (ad_date_from_unix (fi_backup_date fp)) else []) @
     (if has_bit bitmap kFPFinderInfoBit then fi_finderinfo fp else []) @
     (if has_bit bitmap kFPUnixPrivsBit then
        be32 (up_uid (fi_unixprivs fp)) @ be32 (up_gid (fi_unixprivs fp)) @
        be32 (up_permissions (fi_unixprivs fp)) @ be32 (up_ua_permissions (fi_unixprivs fp)) else [])"

text \<open>The packet is cleared first, so that the byte that aligns the parameters is 0; the 200 bytes
  reserved for them are more than they need.\<close>

definition afp_setparms_lowlevel ::
  "env \<Rightarrow> u32 \<Rightarrow> string \<Rightarrow> u16 \<Rightarrow> afp_file_info \<Rightarrow> byte \<Rightarrow> client \<Rightarrow> (int \<times> client) option" where
  "afp_setparms_lowlevel e dirid pathname bitmap fp command c =
     (let room = path_room (cl_srv c) pathname; p = 26 + room in
      if \<not> env_malloc e (p + 201) then Some (- 1, c)
      else do {
        let (c, header) = request_header DSI_DSICommand c;
        msg \<leftarrow> put_path (cl_srv c) (header @ [command, 0] @ volid c @ be32 dirid @ be16 bitmap @ replicate room 0)
          26 pathname;
        returned (dsi_send e (msg @ (if odd p then [0] else []) @ setparms_data bitmap fp)
          DSI_DEFAULT_TIMEOUT command No_Other c)
      })"

definition afp_setfileparms ::
  "env \<Rightarrow> u32 \<Rightarrow> string \<Rightarrow> u16 \<Rightarrow> afp_file_info \<Rightarrow> client \<Rightarrow> (int \<times> client) option" where
  "afp_setfileparms e dirid pathname bitmap fp = afp_setparms_lowlevel e dirid pathname bitmap fp afpSetFileParms"

definition afp_setfiledirparms ::
  "env \<Rightarrow> u32 \<Rightarrow> string \<Rightarrow> u16 \<Rightarrow> afp_file_info \<Rightarrow> client \<Rightarrow> (int \<times> client) option" where
  "afp_setfiledirparms e dirid pathname bitmap fp =
     afp_setparms_lowlevel e dirid pathname bitmap fp afpSetFileDirParms"

definition afp_setdirparms ::
  "env \<Rightarrow> u32 \<Rightarrow> string \<Rightarrow> u16 \<Rightarrow> afp_file_info \<Rightarrow> client \<Rightarrow> (int \<times> client) option" where
  "afp_setdirparms e dirid pathname bitmap fp = afp_setparms_lowlevel e dirid pathname bitmap fp afpSetDirParms"

definition afp_delete :: "env \<Rightarrow> u32 \<Rightarrow> string \<Rightarrow> client \<Rightarrow> (int \<times> client) option" where
  "afp_delete e dirid pathname c =
     returned (send_path e ([afpDelete, 0] @ volid c @ be32 dirid) pathname afpDelete No_Other c)"

definition afp_read :: "env \<Rightarrow> u16 \<Rightarrow> u32 \<Rightarrow> u32 \<Rightarrow> afp_rx_buffer \<Rightarrow> client \<Rightarrow> (int \<times> afp_rx_buffer \<times> client) option" where
  "afp_read e forkid offset count rx c =
     returned_rx (send_fields e ([afpRead, 0] @ be16 forkid @ be32 offset @ be32 count @ [0, 0])
       DSI_DEFAULT_TIMEOUT afpRead (Rx_Buffer rx) c)"

definition afp_readext :: "env \<Rightarrow> u16 \<Rightarrow> u64 \<Rightarrow> u64 \<Rightarrow> afp_rx_buffer \<Rightarrow> client \<Rightarrow> (int \<times> afp_rx_buffer \<times> client) option" where
  "afp_readext e forkid offset count rx c =
     returned_rx (send_fields e ([afpReadExt, 0] @ be16 forkid @ be64 offset @ be64 count)
       DSI_DEFAULT_TIMEOUT afpReadExt (Rx_Buffer rx) c)"

definition afp_getfiledirparms ::
  "env \<Rightarrow> u32 \<Rightarrow> u16 \<Rightarrow> u16 \<Rightarrow> string option \<Rightarrow> afp_file_info \<Rightarrow> client \<Rightarrow> (int \<times> afp_file_info \<times> client) option" where
  "afp_getfiledirparms e did filebitmap dirbitmap pathname fpp c = (case pathname of
     None \<Rightarrow> Some (- 1, fpp, c)
   | Some pathname \<Rightarrow>
       returned_info (send_path e ([afpGetFileDirParms, 0] @ volid c @ be32 did @ be16 filebitmap @ be16 dirbitmap)
         pathname afpGetFileDirParms (File_Info fpp) c))"

definition afp_createfile :: "env \<Rightarrow> byte \<Rightarrow> u32 \<Rightarrow> string \<Rightarrow> client \<Rightarrow> (int \<times> client) option" where
  "afp_createfile e flag did pathname c =
     returned (send_path e ([afpCreateFile, flag] @ volid c @ be32 did) pathname afpCreateFile No_Other c)"

text \<open>A write: the data goes behind the fields, and the header tells where. The length of the packet is
  an \<open>unsigned int\<close>; \<open>memcpy\<close> runs past the end of a packet whose length has wrapped around.\<close>

definition send_data ::
  "env \<Rightarrow> byte list \<Rightarrow> nat \<Rightarrow> byte list \<Rightarrow> byte \<Rightarrow> other \<Rightarrow> client \<Rightarrow> (int \<times> other \<times> client) option" where
  "send_data e flds reqcount data subcommand other c =
     (let len = 16 + length flds + reqcount in
      if \<not> env_malloc e (len mod 2 ^ 32) then Some (- 1, other, c)
      else if 2 ^ 32 \<le> len then None
      else do {
        d \<leftarrow> rd_bytes data 0 reqcount;
        let (c, header) = request_header DSI_DSIWrite c;
        header \<leftarrow> wr_bytes header 4 (be32 (word_of_nat (length flds)));
        dsi_send e (header @ flds @ d) DSI_DEFAULT_TIMEOUT subcommand other c
      })"

definition afp_write :: "env \<Rightarrow> u16 \<Rightarrow> u32 \<Rightarrow> u32 \<Rightarrow> byte list \<Rightarrow> u32 \<Rightarrow> client \<Rightarrow> (int \<times> u32 \<times> client) option" where
  "afp_write e forkid offset reqcount data written c =
     returned32 (send_data e ([afpWrite, 0] @ be16 forkid @ be32 offset @ be32 reqcount) (unat reqcount) data
       afpWrite (Out32 written) c)"

definition afp_writeext :: "env \<Rightarrow> u16 \<Rightarrow> u64 \<Rightarrow> u64 \<Rightarrow> byte list \<Rightarrow> u64 \<Rightarrow> client \<Rightarrow> (int \<times> u64 \<times> client) option" where
  "afp_writeext e forkid offset reqcount data written c =
     returned64 (send_data e ([afpWriteExt, 0] @ be16 forkid @ be64 offset @ be64 reqcount) (unat reqcount) data
       afpWriteExt (Out64 written) c)"

subsection \<open>Directories (\<open>proto_directory.c\<close>)\<close>

text \<open>The source and the new name are there in every call; a missing target path is empty.\<close>

definition afp_moveandrename ::
  "env \<Rightarrow> u32 \<Rightarrow> u32 \<Rightarrow> string \<Rightarrow> string option \<Rightarrow> string \<Rightarrow> client \<Rightarrow> (int \<times> client) option" where
  "afp_moveandrename e src_did dst_did src_path dst_path new_name c =
     (let dst_path = (case dst_path of None \<Rightarrow> [] | Some d \<Rightarrow> d);
          server = cl_srv c;
          p2 = 28 + path_room server src_path;
          p3 = p2 + path_room server dst_path;
          len = p3 + path_room server new_name in
      if \<not> env_malloc e len then Some (- 1, c)
      else do {
        let (c, header) = request_header DSI_DSICommand c;
        let msg = header @ [afpMoveAndRename, 0] @ volid c @ be32 src_did @ be32 dst_did @ fresh e (len - 28);
        msg \<leftarrow> put_path (cl_srv c) msg 28 src_path;
        msg \<leftarrow> put_path (cl_srv c) msg p2 dst_path;
        msg \<leftarrow> put_path (cl_srv c) msg p3 new_name;
        returned (dsi_send e msg DSI_DEFAULT_TIMEOUT afpMoveAndRename No_Other c)
      })"

definition afp_rename :: "env \<Rightarrow> u32 \<Rightarrow> string \<Rightarrow> string \<Rightarrow> client \<Rightarrow> (int \<times> client) option" where
  "afp_rename e dirid path_from path_to c =
     (let pathto = 24 + path_room (cl_srv c) path_from;
          len = pathto + path_room (cl_srv c) path_to in
      if \<not> env_malloc e len then Some (- 1, c)
      else do {
        let (c, header) = request_header DSI_DSICommand c;
        let msg = header @ [afpRename, 0] @ volid c @ be32 dirid @ fresh e (len - 24);
        msg \<leftarrow> put_path (cl_srv c) msg 24 path_from;
        msg \<leftarrow> put_path (cl_srv c) msg pathto path_to;
        returned (dsi_send e msg DSI_DEFAULT_TIMEOUT afpRename No_Other c)
      })"

definition afp_createdir :: "env \<Rightarrow> u32 \<Rightarrow> string \<Rightarrow> u32 \<Rightarrow> client \<Rightarrow> (int \<times> u32 \<times> client) option" where
  "afp_createdir e dirid pathname did_p c =
     returned32 (send_path e ([afpCreateDir, 0] @ volid c @ be32 dirid) pathname afpCreateDir (Out32 did_p) c)"

text \<open>The length of an enumeration is an \<open>unsigned short\<close>; a path long enough to wrap it around has
  overrun the local buffer of \<open>copy_path\<close> before.\<close>

definition afp_enumerate ::
  "env \<Rightarrow> u32 \<Rightarrow> u16 \<Rightarrow> u16 \<Rightarrow> u16 \<Rightarrow> u16 \<Rightarrow> string \<Rightarrow> client \<Rightarrow> (int \<times> afp_file_info list \<times> client) option" where
  "afp_enumerate e dirid filebitmap dirbitmap reqcount startindex pathname c =
     returned_list (send_path e ([afpEnumerate, 0] @ volid c @ be32 dirid @ be16 filebitmap @ be16 dirbitmap @
       be16 reqcount @ be16 startindex @ be16 5280) pathname afpEnumerate (File_List []) c)"

definition afp_enumerateext2 ::
  "env \<Rightarrow> u32 \<Rightarrow> u16 \<Rightarrow> u16 \<Rightarrow> u16 \<Rightarrow> u32 \<Rightarrow> string \<Rightarrow> client \<Rightarrow> (int \<times> afp_file_info list \<times> client) option" where
  "afp_enumerateext2 e dirid filebitmap dirbitmap reqcount startindex pathname c =
     returned_list (send_path e ([afpEnumerateExt2, 0] @ volid c @ be32 dirid @ be16 filebitmap @ be16 dirbitmap @
       be16 reqcount @ be32 startindex @ be32 5280) pathname afpEnumerateExt2 (File_List []) c)"

subsection \<open>Forks (\<open>proto_fork.c\<close>)\<close>

text \<open>A 64-bit length is converted by \<open>htonl\<close>: the low half of the length, in network order, is
  followed by four zero bytes.\<close>

definition afp_setforkparms :: "env \<Rightarrow> u16 \<Rightarrow> u16 \<Rightarrow> u64 \<Rightarrow> client \<Rightarrow> (int \<times> client) option" where
  "afp_setforkparms e forkid bitmap len c =
     (let newlen = be32 (ucast len) @
        (if bitmap AND (kFPExtDataForkLenBit OR kFPExtRsrcForkLenBit) \<noteq> 0 then [0, 0, 0, 0] else []) in
      returned (send_fields e ([afpSetForkParms, 0] @ be16 forkid @ be16 bitmap @ newlen)
        DSI_DEFAULT_TIMEOUT afpSetForkParms No_Other c))"

definition afp_closefork :: "env \<Rightarrow> u16 \<Rightarrow> client \<Rightarrow> (int \<times> client) option" where
  "afp_closefork e forkid c =
     returned (send_fields e ([afpCloseFork, 0] @ be16 forkid) DSI_DEFAULT_TIMEOUT afpFlushFork No_Other c)"

definition afp_flushfork :: "env \<Rightarrow> u16 \<Rightarrow> client \<Rightarrow> (int \<times> client) option" where
  "afp_flushfork e forkid c =
     returned (send_fields e ([afpFlushFork, 0] @ be16 forkid) DSI_DEFAULT_TIMEOUT afpFlushFork No_Other c)"

definition afp_openfork ::
  "env \<Rightarrow> bool \<Rightarrow> u32 \<Rightarrow> u16 \<Rightarrow> string \<Rightarrow> afp_file_info \<Rightarrow> client \<Rightarrow> (int \<times> afp_file_info \<times> client) option" where
  "afp_openfork e forktype dirid accessmode filename fp c =
     returned_info (send_path e ([afpOpenFork, if forktype then AFP_FORKTYPE_RESOURCE else AFP_FORKTYPE_DATA] @
       volid c @ be32 dirid @ be16 0 @ be16 accessmode) filename afpOpenFork (File_Info fp) c)"

definition afp_byterangelock ::
  "env \<Rightarrow> byte \<Rightarrow> u16 \<Rightarrow> u32 \<Rightarrow> u32 \<Rightarrow> u32 \<Rightarrow> client \<Rightarrow> (int \<times> u32 \<times> client) option" where
  "afp_byterangelock e flag forkid offset len generated_offset c =
     returned32 (send_fields e ([afpByteRangeLock, flag] @ be16 forkid @ be32 offset @ be32 len)
       DSI_DEFAULT_TIMEOUT afpByteRangeLock (Out32 generated_offset) c)"

definition afp_byterangelockext ::
  "env \<Rightarrow> byte \<Rightarrow> u16 \<Rightarrow> u64 \<Rightarrow> u64 \<Rightarrow> u64 \<Rightarrow> client \<Rightarrow> (int \<times> u64 \<times> client) option" where
  "afp_byterangelockext e flag forkid offset len generated_offset c =
     returned64 (send_fields e ([afpByteRangeLockExt, flag] @ be16 forkid @ be64 offset @ be64 len)
       DSI_DEFAULT_TIMEOUT afpByteRangeLockExt (Out64 generated_offset) c)"

subsection \<open>Volumes (\<open>proto_volume.c\<close>)\<close>

definition afp_volclose :: "env \<Rightarrow> client \<Rightarrow> (int \<times> client) option" where
  "afp_volclose e c = returned (send_fields e ([afpCloseVol, 0] @ volid c) DSI_DEFAULT_TIMEOUT afpCloseVol No_Other c)"

text \<open>The name of the volume and, on an even boundary at the end of the packet, the password.\<close>

definition afp_volopen :: "env \<Rightarrow> u16 \<Rightarrow> string option \<Rightarrow> client \<Rightarrow> (int \<times> client) option" where
  "afp_volopen e bitmap password c =
     (let name = vol_volume_name (cl_vol c);
          len0 = 20 + length name + 1;
          len = (case password of None \<Rightarrow> len0
            | Some _ \<Rightarrow> if odd (len0 + AFP_VOLPASS_LEN) then len0 + AFP_VOLPASS_LEN + 1 else len0 + AFP_VOLPASS_LEN) in
      if \<not> env_malloc e len then Some (- 1, c)
      else do {
        let (c, header) = request_header DSI_DSICommand c;
        (_, msg) \<leftarrow> copy_to_pascal (header @ [afpOpenVol, 0] @ be16 bitmap @ fresh e (len - 20)) 20 (to_bytes name);
        msg \<leftarrow> (case password of
            None \<Rightarrow> Some msg
          | Some pw \<Rightarrow> do {
              let len2 = min (length pw mod 256) AFP_VOLPASS_LEN;
              msg \<leftarrow> wr_bytes msg (len - AFP_VOLPASS_LEN) (replicate AFP_VOLPASS_LEN 0);
              wr_bytes msg (len - AFP_VOLPASS_LEN) (take len2 (to_bytes pw))
            });
        returned_volume (dsi_send e msg DSI_OPENVOLUME_TIMEOUT afpOpenVol (Volume (cl_vol c)) c)
      })"

definition afp_flush :: "env \<Rightarrow> client \<Rightarrow> (int \<times> client) option" where
  "afp_flush e c =
     returned_volume (send_fields e ([afpFlush, 0] @ volid c) DSI_DEFAULT_TIMEOUT afpFlush (Volume (cl_vol c)) c)"

definition afp_getvolparms :: "env \<Rightarrow> u16 \<Rightarrow> client \<Rightarrow> (int \<times> client) option" where
  "afp_getvolparms e bitmap c =
     returned_volume (send_fields e ([afpGetVolParms, 0] @ volid c @ be16 bitmap) DSI_DEFAULT_TIMEOUT
       afpGetVolParms (Volume (cl_vol c)) c)"

subsection \<open>The desktop database (\<open>proto_desktop.c\<close>)\<close>

definition afp_geticon ::
  "env \<Rightarrow> u32 \<Rightarrow> u32 \<Rightarrow> byte \<Rightarrow> u16 \<Rightarrow> afp_blob \<Rightarrow> client \<Rightarrow> (int \<times> afp_blob \<times> client) option" where
  "afp_geticon e filecreator filetype icontype len icon c =
     returned_blob (send_fields e ([afpGetIcon, 0] @ be16 (vol_dtrefnum (cl_vol c)) @ be32 filecreator @
       be32 filetype @ [icontype, 0] @ be16 len) DSI_DEFAULT_TIMEOUT afpGetIcon (Blob icon) c)"

text \<open>The result of \<open>malloc\<close> is not tested. The packet is cleared and has room for one byte that aligns
  the comment. The value stored through \<open>size\<close> is the length of the comment.\<close>

definition afp_addcomment :: "env \<Rightarrow> u32 \<Rightarrow> string \<Rightarrow> string \<Rightarrow> client \<Rightarrow> (int \<times> u64 \<times> client) option" where
  "afp_addcomment e did pathname comment c =
     (let p = 24 + path_room (cl_srv c) pathname; len = p + length comment + 1 in
      if \<not> env_malloc e (len + 1) then None
      else do {
        let (c, header) = request_header DSI_DSICommand c;
        let msg = header @ [afpAddComment, 0] @ be16 (vol_dtrefnum (cl_vol c)) @ be32 did @ replicate (len + 1 - 24) 0;
        msg \<leftarrow> put_path (cl_srv c) msg 24 pathname;
        (_, msg) \<leftarrow> copy_to_pascal msg (if odd p then p + 1 else p) (to_bytes comment);
        (ret, _, c) \<leftarrow> dsi_send e (take (if odd p then len + 1 else len) msg) DSI_DEFAULT_TIMEOUT afpAddComment
          (Text comment) c;
        Some (ret, word_of_nat (length comment), c)
      })"

definition afp_getcomment :: "env \<Rightarrow> u32 \<Rightarrow> string \<Rightarrow> afp_blob \<Rightarrow> client \<Rightarrow> (int \<times> afp_blob \<times> client) option" where
  "afp_getcomment e did pathname comment c =
     (if \<not> env_malloc e (24 + path_room (cl_srv c) pathname) then None
      else returned_blob (send_path e ([afpGetComment, 0] @ be16 (vol_dtrefnum (cl_vol c)) @ be32 did) pathname
        afpGetComment (Blob comment) c))"

definition afp_closedt :: "env \<Rightarrow> u16 \<Rightarrow> client \<Rightarrow> (int \<times> client) option" where
  "afp_closedt e refnum c =
     returned (send_fields e ([afpCloseDT, 0] @ be16 refnum) DSI_DEFAULT_TIMEOUT afpCloseDT No_Other c)"

definition afp_opendt :: "env \<Rightarrow> u16 \<Rightarrow> client \<Rightarrow> (int \<times> u16 \<times> client) option" where
  "afp_opendt e refnum c = do {
     (ret, x, c) \<leftarrow> send_fields e ([afpOpenDT, 0] @ volid c) DSI_DEFAULT_TIMEOUT afpOpenDT (Out16 refnum) c;
     case x of Out16 w \<Rightarrow> Some (ret, w, c) | _ \<Rightarrow> None
   }"

subsection \<open>Extended attributes (\<open>proto_attr.c\<close>)\<close>

definition afp_newcommand76 :: "env \<Rightarrow> u32 \<Rightarrow> byte list \<Rightarrow> client \<Rightarrow> (int \<times> client) option" where
  "afp_newcommand76 e dlen data c =
     (let len = 20 + unat dlen in
      if \<not> env_malloc e (len mod 2 ^ 32) then Some (- 1, c)
      else if 2 ^ 32 \<le> len then None
      else do {
        d \<leftarrow> rd_bytes data 0 (unat dlen);
        returned (send_fields e ([76, 0] @ volid c @ d) DSI_DEFAULT_TIMEOUT 76 No_Other c)
      })"

text \<open>\<open>maxreplysize\<close> is a 32-bit field that is given \<open>hton64(info->maxsize)\<close>: what it keeps is the high
  half of the size, which is 0.\<close>

definition afp_listextattr ::
  "env \<Rightarrow> u32 \<Rightarrow> u16 \<Rightarrow> string \<Rightarrow> afp_blob \<Rightarrow> client \<Rightarrow> (int \<times> afp_blob \<times> client) option" where
  "afp_listextattr e dirid bitmap pathname info c =
     returned_blob (send_path e ([afpListExtAttrs, 0] @ volid c @ be32 dirid @ be16 bitmap @ be16 0 @ be32 0 @
       take 4 (be64 (word_of_nat (blob_maxsize info)))) pathname afpListExtAttrs (Blob info) c)"

text \<open>The bitmap of the two next requests, and the offset of the second, are never set. The name of the
  attribute follows the path on an even boundary; the length of the packet forgets the two bytes of the
  length of the name. Both requests are sent as if they were \<open>FPDelete\<close>.\<close>

definition afp_getextattr ::
  "env \<Rightarrow> u32 \<Rightarrow> u32 \<Rightarrow> string \<Rightarrow> u16 \<Rightarrow> string \<Rightarrow> afp_blob \<Rightarrow> client \<Rightarrow> (int \<times> afp_blob \<times> client) option" where
  "afp_getextattr e dirid replysize pathname namelen name i c =
     (let room = path_room (cl_srv c) pathname;
          len = 46 + room + 1 + 4 + length name;
          p2 = (if odd (46 + room) then 46 + room + 1 else 46 + room) in
      if \<not> env_malloc e len then Some (- 1, i, c)
      else do {
        let (c, header) = request_header DSI_DSICommand c;
        let msg = header @ [afpGetExtAttr, 0] @ volid c @ be32 dirid @ [env_heap e 24, env_heap e 25] @
          be64 0 @ be64 0 @ be32 replysize @ fresh e (len - 46);
        msg \<leftarrow> put_path (cl_srv c) msg 46 pathname;
        msg \<leftarrow> wr_bytes msg p2 (be16 namelen);
        d \<leftarrow> rd_bytes (to_bytes name @ [0]) 0 (unat namelen);
        msg \<leftarrow> wr_bytes msg (p2 + 2) d;
        returned_blob (dsi_send e (take (p2 + unat namelen) msg) DSI_DEFAULT_TIMEOUT afpDelete (Blob i) c)
      })"

definition afp_setextattr :: "env \<Rightarrow> u32 \<Rightarrow> string \<Rightarrow> client \<Rightarrow> (int \<times> client) option" where
  "afp_setextattr e dirid pathname c =
     returned (send_path e ([afpSetExtAttr, 0] @ volid c @ be32 dirid @ map (env_heap e) [24..<34])
       pathname afpDelete No_Other c)"

subsection \<open>Users (\<open>proto_map.c\<close>)\<close>

definition afp_getuserinfo ::
  "env \<Rightarrow> bool \<Rightarrow> u32 \<Rightarrow> u16 \<Rightarrow> u32 \<Rightarrow> u32 \<Rightarrow> client \<Rightarrow> (int \<times> u32 \<times> u32 \<times> client) option" where
  "afp_getuserinfo e thisuser userid bitmap newuid newgid c = do {
     (ret, x, c) \<leftarrow> send_fields e ([afpGetUserInfo, if thisuser then 1 else 0] @ be32 userid @ be16 bitmap)
       DSI_DEFAULT_TIMEOUT afpGetUserInfo (User_Info (unset32 e) (unset32 e)) c;
     case x of
       User_Info uid gid \<Rightarrow> Some (ret, if has_bit bitmap kFPGetUserInfo_USER_ID then uid else newuid,
         if has_bit bitmap kFPGetUserInfo_PRI_GROUPID then gid else newgid, c)
     | _ \<Rightarrow> None
   }"

definition afp_mapid :: "env \<Rightarrow> byte \<Rightarrow> u32 \<Rightarrow> string \<Rightarrow> client \<Rightarrow> (int \<times> string \<times> client) option" where
  "afp_mapid e subfunction uid name c =
     returned_text (send_fields e ([afpMapID, subfunction] @ be32 uid) DSI_DEFAULT_TIMEOUT afpMapID (Text name) c)"

definition afp_mapname :: "env \<Rightarrow> byte \<Rightarrow> string \<Rightarrow> u32 \<Rightarrow> client \<Rightarrow> (int \<times> u32 \<times> client) option" where
  "afp_mapname e subfunction name uid c =
     (let len = 18 + 1 + length name in
      if \<not> env_malloc e len then Some (- 1, uid, c)
      else do {
        (_, d) \<leftarrow> copy_to_pascal (replicate (1 + length name) 0x4b) 0 (to_bytes name);
        returned32 (send_fields e ([afpMapName, subfunction] @ d) DSI_DEFAULT_TIMEOUT afpMapName (Out32 uid) c)
      })"

subsection \<open>Logging in and out (\<open>proto_login.c\<close>)\<close>

text \<open>\<open>wait\<close> is an \<open>unsigned char\<close>.\<close>

definition afp_logout :: "env \<Rightarrow> byte \<Rightarrow> client \<Rightarrow> (int \<times> client) option" where
  "afp_logout e wait c = returned (send_fields e [afpLogout, 0] (uint wait) afpLogout No_Other c)"

text \<open>The results of a login go to \<open>rx\<close>, which may be absent.\<close>

definition rx_other :: "afp_rx_buffer option \<Rightarrow> other" where
  "rx_other rx = (case rx of None \<Rightarrow> No_Other | Some rx \<Rightarrow> Rx_Buffer rx)"

definition returned_rx_opt :: "(int \<times> other \<times> client) option \<Rightarrow> (int \<times> afp_rx_buffer option \<times> client) option" where
  "returned_rx_opt r = do {
     (ret, x, c) \<leftarrow> r;
     case x of Rx_Buffer rx \<Rightarrow> Some (ret, Some rx, c) | No_Other \<Rightarrow> Some (ret, None, c) | _ \<Rightarrow> None
   }"

text \<open>The Pascal strings at the front of the data of a login, each of \<open>strlen\<close> + 1 bytes.\<close>

definition pascal_bytes :: "env \<Rightarrow> string \<Rightarrow> byte list option" where
  "pascal_bytes e s = map_option snd (copy_to_pascal (fresh e (1 + length s)) 0 (to_bytes s))"

text \<open>Names that are longer than 255 bytes would make the parts overlap; the names of methods and versions
  are constants of the program.\<close>

definition afp_changepassword ::
  "env \<Rightarrow> string \<Rightarrow> byte list \<Rightarrow> afp_rx_buffer option \<Rightarrow> client \<Rightarrow> (int \<times> afp_rx_buffer option \<times> client) option" where
  "afp_changepassword e ua_name userauthinfo rx c =
     (if \<not> env_malloc e (18 + length ua_name + 1 + length userauthinfo) then Some (- 1, rx, c)
      else do {
        name \<leftarrow> pascal_bytes e ua_name;
        returned_rx_opt (send_fields e ([afpChangePassword, env_heap e 17] @ name @ userauthinfo)
          DSI_DEFAULT_TIMEOUT afpChangePassword (rx_other rx) c)
      })"

definition afp_login ::
  "env \<Rightarrow> string \<Rightarrow> byte list \<Rightarrow> afp_rx_buffer option \<Rightarrow> client \<Rightarrow> (int \<times> afp_rx_buffer option \<times> client) option" where
  "afp_login e ua_name userauthinfo rx c =
     (let version = av_name (srv_using_version (cl_srv c)) in
      if \<not> env_malloc e (17 + length version + 1 + length ua_name + 1 + length userauthinfo) then Some (- 1, rx, c)
      else do {
        version \<leftarrow> pascal_bytes e version;
        name \<leftarrow> pascal_bytes e ua_name;
        returned_rx_opt (send_fields e ([afpLogin] @ version @ name @ userauthinfo) DSI_BLOCK_TIMEOUT afpLogin
          (rx_other rx) c)
      })"

definition afp_logincont ::
  "env \<Rightarrow> u16 \<Rightarrow> byte list \<Rightarrow> afp_rx_buffer option \<Rightarrow> client \<Rightarrow> (int \<times> afp_rx_buffer option \<times> client) option" where
  "afp_logincont e uid userauthinfo rx c =
     (if \<not> env_malloc e (20 + length userauthinfo) then Some (- 1, rx, c)
      else returned_rx_opt (send_fields e ([afpLoginCont, 0] @ be16 uid @ userauthinfo) DSI_LOGIN_TIMEOUT afpLoginCont
        (rx_other rx) c))"

subsection \<open>Server and session (\<open>proto_server.c\<close>, \<open>proto_session.c\<close>)\<close>

text \<open>What \<open>dsi_send\<close> returns is dropped.\<close>

definition afp_getsrvrparms :: "env \<Rightarrow> client \<Rightarrow> (int \<times> client) option" where
  "afp_getsrvrparms e c = do {
     (_, _, c) \<leftarrow> send_fields e [afpGetSrvrParms] DSI_DEFAULT_TIMEOUT afpGetSrvrParms No_Other c;
     Some (0, c)
   }"

definition afp_getsrvrmsg ::
  "env \<Rightarrow> u16 \<Rightarrow> bool \<Rightarrow> byte \<Rightarrow> string \<Rightarrow> client \<Rightarrow> (int \<times> string \<times> client) option" where
  "afp_getsrvrmsg e messagetype utf8 block mesg c =
     returned_text (send_fields e ([afpGetSrvrMsg, 0] @ be16 messagetype @
       be16 (AFP_GETSRVRMSG_GETMSG OR (if utf8 then AFP_GETSRVRMSG_UTF8 else 0)))
       (uint block) afpGetSrvrMsg (Text mesg) c)"

definition afp_zzzzz :: "env \<Rightarrow> client \<Rightarrow> (int \<times> client) option" where
  "afp_zzzzz e c = returned (send_fields e ([afpZzzzz, 0] @ be32 0) DSI_DEFAULT_TIMEOUT afpZzzzz No_Other c)"

text \<open>The time stamp is stored as it is, without \<open>htonl\<close>. The result of \<open>malloc\<close> is not tested, the one
  of \<open>dsi_send\<close> is dropped. A token has at most 256 bytes of data, so the packet has room for it.\<close>

definition afp_getsessiontoken ::
  "env \<Rightarrow> u16 \<Rightarrow> u32 \<Rightarrow> afp_token \<Rightarrow> afp_token \<Rightarrow> client \<Rightarrow> (int \<times> afp_token \<times> client) option" where
  "afp_getsessiontoken e type timestamp outgoing_token incoming_token c =
     (if type \<notin> {kLoginWithTimeAndID, kReconnWithTimeAndID, kRecon1Login, kLoginWithoutID, kRecon1Refresh,
                  kRecon1ReconnectLogin} then Some (- 1, incoming_token, c)
      else if \<not> env_malloc e (24 + AFP_TOKEN_MAX_LEN + 4) then None
      else do {
        let time = (if type \<in> {kLoginWithTimeAndID, kReconnWithTimeAndID} then le32 timestamp else []);
        let datalen = (if type \<in> {kLoginWithoutID, kRecon1Refresh, kRecon1ReconnectLogin} then 0
          else tok_length outgoing_token);
        d \<leftarrow> rd_bytes (tok_data outgoing_token) 0 (unat datalen);
        (_, x, c) \<leftarrow> send_fields e ([afpGetSessionToken, 0] @ be16 type @ be32 datalen @ time @ d)
          DSI_DEFAULT_TIMEOUT afpGetSessionToken (Token incoming_token) c;
        case x of Token t \<Rightarrow> Some (0, t, c) | _ \<Rightarrow> None
      })"

definition afp_disconnectoldsession :: "env \<Rightarrow> u16 \<Rightarrow> afp_token \<Rightarrow> client \<Rightarrow> (int \<times> client) option" where
  "afp_disconnectoldsession e type token c =
     (if \<not> env_malloc e (24 + AFP_TOKEN_MAX_LEN) then Some (- 1, c)
      else if word_of_nat AFP_TOKEN_MAX_LEN < tok_length token then Some (- 1, c)
      else do {
        d \<leftarrow> rd_bytes (tok_data token) 0 (unat (tok_length token));
        returned (send_fields e ([afpDisconnectOldSession, env_heap e 17] @ be16 type @ be32 (tok_length token) @ d)
          DSI_DEFAULT_TIMEOUT afpDisconnectOldSession No_Other c)
      })"

end
