(* ===== verification/Proto_Exchange.thy ===== *)
theory Proto_Exchange
  imports Proto_Requests
begin

text \<open>
  Requests end to end: what they write on the wire, and what they return when the server answers.
\<close>

subsection \<open>Packets with paths\<close>

definition path_ok :: "afp_server \<Rightarrow> string \<Rightarrow> bool" where
  "path_ok server path \<longleftrightarrow> path_encoding_ok server \<and> length path \<le> max_path_name server"

lemma length_fresh [simp]: "length (fresh e n) = n"
  by (simp add: fresh_def)

text \<open>The space reserved for a path may be followed by more of the packet.\<close>

lemma put_path_eq:
  assumes "path_ok server path" "p = length xs" "length ys = path_room server path"
  shows "put_path server (xs @ ys @ zs) p path = Some (xs @ path_spec server (to_bytes path) @ zs)"
  using copy_path_then_unixpath [of server "to_bytes path" p xs ys zs] assms
  by (simp add: path_ok_def put_path_def)

lemma request_header_simps [simp]:
  "cl_sent (fst (request_header cmd c)) = cl_sent c" "cl_vol (fst (request_header cmd c)) = cl_vol c"
  "cl_srv (fst (request_header cmd c)) = fst (dsi_setup_header cmd (cl_srv c))"
  "snd (request_header cmd c) = snd (dsi_setup_header cmd (cl_srv c))"
  by (simp_all add: request_header_def split: prod.splits)

lemma setup_header_simps [simp]:
  "srv_path_encoding (fst (dsi_setup_header cmd s)) = srv_path_encoding s"
  "length (snd (dsi_setup_header cmd s)) = 16"
  by (simp_all add: dsi_setup_header_def Let_def)

lemma path_encoding_cong:
  assumes "srv_path_encoding s = srv_path_encoding s'"
  shows "sizeof_path_header s = sizeof_path_header s'" "path_ok s = path_ok s'" "path_spec s = path_spec s'"
  using assms
  by (auto simp: sizeof_path_header_def path_ok_def path_encoding_ok_def max_path_name_def path_spec_def
      path_header_def fun_eq_iff)

lemma header_path [simp]:
  "sizeof_path_header (fst (dsi_setup_header cmd s)) = sizeof_path_header s"
  "path_ok (fst (dsi_setup_header cmd s)) = path_ok s" "path_spec (fst (dsi_setup_header cmd s)) = path_spec s"
  by (rule path_encoding_cong, simp)+

text \<open>A request with a path is the request of fixed size whose fields end with the path specification.\<close>

lemma send_path_eq:
  assumes "path_ok (cl_srv c) path" "env_malloc e (16 + length flds + path_room (cl_srv c) path)"
  shows "send_path e flds path sub x c =
    send_fields e (flds @ path_spec (cl_srv c) (to_bytes path)) DSI_DEFAULT_TIMEOUT sub x c"
proof -
  obtain c1 header where h: "request_header DSI_DSICommand c = (c1, header)"
    by fastforce
  then have "cl_srv c1 = fst (dsi_setup_header DSI_DSICommand (cl_srv c))"
    "header = snd (dsi_setup_header DSI_DSICommand (cl_srv c))"
    using request_header_simps(3,4) by (metis fst_conv, metis snd_conv)
  then show ?thesis
    using assms put_path_eq [of "cl_srv c1" path "16 + length flds" "header @ flds"
        "fresh e (path_room (cl_srv c) path)" "[]"]
    by (simp add: send_path_def send_fields_def h Let_def)
qed

lemma fresh_split: "fresh e (m + n) = fresh e m @ map (env_heap e) [m..<m + n]"
  using upt_add_eq_append [of 0 m n] by (simp add: fresh_def)

subsection \<open>Sessions between requests\<close>

definition idle :: "client \<Rightarrow> bool" where
  "idle c \<longleftrightarrow> session_ready c \<and> queue c = []"

text \<open>What a request and its reply leave alone.\<close>

definition lasting :: "client \<Rightarrow> client" where
  "lasting c = c\<lparr>cl_sent := [], cl_fresh := 0, cl_srv := (cl_srv c)\<lparr>srv_lastrequestid := 0,
     srv_expectedrequestid := 0, srv_incoming_buffer := [], srv_stats := zero_stats\<rparr>\<rparr>"

lemma lasting_eqD:
  assumes "lasting c' = lasting c"
  shows "cl_vol c' = cl_vol c" "cl_ticks c' = cl_ticks c" "cl_registered c' = cl_registered c"
    "cl_send_mutex c' = cl_send_mutex c" "srv_path_encoding (cl_srv c') = srv_path_encoding (cl_srv c)"
    "srv_using_version (cl_srv c') = srv_using_version (cl_srv c)"
    "srv_rx_quantum (cl_srv c') = srv_rx_quantum (cl_srv c)"
    "srv_tx_quantum (cl_srv c') = srv_tx_quantum (cl_srv c)"
  using arg_cong [OF assms, of cl_vol] arg_cong [OF assms, of cl_ticks] arg_cong [OF assms, of cl_registered]
    arg_cong [OF assms, of cl_send_mutex] arg_cong [OF assms, of "srv_path_encoding \<circ> cl_srv"]
    arg_cong [OF assms, of "srv_using_version \<circ> cl_srv"] arg_cong [OF assms, of "srv_rx_quantum \<circ> cl_srv"]
    arg_cong [OF assms, of "srv_tx_quantum \<circ> cl_srv"]
  by (simp_all add: lasting_def)

lemma idle_header:
  assumes "idle c"
  shows "idle (fst (request_header cmd c))" "lasting (fst (request_header cmd c)) = lasting c"
  using assms
  by (auto simp: idle_def session_ready_def queue_ok_def buffer_ok_def server_still_valid_def lasting_def
      request_header_def dsi_setup_header_def Let_def)

text \<open>The server answers a packet with this return code and body, cut into pieces in some way; and the
  same for a request of these fields.\<close>

definition answers_packet :: "env \<Rightarrow> client \<Rightarrow> byte list \<Rightarrow> int \<Rightarrow> byte list \<Rightarrow> bool" where
  "answers_packet e c msg rc body \<longleftrightarrow> (\<exists>chunks h.
     env_net e (cl_sent c @ [set_length msg]) = Sent (map Data chunks) \<and>
     [] \<notin> set chunks \<and> concat chunks = packet h body \<and> reply_header c h body \<and> return_code_of h = rc)"

definition answers_request :: "env \<Rightarrow> client \<Rightarrow> byte list \<Rightarrow> int \<Rightarrow> byte list \<Rightarrow> bool" where
  "answers_request e c flds rc body \<longleftrightarrow>
     (let (c, header) = request_header DSI_DSICommand c in answers_packet e c (header @ flds) rc body)"

lemma exchange_packet_sent:
  assumes "idle c" "env_malloc e sizeof_dsi_request" "answers_packet e c msg rc body"
    and "sub \<notin> {0, afpRead, afpReadExt}" "w \<noteq> 0"
    and reply: "\<And>h rest s. return_code_of h = rc \<Longrightarrow> srv_incoming_buffer s = packet h body @ rest \<Longrightarrow>
      srv_data_read s = 16 + length body \<Longrightarrow> \<exists>rc'. afp_reply (env_malloc e) sub s x = Some (rc', s, x')"
  shows "\<exists>c'. dsi_send e msg w sub x c = Some (rc, x', c') \<and> idle c' \<and> lasting c' = lasting c \<and>
    cl_sent c' = cl_sent c @ [set_length msg]"
proof -
  have ready: "session_ready c"
    using assms(1) by (simp add: idle_def)
  obtain chunks hd where net: "env_net e (cl_sent c @ [set_length msg]) = Sent (map Data chunks)"
    "[] \<notin> set chunks" "concat chunks = packet hd body" "reply_header c hd body" "return_code_of hd = rc"
    using assms(3) by (auto simp: answers_packet_def)
  let ?buf = "packet hd body @ drop (16 + length body) (recv_buf c)"
  have "\<exists>rc'. afp_reply (env_malloc e) sub s x = Some (rc', s, x')"
    if "srv_incoming_buffer s = ?buf" "srv_data_read s = 16 + length body" for s
    using reply [OF net(5) that(1,2)] .
  then obtain stats where send: "dsi_send e msg w sub x c = Some (rc, x', after_exchange msg ?buf stats c)"
    "st_requests_pending stats = requests_pending (cl_srv c)"
    using dsi_send_exchange [OF ready assms(2) net(1-4) assms(4,5)] net(5) by blast
  have "session_ready (after_exchange msg ?buf stats c)"
    using ready net(4) send(2)
    by (intro session_ready_after_exchange) (auto simp: session_ready_def buffer_ok_def reply_header_def)
  moreover have "lasting (after_exchange m b stats c) = lasting c" for m b
    by (simp add: lasting_def after_exchange_def)
  moreover have "cl_sent (after_exchange m b stats c) = cl_sent c @ [set_length m]" for m b
    by (simp add: after_exchange_def)
  ultimately show ?thesis
    using send(1) assms(1) by (auto simp: idle_def)
qed

lemma exchange_packet:
  assumes "idle c" "env_malloc e sizeof_dsi_request" "answers_packet e c msg rc body"
    and "sub \<notin> {0, afpRead, afpReadExt}" "w \<noteq> 0"
    and reply: "\<And>h rest s. return_code_of h = rc \<Longrightarrow> srv_incoming_buffer s = packet h body @ rest \<Longrightarrow>
      srv_data_read s = 16 + length body \<Longrightarrow> \<exists>rc'. afp_reply (env_malloc e) sub s x = Some (rc', s, x')"
  shows "\<exists>c'. dsi_send e msg w sub x c = Some (rc, x', c') \<and> idle c' \<and> lasting c' = lasting c"
proof -
  have "\<exists>c'. dsi_send e msg w sub x c = Some (rc, x', c') \<and> idle c' \<and> lasting c' = lasting c \<and>
      cl_sent c' = cl_sent c @ [set_length msg]"
    by (rule exchange_packet_sent [OF assms(1-5)]) (rule reply)
  then show ?thesis
    by blast
qed

lemma exchange:
  assumes "idle c" "env_malloc e sizeof_dsi_request" "answers_request e c flds rc body"
    and "sub \<notin> {0, afpRead, afpReadExt}" "w \<noteq> 0"
    and "\<And>h rest s. return_code_of h = rc \<Longrightarrow> srv_incoming_buffer s = packet h body @ rest \<Longrightarrow>
      srv_data_read s = 16 + length body \<Longrightarrow> \<exists>rc'. afp_reply (env_malloc e) sub s x = Some (rc', s, x')"
  shows "\<exists>c'. send_fields e flds w sub x c = Some (rc, x', c') \<and> idle c' \<and> lasting c' = lasting c"
proof -
  obtain c1 header where h: "request_header DSI_DSICommand c = (c1, header)"
    by fastforce
  have c1: "idle c1" "lasting c1 = lasting c"
    using idle_header [OF assms(1), of DSI_DSICommand] h by simp_all
  then show ?thesis
    using exchange_packet [OF c1(1) assms(2) _ assms(4-6)] assms(3) h
    by (simp add: answers_request_def send_fields_def)
qed

text \<open>Requests without a result.\<close>

lemma blank_reply:
  assumes "sub \<in> set blank_subcommands" "srv_incoming_buffer s = packet h body @ rest"
    and "srv_data_read s = 16 + length body"
  shows "\<exists>rc'. afp_reply m sub s x = Some (rc', s, x)"
  using blank_reply_unchanged [OF assms(1,2)] assms(3) by simp

lemma blank_exchange:
  assumes "idle c" "env_malloc e sizeof_dsi_request" "answers_request e c flds rc body"
    and "sub \<in> set blank_subcommands" "w \<noteq> 0"
  shows "\<exists>c'. send_fields e flds w sub x c = Some (rc, x, c') \<and> idle c' \<and> lasting c' = lasting c"
proof (rule exchange [OF assms(1-3) _ assms(5)])
  show "sub \<notin> {0, afpRead, afpReadExt}"
    using assms(4) by (auto simp: blank_subcommands_def)
qed (use blank_reply [OF assms(4)] in blast)

subsection \<open>Parameters of a file\<close>

lemma raw_error_code_zero:
  assumes "hdr_return_code h = 0"
  shows "success_header (dsi_header_bytes h)"
  using assms by (simp add: success_header_def dsi_header_bytes_def rd32le_def rd16le_def rd8_def be32_def be16_def)

lemma selected_isdir: "(selected bitmap isdir fi lname uname fpp)\<lparr>fi_isdir := isdir\<rparr> =
    selected bitmap isdir fi lname uname fpp"
  by (simp add: selected_def Let_def)

lemma getfiledirparms_reply:
  assumes "entry_ok x" "hdr_return_code h = 0"
    and "body = be16 fb @ be16 db @ [if fst x then 0x80 else 0, 0] @ entry_block fb db x"
  shows "afp_getfiledirparms_reply (packet h body @ rest) (16 + length body) fpp =
    Some (0, (case x of (isdir, fi, lname, uname, w, l) \<Rightarrow>
      selected (if isdir then db else fb) isdir fi lname uname fpp))"
proof -
  obtain isdir fi lname uname w l where x: "x = (isdir, fi, lname, uname, w, l)"
    by (cases x) auto
  let ?b = "packet h body @ rest"
  have a16: "holds_at ?b 16 (be16 fb @ be16 db @ [if fst x then 0x80 else 0, 0] @ entry_block fb db x @ rest)"
    by (simp add: holds_at_def assms(3))
  note a18 = holds_at_split(3) [OF a16]
  note a20 = holds_at_split(3) [OF a18]
  have "rd8 ?b 20 = Some (if isdir then 0x80 else 0)"
    using a20 x by (intro f8.rd_holds_at [of _ _ _ "0 # entry_block fb db x @ rest"]) simp
  moreover have "drop 22 ?b = entry_block fb db x @ rest"
    by (simp add: assms(3))
  moreover have "raw_error_code ?b = Some 0"
    using raw_error_code_success [OF raw_error_code_zero [OF assms(2)], of "body @ rest"] by simp
  ultimately show ?thesis
    using f16.rd_holds_at [OF a16] f16.rd_holds_at [OF a18] assms(1) x
      parse_reply_block_reply_block [of fi lname uname isdir db fb, OF _ _ _ _ _ refl, of w l rest fpp]
    by (cases isdir) (simp_all add: afp_getfiledirparms_reply_def entry_ok_def entry_block_def assms(3)
        selected_isdir)
qed

subsection \<open>Main results\<close>

lemma return_code_0: "return_code_of h = 0 \<Longrightarrow> hdr_return_code h = 0"
  by (metis signed_0 signed_word_eqI)

lemma dispatch_getfiledirparms:
  "16 \<le> srv_data_read s \<Longrightarrow> afp_reply m afpGetFileDirParms s (File_Info fi) =
    store_reply s File_Info (afp_getfiledirparms_reply (srv_incoming_buffer s) (srv_data_read s) fi)"
  by (simp add: afp_reply_def blank_subcommands_def Let_def)

text \<open>The request \<open>FPGetFileDirParms\<close> as the protocol has it, and the body of its reply.\<close>

definition getfiledirparms_fields :: "client \<Rightarrow> u32 \<Rightarrow> u16 \<Rightarrow> u16 \<Rightarrow> string \<Rightarrow> byte list" where
  "getfiledirparms_fields c did fb db path = [afpGetFileDirParms, 0] @ volid c @ be32 did @ be16 fb @ be16 db @
     path_spec (cl_srv c) (to_bytes path)"

definition getfiledirparms_body :: "u16 \<Rightarrow> u16 \<Rightarrow> dir_entry \<Rightarrow> byte list" where
  "getfiledirparms_body fb db x = be16 fb @ be16 db @ [if fst x then 0x80 else 0, 0] @ entry_block fb db x"

lemma getfiledirparms_send:
  assumes "path_ok (cl_srv c) path" "env_malloc e (28 + path_room (cl_srv c) path)"
  shows "afp_getfiledirparms e did fb db (Some path) fpp c = returned_info (send_fields e
    (getfiledirparms_fields c did fb db path) DSI_DEFAULT_TIMEOUT afpGetFileDirParms (File_Info fpp) c)"
  using assms by (simp add: afp_getfiledirparms_def send_path_eq getfiledirparms_fields_def)

lemma getfiledirparms_exchange:
  assumes "idle c" and "env_malloc e sizeof_dsi_request" and "env_malloc e (28 + path_room (cl_srv c) path)"
    and "path_ok (cl_srv c) path" and "entry_ok (isdir, fi, lname, uname, w, l)"
    and "answers_request e c (getfiledirparms_fields c did fb db path) 0
      (getfiledirparms_body fb db (isdir, fi, lname, uname, w, l))"
  shows "\<exists>c'. afp_getfiledirparms e did fb db (Some path) fpp c =
      Some (0, selected (if isdir then db else fb) isdir fi lname uname fpp, c') \<and>
    idle c' \<and> lasting c' = lasting c"
proof -
  let ?x = "(isdir, fi, lname, uname, w, l)" and ?body = "getfiledirparms_body fb db (isdir, fi, lname, uname, w, l)"
  let ?fi = "selected (if isdir then db else fb) isdir fi lname uname fpp"
  have reply: "\<exists>rc'. afp_reply (env_malloc e) afpGetFileDirParms s (File_Info fpp) = Some (rc', s, File_Info ?fi)"
    if "return_code_of h = 0" "srv_incoming_buffer s = packet h ?body @ rest" "srv_data_read s = 16 + length ?body"
    for h rest s
    using getfiledirparms_reply [OF assms(5) return_code_0 [OF that(1)] getfiledirparms_body_def, where rest = rest and fpp = fpp] that
    by (simp add: dispatch_getfiledirparms store_reply_def)
  have "\<exists>c'. send_fields e (getfiledirparms_fields c did fb db path) DSI_DEFAULT_TIMEOUT afpGetFileDirParms
      (File_Info fpp) c = Some (0, File_Info ?fi, c') \<and> idle c' \<and> lasting c' = lasting c"
    by (rule exchange [OF assms(1,2,6)]) (use reply in auto)
  then show ?thesis
    using getfiledirparms_send [OF assms(4,3)] by (auto simp: returned_info_def)
qed

lemma getfiledirparms_refused:
  assumes "idle c" and "env_malloc e sizeof_dsi_request" and "env_malloc e (28 + path_room (cl_srv c) path)"
    and "path_ok (cl_srv c) path" and "answers_request e c (getfiledirparms_fields c did fb db path) rc []"
  shows "\<exists>c'. afp_getfiledirparms e did fb db (Some path) fpp c = Some (rc, fpp, c') \<and>
    idle c' \<and> lasting c' = lasting c"
proof -
  have reply: "\<exists>rc'. afp_reply (env_malloc e) afpGetFileDirParms s (File_Info fpp) = Some (rc', s, File_Info fpp)"
    if "srv_incoming_buffer s = packet h [] @ rest" "srv_data_read s = 16 + length []" for h rest s
  proof -
    obtain ec where "raw_error_code (packet h [] @ rest) = Some ec"
      by (simp add: raw_error_code_def dsi_header_bytes_def rd32le_def rd16le_def rd8_def)
    with that show ?thesis
      by (cases "ec = 0") (simp_all add: dispatch_getfiledirparms store_reply_def afp_getfiledirparms_reply_def)
  qed
  have "\<exists>c'. send_fields e (getfiledirparms_fields c did fb db path) DSI_DEFAULT_TIMEOUT afpGetFileDirParms
      (File_Info fpp) c = Some (rc, File_Info fpp, c') \<and> idle c' \<and> lasting c' = lasting c"
    by (rule exchange [OF assms(1,2,5)]) (use reply in auto)
  then show ?thesis
    using getfiledirparms_send [OF assms(4,3)] by (auto simp: returned_info_def)
qed

text \<open>The parameters of a file, end to end. In an idle session \<open>afp_getfiledirparms\<close> asks for the
  parameters that two bitmaps select, of the file at a path; when the server answers with the block of
  these parameters, the client has exactly them afterwards, and the session is idle again with nothing
  else changed.\<close>

theorem getfiledirparms_correct:
  assumes "idle c" and "env_malloc e sizeof_dsi_request" and "env_malloc e (28 + path_room (cl_srv c) path)"
    and "path_ok (cl_srv c) path" and "entry_ok (isdir, fi, lname, uname, w, l)"
    and "answers_request e c (getfiledirparms_fields c did fb db path) 0
      (getfiledirparms_body fb db (isdir, fi, lname, uname, w, l))"
  shows "\<exists>c'. afp_getfiledirparms e did fb db (Some path) fpp c =
      Some (0, selected (if isdir then db else fb) isdir fi lname uname fpp, c') \<and>
    idle c' \<and> lasting c' = lasting c"
  by (rule getfiledirparms_exchange [OF assms])

text \<open>Errors of the server. When the server refuses \<open>FPGetFileDirParms\<close> with an empty reply, the
  client returns the code of the server and leaves the structure for the parameters as it was.\<close>

theorem getfiledirparms_error:
  assumes "idle c" and "env_malloc e sizeof_dsi_request" and "env_malloc e (28 + path_room (cl_srv c) path)"
    and "path_ok (cl_srv c) path" and "answers_request e c (getfiledirparms_fields c did fb db path) rc []"
  shows "\<exists>c'. afp_getfiledirparms e did fb db (Some path) fpp c = Some (rc, fpp, c') \<and>
    idle c' \<and> lasting c' = lasting c"
  by (rule getfiledirparms_refused [OF assms])

text \<open>A reply in one piece.\<close>

definition reply_packet :: "u16 \<Rightarrow> u32 \<Rightarrow> byte list \<Rightarrow> byte list" where
  "reply_packet rid rc body = packet \<lparr>hdr_flags = DSI_REPLY, hdr_command = DSI_DSICommand, hdr_requestid = rid,
     hdr_return_code = rc, hdr_length = word_of_nat (length body), hdr_reserved = 0\<rparr> body"

lemma header_bytes_nonempty [simp]: "dsi_header_bytes h \<noteq> []" "[] \<noteq> dsi_header_bytes h"
  by (simp_all add: dsi_header_bytes_def)

lemma answers_in_one_piece:
  assumes "request_header DSI_DSICommand c = (c1, header)"
    and "env_net e (cl_sent c @ [set_length (header @ flds)]) =
      Sent [Data (reply_packet (srv_lastrequestid (cl_srv c1)) rc body)]"
    and "length body \<le> 4080"
  shows "answers_request e c flds (sint rc) body"
proof -
  have "length body < 2 ^ 32"
    using assms(3) by simp
  then have "unat (word_of_nat (length body) :: u32) = length body"
    unfolding unat_of_nat by simp
  moreover have "cl_sent c1 = cl_sent c"
    using request_header_simps(1) [of DSI_DSICommand c] assms(1) by simp
  ultimately show ?thesis
    using assms
    by (auto simp: answers_request_def answers_packet_def reply_packet_def reply_header_def
        intro!: exI [of _ "[reply_packet (srv_lastrequestid (cl_srv c1)) rc body]"]
          exI [of _ "\<lparr>hdr_flags = DSI_REPLY, hdr_command = DSI_DSICommand,
            hdr_requestid = srv_lastrequestid (cl_srv c1), hdr_return_code = rc,
            hdr_length = word_of_nat (length body), hdr_reserved = 0\<rparr>"])
qed

text \<open>A server that answers every packet with one packet of this return code and body, as if it were the
  first of the session.\<close>

abbreviation example_reply :: "u32 \<Rightarrow> byte list \<Rightarrow> byte list" where
  "example_reply \<equiv> reply_packet 1"

lemma example_client_idle: "idle example_client"
  using example_client_ready by (simp add: idle_def example_client_def example_server_def afp_server_init_def)

lemma example_answers:
  assumes "length body \<le> 4080"
  shows "answers_request (example_env (\<lambda>_. Sent [Data (example_reply rc body)])) example_client flds (sint rc) body"
proof -
  obtain c1 header where h: "request_header DSI_DSICommand example_client = (c1, header)"
    by fastforce
  have "srv_lastrequestid (cl_srv (fst (request_header DSI_DSICommand example_client))) = 1"
    by (simp add: setup_header_id example_client_def example_server_def afp_server_init_def)
  then show ?thesis
    using answers_in_one_piece [OF h _ assms] h by (simp add: example_env_def)
qed

theorem getfiledirparms_correct_witness:
  "\<exists>e c'. afp_getfiledirparms e 2 0x0100 0x0100 (Some ''dir'') zero_file_info example_client =
    Some (0, zero_file_info\<lparr>fi_isdir := True, fi_fileid := 17\<rparr>, c')"
proof -
  let ?fi = "zero_file_info\<lparr>fi_fileid := 17\<rparr>"
  let ?body = "getfiledirparms_body 0x0100 0x0100 (True, ?fi, ''dir'', ''dir'', 0, 0)"
  let ?e = "example_env (\<lambda>_. Sent [Data (example_reply 0 ?body)])"
  have ok: "entry_ok (True, ?fi, ''dir'', ''dir'', 0, 0)"
    by (simp add: entry_ok_def zero_file_info_def)
  have "length ?body \<le> 4080"
    using ok by (simp add: getfiledirparms_body_def entry_block_def length_reply_block entry_ok_def params_length_def
        block_params_def opt_bytes_def has_bit_def)
  from example_answers [OF this, of 0] show ?thesis
    using getfiledirparms_correct [OF example_client_idle _ _ _ ok, of ?e "''dir''" 2 "0x0100" "0x0100" zero_file_info]
    by (intro exI [of _ ?e]) (auto simp: example_env_def path_ok_def path_encoding_ok_def max_path_name_def
        example_client_def example_server_def afp_server_init_def selected_def has_bit_def zero_file_info_def
        zero_unixprivs_def)
qed

theorem getfiledirparms_error_witness:
  "\<exists>c'. afp_getfiledirparms (example_env (\<lambda>_. Sent [Data (example_reply (word_of_int kFPObjectNotFound) [])]))
     2 0x0100 0x0100 (Some ''dir'') zero_file_info example_client = Some (kFPObjectNotFound, zero_file_info, c')"
  using getfiledirparms_error [OF example_client_idle _ _ _
      example_answers [of "[]" "word_of_int kFPObjectNotFound"], where path = "''dir''" and did = 2
      and fb = "0x0100" and db = "0x0100" and fpp = zero_file_info]
  by (auto simp: example_env_def path_ok_def path_encoding_ok_def max_path_name_def
      example_client_def example_server_def afp_server_init_def)

lemma moveandrename_exchange:
  fixes dst :: "string option"
  defines "dst_path \<equiv> (case dst of None \<Rightarrow> [] | Some d \<Rightarrow> d)"
  assumes "idle c" and "\<And>n. env_malloc e n"
    and "path_ok (cl_srv c) src" and "path_ok (cl_srv c) dst_path" and "path_ok (cl_srv c) new"
    and "answers_request e c ([afpMoveAndRename, 0] @ volid c @ be32 src_did @ be32 dst_did @
      path_spec (cl_srv c) (to_bytes src) @ path_spec (cl_srv c) (to_bytes dst_path) @
      path_spec (cl_srv c) (to_bytes new)) rc body"
  shows "\<exists>c'. afp_moveandrename e src_did dst_did src dst new c = Some (rc, c') \<and> idle c' \<and> lasting c' = lasting c"
proof -
  define f where "f = [afpMoveAndRename, 0] @ volid c @ be32 src_did @ be32 dst_did"
  define n1 where "n1 = path_room (cl_srv c) src"
  define n2 where "n2 = path_room (cl_srv c) dst_path"
  define n3 where "n3 = path_room (cl_srv c) new"
  let ?spec = "\<lambda>p. path_spec (cl_srv c) (to_bytes p)"
  obtain c1 header where h: "request_header DSI_DSICommand c = (c1, header)"
    by fastforce
  then have c1: "cl_srv c1 = fst (dsi_setup_header DSI_DSICommand (cl_srv c))" "cl_vol c1 = cl_vol c" "length header = 16"
    using request_header_simps [of DSI_DSICommand c] by simp_all
  obtain r1 r2 r3 where room: "fresh e (n1 + n2 + n3) = r1 @ r2 @ r3" "length r1 = n1" "length r2 = n2" "length r3 = n3"
    using fresh_split [of e "n1 + n2" n3] fresh_split [of e n1 n2] by simp
  have f: "length f = 12"
    by (simp add: f_def)
  have p1: "put_path (cl_srv c1) (header @ f @ r1 @ r2 @ r3) 28 src = Some (header @ f @ ?spec src @ r2 @ r3)"
    using put_path_eq [of "cl_srv c1" src 28 "header @ f" r1 "r2 @ r3"] assms(4) c1 f room(2) by (simp add: n1_def)
  have p2: "put_path (cl_srv c1) (header @ f @ ?spec src @ r2 @ r3) (28 + n1) dst_path =
      Some (header @ f @ ?spec src @ ?spec dst_path @ r3)"
    using put_path_eq [of "cl_srv c1" dst_path "28 + n1" "header @ f @ ?spec src" r2 r3] assms(5) c1 f room(3)
    by (simp add: n1_def n2_def)
  have p3: "put_path (cl_srv c1) (header @ f @ ?spec src @ ?spec dst_path @ r3) (28 + n1 + n2) new =
      Some (header @ f @ ?spec src @ ?spec dst_path @ ?spec new)"
    using put_path_eq [of "cl_srv c1" new "28 + n1 + n2" "header @ f @ ?spec src @ ?spec dst_path" r3 "[]"] assms(6)
      c1 f room(4) by (simp add: n1_def n2_def n3_def)
  have "28 + n1 + n2 + n3 - 28 = n1 + n2 + n3"
    by simp
  then have "afp_moveandrename e src_did dst_did src dst new c = returned (send_fields e
      (f @ ?spec src @ ?spec dst_path @ ?spec new) DSI_DEFAULT_TIMEOUT afpMoveAndRename No_Other c)"
    using p1 p2 p3 assms(3) c1(2) h room(1) [unfolded add.assoc]
    unfolding afp_moveandrename_def Let_def dst_path_def [symmetric] n1_def [symmetric] n2_def [symmetric]
      n3_def [symmetric]
    by (simp add: send_fields_def f_def)
  then show ?thesis
    using blank_exchange [OF assms(2) assms(3) assms(7), of afpMoveAndRename DSI_DEFAULT_TIMEOUT No_Other]
    by (auto simp: blank_subcommands_def returned_def f_def)
qed


text \<open>Moving a file. The packet of \<open>afp_moveandrename\<close> is the header, the two directories, and the three
  path specifications one after the other, with nothing of the uninitialised memory left in it; the
  call returns what the server answers.\<close>

theorem moveandrename_correct:
  fixes dst :: "string option"
  defines "dst_path \<equiv> (case dst of None \<Rightarrow> [] | Some d \<Rightarrow> d)"
  assumes "idle c" and "\<And>n. env_malloc e n"
    and "path_ok (cl_srv c) src" and "path_ok (cl_srv c) dst_path" and "path_ok (cl_srv c) new"
    and "answers_request e c ([afpMoveAndRename, 0] @ volid c @ be32 src_did @ be32 dst_did @
      path_spec (cl_srv c) (to_bytes src) @ path_spec (cl_srv c) (to_bytes dst_path) @
      path_spec (cl_srv c) (to_bytes new)) rc body"
  shows "\<exists>c'. afp_moveandrename e src_did dst_did src dst new c = Some (rc, c') \<and> idle c' \<and> lasting c' = lasting c"
  using moveandrename_exchange assms by blast

theorem moveandrename_correct_witness:
  "\<exists>c'. afp_moveandrename (example_env (\<lambda>_. Sent [Data (example_reply 0 [])])) 2 17 ''a'' None ''b'' example_client =
    Some (0, c')"
  using moveandrename_correct [OF example_client_idle _ _ _ _ example_answers [of "[]" 0], where dst = None
      and src = "''a''" and new = "''b''" and src_did = 2 and dst_did = 17]
  by (auto simp: example_env_def path_ok_def path_encoding_ok_def max_path_name_def
      example_client_def example_server_def afp_server_init_def)

text \<open>The length of a large fork. For a 64-bit length \<open>afp_setforkparms\<close> does not send the length it is
  given: the field that the server reads is the length shifted left by 32 bits.\<close>

theorem setforkparms_wrong_length:
  assumes "bitmap AND (kFPExtDataForkLenBit OR kFPExtRsrcForkLenBit) \<noteq> 0"
  shows "afp_setforkparms e forkid bitmap len c = returned (send_fields e
      ([afpSetForkParms, 0] @ be16 forkid @ be16 bitmap @ be64 (push_bit 32 len))
      DSI_DEFAULT_TIMEOUT afpSetForkParms No_Other c)"
proof -
  have hi: "ucast (drop_bit 32 (push_bit 32 len)) = (ucast len :: u32)"
    by (rule bit_word_eqI) (auto simp: bit_simps)
  have lo: "(ucast (push_bit 32 len) :: u32) = 0"
    by (rule bit_word_eqI) (auto simp: bit_simps)
  have "be64 (push_bit 32 len) = be32 (ucast len) @ [0, 0, 0, 0]"
    unfolding be64_def hi lo by (simp add: be32_def be16_def)
  with assms show ?thesis
    by (simp add: afp_setforkparms_def)
qed

theorem setforkparms_wrong_length_witness:
  "\<exists>msg. afp_setforkparms (example_env (\<lambda>_. Sent [])) 1 kFPExtDataForkLenBit 5 example_client =
     returned (send_fields (example_env (\<lambda>_. Sent [])) (msg @ be64 0x500000000)
      DSI_DEFAULT_TIMEOUT afpSetForkParms No_Other example_client)"
  using setforkparms_wrong_length [of kFPExtDataForkLenBit "example_env (\<lambda>_. Sent [])" 1 5 example_client]
  by (intro exI [of _ "[afpSetForkParms, 0] @ be16 1 @ be16 kFPExtDataForkLenBit"]) simp

end
