(* ===== verification/Did_Cache.thy ===== *)
theory Did_Cache
  imports Proto_Exchange
begin

text \<open>
  \<open>lib/did.c\<close>: the cache of directory identifiers of a volume and \<open>get_dirid\<close>, which finds the
  directory a path lies in; \<open>lib/forklist.c\<close>: the list of open forks.
\<close>

subsection \<open>The cache\<close>

abbreviation map_vol :: "(afp_volume \<Rightarrow> afp_volume) \<Rightarrow> client \<Rightarrow> client" where
  "map_vol \<equiv> cl_vol_update"

definition gettimeofday :: "env \<Rightarrow> client \<Rightarrow> nat \<times> client" where
  "gettimeofday e c = (env_clock e (cl_ticks c), c\<lparr>cl_ticks := cl_ticks c + 1\<rparr>)"

abbreviation (input) did_timeout :: nat where "did_timeout \<equiv> 10"

definition expired :: "nat \<Rightarrow> did_cache_entry \<Rightarrow> bool" where
  "expired now d \<longleftrightarrow> now > dce_time d + did_timeout"

text \<open>The loop of \<open>find_dirid_by_fullname\<close>: \<open>before\<close> is the list from \<open>did_cache_base\<close> up to \<open>p\<close>, which
  points to the first of the remaining entries, and \<open>prev\<close> to the entry before it, or to the same entry
  at the start. So \<open>prev==did_cache_base\<close> holds when at most one entry lies before \<open>p\<close>. The result is
  the identifier, the list from \<open>did_cache_base\<close> on, and what is added to the counts of expired
  entries and hits.\<close>

fun find_loop :: "nat \<Rightarrow> string \<Rightarrow> did_cache_entry list \<Rightarrow> did_cache_entry list \<Rightarrow>
    u32 \<times> did_cache_entry list \<times> nat \<times> nat" where
  "find_loop now path before [] = (0, before, 0, 0)"
| "find_loop now path before (p # rest) =
     (if expired now p then
        (if length before \<le> 1 then
           (if dce_dirname p = path then (0, rest, 1, 0)
            else case rest of
                [] \<Rightarrow> (0, [], 1, 0)
              | q # rest \<Rightarrow>
                  (case find_loop now path [q] rest of (d, base, ex, hits) \<Rightarrow> (d, base, ex + 1, hits)))
         else if dce_dirname (last before) = path then (dce_did (last before), before @ rest, 1, 1)
         else (case find_loop now path before rest of (d, base, ex, hits) \<Rightarrow> (d, base, ex + 1, hits)))
      else if dce_dirname p = path then (dce_did p, before @ p # rest, 0, 1)
      else find_loop now path (before @ [p]) rest)"

definition find_dirid_by_fullname :: "env \<Rightarrow> string \<Rightarrow> client \<Rightarrow> u32 \<times> client" where
  "find_dirid_by_fullname e path c =
     (let (now, c) = gettimeofday e c;
          (found_did, base, ex, hits) = find_loop now path [] (vol_did_cache_base (cl_vol c)) in
      (found_did, map_vol (\<lambda>v. v\<lparr>vol_did_cache_base := base, vol_did_cache_stats :=
         (vol_did_cache_stats v)\<lparr>dcs_expired := dcs_expired (vol_did_cache_stats v) + word_of_nat ex,
           dcs_hits := dcs_hits (vol_did_cache_stats v) + word_of_nat hits\<rparr>\<rparr>) c))"

text \<open>The size of an entry on a 64-bit machine.\<close>

abbreviation (input) sizeof_did_cache_entry :: nat where "sizeof_did_cache_entry \<equiv> 800"

definition add_did_cache_entry :: "env \<Rightarrow> u32 \<Rightarrow> string \<Rightarrow> client \<Rightarrow> int \<times> client" where
  "add_did_cache_entry e new_did path c =
     (if \<not> env_malloc e sizeof_did_cache_entry then (- 1, c)
      else let (now, c) = gettimeofday e c in
        (0, map_vol (vol_did_cache_base_update
              (Cons \<lparr>dce_dirname = path, dce_did = new_did, dce_time = now\<rparr>)) c))"

fun remove_first :: "string \<Rightarrow> did_cache_entry list \<Rightarrow> did_cache_entry list option" where
  "remove_first name [] = None"
| "remove_first name (d # ds) =
     (if dce_dirname d = name then Some ds else map_option (Cons d) (remove_first name ds))"

definition remove_did_entry :: "string \<Rightarrow> client \<Rightarrow> int \<times> client" where
  "remove_did_entry name c = (0, case remove_first name (vol_did_cache_base (cl_vol c)) of
       None \<Rightarrow> c
     | Some base \<Rightarrow> map_vol (\<lambda>v. v\<lparr>vol_did_cache_base := base, vol_did_cache_stats :=
         dcs_force_removed_update (\<lambda>n. n + 1) (vol_did_cache_stats v)\<rparr>) c)"

definition is_dir :: "env \<Rightarrow> u32 \<Rightarrow> string \<Rightarrow> client \<Rightarrow> (bool \<times> client) option" where
  "is_dir e parentdid path c = do {
     (ret, fi, c) \<leftarrow> afp_getfiledirparms e parentdid 0 0 (Some path) (env_stack e) c;
     Some (if ret \<noteq> 0 then False else fi_isdir fi, c)
   }"

subsection \<open>The directory of a path\<close>

text \<open>The first loop of \<open>get_dirid\<close>: \<open>copy\<close> loses its last component until its directory is in the cache
  or it is at the start. The result is the identifier and the offset of \<open>p\<close> in \<open>copy\<close>. A path
  that does not start with a slash leaves \<open>p\<close> a null pointer.\<close>

function dirid_back :: "env \<Rightarrow> string \<Rightarrow> client \<Rightarrow> (u32 \<times> nat \<times> client) option" where
  "dirid_back e copy c = (case strrchr copy CHR ''/'' of
     None \<Rightarrow> None
   | Some p \<Rightarrow>
       (if p = 0 then Some (AFP_ROOT_DID, 0, c)
        else case find_dirid_by_fullname e (take p copy) c of (parent_did, c) \<Rightarrow>
          if parent_did \<noteq> 0 then Some (parent_did, p, c) else dirid_back e (take p copy) c))"
  by pat_completeness auto

termination
  by (relation "measure (\<lambda>(e, copy, c). length copy)") (auto dest: strrchr_SomeD)

declare dirid_back.simps [simp del]

text \<open>The second loop: \<open>p\<close> and \<open>p2\<close> are offsets in \<open>path\<close>, and \<open>fi\<close> is what the last request left. The
  value returned by \<open>afp_getfiledirparms\<close> is not looked at.\<close>

function dirid_forward ::
  "env \<Rightarrow> string \<Rightarrow> nat \<Rightarrow> nat \<Rightarrow> u32 \<Rightarrow> afp_file_info \<Rightarrow> client \<Rightarrow> (u32 \<times> client) option" where
  "dirid_forward e path p p2 parent_did fi c = (case strchr (drop (p + 1) path) CHR ''/'' of
     None \<Rightarrow> Some (parent_did, c)
   | Some i \<Rightarrow> do {
       let p = p + 1 + i;
       let c = map_vol (vol_did_cache_stats_update (dcs_misses_update (\<lambda>n. n + 1))) c;
       (_, fi, c) \<leftarrow> afp_getfiledirparms e parent_did kFPNodeIDBit kFPNodeIDBit
         (Some (take (p - p2) (drop p2 path))) fi c;
       if fi_isdir fi then
         dirid_forward e path p p (fi_fileid fi) fi
           (snd (add_did_cache_entry e (fi_fileid fi) (take p path) c))
       else Some (parent_did, c)
     })"
  by pat_completeness auto

termination
  by (relation "measure (\<lambda>(e, path, p, p2, parent_did, fi, c). length path - p)")
     (auto dest!: strchr_SomeD)

declare dirid_forward.simps [simp del]

text \<open>\<open>get_dirid\<close>: the base name and the identifier of the directory; \<open>Some (None, _)\<close> is the return of
  -1, for a path without a slash. Both local copies have \<open>AFP_MAX_PATH\<close> bytes.\<close>

definition get_dirid :: "env \<Rightarrow> string \<Rightarrow> client \<Rightarrow> ((string \<times> u32) option \<times> client) option" where
  "get_dirid e path c = (case strrchr path CHR ''/'' of
     None \<Rightarrow> Some (None, c)
   | Some p \<Rightarrow>
       (let basename = drop (p + 1) path in
        if AFP_MAX_PATH \<le> length basename then None
        else if p = 0 then Some (Some (basename, AFP_ROOT_DID), c)
        else if AFP_MAX_PATH \<le> p then None
        else case find_dirid_by_fullname e (take p path) c of (newdid, c) \<Rightarrow>
          if newdid \<noteq> 0 then Some (Some (basename, newdid), c)
          else do {
            (parent_did, p, c) \<leftarrow> dirid_back e (take p path) c;
            (did, c) \<leftarrow> dirid_forward e path p p parent_did (env_stack e) c;
            Some (Some (basename, did), c)
          }))"

subsection \<open>The list of open forks\<close>

definition add_opened_fork :: "afp_file_info \<Rightarrow> client \<Rightarrow> client" where
  "add_opened_fork fp = map_vol (vol_open_forks_update (Cons fp))"

text \<open>The pointer \<open>fp\<close> is compared: the fork at this address is unlinked.\<close>

fun unlink_fork :: "nat \<Rightarrow> afp_file_info list \<Rightarrow> afp_file_info list" where
  "unlink_fork a [] = []"
| "unlink_fork a (p # ps) = (if fi_addr p = a then ps else p # unlink_fork a ps)"

definition remove_opened_fork :: "nat \<Rightarrow> client \<Rightarrow> client" where
  "remove_opened_fork a = map_vol (vol_open_forks_update (unlink_fork a))"

text \<open>\<open>remove_fork_list\<close>: flushes, closes and forgets one fork after the other.\<close>

fun close_forks :: "env \<Rightarrow> afp_file_info list \<Rightarrow> client \<Rightarrow> client option" where
  "close_forks e [] c = Some c"
| "close_forks e (p # ps) c = do {
     (_, c) \<leftarrow> afp_flushfork e (fi_forkid p) c;
     (_, c) \<leftarrow> afp_closefork e (fi_forkid p) c;
     close_forks e ps (map_vol (vol_open_forks_update (\<lambda>_. ps)) c)
   }"

definition remove_fork_list :: "env \<Rightarrow> client \<Rightarrow> client option" where
  "remove_fork_list e c = close_forks e (vol_open_forks (cl_vol c)) c"

end
