(* ===== verification/Dir_Server.thy ===== *)
theory Dir_Server
  imports Proto_Exchange
begin

text \<open>
  The other end of the connection: what it means that a server has a tree of directories, and a
  server that has one, which takes the request apart and answers it. The lookups of the client are
  proved against the former; the latter shows that it can be had.
\<close>

subsection \<open>A server with directories\<close>

text \<open>The directory \<open>d\<close> has a subdirectory \<open>tree d n\<close> of name \<open>n\<close>, and the server behind \<open>e\<close> says so in every idle
  session.\<close>

type_synonym dir_tree = "u32 \<Rightarrow> string \<Rightarrow> u32 option"

definition serves :: "env \<Rightarrow> dir_tree \<Rightarrow> bool" where
  "serves e tree \<longleftrightarrow> (\<forall>c d n d' fi. idle c \<and> path_ok (cl_srv c) (CHR ''/'' # n) \<and> tree d n = Some d' \<longrightarrow>
     (\<exists>ret fi' c'. afp_getfiledirparms e d kFPNodeIDBit kFPNodeIDBit (Some (CHR ''/'' # n)) fi c =
         Some (ret, fi', c') \<and> fi_isdir fi' \<and> fi_fileid fi' = d' \<and> idle c' \<and> lasting c' = lasting c))"

subsection \<open>An implementation\<close>

text \<open>The name in a path specification, without the separator it starts with.\<close>

definition spec_name :: "byte list \<Rightarrow> string" where
  "spec_name spec = of_bytes (if rd8 spec 0 = Some kFPUTF8Name then drop 8 spec else drop 3 spec)"

definition dir_entry_of :: "u32 \<Rightarrow> dir_entry" where
  "dir_entry_of d = (True, zero_file_info\<lparr>fi_fileid := d\<rparr>, [], [], 0, 0)"

definition dir_server :: "dir_tree \<Rightarrow> byte list list \<Rightarrow> tx_result" where
  "dir_server tree sent =
     (if sent = [] then Sent []
      else let p = last sent in
        case (rd16 p 2, rd32 p 20) of
          (Some rid, Some did) \<Rightarrow> Sent [Data (case tree did (spec_name (drop 28 p)) of
              Some d \<Rightarrow> reply_packet rid 0 (getfiledirparms_body kFPNodeIDBit kFPNodeIDBit (dir_entry_of d))
            | None \<Rightarrow> reply_packet rid (word_of_int kFPObjectNotFound) [])]
        | _ \<Rightarrow> Sent [])"

lemma set_length_packet:
  "set_length (dsi_header_bytes h @ flds) = dsi_header_bytes (h\<lparr>hdr_length := word_of_nat (length flds)\<rparr>) @ flds"
  by (simp add: set_length_def dsi_header_bytes_def)

lemma header_id: "rd16 (dsi_header_bytes h @ rest) 2 = Some (hdr_requestid h)"
proof -
  have "holds_at (dsi_header_bytes h @ rest) 2 (be16 (hdr_requestid h) @ be32 (hdr_return_code h) @
      be32 (hdr_length h) @ be32 (hdr_reserved h) @ rest)"
    by (simp add: holds_at_def dsi_header_bytes_def)
  then show ?thesis
    by (rule f16.rd_holds_at)
qed

text \<open>A request as it goes out: a header with the current identifier, and the fields.\<close>

lemma request_packet:
  assumes "request_header DSI_DSICommand c = (c1, header)"
  obtains hb where "length hb = 16" "set_length (header @ flds) = hb @ flds"
    "rd16 (hb @ flds) 2 = Some (srv_lastrequestid (cl_srv c1))"
proof -
  define h where "h = \<lparr>hdr_flags = 0, hdr_command = DSI_DSICommand, hdr_requestid = srv_lastrequestid (cl_srv c1),
     hdr_return_code = 0, hdr_length = 0, hdr_reserved = 0\<rparr>"
  have h: "header = dsi_header_bytes h" "hdr_requestid h = srv_lastrequestid (cl_srv c1)"
    using assms by (auto simp: h_def request_header_def dsi_setup_header_def Let_def)
  let ?h = "h\<lparr>hdr_length := word_of_nat (length flds)\<rparr>"
  show ?thesis
    by (rule that [of "dsi_header_bytes ?h"]) (use h header_id [of ?h flds] in \<open>simp_all add: set_length_packet\<close>)
qed

lemma spec_name_path:
  assumes "path_encoding_ok server" "CHR ''/'' \<notin> set n"
  shows "spec_name (path_spec server (to_bytes (CHR ''/'' # n))) = n"
proof -
  have inj: "byte_of_char x = byte_of_char y \<Longrightarrow> x = y" for x y
    by (metis char_of_byte_of_char)
  have "map slash_to_nul (to_bytes n) = to_bytes n"
    using assms(2) inj by (intro map_idI) (auto simp: slash_to_nul_def)
  then show ?thesis
    using assms(1)
    by (auto simp: spec_name_def path_spec_def path_header_def path_encoding_ok_def rd8_def intro!: map_idI)
qed

lemma dir_server_serves:
  assumes "env_net e = dir_server tree" "\<And>n. env_malloc e n"
    and "\<And>d n. tree d n \<noteq> None \<Longrightarrow> CHR ''/'' \<notin> set n"
  shows "serves e tree"
  unfolding serves_def
proof (intro allI impI, elim conjE)
  fix c d n d' fi
  assume c: "idle c" "path_ok (cl_srv c) (CHR ''/'' # n)" and t: "tree d n = Some d'"
  let ?path = "CHR ''/'' # n" and ?b = "kFPNodeIDBit :: u16"
  let ?flds = "getfiledirparms_fields c d ?b ?b ?path" and ?body = "getfiledirparms_body ?b ?b (dir_entry_of d')"
  obtain c1 header where rh: "request_header DSI_DSICommand c = (c1, header)"
    by fastforce
  obtain hb where hb: "length hb = 16" "set_length (header @ ?flds) = hb @ ?flds"
    "rd16 (hb @ ?flds) 2 = Some (srv_lastrequestid (cl_srv c1))"
    by (rule request_packet [OF rh])
  let ?p = "hb @ ?flds"
  have "holds_at ?p 20 (be32 d @ be16 ?b @ be16 ?b @ path_spec (cl_srv c) (to_bytes ?path))"
    using hb(1) by (simp add: holds_at_def getfiledirparms_fields_def)
  then have did: "rd32 ?p 20 = Some d"
    by (rule f32.rd_holds_at)
  have "spec_name (drop 28 ?p) = n"
    using spec_name_path [of "cl_srv c" n] c(2) assms(3) [of d n] t hb(1)
    by (simp add: getfiledirparms_fields_def path_ok_def)
  then have net: "env_net e (cl_sent c @ [?p]) = Sent [Data (reply_packet (srv_lastrequestid (cl_srv c1)) 0 ?body)]"
    using assms(1) hb(3) did t by (simp add: dir_server_def Let_def)
  have ok: "entry_ok (dir_entry_of d')"
    by (simp add: entry_ok_def dir_entry_of_def zero_file_info_def)
  then have len: "length ?body \<le> 4080"
    by (simp add: getfiledirparms_body_def entry_block_def dir_entry_of_def length_reply_block entry_ok_def
        params_length_def block_params_def opt_bytes_def has_bit_def)
  have "answers_request e c ?flds 0 ?body"
    using answers_in_one_piece [OF rh _ len, of e ?flds 0] net hb(2) by simp
  then obtain c' where "afp_getfiledirparms e d ?b ?b (Some ?path) fi c =
      Some (0, selected ?b True (zero_file_info\<lparr>fi_fileid := d'\<rparr>) [] [] fi, c')" "idle c'" "lasting c' = lasting c"
    using getfiledirparms_exchange [OF c(1) assms(2) assms(2) c(2) ok [unfolded dir_entry_of_def], of d ?b ?b fi]
    by (auto simp: dir_entry_of_def)
  then show "\<exists>ret fi' c'. afp_getfiledirparms e d kFPNodeIDBit kFPNodeIDBit (Some ?path) fi c =
         Some (ret, fi', c') \<and> fi_isdir fi' \<and> fi_fileid fi' = d' \<and> idle c' \<and> lasting c' = lasting c"
    by (simp add: selected_def has_bit_def Let_def)
qed

subsection \<open>Servers that answer everything\<close>

text \<open>Every packet that carries the current identifier is answered with this code and nothing else, in every
  idle session that agrees with \<open>c0\<close>; or it is answered in some way.\<close>

definition refuses :: "env \<Rightarrow> int \<Rightarrow> client \<Rightarrow> bool" where
  "refuses e rc c0 \<longleftrightarrow> (\<forall>c msg. idle c \<and> lasting c = lasting c0 \<and>
     rd16 msg 2 = Some (srv_lastrequestid (cl_srv c)) \<longrightarrow> answers_packet e c msg rc [])"

definition responsive :: "env \<Rightarrow> client \<Rightarrow> bool" where
  "responsive e c0 \<longleftrightarrow> (\<forall>c msg. idle c \<and> lasting c = lasting c0 \<and>
     rd16 msg 2 = Some (srv_lastrequestid (cl_srv c)) \<longrightarrow> (\<exists>rc body. answers_packet e c msg rc body))"

lemma refuses_responsive: "refuses e rc c0 \<Longrightarrow> responsive e c0"
  by (auto simp: refuses_def responsive_def)

definition answering_server :: "u32 \<Rightarrow> byte list list \<Rightarrow> tx_result" where
  "answering_server rc sent = (if sent = [] then Sent [] else case rd16 (last sent) 2 of
     Some rid \<Rightarrow> Sent [Data (reply_packet rid rc [])]
   | None \<Rightarrow> Sent [])"

lemma rd16_set_length: "rd16 msg 2 = Some i \<Longrightarrow> rd16 (set_length msg) 2 = Some i"
  by (auto simp: set_length_def rd16_def rd8_def nth_append split: bind_splits if_splits)

lemma answering_server_refuses:
  assumes "env_net e = answering_server rc"
  shows "refuses e (sint rc) c0"
  unfolding refuses_def
proof (intro allI impI, elim conjE)
  fix c :: client and msg
  assume "rd16 msg 2 = Some (srv_lastrequestid (cl_srv c))"
  then have "env_net e (cl_sent c @ [set_length msg]) = Sent [Data (reply_packet (srv_lastrequestid (cl_srv c)) rc [])]"
    using assms rd16_set_length by (simp add: answering_server_def)
  then show "answers_packet e c msg (sint rc) []"
    by (auto simp: answers_packet_def reply_packet_def reply_header_def
        intro!: exI [of _ "[reply_packet (srv_lastrequestid (cl_srv c)) rc []]"]
          exI [of _ "\<lparr>hdr_flags = DSI_REPLY, hdr_command = DSI_DSICommand,
            hdr_requestid = srv_lastrequestid (cl_srv c), hdr_return_code = rc,
            hdr_length = 0, hdr_reserved = 0\<rparr>"])
qed

lemma refuses_request:
  assumes "refuses e rc c0" "idle c" "lasting c = lasting c0"
  shows "answers_request e c flds rc []"
proof -
  obtain c1 header where rh: "request_header DSI_DSICommand c = (c1, header)"
    by fastforce
  have c1: "idle c1" "lasting c1 = lasting c"
    using idle_header [OF assms(2), of DSI_DSICommand] rh by simp_all
  obtain h where "header = dsi_header_bytes h" "hdr_requestid h = srv_lastrequestid (cl_srv c1)"
    using rh by (auto simp: request_header_def dsi_setup_header_def Let_def)
  then have "rd16 (header @ flds) 2 = Some (srv_lastrequestid (cl_srv c1))"
    using header_id [of h flds] by simp
  then show ?thesis
    using assms(1,3) c1 rh by (simp add: answers_request_def refuses_def)
qed

subsection \<open>A partner in a dialogue\<close>

text \<open>The server behind \<open>e\<close> answers every request, whose fields are given, by what \<open>peer\<close> makes of it and of the
  requests before it.\<close>

type_synonym peer = "byte list list \<Rightarrow> byte list \<Rightarrow> int \<times> byte list"

definition talks :: "env \<Rightarrow> peer \<Rightarrow> bool" where
  "talks e peer \<longleftrightarrow> (\<forall>c flds. idle c \<longrightarrow>
     answers_request e c flds (fst (peer (map (drop 16) (cl_sent c)) flds)) (snd (peer (map (drop 16) (cl_sent c)) flds)))"

definition peer_server :: "peer \<Rightarrow> byte list list \<Rightarrow> tx_result" where
  "peer_server peer sent =
     (if sent = [] then Sent []
      else let p = last sent; (rc, body) = peer (map (drop 16) (butlast sent)) (drop 16 p) in
        case rd16 p 2 of Some rid \<Rightarrow> Sent [Data (reply_packet rid (word_of_int rc) body)] | None \<Rightarrow> Sent [])"

lemma peer_server_talks:
  assumes "env_net e = peer_server peer" "\<And>h f. length (snd (peer h f)) \<le> 4080"
    and "\<And>h f. - (2 ^ 31) \<le> fst (peer h f) \<and> fst (peer h f) < 2 ^ 31"
  shows "talks e peer"
  unfolding talks_def
proof (intro allI impI)
  fix c :: client and flds
  assume "idle c"
  obtain c1 header where rh: "request_header DSI_DSICommand c = (c1, header)"
    by fastforce
  obtain hb where hb: "length hb = 16" "set_length (header @ flds) = hb @ flds"
    "rd16 (hb @ flds) 2 = Some (srv_lastrequestid (cl_srv c1))"
    by (rule request_packet [OF rh])
  obtain rc body where p: "peer (map (drop 16) (cl_sent c)) flds = (rc, body)"
    by fastforce
  have "env_net e (cl_sent c @ [set_length (header @ flds)]) =
      Sent [Data (reply_packet (srv_lastrequestid (cl_srv c1)) (word_of_int rc) body)]"
    using assms(1) hb p by (simp add: peer_server_def Let_def)
  then have "length body \<le> 4080 \<Longrightarrow> answers_request e c flds (sint (word_of_int rc :: u32)) body"
    by (rule answers_in_one_piece [OF rh])
  moreover have "length body \<le> 4080" "- (2 ^ 31) \<le> rc" "rc < 2 ^ 31"
    using assms(2) [of "map (drop 16) (cl_sent c)" flds] assms(3) [of "map (drop 16) (cl_sent c)" flds] p by simp_all
  ultimately show "answers_request e c flds (fst (peer (map (drop 16) (cl_sent c)) flds)) (snd (peer (map (drop 16) (cl_sent c)) flds))"
    using p signed_take_bit_int_eq_self [of 31 rc] by (simp add: signed_of_int)
qed

end
