(* ===== verification/Did_Lookup.thy ===== *)
theory Did_Lookup
  imports Did_Cache Dir_Server
begin

text \<open>
  The cache of directory identifiers never gives a wrong identifier, although it may lose a right one when another expires; while nothing
  expires it is a stack of identifiers for every path;
  \<open>get_dirid\<close> finds the directory of a path, with whatever the cache holds; the list of open forks is
  a pool of linked structures.
\<close>

subsection \<open>Lookups\<close>

lemma find_loop_sound:
  assumes "find_loop now path before ps = (d, base, ex, hits)" "d \<noteq> 0"
    and "\<forall>x\<in>set (tl before). dce_dirname x \<noteq> path"
  shows "\<exists>x\<in>set ps. dce_dirname x = path \<and> dce_did x = d \<and> \<not> expired now x"
  using assms
proof (induction now path before ps arbitrary: d base ex hits rule: find_loop.induct)
  case (2 now path before p rest)
  have tl: "dce_dirname (last before) \<noteq> path" if "\<not> length before \<le> 1"
    using 2(6) that by (cases before) (auto simp: Suc_le_eq split: if_splits)
  show ?case
  proof (cases "expired now p")
    case True
    show ?thesis
    proof (cases "length before \<le> 1")
      case short: True
      then show ?thesis
        using 2 True
        by (cases rest) (fastforce split: if_splits prod.splits)+
    next
      case False
      then show ?thesis
        using 2 True tl by (fastforce split: if_splits prod.splits)
    qed
  next
    case False
    then show ?thesis
      using 2 by (cases before) (fastforce split: if_splits)+
  qed
qed simp

lemma find_loop_base:
  "find_loop now path before ps = (d, base, ex, hits) \<Longrightarrow> set base \<subseteq> set before \<union> set ps"
proof (induction now path before ps arbitrary: d base ex hits rule: find_loop.induct)
  case (2 now path before p rest)
  then show ?case
    by (cases rest) (fastforce split: if_splits prod.splits)+
qed simp

text \<open>What a client sees of the cache while nothing expires: for every path a stack of identifiers. Adding pushes one, removing takes the top one
  away, a lookup gives the top one. The three operations come in any order.\<close>

datatype ('k, 'v) cache_op = Find 'k | Add 'v 'k | Del 'k

fun run_cache ::
  "('k \<Rightarrow> 's \<Rightarrow> 'v \<times> 's) \<Rightarrow> ('v \<Rightarrow> 'k \<Rightarrow> 's \<Rightarrow> int \<times> 's) \<Rightarrow> ('k \<Rightarrow> 's \<Rightarrow> int \<times> 's) \<Rightarrow>
   ('k, 'v) cache_op list \<Rightarrow> 's \<Rightarrow> 'v list \<times> 's" where
  "run_cache lkp ins rem [] s = ([], s)"
| "run_cache lkp ins rem (Find k # ops) s =
     (let (v, s) = lkp k s; (vs, s) = run_cache lkp ins rem ops s in (v # vs, s))"
| "run_cache lkp ins rem (Add v k # ops) s = run_cache lkp ins rem ops (snd (ins v k s))"
| "run_cache lkp ins rem (Del k # ops) s = run_cache lkp ins rem ops (snd (rem k s))"

fun run_stacks :: "'v \<Rightarrow> ('k, 'v) cache_op list \<Rightarrow> ('k \<Rightarrow> 'v list) \<Rightarrow> 'v list \<times> ('k \<Rightarrow> 'v list)" where
  "run_stacks none [] m = ([], m)"
| "run_stacks none (Find k # ops) m =
     (let (vs, m') = run_stacks none ops m in ((case m k of [] \<Rightarrow> none | v # _ \<Rightarrow> v) # vs, m'))"
| "run_stacks none (Add v k # ops) m = run_stacks none ops (m(k := v # m k))"
| "run_stacks none (Del k # ops) m = run_stacks none ops (m(k := tl (m k)))"

text \<open>\<open>inv n s\<close>: the next \<open>n\<close> operations find nothing expired.\<close>

locale stack_cache =
  fixes inv :: "nat \<Rightarrow> 's \<Rightarrow> bool"
    and stack :: "'s \<Rightarrow> 'k \<Rightarrow> 'v list"
    and lkp :: "'k \<Rightarrow> 's \<Rightarrow> 'v \<times> 's"
    and ins :: "'v \<Rightarrow> 'k \<Rightarrow> 's \<Rightarrow> int \<times> 's"
    and rem :: "'k \<Rightarrow> 's \<Rightarrow> int \<times> 's"
    and none :: 'v
  assumes lkp_top: "inv (Suc n) s \<Longrightarrow> lkp k s = (v, s') \<Longrightarrow>
      v = (case stack s k of [] \<Rightarrow> none | v # _ \<Rightarrow> v) \<and> stack s' = stack s \<and> inv n s'"
    and ins_push: "inv (Suc n) s \<Longrightarrow> ins v k s = (r, s') \<Longrightarrow> stack s' = (stack s)(k := v # stack s k) \<and> inv n s'"
    and rem_pop: "inv (Suc n) s \<Longrightarrow> rem k s = (r, s') \<Longrightarrow> stack s' = (stack s)(k := tl (stack s k)) \<and> inv n s'"
begin

lemma run_refines:
  assumes "run_cache lkp ins rem ops s = (vs, s')" "inv (length ops) s"
  shows "run_stacks none ops (stack s) = (vs, stack s')"
  using assms
proof (induction ops arbitrary: s vs)
  case (Cons x ops)
  show ?case
  proof (cases x)
    case (Find k)
    obtain v s1 where f: "lkp k s = (v, s1)"
      by fastforce
    obtain vs1 s2 where g: "run_cache lkp ins rem ops s1 = (vs1, s2)"
      by fastforce
    then show ?thesis
      using Cons.IH [of s1 vs1] Cons.prems lkp_top [OF _ f, of "length ops"] Find f by simp
  next
    case (Add v k)
    obtain r s1 where f: "ins v k s = (r, s1)"
      by fastforce
    then show ?thesis
      using Cons.IH [of s1 vs] Cons.prems ins_push [OF _ f, of "length ops"] Add by (simp del: fun_upd_apply)
  next
    case (Del k)
    obtain r s1 where f: "rem k s = (r, s1)"
      by fastforce
    then show ?thesis
      using Cons.IH [of s1 vs] Cons.prems rem_pop [OF _ f, of "length ops"] Del by (simp del: fun_upd_apply)
  qed
qed simp

end

abbreviation cache :: "client \<Rightarrow> did_cache_entry list" where
  "cache c \<equiv> vol_did_cache_base (cl_vol c)"

definition cache_stack :: "client \<Rightarrow> string \<Rightarrow> u32 list" where
  "cache_stack c path = map dce_did (filter (\<lambda>x. dce_dirname x = path) (cache c))"

text \<open>All entries are of the time \<open>t\<close> or later, the next \<open>n\<close> times the clock is read it shows at most ten seconds after it, and there is memory
  for an entry.\<close>

definition cache_fresh :: "env \<Rightarrow> nat \<Rightarrow> nat \<Rightarrow> client \<Rightarrow> bool" where
  "cache_fresh e t n c \<longleftrightarrow> (\<forall>x\<in>set (cache c). t \<le> dce_time x) \<and>
     (\<forall>i<n. t \<le> env_clock e (cl_ticks c + i) \<and> env_clock e (cl_ticks c + i) \<le> t + did_timeout) \<and>
     env_malloc e sizeof_did_cache_entry"

lemma find_loop_fresh:
  "\<forall>x\<in>set ps. \<not> expired now x \<Longrightarrow> find_loop now path before ps =
     (case filter (\<lambda>x. dce_dirname x = path) ps of [] \<Rightarrow> (0, before @ ps, 0, 0) | x # _ \<Rightarrow> (dce_did x, before @ ps, 0, 1))"
  by (induction ps arbitrary: before) (auto split: list.splits)

lemma remove_first_filter:
  "filter (\<lambda>x. dce_dirname x = path) (case remove_first name ds of None \<Rightarrow> ds | Some ds \<Rightarrow> ds) =
     (if path = name then tl (filter (\<lambda>x. dce_dirname x = path) ds) else filter (\<lambda>x. dce_dirname x = path) ds)"
  by (induction ds) (auto split: option.splits)

lemma remove_first_subset: "remove_first name ds = Some ds' \<Longrightarrow> set ds' \<subseteq> set ds"
  by (induction ds arbitrary: ds') (auto split: if_splits)

lemma remove_did_entry_cache:
  "cache (snd (remove_did_entry name c)) = (case remove_first name (cache c) of None \<Rightarrow> cache c | Some ds \<Rightarrow> ds)"
  "cl_ticks (snd (remove_did_entry name c)) = cl_ticks c"
  by (auto simp: remove_did_entry_def split: option.splits)

lemma fresh_tick:
  assumes "cache_fresh e t (Suc n) c" "cl_ticks c' = cl_ticks c + 1" "\<forall>x\<in>set (cache c'). t \<le> dce_time x"
  shows "cache_fresh e t n c'"
  using assms by (auto simp: cache_fresh_def)

lemma fresh_now:
  assumes "cache_fresh e t (Suc n) c"
  shows "t \<le> env_clock e (cl_ticks c)" "x \<in> set (cache c) \<Longrightarrow> \<not> expired (env_clock e (cl_ticks c)) x"
  using assms by (force simp: cache_fresh_def expired_def)+

lemma find_fresh:
  assumes "cache_fresh e t (Suc n) c" "find_dirid_by_fullname e path c = (d, c')"
  shows "d = (case cache_stack c path of [] \<Rightarrow> 0 | d # _ \<Rightarrow> d)" "cache c' = cache c" "cl_ticks c' = cl_ticks c + 1"
  using assms(2) find_loop_fresh [of "cache c" "env_clock e (cl_ticks c)" path "[]"] fresh_now(2) [OF assms(1)]
  by (auto simp: find_dirid_by_fullname_def gettimeofday_def cache_stack_def Let_def split: list.splits)

interpretation dc: stack_cache "cache_fresh e t" cache_stack "find_dirid_by_fullname e" "add_did_cache_entry e" remove_did_entry 0
  for e t
proof (unfold_locales, goal_cases)
  case (1 n s k v s')
  then show ?case
    using find_fresh [OF 1] fresh_tick [OF 1(1), of s'] by (auto simp: cache_stack_def cache_fresh_def)
next
  case (2 n s v k r s')
  then have s': "s' = map_vol (vol_did_cache_base_update (Cons \<lparr>dce_dirname = k, dce_did = v, dce_time = env_clock e (cl_ticks s)\<rparr>))
      (s\<lparr>cl_ticks := cl_ticks s + 1\<rparr>)"
    by (simp add: add_did_cache_entry_def gettimeofday_def cache_fresh_def)
  have "cache_fresh e t n s'"
    using fresh_now(1) [OF 2(1)] 2(1) by (intro fresh_tick [OF 2(1)]) (auto simp: s' cache_fresh_def)
  then show ?case
    by (auto simp: s' cache_stack_def)
next
  case (3 n s k r s')
  have s': "s' = snd (remove_did_entry k s)"
    using 3(2) by simp
  have "cache_stack s' path = (if path = k then tl (cache_stack s path) else cache_stack s path)" for path
    by (simp add: s' cache_stack_def remove_did_entry_cache remove_first_filter map_tl)
  moreover have "cache_fresh e t n s'"
    using 3(1) remove_first_subset [of k "cache s"] by (auto simp: s' cache_fresh_def remove_did_entry_cache split: option.splits)
  ultimately show ?case
    by auto
qed

text \<open>The state apart from the cache, its statistics and the clock.\<close>

definition steady :: "client \<Rightarrow> client" where
  "steady c = (lasting c)\<lparr>cl_ticks := 0, cl_vol := (cl_vol c)\<lparr>vol_did_cache_base := [],
     vol_did_cache_stats := \<lparr>dcs_hits = 0, dcs_misses = 0, dcs_expired = 0, dcs_force_removed = 0\<rparr>\<rparr>\<rparr>"

lemma idle_frame [simp]: "idle (map_vol f c) = idle c" "idle (c\<lparr>cl_ticks := n\<rparr>) = idle c"
  by (simp_all add: idle_def session_ready_def queue_ok_def buffer_ok_def server_still_valid_def)

lemma find_dirid:
  assumes "find_dirid_by_fullname e path c = (d, c')"
  shows "set (cache c') \<subseteq> set (cache c)" "idle c' = idle c" "steady c' = steady c" "cl_srv c' = cl_srv c"
    "d \<noteq> 0 \<Longrightarrow> \<exists>x\<in>set (cache c). dce_dirname x = path \<and> dce_did x = d \<and>
      \<not> expired (env_clock e (cl_ticks c)) x"
proof -
  obtain d' base ex hits where f: "find_loop (env_clock e (cl_ticks c)) path [] (cache c) = (d', base, ex, hits)"
    by (cases "find_loop (env_clock e (cl_ticks c)) path [] (cache c)") auto
  have c': "d' = d" "c' = map_vol (\<lambda>v. v\<lparr>vol_did_cache_base := base, vol_did_cache_stats :=
         (vol_did_cache_stats v)\<lparr>dcs_expired := dcs_expired (vol_did_cache_stats v) + word_of_nat ex,
           dcs_hits := dcs_hits (vol_did_cache_stats v) + word_of_nat hits\<rparr>\<rparr>) (c\<lparr>cl_ticks := cl_ticks c + 1\<rparr>)"
    using assms f by (simp_all add: find_dirid_by_fullname_def gettimeofday_def)
  show "set (cache c') \<subseteq> set (cache c)"
    using find_loop_base [OF f] c' by simp
  show "idle c' = idle c" "cl_srv c' = cl_srv c"
    using c' by simp_all
  show "steady c' = steady c"
    using c' by (simp add: steady_def lasting_def)
  show "\<exists>x\<in>set (cache c). dce_dirname x = path \<and> dce_did x = d \<and> \<not> expired (env_clock e (cl_ticks c)) x"
    if "d \<noteq> 0"
    using find_loop_sound [OF f] c' that by simp
qed

subsection \<open>Paths and directories\<close>

text \<open>The absolute path of the directory with these names, and the identifier it has on a server whose
  directory \<open>d\<close> has a subdirectory \<open>tree d n\<close> of name \<open>n\<close>.\<close>

definition path_of :: "string list \<Rightarrow> string" where
  "path_of ns = concat (map (Cons CHR ''/'') ns)"

fun walk :: "dir_tree \<Rightarrow> u32 \<Rightarrow> string list \<Rightarrow> u32 option" where
  "walk tree d [] = Some d"
| "walk tree d (n # ns) = do {d' \<leftarrow> tree d n; walk tree d' ns}"

definition slash_free :: "string list \<Rightarrow> bool" where
  "slash_free ns \<longleftrightarrow> (\<forall>n\<in>set ns. CHR ''/'' \<notin> set n)"

lemma path_of_simps [simp]:
  "path_of [] = []" "path_of (n # ns) = CHR ''/'' # n @ path_of ns" "path_of (ns @ ms) = path_of ns @ path_of ms"
  by (simp_all add: path_of_def)

lemma slash_free_simps [simp]:
  "slash_free []" "slash_free (n # ns) \<longleftrightarrow> CHR ''/'' \<notin> set n \<and> slash_free ns"
  "slash_free (ns @ ms) \<longleftrightarrow> slash_free ns \<and> slash_free ms"
  by (auto simp: slash_free_def)

lemma walk_append: "walk tree d (ns @ ms) = walk tree d ns \<bind> (\<lambda>d'. walk tree d' ms)"
  by (induction ns arbitrary: d) (auto simp: bind_assoc)

lemma path_of_split:
  assumes "slash_free ns" "slash_free ms" "path_of ns = path_of ms"
  shows "ns = ms"
  using assms
proof (induction ns arbitrary: ms)
  case Nil
  then show ?case by (cases ms) auto
next
  case (Cons n ns)
  obtain m ms' where ms: "ms = m # ms'"
    using Cons.prems by (cases ms) auto
  have pre: "n' @ path_of ns' = m' @ path_of ms'' \<Longrightarrow> CHR ''/'' \<notin> set n' \<Longrightarrow> CHR ''/'' \<notin> set m' \<Longrightarrow>
      n' = m' \<and> path_of ns' = path_of ms''" for n' m' ns' ms''
  proof (induction n' arbitrary: m')
    case Nil
    then show ?case by (cases m'; cases ns') auto
  next
    case (Cons a n')
    then show ?case by (cases m'; cases ms'') auto
  qed
  have "n = m \<and> path_of ns = path_of ms'"
    using pre [of n ns m ms'] Cons.prems ms by simp
  then show ?case
    using Cons.IH [of ms'] Cons.prems(1,2) ms by simp
qed

lemma strrchr_path: "CHR ''/'' \<notin> set b \<Longrightarrow> strrchr (path_of (ns @ [b])) CHR ''/'' = Some (length (path_of ns))"
  by (simp add: strrchr_append)

lemma path_of_eq_Nil [simp]: "path_of ns = [] \<longleftrightarrow> ns = []"
  by (cases ns) auto

subsection \<open>Finding the directory\<close>

text \<open>Every entry of the cache is right.\<close>

definition cache_ok :: "dir_tree \<Rightarrow> client \<Rightarrow> bool" where
  "cache_ok tree c \<longleftrightarrow> (\<forall>x\<in>set (cache c). \<exists>ns. slash_free ns \<and> dce_dirname x = path_of ns \<and>
     walk tree AFP_ROOT_DID ns = Some (dce_did x))"

lemma lookup_ok:
  assumes "find_dirid_by_fullname e (path_of ns) c = (d, c')" "cache_ok tree c" "slash_free ns"
  shows "cache_ok tree c'" "d \<noteq> 0 \<Longrightarrow> walk tree AFP_ROOT_DID ns = Some d"
proof -
  show "cache_ok tree c'"
    using find_dirid(1) [OF assms(1)] assms(2) by (auto simp: cache_ok_def)
  show "walk tree AFP_ROOT_DID ns = Some d" if "d \<noteq> 0"
    using find_dirid(5) [OF assms(1) that] assms(2,3) path_of_split by (metis cache_ok_def)
qed

lemma dirid_back_ok:
  assumes "slash_free ns" "ns \<noteq> []" "cache_ok tree c"
  shows "\<exists>ms qs d c'. ns = ms @ qs \<and> dirid_back e (path_of ns) c = Some (d, length (path_of ms), c') \<and>
    walk tree AFP_ROOT_DID ms = Some d \<and> cache_ok tree c' \<and> idle c' = idle c \<and> steady c' = steady c \<and>
    cl_srv c' = cl_srv c"
  using assms
proof (induction ns arbitrary: c rule: rev_induct)
  case (snoc n ns)
  have p: "strrchr (path_of (ns @ [n])) CHR ''/'' = Some (length (path_of ns))"
    using snoc.prems by (intro strrchr_path) simp
  have t: "take (length (path_of ns)) (path_of (ns @ [n])) = path_of ns"
    by simp
  have sf: "slash_free ns"
    using snoc.prems by simp
  obtain d1 c1 where f: "find_dirid_by_fullname e (path_of ns) c = (d1, c1)"
    by fastforce
  note l = lookup_ok [OF f snoc.prems(3)] and fd = find_dirid [OF f]
  show ?case
  proof (cases "ns = []")
    case True
    then have "dirid_back e (path_of (ns @ [n])) c = Some (AFP_ROOT_DID, length (path_of []), c)"
      using p by (subst dirid_back.simps) simp
    then show ?thesis
      using snoc.prems by (intro exI [of _ "[]"] exI [of _ "ns @ [n]"]) auto
  next
    case ns: False
    show ?thesis
    proof (cases "d1 = 0")
      case True
      then have "dirid_back e (path_of (ns @ [n])) c = dirid_back e (path_of ns) c1"
        using p t f ns by (subst dirid_back.simps) (simp del: path_of_simps)
      moreover obtain ms qs d c' where "ns = ms @ qs" "dirid_back e (path_of ns) c1 = Some (d, length (path_of ms), c')"
        "walk tree AFP_ROOT_DID ms = Some d" "cache_ok tree c'" "idle c' = idle c1" "steady c' = steady c1"
        "cl_srv c' = cl_srv c1"
        using snoc.IH [OF sf ns l(1) [OF sf]] by blast
      ultimately show ?thesis
        using fd(2-4) by (intro exI [of _ ms] exI [of _ "qs @ [n]"] exI [of _ d] exI [of _ c']) simp
    next
      case False
      then have "dirid_back e (path_of (ns @ [n])) c = Some (d1, length (path_of ns), c1)"
        using p t f ns by (subst dirid_back.simps) (simp del: path_of_simps)
      then show ?thesis
        using l [OF sf] fd(2-4) False by (intro exI [of _ ns] exI [of _ "[n]"] exI [of _ d1] exI [of _ c1]) simp
    qed
  qed
qed simp

lemma steady_map_vol_stats:
  "steady (map_vol (vol_did_cache_stats_update f) c) = steady c"
  by (simp add: steady_def lasting_def)

lemma lasting_steady:
  assumes "lasting c' = lasting c"
  shows "steady c' = steady c"
  using assms lasting_eqD(1) [OF assms] by (simp add: steady_def)

lemma add_entry:
  assumes "cache_ok tree c" "slash_free ns" "walk tree AFP_ROOT_DID ns = Some d"
  shows "cache_ok tree (snd (add_did_cache_entry e d (path_of ns) c))"
    "steady (snd (add_did_cache_entry e d (path_of ns) c)) = steady c"
    "idle (snd (add_did_cache_entry e d (path_of ns) c)) = idle c"
    "cl_srv (snd (add_did_cache_entry e d (path_of ns) c)) = cl_srv c"
  using assms
  by (auto simp: add_did_cache_entry_def gettimeofday_def cache_ok_def steady_def lasting_def Let_def)

lemma dirid_forward_ok:
  assumes "serves e tree" "idle c" "cache_ok tree c" "slash_free (ms @ qs @ [b])"
    and "walk tree AFP_ROOT_DID ms = Some pd" "walk tree pd qs = Some d"
    and "\<forall>n\<in>set qs. path_ok (cl_srv c) (CHR ''/'' # n)" "p = length (path_of ms)"
  shows "\<exists>c'. dirid_forward e (path_of (ms @ qs @ [b])) p p pd fi c = Some (d, c') \<and> cache_ok tree c' \<and>
    idle c' \<and> steady c' = steady c"
  using assms(2-)
proof (induction qs arbitrary: ms pd fi c p)
  case Nil
  have "drop (p + 1) (path_of (ms @ [] @ [b])) = b"
    using Nil by simp
  moreover have "strchr b CHR ''/'' = None"
    using Nil by (simp add: strchr_eq_None_iff)
  ultimately show ?case
    using Nil by (subst dirid_forward.simps) simp
next
  case (Cons q qs)
  obtain d1 where d1: "tree pd q = Some d1" "walk tree d1 qs = Some d"
    using Cons.prems(5) by (auto split: bind_splits)
  let ?path = "path_of (ms @ (q # qs) @ [b])" and ?p = "length (path_of (ms @ [q]))"
  obtain r where r: "path_of (qs @ [b]) = CHR ''/'' # r"
    by (cases qs) auto
  have "strchr (q @ CHR ''/'' # r) CHR ''/'' = Some (length q)"
    using Cons.prems(3) by (intro strchr_append) simp
  moreover have "drop (p + 1) ?path = q @ CHR ''/'' # r"
    using Cons.prems(7) r by simp
  ultimately have i: "strchr (drop (p + 1) ?path) CHR ''/'' = Some (length q)"
    by simp
  have p: "p + 1 + length q = ?p"
    using Cons.prems(7) by simp
  have sub: "take (?p - p) (drop p ?path) = CHR ''/'' # q" "take ?p ?path = path_of (ms @ [q])"
    using Cons.prems(7) by simp_all
  let ?c = "map_vol (vol_did_cache_stats_update (dcs_misses_update (\<lambda>n. n + 1))) c"
  obtain ret fi' c1 where g: "afp_getfiledirparms e pd kFPNodeIDBit kFPNodeIDBit (Some (CHR ''/'' # q)) fi ?c =
      Some (ret, fi', c1)" "fi_isdir fi'" "fi_fileid fi' = d1" "idle c1" "lasting c1 = lasting ?c"
    using assms(1) [unfolded serves_def, rule_format, of ?c q pd d1 fi] Cons.prems(1,6) d1(1) by auto
  have w: "walk tree AFP_ROOT_DID (ms @ [q]) = Some d1"
    using Cons.prems(4) d1(1) by (simp add: walk_append)
  have ok: "cache_ok tree c1"
    using Cons.prems(2) lasting_eqD(1) [OF g(5)] by (simp add: cache_ok_def)
  let ?c2 = "snd (add_did_cache_entry e d1 (path_of (ms @ [q])) c1)"
  have sf: "slash_free (ms @ [q])" "slash_free ((ms @ [q]) @ qs @ [b])"
    using Cons.prems(3) by simp_all
  note a = add_entry [OF ok sf(1) w, of e]
  have po: "path_ok (cl_srv ?c2) = path_ok (cl_srv c)"
    using lasting_eqD(5) [OF g(5)] a(4) by (intro path_encoding_cong) simp
  obtain c' where c': "dirid_forward e (path_of ((ms @ [q]) @ qs @ [b])) ?p ?p d1 fi' ?c2 = Some (d, c')"
    "cache_ok tree c'" "idle c'" "steady c' = steady ?c2"
  proof -
    have "idle ?c2" "\<forall>n\<in>set qs. path_ok (cl_srv ?c2) (CHR ''/'' # n)"
      using a(3) g(4) po Cons.prems(6) by simp_all
    from Cons.IH [OF this(1) a(1) sf(2) w d1(2) this(2) refl, of fi'] show ?thesis
      using that by blast
  qed
  have "steady c' = steady c"
    using c'(4) a(2) lasting_steady [OF g(5)] steady_map_vol_stats by simp
  moreover have "dirid_forward e ?path p p pd fi c = Some (d, c')"
    using c'(1) i p sub g by (subst dirid_forward.simps) (simp del: path_of_simps add: Let_def)
  ultimately show ?case
    using c'(2,3) by blast
qed

subsection \<open>Open forks\<close>

text \<open>A structure is allocated, filled and linked; it is unlinked by its address.\<close>

definition open_new_fork :: "afp_file_info \<Rightarrow> client \<Rightarrow> nat \<times> client" where
  "open_new_fork fp c = (cl_fresh c, add_opened_fork (fp\<lparr>fi_addr := cl_fresh c\<rparr>) (c\<lparr>cl_fresh := cl_fresh c + 1\<rparr>))"

abbreviation open_forks :: "client \<Rightarrow> afp_file_info list" where
  "open_forks c \<equiv> vol_open_forks (cl_vol c)"

definition forks_ok :: "client \<Rightarrow> bool" where
  "forks_ok c \<longleftrightarrow> distinct (map fi_addr (open_forks c)) \<and> (\<forall>f\<in>set (open_forks c). fi_addr f < cl_fresh c)"

definition fork_addrs :: "client \<Rightarrow> nat set" where
  "fork_addrs c = fi_addr ` set (open_forks c)"

lemma unlink_fork_eq: "distinct (map fi_addr fs) \<Longrightarrow> unlink_fork a fs = filter (\<lambda>f. fi_addr f \<noteq> a) fs"
proof (induction fs)
  case (Cons f fs)
  have "filter (\<lambda>g. fi_addr g \<noteq> fi_addr f) fs = fs"
    using Cons.prems by (intro filter_True) (auto intro: rev_image_eqI)
  with Cons show ?case by auto
qed simp

interpretation fl: pool fork_addrs forks_ok open_new_fork remove_opened_fork
  by unfold_locales
    (auto simp: fork_addrs_def forks_ok_def open_new_fork_def add_opened_fork_def remove_opened_fork_def
      unlink_fork_eq distinct_map_filter)

lemma get_dirid_ok:
  assumes "serves e tree" and "idle c" and "cache_ok tree c" and "slash_free (ns @ [b])"
    and "walk tree AFP_ROOT_DID ns = Some d" and "\<forall>n\<in>set ns. path_ok (cl_srv c) (CHR ''/'' # n)"
    and "length (path_of ns) < 768" and "length b < 768"
  shows "\<exists>c'. get_dirid e (path_of (ns @ [b])) c = Some (Some (b, d), c') \<and> cache_ok tree c' \<and> idle c' \<and>
    steady c' = steady c"
proof (cases "ns = []")
  case True
  then show ?thesis
    using assms strrchr_path [of b ns] by (simp add: get_dirid_def)
next
  case ns: False
  have sf: "slash_free ns"
    using assms(4) by simp
  have p: "strrchr (path_of (ns @ [b])) CHR ''/'' = Some (length (path_of ns))"
    using assms(4) by (intro strrchr_path) simp
  obtain d1 c1 where f: "find_dirid_by_fullname e (path_of ns) c = (d1, c1)"
    by fastforce
  note l = lookup_ok [OF f assms(3) sf] and fd = find_dirid [OF f]
  obtain ms qs pd c2 where b: "ns = ms @ qs" "dirid_back e (path_of ns) c1 = Some (pd, length (path_of ms), c2)"
    "walk tree AFP_ROOT_DID ms = Some pd" "cache_ok tree c2" "idle c2 = idle c1" "steady c2 = steady c1"
    "cl_srv c2 = cl_srv c1"
    using dirid_back_ok [OF sf ns l(1)] by blast
  have "walk tree pd qs = Some d"
    using assms(5) walk_append [of tree AFP_ROOT_DID ms qs] b(1,3) by simp
  obtain c3 where fw: "dirid_forward e (path_of (ms @ qs @ [b])) (length (path_of ms)) (length (path_of ms)) pd
      (env_stack e) c2 = Some (d, c3)" "cache_ok tree c3" "idle c3" "steady c3 = steady c2"
  proof -
    have "idle c2" "slash_free (ms @ qs @ [b])" "\<forall>n\<in>set qs. path_ok (cl_srv c2) (CHR ''/'' # n)"
      using assms(2,4,6) b(1,5,7) fd(2,4) by simp_all
    from dirid_forward_ok [OF assms(1) this(1) b(4) this(2) b(3) \<open>walk tree pd qs = Some d\<close> this(3) refl]
    show ?thesis
      using that by blast
  qed
  show ?thesis
  proof (cases "d1 = 0")
    case True
    then have "get_dirid e (path_of (ns @ [b])) c = Some (Some (b, d), c3)"
      using p ns f b(2) fw(1) assms(7,8) b(1) by (auto simp: get_dirid_def)
    then show ?thesis
      using fw(2-4) b(6) fd(3) by simp
  next
    case False
    then have "get_dirid e (path_of (ns @ [b])) c = Some (Some (b, d), c1)"
      using p ns f assms(5,7,8) l(2) by (simp add: get_dirid_def)
    then show ?thesis
      using l(1) fd(2,3) assms(2) by simp
  qed
qed

subsection \<open>Main results\<close>

text \<open>(C23) The cache gives no wrong answer: an identifier that a lookup finds belongs to an entry for exactly
  this path that is at most ten seconds old, and a lookup adds no entries.\<close>

theorem did_cache_sound:
  assumes "find_dirid_by_fullname e path c = (d, c')"
  shows "(d \<noteq> 0 \<longrightarrow> (\<exists>x\<in>set (vol_did_cache_base (cl_vol c)). dce_dirname x = path \<and> dce_did x = d \<and>
      env_clock e (cl_ticks c) \<le> dce_time x + 10)) \<and>
    set (vol_did_cache_base (cl_vol c')) \<subseteq> set (vol_did_cache_base (cl_vol c))"
  using find_dirid(1,5) [OF assms] by (auto simp: expired_def not_less)

theorem did_cache_sound_witness:
  "\<exists>c'. find_dirid_by_fullname (example_env (\<lambda>_. Sent [])) ''/a''
     (map_vol (vol_did_cache_base_update (\<lambda>_. [\<lparr>dce_dirname = ''/a'', dce_did = 17, dce_time = 0\<rparr>])) example_client) = (17, c') \<and>
   length (vol_did_cache_base (cl_vol c')) \<le> 1"
proof -
  let ?x = "\<lparr>dce_dirname = ''/a'', dce_did = 17 :: u32, dce_time = 0\<rparr>"
  let ?c = "map_vol (vol_did_cache_base_update (\<lambda>_. [?x])) example_client"
  obtain d c' where f: "find_dirid_by_fullname (example_env (\<lambda>_. Sent [])) ''/a'' ?c = (d, c')"
    by fastforce
  have "d = 17" "length (cache c') = 1"
    using f by (auto simp: find_dirid_by_fullname_def gettimeofday_def expired_def example_env_def Let_def)
  with did_cache_sound [OF f] f show ?thesis
    by simp
qed

text \<open>(C16) The cache refines a stack of identifiers for every path. As long as nothing in the cache is older than ten seconds, any sequence of the
  operations \<open>find_dirid_by_fullname\<close>, \<open>add_did_cache_entry\<close> and \<open>remove_did_entry\<close> gives exactly the identifiers that the stacks give: a lookup
  gives the identifier that was added last for this path and not removed since, or 0 if there is none, and an operation on one path does nothing to
  another.\<close>

theorem did_cache_refines:
  assumes "\<forall>x\<in>set (vol_did_cache_base (cl_vol c)). t \<le> dce_time x"
    and "\<forall>i<length ops. t \<le> env_clock e (cl_ticks c + i) \<and> env_clock e (cl_ticks c + i) \<le> t + 10"
    and "env_malloc e sizeof_did_cache_entry"
    and "run_cache (find_dirid_by_fullname e) (add_did_cache_entry e) remove_did_entry ops c = (ds, c')"
  shows "run_stacks 0 ops (cache_stack c) = (ds, cache_stack c')"
  by (rule dc.run_refines [OF assms(4)]) (use assms(1-3) in \<open>simp add: cache_fresh_def\<close>)

theorem did_cache_refines_witness:
  "fst (run_cache (find_dirid_by_fullname (example_env (\<lambda>_. Sent []))) (add_did_cache_entry (example_env (\<lambda>_. Sent []))) remove_did_entry
     [Find ''/a'', Add 17 ''/a'', Add 18 ''/a/b'', Find ''/a'', Add 19 ''/a'', Find ''/a'', Del ''/a'', Find ''/a'', Del ''/a'', Find ''/a'', Find ''/a/b'']
     example_client) = [0, 17, 19, 17, 0, 18]"
proof -
  let ?e = "example_env (\<lambda>_. Sent [])"
  let ?ops = "[Find ''/a'', Add 17 ''/a'', Add 18 ''/a/b'', Find ''/a'', Add 19 ''/a'', Find ''/a'', Del ''/a'', Find ''/a'', Del ''/a'',
    Find ''/a'', Find ''/a/b'']"
  obtain ds c' where r: "run_cache (find_dirid_by_fullname ?e) (add_did_cache_entry ?e) remove_did_entry ?ops example_client = (ds, c')"
    by fastforce
  have "run_stacks 0 ?ops (cache_stack example_client) = (ds, cache_stack c')"
    by (rule did_cache_refines [OF _ _ _ r, of 0]) (simp_all add: example_client_def zero_volume_def example_env_def)
  moreover have "cache_stack example_client = (\<lambda>_. [])"
    by (simp add: fun_eq_iff cache_stack_def example_client_def zero_volume_def)
  ultimately show ?thesis
    using r by simp
qed

text \<open>(C33) A removed directory that stays in the cache. An expired entry at the head makes a lookup overlook the entry behind it, so that the
  directory is asked for and added a second time; \<open>remove_did_entry\<close> removes only the first of the two, and the next lookup still finds the
  identifier of the directory that has been removed.\<close>

theorem stale_after_removal:
  assumes "vol_did_cache_base (cl_vol c) = [x, \<lparr>dce_dirname = path, dce_did = d, dce_time = t\<rparr>]" and "dce_dirname x \<noteq> path"
    and "dce_time x + 10 < now" and "now \<le> t + 10" and "\<forall>i<3. env_clock e (cl_ticks c + i) = now"
    and "env_malloc e sizeof_did_cache_entry"
  shows "fst (run_cache (find_dirid_by_fullname e) (add_did_cache_entry e) remove_did_entry
    [Find path, Add d path, Del path, Find path] c) = [0, d]"
proof -
  have "env_clock e (cl_ticks c) = now" "env_clock e (Suc (cl_ticks c)) = now" "env_clock e (Suc (Suc (cl_ticks c))) = now"
    using assms(5) [rule_format, of 0] assms(5) [rule_format, of 1] assms(5) [rule_format, of 2] by simp_all
  then show ?thesis
    using assms(1-4,6)
    by (simp add: find_dirid_by_fullname_def gettimeofday_def add_did_cache_entry_def remove_did_entry_def expired_def Let_def)
qed

theorem stale_after_removal_witness:
  "fst (run_cache (find_dirid_by_fullname ((example_env (\<lambda>_. Sent []))\<lparr>env_clock := (\<lambda>_. 12)\<rparr>))
       (add_did_cache_entry ((example_env (\<lambda>_. Sent []))\<lparr>env_clock := (\<lambda>_. 12)\<rparr>)) remove_did_entry
       [Find ''/a'', Add 17 ''/a'', Del ''/a'', Find ''/a'']
     (map_vol (vol_did_cache_base_update (\<lambda>_. [\<lparr>dce_dirname = ''/x'', dce_did = 3, dce_time = 0\<rparr>,
       \<lparr>dce_dirname = ''/a'', dce_did = 17, dce_time = 5\<rparr>])) example_client)) = [0, 17]"
  by (rule stale_after_removal [where x = "\<lparr>dce_dirname = ''/x'', dce_did = 3, dce_time = 0\<rparr>" and t = 5 and now = 12])
     (simp_all add: example_env_def)

text \<open>(C2) \<open>get_dirid\<close> finds the directory. For an absolute path of at most 767 bytes up to the last slash,
  on a server that has the directories along the path, and whatever right entries the cache holds,
  it returns the last component of the path and the identifier of the directory before it; the cache
  holds only right entries afterwards.\<close>

theorem get_dirid_correct:
  assumes "serves e tree" and "idle c" and "cache_ok tree c" and "slash_free (ns @ [b])"
    and "walk tree AFP_ROOT_DID ns = Some d" and "\<forall>n\<in>set ns. path_ok (cl_srv c) (CHR ''/'' # n)"
    and "length (path_of ns) < 768" and "length b < 768"
  shows "\<exists>c'. get_dirid e (path_of (ns @ [b])) c = Some (Some (b, d), c') \<and> cache_ok tree c' \<and> idle c' \<and>
    steady c' = steady c"
  by (rule get_dirid_ok [OF assms])

definition example_tree :: dir_tree where
  "example_tree d n = (if d = AFP_ROOT_DID \<and> n = ''a'' then Some 17 else if d = 17 \<and> n = ''b'' then Some 18 else None)"

theorem get_dirid_correct_witness:
  "\<exists>c'. get_dirid (example_env (dir_server example_tree)) ''/a/b/file'' example_client = Some (Some (''file'', 18), c')"
proof -
  have "serves (example_env (dir_server example_tree)) example_tree"
    by (rule dir_server_serves) (auto simp: example_env_def example_tree_def split: if_splits)
  moreover have "cache_ok example_tree example_client"
    by (simp add: cache_ok_def example_client_def zero_volume_def)
  moreover have "\<forall>n\<in>set [''a'', ''b'']. path_ok (cl_srv example_client) (CHR ''/'' # n)"
    by (simp add: path_ok_def path_encoding_ok_def max_path_name_def example_client_def example_server_def
        afp_server_init_def)
  ultimately show ?thesis
    using get_dirid_correct [of "example_env (dir_server example_tree)" example_tree example_client "[''a'', ''b'']"
        "''file''" 18] example_client_idle
    by (auto simp: example_tree_def)
qed

text \<open>The list of open forks. A fork that is opened and closed again leaves the forks that were open, and
  closing one fork never closes another.\<close>

theorem open_close_fork:
  assumes "forks_ok c"
  shows "fork_addrs (remove_opened_fork (fst (open_new_fork fp c)) (snd (open_new_fork fp c))) = fork_addrs c \<and>
    (\<forall>a b. b \<in> fork_addrs c \<longrightarrow> a \<noteq> b \<longrightarrow> b \<in> fork_addrs (remove_opened_fork a c))"
  using fl.del_add [OF assms] fl.del_other [OF assms] by blast

theorem open_close_fork_witness:
  "fork_addrs (remove_opened_fork (fst (open_new_fork zero_file_info example_client))
     (snd (open_new_fork zero_file_info example_client))) = {}"
proof -
  have "forks_ok example_client" "fork_addrs example_client = {}"
    by (simp_all add: forks_ok_def fork_addrs_def example_client_def zero_volume_def)
  then show ?thesis
    using open_close_fork [of example_client zero_file_info] by simp
qed

end
