(* ===== verification/Users.thy ===== *)
theory Users
  imports Did_Lookup
begin

unbundle bit_operations_syntax

text \<open>
  \<open>lib/users.c\<close>: the translation of user and group identifiers between the server and the client, and
  how the kind of translation is found.
\<close>

subsection \<open>Translation\<close>

definition translate_uidgid_to_server :: "client \<Rightarrow> u32 \<Rightarrow> u32 \<Rightarrow> int \<times> u32 \<times> u32" where
  "translate_uidgid_to_server c newuid newgid =
     (if vol_mapping (cl_vol c) = AFP_MAPPING_COMMON then (0, newuid, newgid)
      else if vol_mapping (cl_vol c) = AFP_MAPPING_LOGINIDS then
        (0, srv_server_uid (cl_srv c), srv_server_gid (cl_srv c))
      else (- 1, newuid, newgid))"

definition translate_uidgid_to_client :: "client \<Rightarrow> u32 \<Rightarrow> u32 \<Rightarrow> int \<times> u32 \<times> u32" where
  "translate_uidgid_to_client c newuid newgid =
     (if vol_mapping (cl_vol c) = AFP_MAPPING_COMMON then (0, newuid, newgid)
      else if vol_mapping (cl_vol c) = AFP_MAPPING_LOGINIDS then
        (0, pw_uid (srv_passwd (cl_srv c)), pw_gid (srv_passwd (cl_srv c)))
      else (- 1, newuid, newgid))"

subsection \<open>Finding the kind of mapping\<close>

text \<open>The local variables \<open>dummy\<close>, \<open>tmpgid\<close> and \<open>name\<close> are not initialised. The value returned by
  \<open>afp_mapid\<close> is not looked at: when it fails, \<open>name\<close> is compared as it is.\<close>

definition afp_detect_mapping :: "env \<Rightarrow> client \<Rightarrow> (int \<times> client) option" where
  "afp_detect_mapping e c =
     (if vol_mapping (cl_vol c) \<noteq> AFP_MAPPING_UNKNOWN then Some (0, c)
      else if vol_attributes (cl_vol c) AND kNoNetworkUserIDs \<noteq> 0 then
        Some (0, map_vol (vol_mapping_update (\<lambda>_. AFP_MAPPING_LOGINIDS)) c)
      else do {
        let c = map_srv (srv_server_gid_valid_update (\<lambda>_. False))
          (map_vol (vol_mapping_update (\<lambda>_. AFP_MAPPING_LOGINIDS)) c);
        (ret, uid, _, c) \<leftarrow> afp_getuserinfo e True 0 kFPGetUserInfo_USER_ID (srv_server_uid (cl_srv c)) (unset32 e) c;
        let c = map_srv (srv_server_uid_update (\<lambda>_. uid)) c;
        if ret \<noteq> 0 then Some (0, c)
        else do {
          (ret, _, tmpgid, c) \<leftarrow> afp_getuserinfo e True 0 kFPGetUserInfo_PRI_GROUPID (unset32 e) (unset32 e) c;
          let c = (if ret = 0 then map_srv (\<lambda>s. s\<lparr>srv_server_gid_valid := True, srv_server_gid := tmpgid\<rparr>) c
            else c);
          let pw = srv_passwd (cl_srv c);
          if srv_server_uid (cl_srv c) \<noteq> pw_uid pw then Some (0, c)
          else do {
            (_, name, c) \<leftarrow> afp_mapid e
              (if vol_attributes (cl_vol c) AND kSupportsUTF8Names \<noteq> 0 then kUserIDToUTF8Name else kUserIDToName)
              (pw_uid pw) (c_str (fresh e 255)) c;
            Some (0, if name = pw_name pw then map_vol (vol_mapping_update (\<lambda>_. AFP_MAPPING_COMMON)) c else c)
          }
        }
      })"

end
