(* ===== verification/Unix_Privs.thy ===== *)
theory Unix_Privs
  imports Users
begin

text \<open>
  The part of the middle layer that \<open>lib/lowlevel.c\<close> calls back: \<open>ml_creat\<close> of \<open>lib/midlevel.c\<close>, with
  what it needs: the recognition of the shadow files of \<open>lib/resource.c\<close>, \<open>ll_get_directory_entry\<close>
  and the reading and setting of Unix permissions.

  A function of the middle layer returns 0 or a negated \<open>errno\<close>.
\<close>

subsection \<open>Shadow files\<close>

text \<open>When the volume shows them, the directory \<open>.AppleDouble\<close> in every directory gives access to what a
  file has besides its data: \<open>dir/.AppleDouble/name\<close> is its resource fork, and with the endings
  \<open>.finderinfo\<close> and \<open>.comment\<close> its Finder information and its comment. \<open>extra_translate\<close> returns the
  kind of a path and, when there is one, the path of the real file.\<close>

abbreviation (input) appledouble :: string where "appledouble \<equiv> ''.AppleDouble''"

abbreviation (input) finderinfo_string :: string where "finderinfo_string \<equiv> ''.finderinfo''"

abbreviation (input) comment_string :: string where "comment_string \<equiv> ''.comment''"

abbreviation (input) servericon_string :: string where "servericon_string \<equiv> ''/.servericon''"

definition ends_with :: "string \<Rightarrow> string \<Rightarrow> bool" where
  "ends_with ending s \<longleftrightarrow> length ending < length s \<and> drop (length s - length ending) s = ending"

text \<open>The result of \<open>malloc\<close> is not tested. For a path that ends in \<open>.AppleDouble\<close> without being the directory itself, \<open>p+1\<close> is behind the
  terminator of the string.\<close>

definition extra_translate :: "env \<Rightarrow> client \<Rightarrow> string \<Rightarrow> (u32 \<times> string option) option" where
  "extra_translate e c path =
     (if vol_extra_flags (cl_vol c) AND VOLUME_EXTRA_FLAGS_SHOW_APPLEDOUBLE = 0 then Some (0, None)
      else if path = servericon_string then Some (AFP_META_SERVER_ICON, None)
      else if length path < length appledouble + 1 then Some (0, None)
      else case strrchr path CHR ''/'' of
        None \<Rightarrow> Some (0, None)
      | Some p \<Rightarrow>
          if drop (p + 1) path = appledouble then
            if \<not> env_malloc e (length path) then None else
            Some (AFP_META_APPLEDOUBLE, Some (if length path = length appledouble + 1 then ''/''
              else take (length path - (length appledouble + 1)) path))
          else case strstr path appledouble of
            None \<Rightarrow> Some (0, None)
          | Some p \<Rightarrow>
              let q = p + length appledouble in
              if \<not> env_malloc e (length path) \<or> length path \<le> q then None
              else let newpath = take p path @ drop (q + 1) path in
                if ends_with finderinfo_string newpath then
                  Some (AFP_META_FINDERINFO, Some (take (length newpath - length finderinfo_string) newpath))
                else if ends_with comment_string newpath then
                  Some (AFP_META_COMMENT, Some (take (length newpath - length comment_string) newpath))
                else Some (AFP_META_RESOURCE, Some newpath))"

definition appledouble_creat :: "env \<Rightarrow> client \<Rightarrow> string \<Rightarrow> int option" where
  "appledouble_creat e c path = do {
     (resource, _) \<leftarrow> extra_translate e c path;
     Some (if resource = AFP_META_RESOURCE then 1
           else if resource = AFP_META_APPLEDOUBLE then - EBADF
           else if resource = AFP_META_SERVER_ICON then - EPERM
           else if resource = AFP_META_FINDERINFO then 1
           else 0)
   }"

subsection \<open>Permissions\<close>

definition volume_is_readonly :: "client \<Rightarrow> bool" where
  "volume_is_readonly c \<longleftrightarrow> vol_attributes (cl_vol c) AND kReadOnly \<noteq> 0 \<or>
     vol_extra_flags (cl_vol c) AND VOLUME_EXTRA_FLAGS_READONLY \<noteq> 0"

definition supports_unix :: "client \<Rightarrow> bool" where
  "supports_unix c \<longleftrightarrow> vol_extra_flags (cl_vol c) AND VOLUME_EXTRA_FLAGS_VOL_SUPPORTS_UNIX \<noteq> 0"

definition ll_get_directory_entry ::
  "env \<Rightarrow> string \<Rightarrow> u32 \<Rightarrow> u16 \<Rightarrow> u16 \<Rightarrow> afp_file_info \<Rightarrow> client \<Rightarrow> (int \<times> afp_file_info \<times> client) option" where
  "ll_get_directory_entry e basename dirid filebitmap dirbitmap p c = do {
     (ret, p', c) \<leftarrow> afp_getfiledirparms e dirid filebitmap dirbitmap (Some basename) p c;
     Some (ret, p'\<lparr>fi_basename := fi_basename p\<rparr>, c)
   }"

definition get_unixprivs ::
  "env \<Rightarrow> u32 \<Rightarrow> string \<Rightarrow> afp_file_info \<Rightarrow> client \<Rightarrow> (int \<times> afp_file_info \<times> client) option" where
  "get_unixprivs e dirid path fp c = do {
     (rc, fp, c) \<leftarrow> ll_get_directory_entry e path dirid kFPUnixPrivsBit kFPUnixPrivsBit fp c;
     Some (if rc = kFPAccessDenied then - EACCES
           else if rc = kFPObjectNotFound then - ENOENT
           else if rc = kFPNoErr then 0
           else - EIO, fp, c)
   }"

abbreviation (input) TOCHECK_BITS :: u32 where "TOCHECK_BITS \<equiv> 0x1FF"

abbreviation extra_flag :: "client \<Rightarrow> u32 \<Rightarrow> bool" where
  "extra_flag c flag \<equiv> vol_extra_flags (cl_vol c) AND flag \<noteq> 0"

abbreviation permissions :: "afp_file_info \<Rightarrow> u32" where
  "permissions fp \<equiv> up_permissions (fi_unixprivs fp)"

definition set_permissions :: "u32 \<Rightarrow> afp_file_info \<Rightarrow> afp_file_info" where
  "set_permissions mode = fi_unixprivs_update (up_permissions_update (\<lambda>_. mode))"

text \<open>The result of the request that sets the permissions, as an \<open>errno\<close>.\<close>

definition setparms_errno :: "int \<Rightarrow> int" where
  "setparms_errno rc =
     (if rc = kFPAccessDenied then EPERM
      else if rc = kFPBitmapErr then ENOSYS
      else if rc = kFPObjectNotFound then ENOENT
      else if rc = 0 then 0
      else EIO)"

definition set_unixprivs ::
  "env \<Rightarrow> u32 \<Rightarrow> string \<Rightarrow> afp_file_info \<Rightarrow> client \<Rightarrow> (int \<times> afp_file_info \<times> client) option" where
  "set_unixprivs e dirid basename fp c =
     (let fp = fi_unixprivs_update (up_ua_permissions_update (\<lambda>_. 0)) fp;
          netatalk = (srv_server_type (cl_srv c) = AFPFS_SERVER_TYPE_NETATALK) in
      if \<not> supports_unix c then Some (0, fp, c)
      else do {
        let fp = (if \<not> fi_isdir fp \<and> permissions fp AND NOT AFP_CHMOD_ALLOWED_BITS_22 \<noteq> 0 \<and> netatalk \<and>
            extra_flag c VOLUME_EXTRA_FLAGS_VOL_CHMOD_KNOWN \<and> extra_flag c VOLUME_EXTRA_FLAGS_VOL_CHMOD_BROKEN
          then set_permissions (permissions fp AND AFP_CHMOD_ALLOWED_BITS_22) fp else fp);
        (rc, c) \<leftarrow> (if fi_isdir fp then afp_setdirparms e dirid basename kFPUnixPrivsBit fp c
          else afp_setfiledirparms e dirid basename kFPUnixPrivsBit fp c);
        let ret = setparms_errno rc;
        if permissions fp AND NOT AFP_CHMOD_ALLOWED_BITS_22 \<noteq> 0 \<and>
           \<not> extra_flag c VOLUME_EXTRA_FLAGS_VOL_CHMOD_KNOWN \<and>
           srv_server_type (cl_srv c) = AFPFS_SERVER_TYPE_NETATALK
        then do {
          (rc2, fp2, c) \<leftarrow> get_unixprivs e dirid basename (env_stack e) c;
          if rc2 \<noteq> 0 then Some (rc2, fp, c)
          else do {
            let c = map_vol (vol_extra_flags_update (\<lambda>f. f OR VOLUME_EXTRA_FLAGS_VOL_CHMOD_KNOWN)) c;
            if permissions fp2 AND TOCHECK_BITS = permissions fp AND TOCHECK_BITS then
              Some (- ret, fp, map_vol (vol_extra_flags_update (\<lambda>f. f AND NOT VOLUME_EXTRA_FLAGS_VOL_CHMOD_BROKEN)) c)
            else
              Some (- EFAULT, fp, map_vol (vol_extra_flags_update (\<lambda>f. f OR VOLUME_EXTRA_FLAGS_VOL_CHMOD_BROKEN)) c)
          }
        }
        else Some (- ret, fp, c)
      })"

subsection \<open>Creating a file\<close>

text \<open>Where the result of \<open>get_dirid\<close> is not looked at, a path without a slash leaves the base name and
  the identifier as they are, not initialised.\<close>

definition unset_name :: "env \<Rightarrow> string option" where
  "unset_name e = (if 0 \<in> set (fresh e AFP_MAX_PATH) then Some (c_str (fresh e AFP_MAX_PATH)) else None)"

definition get_dirid_unchecked :: "env \<Rightarrow> string \<Rightarrow> client \<Rightarrow> (string \<times> u32 \<times> client) option" where
  "get_dirid_unchecked e path c = do {
     (r, c) \<leftarrow> get_dirid e path c;
     case r of
       Some (basename, dirid) \<Rightarrow> Some (basename, dirid, c)
     | None \<Rightarrow> do {basename \<leftarrow> unset_name e; Some (basename, unset32 e, c)}
   }"

definition createfile_errno :: "int \<Rightarrow> int" where
  "createfile_errno rc =
     (if rc = kFPAccessDenied then EACCES
      else if rc = kFPDiskFull then ENOSPC
      else if rc = kFPObjectExists then EEXIST
      else if rc = kFPObjectNotFound then ENOENT
      else if rc = kFPFileBusy \<or> rc = kFPVolLocked then EBUSY
      else if rc = kFPNoErr then 0
      else EIO)"

text \<open>When the permissions of the new file cannot be read, \<open>ml_creat\<close> returns \<open>rc\<close>, which is 0 there. The
  result of \<open>set_unixprivs\<close> is compared with codes of the protocol.\<close>

definition ml_creat :: "env \<Rightarrow> string \<Rightarrow> u32 \<Rightarrow> client \<Rightarrow> (int \<times> client) option" where
  "ml_creat e path mode c = do {
     (bad, converted_path) \<leftarrow> convert_path_to_afp (srv_path_encoding (cl_srv c)) path AFP_MAX_PATH;
     if bad \<noteq> 0 then Some (- EINVAL, c)
     else if volume_is_readonly c then Some (- EACCES, c)
     else do {
       ret \<leftarrow> appledouble_creat e c path;
       if ret < 0 then Some (ret, c)
       else if ret = 1 then Some (0, c)
       else do {
         invalid \<leftarrow> invalid_filename (cl_srv c) converted_path;
         if invalid then Some (- ENAMETOOLONG, c)
         else do {
           (basename, dirid, c) \<leftarrow> get_dirid_unchecked e converted_path c;
           (rc, c) \<leftarrow> afp_createfile e kFPSoftCreate dirid basename c;
           let ret = createfile_errno rc;
           if ret \<noteq> 0 then Some (- ret, c)
           else if \<not> supports_unix c then Some (0, c)
           else do {
             (ret, fp, c) \<leftarrow> get_unixprivs e dirid basename (env_stack e) c;
             if ret \<noteq> 0 then Some (rc, c)
             else if permissions fp = mode then Some (0, c)
             else do {
               let fp = fp\<lparr>fi_isdir := False, fi_unixprivs :=
                 (fi_unixprivs fp)\<lparr>up_ua_permissions := 0, up_permissions := mode\<rparr>\<rparr>;
               (rc, _, c) \<leftarrow> set_unixprivs e dirid basename fp c;
               Some (- (if rc = kFPAccessDenied then EPERM
                 else if rc = kFPObjectNotFound then ENOENT
                 else if rc = 0 then 0
                 else EIO), c)
             }
           }
         }
       }
     }
   }"

end
