(* ===== verification/Lowlevel.thy ===== *)
theory Lowlevel
  imports Unix_Privs
begin

text \<open>
  \<open>lib/lowlevel.c\<close>: opening, reading, writing and listing, for the data and the resource fork alike.
  A result is 0, a count or a negated \<open>errno\<close>. The loops over the network are partial functions: a
  loop that goes on forever has the value \<open>None\<close>.
\<close>

unbundle bit_operations_syntax

definition set_nonunix_perms :: "afp_file_info \<Rightarrow> u32" where
  "set_nonunix_perms fp = (if fi_isdir fp then 0x1C0 OR S_IFDIR else 0x180 OR S_IFREG)"

subsection \<open>Locks\<close>

text \<open>The call both functions make: the protocol of AFP 2 has 32-bit ranges.\<close>

definition range_lock :: "env \<Rightarrow> byte \<Rightarrow> u16 \<Rightarrow> u64 \<Rightarrow> u64 \<Rightarrow> client \<Rightarrow> (int \<times> client) option" where
  "range_lock e flag forkid offset sizetorequest c =
     (if version_number (cl_srv c) < 30 then do {
        (rc, _, c) \<leftarrow> afp_byterangelock e flag forkid (ucast offset) (ucast sizetorequest) (unset32 e) c;
        Some (rc, c)
      }
      else do {
        (rc, _, c) \<leftarrow> afp_byterangelockext e flag forkid offset sizetorequest (ucast (unset32 e)) c;
        Some (rc, c)
      })"

definition ll_handle_unlocking :: "env \<Rightarrow> u16 \<Rightarrow> u64 \<Rightarrow> u64 \<Rightarrow> client \<Rightarrow> (int \<times> client) option" where
  "ll_handle_unlocking e forkid offset sizetorequest c =
     (if extra_flag c VOLUME_EXTRA_FLAGS_NO_LOCKING then Some (0, c)
      else do {
        (rc, c) \<leftarrow> range_lock e ByteRangeLock_Unlock forkid offset sizetorequest c;
        Some (if rc = kFPNoErr then 0 else - 1, c)
      })"

text \<open>The loop, with the number of tries that are left. After the last one the function returns 0,
  as if the range were locked.\<close>

fun lock_loop :: "env \<Rightarrow> nat \<Rightarrow> u16 \<Rightarrow> u64 \<Rightarrow> u64 \<Rightarrow> client \<Rightarrow> (int \<times> client) option" where
  "lock_loop e 0 forkid offset sizetorequest c = Some (0, c)"
| "lock_loop e (Suc n) forkid offset sizetorequest c = do {
     (rc, c) \<leftarrow> range_lock e ByteRangeLock_Lock forkid offset sizetorequest c;
     if rc = kFPNoErr then Some (0, c)
     else if rc = kFPNoMoreLocks \<or> rc = kFPLockErr then lock_loop e n forkid offset sizetorequest c
     else Some (- 1, c)
   }"

abbreviation (input) MAX_LOCKTRYCOUNT :: nat where "MAX_LOCKTRYCOUNT \<equiv> 10"

definition ll_handle_locking :: "env \<Rightarrow> u16 \<Rightarrow> u64 \<Rightarrow> u64 \<Rightarrow> client \<Rightarrow> (int \<times> client) option" where
  "ll_handle_locking e forkid offset sizetorequest c =
     (if extra_flag c VOLUME_EXTRA_FLAGS_NO_LOCKING then Some (0, c)
      else lock_loop e MAX_LOCKTRYCOUNT forkid offset sizetorequest c)"

subsection \<open>Opening\<close>

definition ll_zero_file :: "env \<Rightarrow> u16 \<Rightarrow> bool \<Rightarrow> client \<Rightarrow> (int \<times> client) option" where
  "ll_zero_file e forkid resource c = do {
     let bitmap =
       (if version_number (cl_srv c) < 30 \<or> srv_server_type (cl_srv c) = AFPFS_SERVER_TYPE_NETATALK
        then (if resource then kFPRsrcForkLenBit else kFPDataForkLenBit)
        else (if resource then kFPExtRsrcForkLenBit else kFPExtDataForkLenBit));
     (ret, c) \<leftarrow> afp_setforkparms e forkid bitmap 0 c;
     Some (if ret = kFPAccessDenied then EACCES
           else if ret = kFPVolLocked \<or> ret = kFPLockErr then EBUSY
           else if ret = kFPDiskFull then ENOSPC
           else if ret = kFPBitmapErr \<or> ret = kFPMiscErr \<or> ret = kFPParamErr then EIO
           else 0, c)
   }"

definition openfork_errno :: "int \<Rightarrow> int" where
  "openfork_errno rc =
     (if rc = kFPAccessDenied then EACCES
      else if rc = kFPObjectNotFound then ENOENT
      else if rc = kFPObjectLocked then EROFS
      else if rc = kFPObjectTypeErr then EISDIR
      else if rc = kFPParamErr then EACCES
      else if rc = kFPTooManyFilesOpen then EMFILE
      else if rc = 0 then 0
      else EFAULT)"

text \<open>The part of \<open>ll_open\<close> from \<open>try_again\<close> to the result of \<open>afp_openfork\<close>, an \<open>errno\<close>: a file that is
  missing is created, and the open is tried again.\<close>

partial_function (option) open_loop ::
  "env \<Rightarrow> string \<Rightarrow> u32 \<Rightarrow> u16 \<Rightarrow> afp_file_info \<Rightarrow> client \<Rightarrow> (int \<times> afp_file_info \<times> client) option" where
  "open_loop e path flags aflags fp c = do {
     (dsi_ret, fp, c) \<leftarrow> afp_openfork e (fi_resource fp \<noteq> 0) (fi_did fp) aflags (fi_basename fp) fp c;
     if dsi_ret = kFPObjectNotFound \<and> flags AND O_CREAT \<noteq> 0 then do {
       (r, c) \<leftarrow> ml_creat e path 0x1A4 c;
       if r = 0 then open_loop e path flags aflags fp c else Some (ENOENT, fp, c)
     }
     else Some (openfork_errno dsi_ret, fp, c)
   }"

declare open_loop.simps [code]

text \<open>The test for a file of 4 GB or more, with AFP 2 and \<open>O_LARGEFILE\<close>.\<close>

definition open_large_file :: "env \<Rightarrow> u32 \<Rightarrow> afp_file_info \<Rightarrow> client \<Rightarrow> (int \<times> afp_file_info \<times> client) option" where
  "open_large_file e flags fp c =
     (if flags AND O_LARGEFILE \<noteq> 0 \<and> version_number (cl_srv c) < 30 then do {
        (rc, fp, c) \<leftarrow> ll_get_directory_entry e (fi_basename fp) (fi_did fp)
          (kFPParentDirIDBit OR kFPNodeIDBit OR (if fi_resource fp \<noteq> 0 then kFPRsrcForkLenBit else kFPDataForkLenBit))
          0 fp c;
        Some (if rc = kFPAccessDenied then EACCES
          else if rc = kFPObjectNotFound then ENOENT
          else if rc \<noteq> kFPNoErr then EIO
          else if AFP_MAX_AFP2_FILESIZE - 1 \<le> unat (if fi_resource fp \<noteq> 0 then fi_resourcesize fp else fi_size fp)
          then EOVERFLOW
          else 0, fp, c)
      }
      else Some (0, fp, c))"

text \<open>\<open>O_RDONLY\<close> is 0, so that its test never holds; \<open>AFP_OPENFORK_ALLOWWRITE\<close> is 2 and is combined
  bitwise with the truth value 0 or 1 of \<open>volume_is_readonly\<close>, so that this test never holds either.\<close>

definition ll_open ::
  "env \<Rightarrow> string \<Rightarrow> u32 \<Rightarrow> afp_file_info \<Rightarrow> client \<Rightarrow> (int \<times> afp_file_info \<times> client) option" where
  "ll_open e path flags fp c =
     (let aflags = AFP_OPENFORK_ALLOWREAD
        OR (if flags AND O_RDONLY \<noteq> 0 then AFP_OPENFORK_ALLOWREAD else 0)
        OR (if flags AND O_WRONLY \<noteq> 0 then AFP_OPENFORK_ALLOWWRITE else 0)
        OR (if flags AND O_RDWR \<noteq> 0 then AFP_OPENFORK_ALLOWREAD OR AFP_OPENFORK_ALLOWWRITE else 0) in
      if (aflags AND AFP_OPENFORK_ALLOWWRITE) AND of_bool (volume_is_readonly c) \<noteq> 0 then Some (- EPERM, fp, c)
      else do {
        (ret, fp, c) \<leftarrow> open_large_file e flags fp c;
        if ret \<noteq> 0 then Some (- ret, fp, c)
        else do {
          (ret, fp, c) \<leftarrow> open_loop e path flags aflags fp c;
          if ret \<noteq> 0 then Some (- ret, fp, c)
          else do {
            let c = add_opened_fork fp c;
            if flags AND O_TRUNC \<noteq> 0 then do {
              (ret, c) \<leftarrow> ll_zero_file e (fi_forkid fp) (fi_resource fp \<noteq> 0) c;
              Some (- ret, fp, c)
            }
            else Some (0, fp, c)
          }
        }
      })"

subsection \<open>Reading and writing\<close>

text \<open>\<open>ll_read\<close>: the returned value, \<open>eof\<close>, and the contents of \<open>buf\<close>. The other codes of the server are
  not looked at.\<close>

definition ll_read ::
  "env \<Rightarrow> byte list \<Rightarrow> u64 \<Rightarrow> u64 \<Rightarrow> afp_file_info \<Rightarrow> client \<Rightarrow> (int \<times> bool \<times> byte list \<times> client) option" where
  "ll_read e buf sz offset fp c = do {
     let bufsize = min (unat (srv_rx_quantum (cl_srv c))) (unat sz);
     let buffer = \<lparr>rx_size = 0, rx_maxsize = bufsize, rx_data = buf, rx_errorcode = 0\<rparr>;
     (locked, c) \<leftarrow> ll_handle_locking e (fi_forkid fp) offset sz c;
     if locked \<noteq> 0 then Some (- EBUSY, False, buf, c)
     else do {
       (rc, buffer, c) \<leftarrow> (if version_number (cl_srv c) < 30
         then afp_read e (fi_forkid fp) (ucast offset) (ucast sz) buffer c
         else afp_readext e (fi_forkid fp) offset sz buffer c);
       (unlocked, c) \<leftarrow> ll_handle_unlocking e (fi_forkid fp) offset sz c;
       Some (if unlocked \<noteq> 0 then (- EIO, False, rx_data buffer, c)
         else if rc = kFPAccessDenied then (- EACCES, False, rx_data buffer, c)
         else if rc = kFPLockErr then (- EBUSY, False, rx_data buffer, c)
         else if rc = kFPMiscErr \<or> rc = kFPParamErr then (- EIO, False, rx_data buffer, c)
         else (sint (word_of_nat (rx_size buffer) :: u32), rc = kFPEOFErr, rx_data buffer, c))
     }
   }"

text \<open>The loop of \<open>ll_write\<close>; \<open>written\<close> is both \<open>*totalwritten\<close> and \<open>o\<close>. The result of the request is
  overwritten with 0 before it is tested.\<close>

partial_function (option) write_loop ::
  "env \<Rightarrow> byte list \<Rightarrow> u64 \<Rightarrow> u64 \<Rightarrow> u16 \<Rightarrow> u32 \<Rightarrow> u64 \<Rightarrow> client \<Rightarrow> (u64 \<times> client) option" where
  "write_loop e data sz offset forkid max_packet_size written c =
     (if written < sz then do {
        let sizetowrite = (if sz - written < ucast max_packet_size then sz - written else ucast max_packet_size);
        c \<leftarrow> (if version_number (cl_srv c) < 30 then
            map_option (\<lambda>(_, _, c). c) (afp_write e forkid (ucast (offset + written)) (ucast sizetowrite)
              (drop (unat written) data) (unset32 e) c)
          else map_option (\<lambda>(_, _, c). c) (afp_writeext e forkid (offset + written) sizetowrite
              (drop (unat written) data) (ucast (unset32 e)) c));
        write_loop e data sz offset forkid max_packet_size (written + sizetowrite) c
      }
      else Some (written, c))"

declare write_loop.simps [code]

text \<open>\<open>ll_write\<close>: the returned value and \<open>*totalwritten\<close>. \<open>err\<close> is 0 on every path, and \<open>-err\<close> is what the
  function returns, also when locking or unlocking has failed.\<close>

definition ll_write ::
  "env \<Rightarrow> byte list \<Rightarrow> u64 \<Rightarrow> u64 \<Rightarrow> afp_file_info option \<Rightarrow> client \<Rightarrow> (int \<times> u64 \<times> client) option" where
  "ll_write e data sz offset fp c = (case fp of
     None \<Rightarrow> Some (- EBADF, 0, c)
   | Some fp \<Rightarrow> do {
       let max_packet_size = srv_tx_quantum (cl_srv c);
       (locked, c) \<leftarrow> ll_handle_locking e (fi_forkid fp) offset sz c;
       if locked \<noteq> 0 then Some (0, 0, c)
       else do {
         (written, c) \<leftarrow> write_loop e data sz offset (fi_forkid fp) max_packet_size 0 c;
         (_, c) \<leftarrow> ll_handle_unlocking e (fi_forkid fp) offset sz c;
         Some (0, written, c)
       }
     })"

subsection \<open>Listing a directory\<close>

definition readdir_bitmaps :: "bool \<Rightarrow> client \<Rightarrow> u16 \<times> u16" where
  "readdir_bitmaps resource c =
     (let common = kFPAttributeBit OR kFPParentDirIDBit OR kFPCreateDateBit OR kFPModDateBit OR
            kFPBackupDateBit OR kFPNodeIDBit;
          privs = (if supports_unix c then kFPUnixPrivsBit else 0);
          names = (if vol_attributes (cl_vol c) AND kSupportsUTF8Names \<noteq> 0 then kFPUTF8NameBit
            else kFPLongNameBit OR kFPShortNameBit);
          len = (if version_number (cl_srv c) < 30 then (if resource then kFPRsrcForkLenBit else kFPDataForkLenBit)
            else (if resource then kFPRsrcForkLenBit else kFPExtDataForkLenBit)) in
      (common OR privs OR names OR len,
       common OR kFPOffspringCountBit OR kFPOwnerIDBit OR kFPGroupIDBit OR privs OR names))"

text \<open>The loop: \<open>files\<close> is the list from \<open>filebase\<close> on. The result is 0 or the \<open>errno\<close> with which the
  function is left. A code without a case, like a timeout, makes the loop ask again. After
  \<open>kFPDirNotFound\<close> the loop ends and the function returns 0 all the same.\<close>

partial_function (option) readdir_loop ::
  "env \<Rightarrow> u32 \<Rightarrow> string \<Rightarrow> u16 \<Rightarrow> u16 \<Rightarrow> u64 \<Rightarrow> afp_file_info list \<Rightarrow> client \<Rightarrow>
     (int \<times> afp_file_info list \<times> client) option" where
  "readdir_loop e dirid basename filebitmap dirbitmap startindex files c = do {
     (rc, base, c) \<leftarrow> (if version_number (cl_srv c) < 30
       then afp_enumerate e dirid filebitmap dirbitmap 20 (ucast startindex) basename c
       else afp_enumerateext2 e dirid filebitmap dirbitmap 20 (ucast startindex) basename c);
     if rc = - 1 then Some (EIO, files, c)
     else if rc = kFPObjectNotFound then Some (0, files @ base, c)
     else if rc = 0 then
       readdir_loop e dirid basename filebitmap dirbitmap (startindex + word_of_nat (length base)) (files @ base) c
     else if rc = kFPAccessDenied then Some (EACCES, files, c)
     else if rc = kFPDirNotFound then Some (0, files, c)
     else if rc = kFPBitmapErr \<or> rc = kFPMiscErr \<or> rc = kFPObjectTypeErr \<or> rc = kFPParamErr \<or>
       rc = kFPCallNotSupported then Some (EIO, files, c)
     else readdir_loop e dirid basename filebitmap dirbitmap startindex files c
   }"

declare readdir_loop.simps [code]

text \<open>The names are converted into a local array that is not used afterwards.\<close>

definition ll_readdir :: "env \<Rightarrow> string \<Rightarrow> bool \<Rightarrow> client \<Rightarrow> (int \<times> afp_file_info list option \<times> client) option" where
  "ll_readdir e path resource c = do {
     invalid \<leftarrow> invalid_filename (cl_srv c) path;
     if invalid then Some (- ENAMETOOLONG, None, c)
     else do {
       (r, c) \<leftarrow> get_dirid e path c;
       case r of
         None \<Rightarrow> Some (- ENOENT, None, c)
       | Some (basename, dirid) \<Rightarrow> do {
           let (filebitmap, dirbitmap) = readdir_bitmaps resource c;
           (ret, files, c) \<leftarrow> readdir_loop e dirid basename filebitmap dirbitmap 1 [] c;
           if ret \<noteq> 0 then Some (- ret, None, c)
           else if \<exists>p\<in>set files.
             convert_path_to_unix (srv_path_encoding (cl_srv c)) (fi_name p) AFP_MAX_PATH = None then None
           else Some (0, Some (if version_number (cl_srv c) < 30
             then map (\<lambda>p. set_permissions (set_nonunix_perms p) p) files else files), c)
         }
     }
   }"

subsection \<open>Attributes\<close>

record stat =
  st_mode :: u32
  st_nlink :: u64
  st_uid :: u32
  st_gid :: u32
  st_size :: u64
  st_blksize :: u64
  st_blocks :: u64
  st_ctime :: u32
  st_mtime :: u32

definition zero_stat :: stat where
  "zero_stat = \<lparr>st_mode = 0, st_nlink = 0, st_uid = 0, st_gid = 0, st_size = 0, st_blksize = 0, st_blocks = 0,
     st_ctime = 0, st_mtime = 0\<rparr>"

definition getattr_bitmaps :: "bool \<Rightarrow> client \<Rightarrow> u16 \<times> u16" where
  "getattr_bitmaps resource c =
     (let common = kFPAttributeBit OR kFPCreateDateBit OR kFPModDateBit OR kFPNodeIDBit OR kFPParentDirIDBit;
          len = (if version_number (cl_srv c) < 30 then (if resource then kFPRsrcForkLenBit else kFPDataForkLenBit)
            else (if resource then kFPExtRsrcForkLenBit else kFPExtDataForkLenBit)) in
      (common OR kFPFinderInfoBit OR len OR (if supports_unix c then kFPUnixPrivsBit else 0),
       common OR kFPOffspringCountBit OR
         (if supports_unix c then kFPUnixPrivsBit else kFPOwnerIDBit OR kFPGroupIDBit)))"

text \<open>How the parameters of a file become a \<open>struct stat\<close>. The returned value is that of the function.\<close>

definition stat_of :: "bool \<Rightarrow> afp_file_info \<Rightarrow> client \<Rightarrow> int \<times> stat" where
  "stat_of resource fp c =
     (let mode = (if 30 \<le> version_number (cl_srv c) \<and> permissions fp \<noteq> 0 then permissions fp
            else set_nonunix_perms fp);
          (bad, uid, gid) = translate_uidgid_to_client c (up_uid (fi_unixprivs fp)) (up_gid (fi_unixprivs fp));
          isdir = (mode AND S_IFDIR \<noteq> 0);
          st = zero_stat\<lparr>st_mode := mode, st_uid := uid, st_gid := gid\<rparr> in
      if bad \<noteq> 0 then (- EIO, st)
      else let
          sz = (if resource then fi_resourcesize fp else fi_size fp);
          st = (if isdir
            then st\<lparr>st_nlink := ucast (fi_offspring fp) + 2, st_size := ucast (fi_offspring fp) * 34 + 24\<rparr>
            else st\<lparr>st_nlink := 1, st_size := sz, st_blksize := 4096, st_blocks := sz div 4096\<rparr>);
          (created, modified) = (if version_number (cl_srv c) < 30 \<and> isdir
            then (word_of_nat (srv_connect_time (cl_srv c)), word_of_nat (srv_connect_time (cl_srv c)))
            else (fi_creation_date fp, fi_modification_date fp)) in
        (0, st\<lparr>st_ctime := created, st_mtime := modified\<rparr>))"

definition ll_getattr :: "env \<Rightarrow> string \<Rightarrow> bool \<Rightarrow> client \<Rightarrow> (int \<times> stat \<times> client) option" where
  "ll_getattr e path resource c = do {
     invalid \<leftarrow> invalid_filename (cl_srv c) path;
     if invalid then Some (- ENAMETOOLONG, zero_stat, c)
     else do {
       (r, c) \<leftarrow> get_dirid e path c;
       case r of
         None \<Rightarrow> Some (- ENOENT, zero_stat, c)
       | Some (basename, dirid) \<Rightarrow> do {
           let (basename, dirid) = (if version_number (cl_srv c) < 30 \<and> path = ''/''
             then (take (AFP_MAX_PATH - 1) (vol_volume_name (cl_vol c)), 1) else (basename, dirid));
           let (filebitmap, dirbitmap) = getattr_bitmaps resource c;
           (rc, fp, c) \<leftarrow> afp_getfiledirparms e dirid filebitmap dirbitmap (Some basename) (env_stack e) c;
           if rc = kFPAccessDenied then Some (- EACCES, zero_stat, c)
           else if rc = kFPObjectNotFound then Some (- ENOENT, zero_stat, c)
           else if rc \<noteq> kFPNoErr then Some (- EIO, zero_stat, c)
           else let (ret, st) = stat_of resource fp c in Some (ret, st, c)
         }
     }
   }"

end
