(* ===== verification/Resource.thy ===== *)
theory Resource
  imports Lowlevel
begin

text \<open>
  \<open>lib/resource.c\<close>: the operations on the shadow files below \<open>.AppleDouble\<close>. A result of 0 means that
  the path is an ordinary one and the caller goes on, 1 that the operation is done, and a negative
  result is an error.
\<close>

unbundle bit_operations_syntax

subsection \<open>Forbidden operations\<close>

definition forbidden :: "env \<Rightarrow> string \<Rightarrow> client \<Rightarrow> int option" where
  "forbidden e path c = do {
     (resource, _) \<leftarrow> extra_translate e c path;
     Some (if resource = 0 then 0 else - EPERM)
   }"

definition appledouble_chmod :: "env \<Rightarrow> string \<Rightarrow> u32 \<Rightarrow> client \<Rightarrow> int option" where
  "appledouble_chmod e path mode = forbidden e path"

definition appledouble_unlink :: "env \<Rightarrow> string \<Rightarrow> client \<Rightarrow> int option" where
  "appledouble_unlink = forbidden"

definition appledouble_mkdir :: "env \<Rightarrow> string \<Rightarrow> u32 \<Rightarrow> client \<Rightarrow> int option" where
  "appledouble_mkdir e path mode = forbidden e path"

definition appledouble_readlink :: "env \<Rightarrow> string \<Rightarrow> client \<Rightarrow> int option" where
  "appledouble_readlink = forbidden"

definition appledouble_rmdir :: "env \<Rightarrow> string \<Rightarrow> client \<Rightarrow> int option" where
  "appledouble_rmdir = forbidden"

definition appledouble_chown :: "env \<Rightarrow> string \<Rightarrow> u32 \<Rightarrow> u32 \<Rightarrow> client \<Rightarrow> int option" where
  "appledouble_chown e path uid gid = forbidden e path"

definition appledouble_utime :: "env \<Rightarrow> string \<Rightarrow> u32 \<Rightarrow> client \<Rightarrow> int option" where
  "appledouble_utime e path modtime = forbidden e path"

definition appledouble_symlink :: "env \<Rightarrow> string \<Rightarrow> string \<Rightarrow> client \<Rightarrow> int option" where
  "appledouble_symlink e path1 path2 = forbidden e path1"

definition appledouble_rename :: "env \<Rightarrow> string \<Rightarrow> string \<Rightarrow> client \<Rightarrow> int option" where
  "appledouble_rename e path_from path_to = forbidden e path_to"

subsection \<open>Comments\<close>

text \<open>\<open>afp_opendt(volume,&volume->dtrefnum)\<close>\<close>

definition opendt_volume :: "env \<Rightarrow> client \<Rightarrow> (int \<times> client) option" where
  "opendt_volume e c = do {
     (ret, refnum, c) \<leftarrow> afp_opendt e (vol_dtrefnum (cl_vol c)) c;
     Some (ret, map_vol (vol_dtrefnum_update (\<lambda>_. refnum)) c)
   }"

definition ensure_dt_opened :: "env \<Rightarrow> client \<Rightarrow> (int \<times> client) option" where
  "ensure_dt_opened e c = (if 0 < vol_dtrefnum (cl_vol c) then Some (0, c) else opendt_volume e c)"

text \<open>A code without a case of its own is returned as it is: a timeout, which is positive, as a size.\<close>

definition get_comment_size :: "env \<Rightarrow> string \<Rightarrow> u32 \<Rightarrow> client \<Rightarrow> (int \<times> client) option" where
  "get_comment_size e basename did c =
     (if \<not> env_malloc e 1024 then Some (- 1, c)
      else do {
        let comment = \<lparr>blob_maxsize = 1024, blob_size = 0, blob_data = fresh e 1024\<rparr>;
        (ret, c) \<leftarrow> (if vol_dtrefnum (cl_vol c) = 0 then opendt_volume e c else Some (0, c));
        if ret < 0 then Some (- EIO, c)
        else do {
          (ret, comment, c) \<leftarrow> afp_getcomment e did basename comment c;
          Some (if ret = kFPAccessDenied then - EACCES
            else if ret = kFPMiscErr \<or> ret = kFPParamErr then - EIO
            else if ret = kFPItemNotFound \<or> ret = kFPObjectNotFound then - ENOENT
            else if ret = kFPNoErr then int (blob_size comment)
            else ret, c)
        }
      })"

subsection \<open>Opening and closing\<close>

text \<open>A structure \<open>afp_file_info\<close> in a local variable: its contents are not initialised, and its address
  is that of no structure in the list of open forks.\<close>

definition local_file_info :: "env \<Rightarrow> client \<Rightarrow> afp_file_info \<times> client" where
  "local_file_info e c = ((env_stack e)\<lparr>fi_addr := cl_fresh c\<rparr>, cl_fresh_update Suc c)"

definition appledouble_open ::
  "env \<Rightarrow> string \<Rightarrow> u32 \<Rightarrow> afp_file_info \<Rightarrow> client \<Rightarrow> (int \<times> afp_file_info \<times> client) option" where
  "appledouble_open e path flags fp c = do {
     (resource, newpath) \<leftarrow> extra_translate e c path;
     let fp = fp\<lparr>fi_resource := resource\<rparr>;
     case newpath of
       None \<Rightarrow> Some (if resource = AFP_META_SERVER_ICON then 1 else 0, fp, c)
     | Some newpath \<Rightarrow>
         if resource = AFP_META_APPLEDOUBLE then Some (- EISDIR, fp, c)
         else do {
           (r, c) \<leftarrow> get_dirid e newpath c;
           case r of
             None \<Rightarrow> Some (- ENOENT, fp, c)
           | Some (basename, did) \<Rightarrow> do {
               let fp = fp\<lparr>fi_basename := basename, fi_did := did\<rparr>;
               if resource = AFP_META_RESOURCE then do {
                 (ret, fp, c) \<leftarrow> ll_open e newpath flags fp c;
                 Some (if ret < 0 then ret else 1, fp, c)
               }
               else if resource = AFP_META_COMMENT \<and> vol_dtrefnum (cl_vol c) = 0 then do {
                 (ret, c) \<leftarrow> opendt_volume e c;
                 Some (if ret = kFPParamErr \<or> ret = kFPMiscErr then - EIO else 1, fp, c)
               }
               else Some (1, fp, c)
             }
         }
   }"

text \<open>The resource fork is closed and stays in the list of open forks.\<close>

definition appledouble_close :: "env \<Rightarrow> afp_file_info \<Rightarrow> client \<Rightarrow> (int \<times> client) option" where
  "appledouble_close e fp c =
     (if fi_resource fp = AFP_META_RESOURCE then do {
        (rc, c) \<leftarrow> afp_closefork e (fi_forkid fp) c;
        Some (if rc = kFPNoErr then 0 else - EIO, c)
      }
      else if fi_resource fp = AFP_META_APPLEDOUBLE then Some (- EBADF, c)
      else if fi_resource fp = AFP_META_SERVER_ICON then Some (1, c)
      else Some (0, c))"

text \<open>The data length of the resource fork is set. \<open>ll_zero_file\<close> never returns a negative value, so that
  its errors are lost.\<close>

definition appledouble_truncate :: "env \<Rightarrow> string \<Rightarrow> client \<Rightarrow> (int \<times> client) option" where
  "appledouble_truncate e path c = do {
     (resource, newpath) \<leftarrow> extra_translate e c path;
     case newpath of
       None \<Rightarrow> Some (if resource = AFP_META_SERVER_ICON then - EPERM else 0, c)
     | Some newpath \<Rightarrow>
         if resource = AFP_META_APPLEDOUBLE then Some (- EISDIR, c)
         else if resource = AFP_META_RESOURCE then do {
           let (fp, c) = local_file_info e c;
           (basename, dirid, c) \<leftarrow> get_dirid_unchecked e newpath c;
           (_, fp, c) \<leftarrow> afp_openfork e True dirid 1 basename fp c;
           (ret, c) \<leftarrow> ll_zero_file e (fi_forkid fp) False c;
           (_, c) \<leftarrow> afp_closefork e (fi_forkid fp) c;
           let c = remove_opened_fork (fi_addr fp) c;
           Some (if ret < 0 then ret else 1, c)
         }
         else Some (1, c)
   }"

subsection \<open>Reading and writing\<close>

text \<open>\<open>appledouble_write\<close>: the returned value, \<open>*totalwritten\<close>, and the structure of the file. The Finder
  information that is read first is not used: what is written is \<open>fp->finderinfo\<close> with the new bytes.
  A comment is taken from \<open>data\<close> as a string. A write to the resource fork returns 0.\<close>

definition appledouble_write ::
  "env \<Rightarrow> afp_file_info \<Rightarrow> byte list \<Rightarrow> u64 \<Rightarrow> u64 \<Rightarrow> client \<Rightarrow> (int \<times> u64 \<times> afp_file_info \<times> client) option" where
  "appledouble_write e fp data sz offset c =
     (if fi_resource fp = AFP_META_RESOURCE then do {
        (ret, written, c) \<leftarrow> ll_write e data sz offset (Some fp) c;
        Some (ret, written, fp, c)
      }
      else if fi_resource fp = AFP_META_APPLEDOUBLE then Some (- EBADF, 0, fp, c)
      else if fi_resource fp = AFP_META_FINDERINFO then
        (let o1 = sint offset; towrite = min (sint (ucast sz :: u32)) (32 - o1) in
         if 32 \<le> o1 then Some (- EINVAL, 0, fp, c)
         else do {
           (ret, _, c) \<leftarrow> ll_get_directory_entry e (fi_basename fp) (fi_did fp) kFPFinderInfoBit kFPFinderInfoBit
             (env_stack e) c;
           if ret < 0 then Some (ret, 0, fp, c)
           else if o1 < 0 \<or> towrite < 0 then None
           else do {
             d \<leftarrow> rd_bytes data 0 (nat towrite);
             info \<leftarrow> wr_bytes (fi_finderinfo fp) (nat o1) d;
             let fp = fp\<lparr>fi_finderinfo := info\<rparr>;
             (ret, c) \<leftarrow> afp_setfiledirparms e (fi_did fp) (fi_basename fp) kFPFinderInfoBit fp c;
             Some (if ret = kFPAccessDenied then (- EACCES, 0, fp, c)
               else if ret = kFPObjectNotFound then (- ENOENT, 0, fp, c)
               else (1, word_of_int towrite, fp, c))
           }
         })
      else if fi_resource fp = AFP_META_COMMENT then
        (if 0 \<notin> set data then None
         else do {
           (ret, written, c) \<leftarrow> afp_addcomment e (fi_did fp) (fi_basename fp) (c_str data) c;
           Some (if ret = kFPAccessDenied then (- EACCES, written, fp, c)
             else if ret = kFPObjectNotFound then (- ENOENT, written, fp, c)
             else if ret = kFPNoErr then (1, sz, fp, c)
             else (- EIO, written, fp, c))
         })
      else if fi_resource fp = AFP_META_SERVER_ICON then Some (- EPERM, 0, fp, c)
      else Some (0, 0, fp, c))"

text \<open>The case of a comment in \<open>appledouble_read\<close>, which the case of the Finder information runs into:
  the returned value, \<open>*amount_read\<close>, \<open>*eof\<close>, \<open>buf\<close> and the structure of the file.\<close>

definition read_comment ::
  "env \<Rightarrow> afp_file_info \<Rightarrow> byte list \<Rightarrow> u64 \<Rightarrow> u64 \<Rightarrow> bool \<Rightarrow> client \<Rightarrow>
     (int \<times> u64 \<times> bool \<times> byte list \<times> afp_file_info \<times> client) option" where
  "read_comment e fp buf sz amount eof c =
     (if fi_eof fp then Some (1, amount, eof, buf, fp, c)
      else do {
        let comment = \<lparr>blob_maxsize = unat sz, blob_size = unat (unset32 e),
          blob_data = (if env_malloc e (unat sz) then fresh e (unat sz) else [])\<rparr>;
        (rc, comment, c) \<leftarrow> afp_getcomment e (fi_did fp) (fi_basename fp) comment c;
        if rc = kFPNoErr then do {
          d \<leftarrow> rd_bytes (blob_data comment) 0 (blob_size comment);
          buf \<leftarrow> wr_bytes buf 0 d;
          Some (1, word_of_nat (blob_size comment), True, buf, fp\<lparr>fi_eof := True\<rparr>, c)
        }
        else Some (if rc = kFPAccessDenied then - EACCES
          else if rc = kFPMiscErr \<or> rc = kFPParamErr then - EIO
          else - ENOENT, amount, eof, buf, fp, c)
      })"

definition appledouble_read ::
  "env \<Rightarrow> afp_file_info \<Rightarrow> byte list \<Rightarrow> u64 \<Rightarrow> u64 \<Rightarrow> client \<Rightarrow>
     (int \<times> u64 \<times> bool \<times> byte list \<times> afp_file_info \<times> client) option" where
  "appledouble_read e fp buf sz offset c =
     (if fi_resource fp = AFP_META_RESOURCE then do {
        (ret, eof, buf, c) \<leftarrow> ll_read e buf sz offset fp c;
        Some (ret, 0, eof, buf, fp, c)
      }
      else if fi_resource fp = AFP_META_APPLEDOUBLE then Some (- EBADF, 0, False, buf, fp, c)
      else if fi_resource fp = AFP_META_FINDERINFO then
        (if 32 < sint offset then Some (- EFAULT, 0, False, buf, fp, c)
         else do {
           (ret, fp, c) \<leftarrow> ll_get_directory_entry e (fi_basename fp) (fi_did fp) kFPFinderInfoBit kFPFinderInfoBit
             fp c;
           if ret < 0 then Some (ret, 0, False, buf, fp, c)
           else if sint offset < 0 then None
           else do {
             let tocopy = min (unat sz) (32 - unat offset);
             buf \<leftarrow> wr_bytes buf (unat offset) (take tocopy (fi_finderinfo fp));
             read_comment e fp buf sz (word_of_nat tocopy) (unat offset + tocopy = 32) c
           }
         })
      else if fi_resource fp = AFP_META_COMMENT then read_comment e fp buf sz 0 False c
      else if fi_resource fp = AFP_META_SERVER_ICON then
        (if 256 < sint offset then Some (- EFAULT, 0, False, buf, fp, c)
         else if sint offset < 0 then None
         else do {
           let tocopy = min (unat sz) (256 - unat offset);
           buf \<leftarrow> wr_bytes buf (unat offset) (take tocopy (srv_icon (cl_srv c)));
           Some (1, word_of_nat tocopy, True, buf, fp\<lparr>fi_eof := True\<rparr>, c)
         })
      else Some (0, 0, False, buf, fp, c))"

subsection \<open>Attributes and listing\<close>

definition appledouble_getattr :: "env \<Rightarrow> string \<Rightarrow> stat \<Rightarrow> client \<Rightarrow> (int \<times> stat \<times> client) option" where
  "appledouble_getattr e path stbuf c = do {
     (resource, newpath) \<leftarrow> extra_translate e c path;
     case newpath of
       None \<Rightarrow> Some (if resource = AFP_META_SERVER_ICON
         then (1, stbuf\<lparr>st_mode := S_IFREG OR 0x124, st_size := 256\<rparr>, c) else (0, stbuf, c))
     | Some newpath \<Rightarrow>
         if resource = AFP_META_RESOURCE then do {
           (_, st, c) \<leftarrow> ll_getattr e newpath True c;
           Some (1, st, c)
         }
         else if resource = AFP_META_APPLEDOUBLE then Some (1, stbuf\<lparr>st_mode := 0x1C0 OR S_IFDIR\<rparr>, c)
         else do {
           (ret, st, c) \<leftarrow> ll_getattr e newpath False c;
           if resource = AFP_META_FINDERINFO then
             Some (1, st\<lparr>st_mode := st_mode st OR S_IFREG, st_size := 32\<rparr>, c)
           else if ret < 0 then Some (ret, st, c)
           else do {
             (r, c) \<leftarrow> get_dirid e newpath c;
             case r of
               None \<Rightarrow> Some (- 1, st, c)
             | Some (basename, did) \<Rightarrow> do {
                 (ret, c) \<leftarrow> get_comment_size e basename did c;
                 if ret < 0 then Some (ret, st, c)
                 else Some (1, st\<lparr>st_mode := st_mode st OR S_IFREG, st_size := word_of_int ret\<rparr>, c)
               }
           }
         }
   }"

text \<open>\<open>add_fp\<close>: a copy of the entry with a longer name, at the front of the chain.\<close>

definition add_fp :: "env \<Rightarrow> afp_file_info list \<Rightarrow> afp_file_info \<Rightarrow> string \<Rightarrow> u64 \<Rightarrow> afp_file_info list option" where
  "add_fp e newchain fp ending sz =
     (if \<not> env_malloc e sizeof_afp_file_info then Some newchain
      else if AFP_MAX_PATH \<le> length (fi_name fp) + length ending then None
      else Some (set_permissions (permissions fp OR S_IFREG)
        (fp\<lparr>fi_name := fi_name fp @ ending, fi_resourcesize := sz\<rparr>) # newchain))"

text \<open>The loop over the entries. \<open>remove_fp\<close> frees the entry and then reads its field \<open>next\<close>: a listing
  with an entry to be removed is not defined. The other entries stay where they are.\<close>

fun shadow_entries :: "env \<Rightarrow> afp_file_info list \<Rightarrow> afp_file_info list \<Rightarrow> client \<Rightarrow>
    (afp_file_info list \<times> client) option" where
  "shadow_entries e [] newchain c = Some (newchain, c)"
| "shadow_entries e (fp # fps) newchain c = do {
     newchain \<leftarrow> add_fp e newchain fp finderinfo_string 32;
     (opened, c) \<leftarrow> ensure_dt_opened e c;
     (newchain, c) \<leftarrow> (if opened = 0 then do {
         (sz, c) \<leftarrow> get_comment_size e (fi_name fp) (fi_did fp) c;
         newchain \<leftarrow> (if 0 < sz then add_fp e newchain fp comment_string 32 else Some newchain);
         Some (newchain, c)
       } else Some (newchain, c));
     if permissions fp AND S_IFREG = 0 \<or> fi_resourcesize fp = 0 then None
     else shadow_entries e fps newchain c
   }"

text \<open>\<open>base\<close> is what \<open>*base\<close> is at the call; it stays when the listing fails.\<close>

definition appledouble_readdir ::
  "env \<Rightarrow> string \<Rightarrow> afp_file_info list \<Rightarrow> client \<Rightarrow> (int \<times> afp_file_info list \<times> client) option" where
  "appledouble_readdir e path base c = do {
     (resource, newpath) \<leftarrow> extra_translate e c path;
     case newpath of
       None \<Rightarrow> Some (if resource = AFP_META_SERVER_ICON then - ENOTDIR else 0, base, c)
     | Some newpath \<Rightarrow>
         if resource = AFP_META_APPLEDOUBLE then do {
           (_, files, c) \<leftarrow> ll_readdir e newpath True c;
           let base = (case files of None \<Rightarrow> base | Some files \<Rightarrow> files);
           (newchain, c) \<leftarrow> shadow_entries e base [] c;
           Some (1, base @ newchain, c)
         }
         else if resource = AFP_META_RESOURCE \<or> resource = AFP_META_COMMENT then Some (- ENOTDIR, base, c)
         else Some (0, base, c)
   }"

end
