(* ===== verification/Midlevel.thy ===== *)
theory Midlevel
  imports Resource
begin

text \<open>
  \<open>lib/midlevel.c\<close>: the operations on paths that the file system and the command line client call.
  Each converts the path, applies the checks of the client, lets \<open>resource.c\<close> handle shadow files, finds the
  directory, sends the requests and turns the code of the server into a negated \<open>errno\<close>.
\<close>

unbundle bit_operations_syntax

abbreviation to_afp :: "client \<Rightarrow> string \<Rightarrow> (int \<times> string) option" where
  "to_afp c path \<equiv> convert_path_to_afp (srv_path_encoding (cl_srv c)) path AFP_MAX_PATH"

abbreviation int_of_size :: "u64 \<Rightarrow> int" where
  "int_of_size n \<equiv> sint (ucast n :: u32)"

subsection \<open>Opening and closing\<close>

text \<open>\<open>ml_open\<close>: the structure \<open>*newfp\<close> is part of the result when the result is 0. The structure is new, so
  that its address differs from those of all others.\<close>

definition ml_open :: "env \<Rightarrow> string \<Rightarrow> u32 \<Rightarrow> client \<Rightarrow> (int \<times> afp_file_info option \<times> client) option" where
  "ml_open e path flags c = do {
     (bad, converted_path) \<leftarrow> to_afp c path;
     if bad \<noteq> 0 then Some (- EINVAL, None, c)
     else do {
       invalid \<leftarrow> invalid_filename (cl_srv c) converted_path;
       if invalid then Some (- ENAMETOOLONG, None, c)
       else if volume_is_readonly c \<and> flags AND (O_WRONLY OR O_RDWR OR O_TRUNC OR O_APPEND OR O_CREAT) \<noteq> 0
       then Some (- EACCES, None, c)
       else if \<not> env_malloc e sizeof_afp_file_info then Some (- 1, None, c)
       else do {
         let fp = zero_file_info\<lparr>fi_addr := cl_fresh c\<rparr>;
         let c = cl_fresh_update Suc c;
         (ret, fp, c) \<leftarrow> appledouble_open e path flags fp c;
         if ret < 0 then Some (ret, None, c)
         else if ret = 1 then Some (0, Some fp, c)
         else do {
           (r, c) \<leftarrow> get_dirid e converted_path c;
           case r of
             None \<Rightarrow> Some (- ENOENT, None, c)
           | Some (basename, dirid) \<Rightarrow> do {
               (ret, fp, c) \<leftarrow> ll_open e converted_path flags (fp\<lparr>fi_basename := basename, fi_did := dirid\<rparr>) c;
               if ret < 0 then Some (ret, None, c) else Some (0, Some fp, c)
             }
         }
       }
     }
   }"

text \<open>\<open>ml_close\<close> returns a positive \<open>errno\<close> in two cases.\<close>

definition ml_close :: "env \<Rightarrow> string \<Rightarrow> afp_file_info option \<Rightarrow> client \<Rightarrow> (int \<times> client) option" where
  "ml_close e path fp c = do {
     (bad, converted_path) \<leftarrow> to_afp c path;
     if bad \<noteq> 0 then Some (- EINVAL, c)
     else do {
       invalid \<leftarrow> invalid_filename (cl_srv c) converted_path;
       if invalid then Some (- ENAMETOOLONG, c)
       else case fp of
         None \<Rightarrow> Some (EBADF, c)
       | Some fp \<Rightarrow>
           if fi_resource fp \<noteq> 0 then appledouble_close e fp c
           else do {
             (rc, c) \<leftarrow> afp_closefork e (fi_forkid fp) c;
             if rc \<noteq> kFPNoErr then Some (EIO, c) else Some (0, remove_opened_fork (fi_addr fp) c)
           }
     }
   }"

subsection \<open>Listing and attributes\<close>

definition ml_readdir ::
  "env \<Rightarrow> string \<Rightarrow> afp_file_info list \<Rightarrow> client \<Rightarrow> (int \<times> afp_file_info list \<times> client) option" where
  "ml_readdir e path fb c = do {
     (bad, converted_path) \<leftarrow> to_afp c path;
     if bad \<noteq> 0 then Some (- EINVAL, fb, c)
     else do {
       (ret, fb, c) \<leftarrow> appledouble_readdir e converted_path fb c;
       if ret < 0 then Some (ret, fb, c)
       else if ret = 1 then Some (0, fb, c)
       else do {
         (ret, files, c) \<leftarrow> ll_readdir e converted_path False c;
         Some (ret, case files of None \<Rightarrow> fb | Some files \<Rightarrow> files, c)
       }
     }
   }"

definition ml_getattr :: "env \<Rightarrow> string \<Rightarrow> client \<Rightarrow> (int \<times> stat \<times> client) option" where
  "ml_getattr e path c = do {
     (bad, converted_path) \<leftarrow> to_afp c path;
     if bad \<noteq> 0 then Some (- EINVAL, zero_stat, c)
     else do {
       (ret, st, c) \<leftarrow> appledouble_getattr e converted_path zero_stat c;
       if ret < 0 then Some (ret, st, c)
       else if 0 < ret then Some (0, st, c)
       else ll_getattr e path False c
     }
   }"

definition ml_statfs :: "env \<Rightarrow> client \<Rightarrow> (int \<times> statvfs option \<times> client) option" where
  "ml_statfs e c = do {
     let flags = (if version_number (cl_srv c) < 30 then kFPVolBytesFreeBit OR kFPVolBytesTotalBit
       else kFPVolExtBytesFreeBit OR kFPVolExtBytesTotalBit OR kFPVolBlockSizeBit);
     (ret, c) \<leftarrow> afp_getvolparms e flags c;
     if ret \<noteq> kFPNoErr then Some (- EIO, None, c)
     else do {
       let c = map_vol (vol_stat_update (f_bsize_update (\<lambda>n. if n = 0 then 4096 else n))) c;
       let vs = vol_stat (cl_vol c);
       Some (0, Some \<lparr>f_bsize = f_bsize vs, f_frsize = 0, f_blocks = f_blocks vs div f_bsize vs,
         f_bfree = f_bfree vs div f_bsize vs, f_bavail = f_bfree vs div f_bsize vs, f_files = 0, f_ffree = 0,
         f_favail = 0\<rparr>, c)
     }
   }"

subsection \<open>Reading and writing\<close>

definition ml_read ::
  "env \<Rightarrow> string \<Rightarrow> byte list \<Rightarrow> u64 \<Rightarrow> u64 \<Rightarrow> afp_file_info \<Rightarrow> client \<Rightarrow>
     (int \<times> bool \<times> byte list \<times> afp_file_info \<times> client) option" where
  "ml_read e path buf sz offset fp c = do {
     (bad, _) \<leftarrow> to_afp c path;
     if bad \<noteq> 0 then Some (- EINVAL, False, buf, fp, c)
     else do {
       let resource = (fi_resource fp \<noteq> 0);
       (ret, amount_copied, eof, buf, fp, c) \<leftarrow> (if resource then appledouble_read e fp buf sz offset c
         else Some (0, 0, False, buf, fp, c));
       if ret < 0 then Some (ret, eof, buf, fp, c)
       else if resource \<and> ret = 1 then Some (int_of_size amount_copied, eof, buf, fp, c)
       else do {
         (ret, eof, buf, c) \<leftarrow> ll_read e buf sz offset fp c;
         Some (ret, eof, buf, fp, c)
       }
     }
   }"

definition set_uidgid :: "client \<Rightarrow> u32 \<Rightarrow> u32 \<Rightarrow> afp_file_info \<Rightarrow> afp_file_info" where
  "set_uidgid c uid gid =
     (case translate_uidgid_to_server c uid gid of (_, newuid, newgid) \<Rightarrow>
       fi_unixprivs_update (\<lambda>u. u\<lparr>up_uid := newuid, up_gid := newgid\<rparr>))"

definition update_time :: "env \<Rightarrow> client \<Rightarrow> u32 \<times> client" where
  "update_time e c = (case gettimeofday e c of (now, c) \<Rightarrow> (word_of_nat now, c))"

definition ml_write ::
  "env \<Rightarrow> string \<Rightarrow> byte list \<Rightarrow> u64 \<Rightarrow> u64 \<Rightarrow> afp_file_info \<Rightarrow> u32 \<Rightarrow> u32 \<Rightarrow> client \<Rightarrow>
     (int \<times> afp_file_info \<times> client) option" where
  "ml_write e path data sz offset fp uid gid c =
     (if version_number (cl_srv c) < 30 \<and> AFP_MAX_AFP2_FILESIZE < unat sz then Some (- EFBIG, fp, c)
      else do {
        (bad, _) \<leftarrow> to_afp c path;
        if bad \<noteq> 0 then Some (- EINVAL, fp, c)
        else if volume_is_readonly c then Some (- EACCES, fp, c)
        else do {
          (ret, totalwritten, fp, c) \<leftarrow> appledouble_write e fp data sz offset c;
          if ret < 0 then Some (ret, fp, c)
          else if ret = 1 then Some (int_of_size totalwritten, fp, c)
          else do {
            let fp = (if supports_unix c then set_permissions 0x81A4 (set_uidgid c uid gid fp) else fp);
            let (now, c) = update_time e c;
            let fp = fp\<lparr>fi_modification_date := now\<rparr>;
            (ret, totalwritten, c) \<leftarrow> ll_write e data sz offset (Some fp) c;
            Some (if ret < 0 then ret else int_of_size totalwritten, fp, c)
          }
        }
      })"

subsection \<open>Permissions and times\<close>

definition ml_chmod :: "env \<Rightarrow> string \<Rightarrow> u32 \<Rightarrow> client \<Rightarrow> (int \<times> client) option" where
  "ml_chmod e path mode c = do {
     invalid \<leftarrow> invalid_filename (cl_srv c) path;
     if invalid then Some (- ENAMETOOLONG, c)
     else if volume_is_readonly c then Some (- EACCES, c)
     else if \<not> supports_unix c then
       (if extra_flag c VOLUME_EXTRA_FLAGS_IGNORE_UNIXPRIVS then do {
          (ret, _, c) \<leftarrow> ll_getattr e path False c;
          Some (ret, c)
        }
        else Some (- ENOSYS, c))
     else do {
       (bad, converted_path) \<leftarrow> to_afp c path;
       if bad \<noteq> 0 then Some (- EINVAL, c)
       else do {
         ret \<leftarrow> appledouble_chmod e path mode c;
         if ret < 0 then Some (ret, c)
         else if ret = 1 then Some (0, c)
         else do {
           (basename, dirid, c) \<leftarrow> get_dirid_unchecked e converted_path c;
           (rc, fp, c) \<leftarrow> get_unixprivs e dirid basename (env_stack e) c;
           if rc \<noteq> 0 then Some (rc, c)
           else do {
             let mode = mode AND NOT S_IFDIR;
             if permissions fp AND NOT S_IFDIR = mode then Some (0, c)
             else do {
               let (bad, uid, gid) = translate_uidgid_to_client c (up_uid (fi_unixprivs fp)) (up_gid (fi_unixprivs fp));
               if bad \<noteq> 0 then Some (- EIO, c)
               else if gid \<noteq> env_gid e \<and> uid \<noteq> env_uid e then Some (- EPERM, c)
               else do {
                 (rc, _, c) \<leftarrow> set_unixprivs e dirid basename (set_permissions mode fp) c;
                 Some (if rc = - ENOSYS then - ENOSYS else - ret, c)
               }
             }
           }
         }
       }
     }
   }"

text \<open>The new owner is not sent: the permissions that were read are set again.\<close>

definition ml_chown :: "env \<Rightarrow> string \<Rightarrow> u32 \<Rightarrow> u32 \<Rightarrow> client \<Rightarrow> (int \<times> client) option" where
  "ml_chown e path uid gid c = do {
     (bad, converted_path) \<leftarrow> to_afp c path;
     if bad \<noteq> 0 then Some (- EINVAL, c)
     else do {
       invalid \<leftarrow> invalid_filename (cl_srv c) converted_path;
       if invalid then Some (- ENAMETOOLONG, c)
       else if volume_is_readonly c then Some (- EACCES, c)
       else do {
         ret \<leftarrow> appledouble_chown e path uid gid c;
         if ret < 0 then Some (ret, c)
         else if ret = 1 then Some (0, c)
         else if \<not> supports_unix c then
           (if extra_flag c VOLUME_EXTRA_FLAGS_IGNORE_UNIXPRIVS then do {
              (ret, _, c) \<leftarrow> ll_getattr e path False c;
              Some (ret, c)
            }
            else Some (- ENOSYS, c))
         else do {
           (basename, dirid, c) \<leftarrow> get_dirid_unchecked e converted_path c;
           (rc, fp, c) \<leftarrow> get_unixprivs e dirid basename (env_stack e) c;
           if rc \<noteq> 0 then Some (rc, c)
           else do {
             (rc, _, c) \<leftarrow> set_unixprivs e dirid basename fp c;
             Some (if rc = - ENOSYS then - ENOSYS
               else if rc = kFPAccessDenied then - EACCES
               else if rc = kFPObjectNotFound then - ENOENT
               else 0, c)
           }
         }
       }
     }
   }"

definition ml_utime :: "env \<Rightarrow> string \<Rightarrow> u32 \<Rightarrow> client \<Rightarrow> (int \<times> client) option" where
  "ml_utime e path modtime c =
     (if volume_is_readonly c then Some (- EACCES, c)
      else do {
        let fp = zero_file_info\<lparr>fi_modification_date := modtime\<rparr>;
        invalid \<leftarrow> invalid_filename (cl_srv c) path;
        if invalid then Some (- ENAMETOOLONG, c)
        else do {
          (bad, converted_path) \<leftarrow> to_afp c path;
          if bad \<noteq> 0 then Some (- EINVAL, c)
          else do {
            ret \<leftarrow> appledouble_utime e path modtime c;
            if ret < 0 then Some (ret, c)
            else if ret = 1 then Some (0, c)
            else do {
              (basename, dirid, c) \<leftarrow> get_dirid_unchecked e converted_path c;
              (isdir, c) \<leftarrow> is_dir e dirid basename c;
              (rc, c) \<leftarrow> (if isdir then afp_setdirparms e dirid basename kFPModDateBit fp c
                else afp_setfileparms e dirid basename kFPModDateBit fp c);
              Some (if rc = kFPAccessDenied then - EACCES
                else if rc = kFPObjectNotFound then - ENOENT
                else - ret, c)
            }
          }
        }
      })"

subsection \<open>Removing and creating\<close>

definition unlink_errno :: "int \<Rightarrow> int" where
  "unlink_errno rc =
     (if rc = kFPAccessDenied then EACCES
      else if rc = kFPObjectLocked then EBUSY
      else if rc = kFPObjectNotFound then ENOENT
      else if rc = kFPVolLocked then EACCES
      else if rc = kFPObjectTypeErr \<or> rc = kFPDirNotEmpty \<or> rc = kFPMiscErr \<or> rc = kFPParamErr \<or> rc = - 1
      then EINVAL
      else 0)"

definition ml_unlink :: "env \<Rightarrow> string \<Rightarrow> client \<Rightarrow> (int \<times> client) option" where
  "ml_unlink e path c = do {
     (bad, converted_path) \<leftarrow> to_afp c path;
     if bad \<noteq> 0 then Some (- EINVAL, c)
     else if volume_is_readonly c then Some (- EACCES, c)
     else do {
       ret \<leftarrow> appledouble_unlink e path c;
       if ret < 0 then Some (ret, c)
       else if ret = 1 then Some (0, c)
       else do {
         (basename, dirid, c) \<leftarrow> get_dirid_unchecked e converted_path c;
         (isdir, c) \<leftarrow> is_dir e dirid basename c;
         if isdir then Some (- EISDIR, c)
         else do {
           invalid \<leftarrow> invalid_filename (cl_srv c) converted_path;
           if invalid then Some (- ENAMETOOLONG, c)
           else do {
             (rc, c) \<leftarrow> afp_delete e dirid basename c;
             Some (- unlink_errno rc, c)
           }
         }
       }
     }
   }"

definition mkdir_errno :: "int \<Rightarrow> int" where
  "mkdir_errno rc =
     (if rc = kFPAccessDenied then EACCES
      else if rc = kFPDiskFull then ENOSPC
      else if rc = kFPObjectNotFound then ENOENT
      else if rc = kFPObjectExists then EEXIST
      else if rc = kFPVolLocked then EBUSY
      else if rc = kFPFlatVol \<or> rc = kFPMiscErr \<or> rc = kFPParamErr \<or> rc = - 1 then EFAULT
      else 0)"

definition ml_mkdir :: "env \<Rightarrow> string \<Rightarrow> u32 \<Rightarrow> client \<Rightarrow> (int \<times> client) option" where
  "ml_mkdir e path mode c = do {
     (bad, converted_path) \<leftarrow> to_afp c path;
     if bad \<noteq> 0 then Some (- EINVAL, c)
     else do {
       invalid \<leftarrow> invalid_filename (cl_srv c) path;
       if invalid then Some (- ENAMETOOLONG, c)
       else if volume_is_readonly c then Some (- EACCES, c)
       else do {
         ret \<leftarrow> appledouble_mkdir e path mode c;
         if ret < 0 then Some (ret, c)
         else if ret = 1 then Some (0, c)
         else do {
           (basename, dirid, c) \<leftarrow> get_dirid_unchecked e converted_path c;
           (rc, _, c) \<leftarrow> afp_createdir e dirid basename (unset32 e) c;
           Some (- mkdir_errno rc, c)
         }
       }
     }
   }"

definition rmdir_errno :: "int \<Rightarrow> int" where
  "rmdir_errno rc =
     (if rc = kFPAccessDenied then EACCES
      else if rc = kFPObjectLocked then EBUSY
      else if rc = kFPObjectNotFound then ENOENT
      else if rc = kFPVolLocked then EACCES
      else if rc = kFPDirNotEmpty then ENOTEMPTY
      else if rc = kFPObjectTypeErr \<or> rc = kFPMiscErr \<or> rc = kFPParamErr \<or> rc = - 1 then EINVAL
      else 0)"

definition ml_rmdir :: "env \<Rightarrow> string \<Rightarrow> client \<Rightarrow> (int \<times> client) option" where
  "ml_rmdir e path c = do {
     invalid \<leftarrow> invalid_filename (cl_srv c) path;
     if invalid then Some (- ENAMETOOLONG, c)
     else do {
       (bad, converted_path) \<leftarrow> to_afp c path;
       if bad \<noteq> 0 then Some (- EINVAL, c)
       else if volume_is_readonly c then Some (- EACCES, c)
       else do {
         ret \<leftarrow> appledouble_rmdir e path c;
         if ret < 0 then Some (ret, c)
         else if ret = 1 then Some (0, c)
         else do {
           (basename, dirid, c) \<leftarrow> get_dirid_unchecked e converted_path c;
           (isdir, c) \<leftarrow> is_dir e dirid basename c;
           if \<not> isdir then Some (- ENOTDIR, c)
           else do {
             (rc, c) \<leftarrow> afp_delete e dirid basename c;
             Some (- rmdir_errno rc,
               if rmdir_errno rc = 0 then snd (remove_did_entry converted_path c) else c)
           }
         }
       }
     }
   }"

text \<open>The length is not used: the file is cut to zero bytes. When the file cannot be opened, the result
  is 0; when its length cannot be set, the fork stays open.\<close>

definition ml_truncate :: "env \<Rightarrow> string \<Rightarrow> u64 \<Rightarrow> client \<Rightarrow> (int \<times> client) option" where
  "ml_truncate e path offset c = do {
     (bad, converted_path) \<leftarrow> to_afp c path;
     if bad \<noteq> 0 then Some (- EINVAL, c)
     else do {
       invalid \<leftarrow> invalid_filename (cl_srv c) converted_path;
       if invalid then Some (- ENAMETOOLONG, c)
       else if volume_is_readonly c then Some (- EACCES, c)
       else do {
         (ret, c) \<leftarrow> appledouble_truncate e path c;
         if ret < 0 then Some (ret, c)
         else if ret = 1 then Some (0, c)
         else do {
           (r, fp, c) \<leftarrow> ml_open e path O_WRONLY c;
           case fp of
             None \<Rightarrow> Some (ret, c)
           | Some fp \<Rightarrow> do {
               (ret, c) \<leftarrow> ll_zero_file e (fi_forkid fp) False c;
               if ret \<noteq> 0 then Some (- ret, c)
               else do {
                 (_, c) \<leftarrow> afp_closefork e (fi_forkid fp) c;
                 Some (- ret, remove_opened_fork (fi_addr fp) c)
               }
             }
         }
       }
     }
   }"

subsection \<open>Links\<close>

definition readlink_open_errno :: "int \<Rightarrow> int" where
  "readlink_open_errno rc =
     (if rc = kFPAccessDenied then EACCES
      else if rc = kFPObjectNotFound then ENOENT
      else if rc = kFPObjectLocked then EROFS
      else if rc = kFPObjectTypeErr then EISDIR
      else if rc = kFPParamErr then EACCES
      else if rc = kFPTooManyFilesOpen then EMFILE
      else if rc = kFPVolLocked \<or> rc = kFPDenyConflict \<or> rc = kFPMiscErr \<or> rc = kFPBitmapErr \<or> rc = 0 then 0
      else EFAULT)"

text \<open>\<open>ml_readlink\<close>: the returned value and the string left in \<open>buf\<close>, an array of \<open>size\<close> bytes, of which the
  last conversion clears \<open>AFP_MAX_PATH\<close>. An error while reading leaves the fork open, and a pointer to
  the local structure in the list of open forks.\<close>

definition ml_readlink :: "env \<Rightarrow> string \<Rightarrow> u64 \<Rightarrow> client \<Rightarrow> (int \<times> string \<times> client) option" where
  "ml_readlink e path sz c = do {
     let buffer = \<lparr>rx_size = 0, rx_maxsize = unat (ucast sz :: u32), rx_data = replicate AFP_MAX_PATH 0,
       rx_errorcode = 0\<rparr>;
     (bad, converted_path) \<leftarrow> to_afp c path;
     if bad \<noteq> 0 then Some (- EINVAL, [], c)
     else do {
       let (fp, c) = local_file_info e c;
       (basename, dirid, c) \<leftarrow> get_dirid_unchecked e converted_path c;
       (rc, fp, c) \<leftarrow> afp_openfork e False dirid (AFP_OPENFORK_ALLOWWRITE OR AFP_OPENFORK_ALLOWREAD) basename fp c;
       let ret = readlink_open_errno rc;
       if ret \<noteq> 0 then Some (- ret, [], c)
       else do {
         let c = add_opened_fork fp c;
         (rc, buffer, c) \<leftarrow> (if version_number (cl_srv c) < 30 then afp_read e (fi_forkid fp) 0 (ucast sz) buffer c
           else afp_readext e (fi_forkid fp) 0 sz buffer c);
         if rc = kFPAccessDenied then Some (- EACCES, [], c)
         else if rc = kFPLockErr then Some (- EBUSY, [], c)
         else if rc = kFPMiscErr \<or> rc = kFPParamErr then Some (- EIO, [], c)
         else do {
           (rc, c) \<leftarrow> afp_closefork e (fi_forkid fp) c;
           if rc \<noteq> kFPNoErr then Some (- EIO, [], c)
           else if 0 \<notin> set (rx_data buffer) \<or> unat sz < AFP_MAX_PATH then None
           else do {
             (_, buf) \<leftarrow> convert_path_to_unix (srv_path_encoding (cl_srv c)) (c_str (rx_data buffer)) AFP_MAX_PATH;
             Some (0, buf, remove_opened_fork (fi_addr fp) c)
           }
         }
       }
     }
   }"

definition symlink_finderinfo :: "byte list" where
  "symlink_finderinfo = to_bytes ''slnkrhap'' @ replicate 24 0"

text \<open>\<open>ml_symlink\<close>: after \<open>afp_openfork\<close> the switch looks at \<open>ret\<close>, which is 0, so that an error is not
  noticed; the result of the write is not looked at either.\<close>

definition ml_symlink :: "env \<Rightarrow> string \<Rightarrow> string \<Rightarrow> client \<Rightarrow> (int \<times> client) option" where
  "ml_symlink e path1 path2 c =
     (if version_number (cl_srv c) < 30 then Some (- ENOSYS, c)
      else do {
        (bad, converted_path1) \<leftarrow> to_afp c path1;
        if bad \<noteq> 0 then Some (- EINVAL, c)
        else do {
          (bad, converted_path2) \<leftarrow> to_afp c path2;
          if bad \<noteq> 0 then Some (- EINVAL, c)
          else if volume_is_readonly c then Some (- EACCES, c)
          else do {
            ret \<leftarrow> appledouble_symlink e path1 path2 c;
            if ret < 0 then Some (ret, c)
            else if ret = 1 then Some (0, c)
            else do {
              let (fp, c) = local_file_info e c;
              (basename2, dirid2, c) \<leftarrow> get_dirid_unchecked e converted_path2 c;
              (rc, c) \<leftarrow> afp_createfile e kFPHardCreate dirid2 basename2 c;
              let ret = createfile_errno rc;
              if ret \<noteq> 0 then Some (- ret, c)
              else do {
                (_, fp, c) \<leftarrow> afp_openfork e False dirid2 (AFP_OPENFORK_ALLOWWRITE OR AFP_OPENFORK_ALLOWREAD)
                  basename2 fp c;
                let c = add_opened_fork fp c;
                (_, _, c) \<leftarrow> afp_writeext e (fi_forkid fp) 0 (word_of_nat (length converted_path1))
                  (to_bytes converted_path1) (ucast (unset32 e)) c;
                (rc, c) \<leftarrow> afp_closefork e (fi_forkid fp) c;
                if rc \<noteq> kFPNoErr then Some (- EIO, c)
                else do {
                  let c = remove_opened_fork (fi_addr fp) c;
                  (rc, c) \<leftarrow> afp_setfiledirparms e dirid2 basename2 kFPFinderInfoBit
                    (fp\<lparr>fi_finderinfo := symlink_finderinfo\<rparr>) c;
                  Some (- setparms_errno rc, c)
                }
              }
            }
          }
        }
      })"

subsection \<open>Renaming\<close>

text \<open>The result of the second \<open>afp_moveandrename\<close>: an error of the parameters falls through to 0. The
  result of \<open>afp_delete\<close> before it is overwritten.\<close>

definition rename_again_errno :: "int \<Rightarrow> int" where
  "rename_again_errno rc =
     (if rc = kFPObjectLocked \<or> rc = kFPAccessDenied then EACCES
      else if rc = kFPCantRename then EROFS
      else if rc = kFPObjectExists \<or> rc = kFPObjectNotFound then ENOENT
      else 0)"

text \<open>\<open>ml_rename\<close>: after \<open>kFPObjectNotFound\<close> a \<open>break\<close> is missing, so that the result is 0.\<close>

definition ml_rename :: "env \<Rightarrow> string \<Rightarrow> string \<Rightarrow> client \<Rightarrow> (int \<times> client) option" where
  "ml_rename e path_from path_to c = do {
     (bad, converted_path_from) \<leftarrow> to_afp c path_from;
     if bad \<noteq> 0 then Some (- EINVAL, c)
     else do {
       (bad, converted_path_to) \<leftarrow> to_afp c path_to;
       if bad \<noteq> 0 then Some (- EINVAL, c)
       else if volume_is_readonly c then Some (- EACCES, c)
       else do {
         (basename_from, dirid_from, c) \<leftarrow> get_dirid_unchecked e converted_path_from c;
         (basename_to, dirid_to, c) \<leftarrow> get_dirid_unchecked e converted_path_to c;
         (isdir, c) \<leftarrow> is_dir e dirid_to converted_path_to c;
         (rc, c) \<leftarrow> (if isdir
           then afp_moveandrename e dirid_from dirid_to basename_from (Some basename_to) basename_from c
           else afp_moveandrename e dirid_from dirid_to basename_from None basename_to c);
         if rc = kFPObjectLocked \<or> rc = kFPAccessDenied then Some (- EACCES, c)
         else if rc = kFPCantRename then Some (- EROFS, c)
         else if rc = kFPObjectExists then do {
           (_, c) \<leftarrow> afp_delete e dirid_to basename_to c;
           (rc, c) \<leftarrow> afp_moveandrename e dirid_from dirid_to basename_from None basename_to c;
           Some (- rename_again_errno rc, c)
         }
         else if rc = kFPObjectNotFound \<or> rc = kFPNoErr then Some (0, c)
         else Some (- EIO, c)
       }
     }
   }"

end
