(* ===== verification/Write_Loop.thy ===== *)
theory Write_Loop
  imports Midlevel
begin

text \<open>
  The loop of \<open>ll_write\<close>: it ends, the pieces it sends are the data, and it ends in success whatever
  the server answers.
\<close>

subsection \<open>One piece\<close>

definition write_fields :: "u16 \<Rightarrow> u64 \<Rightarrow> byte list \<Rightarrow> byte list" where
  "write_fields forkid offset d = [afpWriteExt, 0] @ be16 forkid @ be64 offset @ be64 (word_of_nat (length d)) @ d"

lemma writeext_reply_value:
  assumes "srv_incoming_buffer s = packet h body @ rest" "srv_data_read s = 16 + length body"
  shows "\<exists>rc'. afp_reply m afpWriteExt s (Out64 w) =
    Some (rc', s, Out64 (if length body < 8 then 0 else the (rd64 body 0)))"
proof (cases "length body < 8")
  case True
  then show ?thesis
    using assms by (simp add: afp_reply_def blank_subcommands_def store_reply_def afp_writeext_reply_def Let_def)
next
  case False
  have "\<exists>v. rd64 (packet h body @ rest) 16 = Some v \<and> rd64 body 0 = Some v"
    using False
    by (auto simp: rd64_def rd32_def rd16_def rd8_def nth_append dsi_header_bytes_def numeral_2_eq_2 numeral_3_eq_3)
  then show ?thesis
    using assms False
    by (auto simp: afp_reply_def blank_subcommands_def store_reply_def afp_writeext_reply_def Let_def)
qed

lemma header_id_offset:
  assumes "request_header cmd c = (c1, header)"
  shows "wr_bytes header 4 (be32 w) = Some (take 4 header @ be32 w @ drop 8 header)"
    "rd16 (take 4 header @ be32 w @ drop 8 header @ flds) 2 = Some (srv_lastrequestid (cl_srv c1))" "length header = 16"
proof -
  have c1: "header = snd (dsi_setup_header cmd (cl_srv c))" "cl_srv c1 = fst (dsi_setup_header cmd (cl_srv c))"
    using request_header_simps(3,4) [of cmd c] assms by simp_all
  then show "length header = 16"
    by simp
  then show "wr_bytes header 4 (be32 w) = Some (take 4 header @ be32 w @ drop 8 header)"
    by (simp add: wr_bytes_def)
  obtain h where h: "header = dsi_header_bytes h" "hdr_requestid h = srv_lastrequestid (cl_srv c1)"
    using c1 by (auto simp: dsi_setup_header_def Let_def)
  have "holds_at (take 4 header @ be32 w @ drop 8 header @ flds) 2 (be16 (srv_lastrequestid (cl_srv c1)) @ be32 w @
      drop 8 header @ flds)"
    using h by (simp add: holds_at_def dsi_header_bytes_def)
  then show "rd16 (take 4 header @ be32 w @ drop 8 header @ flds) 2 = Some (srv_lastrequestid (cl_srv c1))"
    by (rule f16.rd_holds_at)
qed

lemma drop_set_length: "length msg \<ge> 16 \<Longrightarrow> drop 16 (set_length msg) = drop 16 msg"
  by (simp add: set_length_def)

lemma writeext_exchange:
  assumes "idle c" "lasting c = lasting c0" "responsive e c0" "\<And>n. env_malloc e n" "length d < 2 ^ 32 - 36"
  shows "\<exists>rc w' c' p. afp_writeext e forkid off (word_of_nat (length d)) (d @ rest) w c = Some (rc, w', c') \<and>
    idle c' \<and> lasting c' = lasting c0 \<and> cl_sent c' = cl_sent c @ [p] \<and> drop 16 p = write_fields forkid off d"
proof -
  obtain c1 header where rh: "request_header DSI_DSIWrite c = (c1, header)"
    by fastforce
  have c1: "idle c1" "lasting c1 = lasting c0" "cl_sent c1 = cl_sent c"
    using idle_header [OF assms(1), of DSI_DSIWrite] request_header_simps(1) [of DSI_DSIWrite c] rh assms(2)
    by simp_all
  let ?n = "word_of_nat (length d) :: u64"
  have n: "unat ?n = length d"
    unfolding unat_of_nat using assms(5) by simp
  let ?msg = "take 4 header @ be32 (20 :: u32) @ drop 8 header @ write_fields forkid off d"
  note hd = header_id_offset(1) [OF rh, of 20] header_id_offset(2) [OF rh, of 20 "write_fields forkid off d"]
    header_id_offset(3) [OF rh]
  obtain rc body where ans: "answers_packet e c1 ?msg rc body"
    using assms(3) c1(1,2) hd(2) unfolding responsive_def by blast
  let ?v = "Out64 (if length body < 8 then 0 else the (rd64 body 0))"
  obtain c' where send: "dsi_send e ?msg DSI_DEFAULT_TIMEOUT afpWriteExt (Out64 w) c1 = Some (rc, ?v, c')"
    "idle c'" "lasting c' = lasting c1" "cl_sent c' = cl_sent c1 @ [set_length ?msg]"
  proof -
    have "\<exists>c'. dsi_send e ?msg DSI_DEFAULT_TIMEOUT afpWriteExt (Out64 w) c1 = Some (rc, ?v, c') \<and> idle c' \<and>
        lasting c' = lasting c1 \<and> cl_sent c' = cl_sent c1 @ [set_length ?msg]"
      by (rule exchange_packet_sent [OF c1(1) assms(4) ans]) (simp_all add: writeext_reply_value)
    then show ?thesis
      using that by blast
  qed
  have "afp_writeext e forkid off ?n (d @ rest) w c = Some (rc, if length body < 8 then 0 else the (rd64 body 0), c')"
    using send(1) hd(1) assms(4,5) rh
    by (simp add: afp_writeext_def send_data_def n rd_bytes_def returned64_def Let_def write_fields_def)
  then show ?thesis
    using send(2-4) c1 hd(3) drop_set_length [of ?msg] by auto
qed

subsection \<open>The loop\<close>

text \<open>The pieces of the data, each with its offset.\<close>

function pieces :: "nat \<Rightarrow> nat \<Rightarrow> byte list \<Rightarrow> (nat \<times> byte list) list" where
  "pieces q off d = (if d = [] \<or> q = 0 then [] else (off, take q d) # pieces q (off + q) (drop q d))"
  by pat_completeness auto

termination
  by (relation "measure (\<lambda>(q, off, d). length d)") auto

declare pieces.simps [simp del]

lemma concat_pieces: "0 < q \<Longrightarrow> concat (map snd (pieces q off d)) = d"
  by (induction q off d rule: pieces.induct) (subst pieces.simps, simp)

lemma length_pieces: "0 < q \<Longrightarrow> length (pieces q off d) = (length d + q - 1) div q"
proof (induction q off d rule: pieces.induct)
  case (1 q off d)
  show ?case
  proof (cases "d = []")
    case False
    have "(length d + q - 1) div q = Suc ((length d - q + q - 1) div q)"
      using False 1(2) by (cases d; cases "length d \<le> q") (simp_all add: div_if)
    then show ?thesis
      using 1 False by (subst pieces.simps) simp
  qed (use 1 in \<open>simp add: pieces.simps\<close>)
qed

lemma unat_ucast_u64: "unat (ucast (q :: u32) :: u64) = unat q"
proof -
  have "unat q < 2 ^ 64"
    using unsigned_less [of q, where 'a = nat] by simp
  then show ?thesis
    by (simp add: unsigned_ucast_eq take_bit_nat_eq_self)
qed

lemma write_loop_complete:
  assumes "responsive e c0" "\<And>n. env_malloc e n" "30 \<le> version_number (cl_srv c0)"
    and "0 < q" "unat q < 2 ^ 32 - 36" "unat sz = length data" "written \<le> sz"
    and "idle c" "lasting c = lasting c0"
  shows "\<exists>c' ps. write_loop e data sz offset forkid q written c = Some (sz, c') \<and> idle c' \<and>
    lasting c' = lasting c0 \<and> cl_sent c' = cl_sent c @ ps \<and>
    map (drop 16) ps = map (\<lambda>(o1, d). write_fields forkid (offset + word_of_nat o1) d)
      (pieces (unat q) (unat written) (drop (unat written) data))"
  using assms(7-9)
proof (induction "length data - unat written" arbitrary: written c rule: less_induct)
  case less
  show ?case
  proof (cases "written < sz")
    case False
    then have "written = sz"
      using less.prems(1) by simp
    then show ?thesis
      using less.prems assms(6) by (subst write_loop.simps) (simp add: pieces.simps)
  next
    case True
    define n where "n = (if sz - written < ucast q then sz - written else ucast q)"
    have pos: "0 < unat q"
      using assms(4) by (simp add: word_less_nat_alt)
    let ?d = "take (unat q) (drop (unat written) data)"
    have w: "unat written < length data"
      using True assms(6) by (simp add: word_less_nat_alt)
    have un: "unat n = min (unat q) (length data - unat written)"
      using True assms(6) by (simp add: n_def word_less_nat_alt unat_sub_if' unat_ucast_u64 min_def)
    then have "length ?d = unat n"
      by (simp add: min.commute)
    then have d: "length ?d = unat n" "word_of_nat (length ?d) = n"
      by simp_all
    have v: "version_number (cl_srv c) = version_number (cl_srv c0)"
      using lasting_eqD(6) [OF less.prems(3)] by simp
    obtain rc w' c1 p where wr: "afp_writeext e forkid (offset + written) (word_of_nat (length ?d))
        (?d @ drop (unat q) (drop (unat written) data)) (ucast (unset32 e)) c = Some (rc, w', c1)" "idle c1"
      "lasting c1 = lasting c0" "cl_sent c1 = cl_sent c @ [p]" "drop 16 p = write_fields forkid (offset + written) ?d"
      using writeext_exchange [OF less.prems(2,3) assms(1,2), of ?d] assms(5) by fastforce
    have nxt: "unat (written + n) = unat written + unat n" "written + n \<le> sz"
    proof -
      have "unat written + unat n \<le> unat sz"
        using un w assms(6) by simp
      then show "unat (written + n) = unat written + unat n"
        using unsigned_less [of sz, where 'a = nat] by (intro unat_add_lem [THEN iffD1]) simp
      then show "written + n \<le> sz"
        using un w assms(6) by (simp add: word_le_nat_alt)
    qed
    obtain c' ps where ih: "write_loop e data sz offset forkid q (written + n) c1 = Some (sz, c')" "idle c'"
      "lasting c' = lasting c0" "cl_sent c' = cl_sent c1 @ ps"
      "map (drop 16) ps = map (\<lambda>(o1, d). write_fields forkid (offset + word_of_nat o1) d)
        (pieces (unat q) (unat (written + n)) (drop (unat (written + n)) data))"
    proof -
      have "length data - unat (written + n) < length data - unat written"
        using nxt(1) w un pos by simp
      from less.hyps [OF this nxt(2) wr(2,3)] show ?thesis
        using that by blast
    qed
    have "write_loop e data sz offset forkid q written c = Some (sz, c')"
      using wr(1) [unfolded append_take_drop_id d(2)] ih(1) True v assms(3)
      by (subst write_loop.simps) (simp add: n_def [symmetric] Let_def)
    moreover have "pieces (unat q) (unat written) (drop (unat written) data) =
        (unat written, ?d) # pieces (unat q) (unat (written + n)) (drop (unat (written + n)) data)"
      using w pos nxt(1) un
      by (subst pieces.simps) (cases "unat q \<le> length data - unat written"; simp add: add.commute pieces.simps)
    ultimately show ?thesis
      using ih(2-5) wr(4,5) by (intro exI [of _ c'] exI [of _ "p # ps"]) simp
  qed
qed

lemma write_loop_stuck:
  assumes "write_loop e data sz offset forkid q written c = Some r"
  shows "q = 0 \<longrightarrow> sz \<le> written"
  by (rule write_loop.raw_induct [of "\<lambda>e data sz offset forkid q written c r. q = 0 \<longrightarrow> sz \<le> written", OF _ assms])
     (auto simp: Let_def split: if_splits bind_splits)

subsection \<open>Main results\<close>

text \<open>(C3) Writing. Without locks, with AFP 3, and on a server that answers every request in some way, \<open>ll_write\<close>
  ends. It has sent the data completely and in order, in pieces of the size the server allows, each with
  its offset in the file, and in as few pieces as possible. It returns 0 and reports all bytes as
  written, whatever the server has answered: the code of a reply, such as the one for a full disk, is
  overwritten with 0 before it is looked at.\<close>

theorem ll_write_complete:
  assumes "idle c" and "responsive e c" and "\<And>n. env_malloc e n" and "30 \<le> version_number (cl_srv c)"
    and "extra_flag c VOLUME_EXTRA_FLAGS_NO_LOCKING" and "0 < srv_tx_quantum (cl_srv c)"
    and "unat (srv_tx_quantum (cl_srv c)) < 2 ^ 32 - 36" and "unat sz = length data"
  shows "\<exists>c' ds ps. ll_write e data sz offset (Some fp) c = Some (0, sz, c') \<and> cl_sent c' = cl_sent c @ ps \<and>
    map (drop 16) ps = map (\<lambda>(o1, d). write_fields (fi_forkid fp) (offset + word_of_nat o1) d) ds \<and>
    ds = pieces (unat (srv_tx_quantum (cl_srv c))) 0 data \<and> concat (map snd ds) = data \<and>
    length ds = (length data + unat (srv_tx_quantum (cl_srv c)) - 1) div unat (srv_tx_quantum (cl_srv c))"
proof -
  let ?q = "srv_tx_quantum (cl_srv c)"
  have q: "0 < unat ?q"
    using assms(6) by (simp add: word_less_nat_alt)
  obtain c' ps where l: "write_loop e data sz offset (fi_forkid fp) ?q 0 c = Some (sz, c')" "lasting c' = lasting c"
    "cl_sent c' = cl_sent c @ ps" "map (drop 16) ps = map (\<lambda>(o1, d). write_fields (fi_forkid fp)
      (offset + word_of_nat o1) d) (pieces (unat ?q) 0 data)"
    using write_loop_complete [OF assms(2-4,6-8) _ assms(1) refl, of 0 offset "fi_forkid fp"] by auto
  have "extra_flag c' VOLUME_EXTRA_FLAGS_NO_LOCKING"
    using assms(5) lasting_eqD(1) [OF l(2)] by simp
  then have "ll_write e data sz offset (Some fp) c = Some (0, sz, c')"
    using l(1) assms(5) by (simp add: ll_write_def ll_handle_locking_def ll_handle_unlocking_def Let_def)
  then show ?thesis
    using l(3,4) concat_pieces [OF q] length_pieces [OF q] by blast
qed

theorem ll_write_complete_witness:
  "\<exists>c'. ll_write (example_env (answering_server (word_of_int kFPDiskFull))) (replicate 3000 7) 3000 0
     (Some zero_file_info) (map_vol (vol_extra_flags_update (\<lambda>_. VOLUME_EXTRA_FLAGS_NO_LOCKING)) example_client) =
       Some (0, 3000, c') \<and> length (cl_sent c') = 3"
proof -
  let ?e = "example_env (answering_server (word_of_int kFPDiskFull))"
  let ?c = "map_vol (vol_extra_flags_update (\<lambda>_. VOLUME_EXTRA_FLAGS_NO_LOCKING)) example_client"
  have e: "responsive ?e ?c" "\<And>n. env_malloc ?e n"
    by (rule refuses_responsive, rule answering_server_refuses) (simp_all add: example_env_def)
  have "idle ?c"
    using example_client_idle by simp
  moreover have "30 \<le> version_number (cl_srv ?c)" "0 < srv_tx_quantum (cl_srv ?c)"
    "unat (srv_tx_quantum (cl_srv ?c)) < 2 ^ 32 - 36" "srv_tx_quantum (cl_srv ?c) = 1024" "cl_sent ?c = []"
    by (simp_all add: example_client_def example_server_def afp_server_init_def)
  moreover have "extra_flag ?c VOLUME_EXTRA_FLAGS_NO_LOCKING"
    by simp
  ultimately obtain c' ds ps where w: "ll_write ?e (replicate 3000 7) 3000 0 (Some zero_file_info) ?c = Some (0, 3000, c')"
    "cl_sent c' = ps" "map (drop 16) ps = map (\<lambda>(o1, d). write_fields (fi_forkid zero_file_info) (0 + word_of_nat o1) d) ds"
    "length ds = (3000 + 1024 - 1) div 1024"
    using ll_write_complete [OF _ e, of 3000 "replicate 3000 7" 0 zero_file_info] by auto
  have "length ps = length ds"
    using arg_cong [OF w(3), of length] by simp
  then show ?thesis
    using w by auto
qed

text \<open>A server that announces no quantum. Before the first announcement the quantum is 0, and then
  \<open>ll_write\<close> sends empty pieces forever.\<close>

theorem ll_write_zero_quantum:
  assumes "srv_tx_quantum (cl_srv c) = 0" and "0 < sz" and "extra_flag c VOLUME_EXTRA_FLAGS_NO_LOCKING"
  shows "ll_write e data sz offset (Some fp) c = None"
proof -
  have "write_loop e data sz offset (fi_forkid fp) 0 0 c = None"
    using write_loop_stuck [of e data sz offset "fi_forkid fp" 0 0 c] assms(2)
    by (cases "write_loop e data sz offset (fi_forkid fp) 0 0 c") auto
  then show ?thesis
    using assms by (simp add: ll_write_def ll_handle_locking_def Let_def)
qed

theorem ll_write_zero_quantum_witness:
  "ll_write (example_env (\<lambda>_. Sent [])) [1] 1 0 (Some zero_file_info)
     (map_vol (vol_extra_flags_update (\<lambda>_. VOLUME_EXTRA_FLAGS_NO_LOCKING))
       (example_client\<lparr>cl_srv := (cl_srv example_client)\<lparr>srv_tx_quantum := 0\<rparr>\<rparr>)) = None"
  by (rule ll_write_zero_quantum) simp_all

end
