(* ===== verification/Readdir_Loop.thy ===== *)
theory Readdir_Loop
  imports Midlevel
begin

text \<open>
  The loop of \<open>ll_readdir\<close>: on a server that lists a directory it returns the whole listing; without a
  server that answers it never ends.
\<close>

unbundle bit_operations_syntax

subsection \<open>One batch\<close>

definition enumerate_fields :: "client \<Rightarrow> u32 \<Rightarrow> u16 \<Rightarrow> u16 \<Rightarrow> u32 \<Rightarrow> string \<Rightarrow> byte list" where
  "enumerate_fields c dirid fb db startindex path = [afpEnumerateExt2, 0] @ volid c @ be32 dirid @ be16 fb @ be16 db @
     be16 20 @ be32 startindex @ be32 5280 @ path_spec (cl_srv c) (to_bytes path)"

definition enumerate_body :: "u16 \<Rightarrow> u16 \<Rightarrow> dir_entry list \<Rightarrow> byte list" where
  "enumerate_body fb db es = be16 fb @ be16 db @ be16 (word_of_nat (length es)) @ concat (map (ext2_entry fb db) es)"

lemma enumerateext2_send:
  assumes "path_ok (cl_srv c) path" "\<And>n. env_malloc e n"
  shows "afp_enumerateext2 e dirid fb db 20 startindex path c = returned_list (send_fields e
    (enumerate_fields c dirid fb db startindex path) DSI_DEFAULT_TIMEOUT afpEnumerateExt2 (File_List []) c)"
  using assms by (simp add: afp_enumerateext2_def send_path_eq enumerate_fields_def)

lemma dispatch_enumerateext2:
  "16 \<le> srv_data_read s \<Longrightarrow> afp_reply m afpEnumerateExt2 s (File_List l) =
    store_reply s File_List (afp_enumerateext2_reply m (srv_incoming_buffer s) (srv_data_read s) l)"
  by (simp add: afp_reply_def blank_subcommands_def Let_def)

lemma enumerateext2_batch:
  assumes "idle c" "\<And>n. env_malloc e n" "path_ok (cl_srv c) path" "\<forall>x\<in>set es. entry_ok x" "length es \<le> 20"
    and "answers_request e c (enumerate_fields c dirid fb db startindex path) 0 (enumerate_body fb db es)"
  shows "\<exists>c'. afp_enumerateext2 e dirid fb db 20 startindex path c = Some (0, map (entry_info fb db) es, c') \<and>
    idle c' \<and> lasting c' = lasting c"
proof -
  have reply: "\<exists>rc'. afp_reply (env_malloc e) afpEnumerateExt2 s (File_List []) =
      Some (rc', s, File_List (map (entry_info fb db) es))"
    if "return_code_of h = 0" "srv_incoming_buffer s = packet h (enumerate_body fb db es) @ rest"
      "srv_data_read s = 16 + length (enumerate_body fb db es)" for h rest s
  proof -
    have "packet h (enumerate_body fb db es) = ext2_reply (dsi_header_bytes h) fb db es"
      by (simp add: ext2_reply_def enumerate_body_def)
    then have "afp_enumerateext2_reply (env_malloc e) (srv_incoming_buffer s) (srv_data_read s) [] =
        Some (0, map (entry_info fb db) es)"
      using ext2_reply_parsed [of "dsi_header_bytes h" es "env_malloc e" "srv_data_read s" fb db rest "[]"]
        raw_error_code_zero [OF return_code_0 [OF that(1)]] assms(2,4,5) that(2,3)
      by (simp add: ext2_reply_def enumerate_body_def)
    then show ?thesis
      using that(3) by (simp add: dispatch_enumerateext2 store_reply_def)
  qed
  have "\<exists>c'. send_fields e (enumerate_fields c dirid fb db startindex path) DSI_DEFAULT_TIMEOUT afpEnumerateExt2
      (File_List []) c = Some (0, File_List (map (entry_info fb db) es), c') \<and> idle c' \<and> lasting c' = lasting c"
    by (rule exchange [OF assms(1,2,6)]) (use reply in auto)
  then show ?thesis
    using enumerateext2_send [OF assms(3,2)] by (auto simp: returned_list_def)
qed

lemma enumerateext2_end:
  assumes "idle c" "\<And>n. env_malloc e n" "path_ok (cl_srv c) path"
    and "answers_request e c (enumerate_fields c dirid fb db startindex path) rc []"
  shows "\<exists>c'. afp_enumerateext2 e dirid fb db 20 startindex path c = Some (rc, [], c') \<and>
    idle c' \<and> lasting c' = lasting c"
proof -
  have reply: "\<exists>rc'. afp_reply (env_malloc e) afpEnumerateExt2 s (File_List []) = Some (rc', s, File_List [])"
    if "srv_incoming_buffer s = packet h [] @ rest" "srv_data_read s = 16 + length []" for h rest s
  proof -
    obtain ec where "raw_error_code (packet h [] @ rest) = Some ec"
      by (simp add: raw_error_code_def dsi_header_bytes_def rd32le_def rd16le_def rd8_def)
    with that show ?thesis
      by (cases "ec = 0") (simp_all add: dispatch_enumerateext2 store_reply_def afp_enumerateext2_reply_def)
  qed
  have "\<exists>c'. send_fields e (enumerate_fields c dirid fb db startindex path) DSI_DEFAULT_TIMEOUT afpEnumerateExt2
      (File_List []) c = Some (rc, File_List [], c') \<and> idle c' \<and> lasting c' = lasting c"
    by (rule exchange [OF assms(1,2,4)]) (use reply in auto)
  then show ?thesis
    using enumerateext2_send [OF assms(3,2)] by (auto simp: returned_list_def)
qed

subsection \<open>The whole listing\<close>

text \<open>The server lists the entries \<open>es\<close> of a directory: a request that starts at one of them is answered
  with some of those that follow, and one that starts behind the last with \<open>kFPObjectNotFound\<close>.\<close>

definition lists :: "env \<Rightarrow> client \<Rightarrow> u32 \<Rightarrow> string \<Rightarrow> u16 \<Rightarrow> u16 \<Rightarrow> dir_entry list \<Rightarrow> bool" where
  "lists e c0 dirid path fb db es \<longleftrightarrow> (\<forall>c i. idle c \<and> steady c = steady c0 \<and> i \<le> length es \<longrightarrow>
     (if i < length es then \<exists>n. 0 < n \<and> n \<le> 20 \<and> answers_request e c
        (enumerate_fields c dirid fb db (word_of_nat (i + 1)) path) 0 (enumerate_body fb db (take n (drop i es)))
      else answers_request e c (enumerate_fields c dirid fb db (word_of_nat (i + 1)) path) kFPObjectNotFound []))"

lemma steady_lasting: "lasting c' = lasting c \<Longrightarrow> steady c' = steady c"
  using lasting_eqD(1) [of c' c] by (simp add: steady_def)

lemma steady_eqD:
  assumes "steady c' = steady c"
  shows "srv_using_version (cl_srv c') = srv_using_version (cl_srv c)"
    "srv_path_encoding (cl_srv c') = srv_path_encoding (cl_srv c)"
    "vol_extra_flags (cl_vol c') = vol_extra_flags (cl_vol c)" "vol_attributes (cl_vol c') = vol_attributes (cl_vol c)"
    "vol_mapping (cl_vol c') = vol_mapping (cl_vol c)" "srv_passwd (cl_srv c') = srv_passwd (cl_srv c)"
  using arg_cong [OF assms, of "srv_using_version \<circ> cl_srv"] arg_cong [OF assms, of "srv_path_encoding \<circ> cl_srv"]
    arg_cong [OF assms, of "vol_extra_flags \<circ> cl_vol"] arg_cong [OF assms, of "vol_attributes \<circ> cl_vol"]
    arg_cong [OF assms, of "vol_mapping \<circ> cl_vol"] arg_cong [OF assms, of "srv_passwd \<circ> cl_srv"]
  by (simp_all add: steady_def lasting_def)

lemma ucast_of_nat: "ucast (word_of_nat n :: u64) = (word_of_nat n :: u32)"
  by (simp add: word_unat_eq_iff unsigned_ucast_eq unsigned_of_nat take_bit_take_bit)

lemma readdir_loop_complete:
  assumes "lists e c0 dirid path fb db es" "\<And>n. env_malloc e n" "path_ok (cl_srv c0) path" "\<forall>x\<in>set es. entry_ok x"
    and "30 \<le> version_number (cl_srv c0)" "length es < 2 ^ 32" "i \<le> length es" "idle c" "steady c = steady c0"
  shows "\<exists>c'. readdir_loop e dirid path fb db (word_of_nat (i + 1)) (map (entry_info fb db) (take i es)) c =
    Some (0, map (entry_info fb db) es, c') \<and> idle c' \<and> steady c' = steady c0"
  using assms(7-9)
proof (induction "length es - i" arbitrary: i c rule: less_induct)
  case less
  have v: "30 \<le> version_number (cl_srv c)" and p: "path_ok (cl_srv c) path"
    using assms(3,5) steady_eqD(1,2) [OF less.prems(3)] path_encoding_cong(2) [of "cl_srv c" "cl_srv c0"] by simp_all
  have uc: "ucast (word_of_nat (i + 1) :: u64) = (word_of_nat (i + 1) :: u32)"
    by (rule ucast_of_nat)
  note l = assms(1) [unfolded lists_def, rule_format, OF conjI [OF less.prems(2) conjI [OF less.prems(3,1)]]]
  show ?case
  proof (cases "i < length es")
    case True
    then obtain n where n: "0 < n" "n \<le> 20" "answers_request e c
        (enumerate_fields c dirid fb db (word_of_nat (i + 1)) path) 0 (enumerate_body fb db (take n (drop i es)))"
      using l by auto
    let ?es = "take n (drop i es)"
    have "\<forall>x\<in>set ?es. entry_ok x" "length ?es \<le> 20"
      using assms(4) n(2) by (auto dest: in_set_takeD in_set_dropD)
    then obtain c1 where c1: "afp_enumerateext2 e dirid fb db 20 (word_of_nat (i + 1)) path c =
        Some (0, map (entry_info fb db) ?es, c1)" "idle c1" "lasting c1 = lasting c"
      using enumerateext2_batch [OF less.prems(2) assms(2) p _ _ n(3)] by blast
    define j where "j = i + length ?es"
    have j: "j \<le> length es" "length es - j < length es - i" "take i es @ ?es = take j es"
      using True n(1) by (auto simp: j_def take_add min_def)
    have "steady c1 = steady c0"
      using steady_lasting [OF c1(3)] less.prems(3) by simp
    from less.hyps [OF j(2,1) c1(2) this] obtain c' where ih: "readdir_loop e dirid path fb db (word_of_nat (j + 1))
        (map (entry_info fb db) (take j es)) c1 = Some (0, map (entry_info fb db) es, c')" "idle c'"
      "steady c' = steady c0"
      by blast
    have "(word_of_nat (i + 1) :: u64) + word_of_nat (length (map (entry_info fb db) ?es)) = word_of_nat (j + 1)"
      by (simp add: j_def)
    then show ?thesis
      using ih c1(1) v uc j(3) by (subst readdir_loop.simps) (simp add: map_append [symmetric] add.assoc del: map_append)
  next
    case False
    then have "answers_request e c (enumerate_fields c dirid fb db (word_of_nat (i + 1)) path) kFPObjectNotFound []"
      using l by simp
    then obtain c1 where c1: "afp_enumerateext2 e dirid fb db 20 (word_of_nat (i + 1)) path c =
        Some (kFPObjectNotFound, [], c1)" "idle c1" "lasting c1 = lasting c"
      using enumerateext2_end [OF less.prems(2) assms(2) p] by blast
    then show ?thesis
      using v uc False steady_lasting [OF c1(3)] less.prems by (subst readdir_loop.simps) simp
  qed
qed

text \<open>The path leads through directories that the server has.\<close>

definition reaches :: "env \<Rightarrow> dir_tree \<Rightarrow> client \<Rightarrow> string list \<Rightarrow> string \<Rightarrow> u32 \<Rightarrow> bool" where
  "reaches e tree c ns b d \<longleftrightarrow> serves e tree \<and> cache_ok tree c \<and> slash_free (ns @ [b]) \<and>
     walk tree AFP_ROOT_DID ns = Some d \<and> (\<forall>n\<in>set ns. path_ok (cl_srv c) (CHR ''/'' # n)) \<and>
     length (path_of ns) < 768 \<and> length b < 768"

lemma get_dirid_reaches:
  assumes "reaches e tree c ns b d" "idle c"
  shows "\<exists>c'. get_dirid e (path_of (ns @ [b])) c = Some (Some (b, d), c') \<and> idle c' \<and> steady c' = steady c"
  using get_dirid_ok [of e tree c ns b d] assms by (auto simp: reaches_def)

lemma reaches_root: "CHR ''/'' \<notin> set b \<Longrightarrow> length b < 768 \<Longrightarrow> cache c = [] \<Longrightarrow>
    reaches e (\<lambda>_ _. None) c [] b AFP_ROOT_DID"
  by (simp add: reaches_def serves_def cache_ok_def)

text \<open>A server that lists these entries of every directory, twenty at a time.\<close>

definition list_server :: "u16 \<Rightarrow> u16 \<Rightarrow> dir_entry list \<Rightarrow> byte list list \<Rightarrow> tx_result" where
  "list_server fb db es sent =
     (if sent = [] then Sent []
      else case (rd16 (last sent) 2, rd32 (last sent) 30) of
        (Some rid, Some i) \<Rightarrow> Sent [Data (if unat i - 1 < length es
          then reply_packet rid 0 (enumerate_body fb db (take 20 (drop (unat i - 1) es)))
          else reply_packet rid (word_of_int kFPObjectNotFound) [])]
      | _ \<Rightarrow> Sent [])"

lemma list_server_lists:
  assumes "env_net e = list_server fb db es" "length es < 2 ^ 32 - 1"
    and "\<And>i. length (enumerate_body fb db (take 20 (drop i es))) \<le> 4080"
  shows "lists e c0 dirid path fb db es"
  unfolding lists_def
proof (intro allI impI, elim conjE)
  fix c i
  assume c: "idle c" and i: "i \<le> length es"
  let ?i = "word_of_nat (i + 1) :: u32"
  let ?flds = "enumerate_fields c dirid fb db ?i path"
  have ui: "unat ?i = i + 1"
    unfolding unat_of_nat using i assms(2) by simp
  obtain c1 header where rh: "request_header DSI_DSICommand c = (c1, header)"
    by fastforce
  obtain hb where hb: "length hb = 16" "set_length (header @ ?flds) = hb @ ?flds"
    "rd16 (hb @ ?flds) 2 = Some (srv_lastrequestid (cl_srv c1))"
    by (rule request_packet [OF rh])
  let ?p = "hb @ ?flds"
  have "holds_at ?p 30 (be32 ?i @ be32 5280 @ path_spec (cl_srv c) (to_bytes path))"
    using hb(1) by (simp add: holds_at_def enumerate_fields_def)
  then have at: "rd32 ?p 30 = Some ?i"
    by (rule f32.rd_holds_at)
  have net: "env_net e (cl_sent c @ [set_length (header @ ?flds)]) = Sent [Data (if i < length es
      then reply_packet (srv_lastrequestid (cl_srv c1)) 0 (enumerate_body fb db (take 20 (drop i es)))
      else reply_packet (srv_lastrequestid (cl_srv c1)) (word_of_int kFPObjectNotFound) [])]"
    using assms(1) hb(2,3) at ui by (simp add: list_server_def)
  show "if i < length es then \<exists>n. 0 < n \<and> n \<le> 20 \<and> answers_request e c ?flds 0 (enumerate_body fb db (take n (drop i es)))
      else answers_request e c ?flds kFPObjectNotFound []"
  proof (cases "i < length es")
    case True
    have "answers_request e c ?flds (sint (0 :: u32)) (enumerate_body fb db (take 20 (drop i es)))"
      by (rule answers_in_one_piece [OF rh _ assms(3)]) (use net True in simp)
    then show ?thesis
      using True by (auto intro!: exI [of _ 20])
  next
    case False
    have "answers_request e c ?flds (sint (word_of_int kFPObjectNotFound :: u32)) []"
      by (rule answers_in_one_piece [OF rh]) (use net False in simp_all)
    then show ?thesis
      using False by simp
  qed
qed

subsection \<open>A silent server\<close>

lemma send_fields_silent:
  assumes "idle c" "env_net e (cl_sent c @ [set_length (snd (request_header DSI_DSICommand c) @ flds)]) = Sent []"
    and "env_malloc e sizeof_dsi_request" "0 < w"
  shows "\<exists>c'. send_fields e flds w sub x c = Some (ETIMEDOUT, x, c') \<and> idle c' \<and> lasting c' = lasting c"
proof -
  obtain c1 header where rh: "request_header DSI_DSICommand c = (c1, header)"
    by fastforce
  have c1: "idle c1" "lasting c1 = lasting c" "cl_sent c1 = cl_sent c"
    using idle_header [OF assms(1), of DSI_DSICommand] request_header_simps(1) [of DSI_DSICommand c] rh
    by simp_all
  have ready: "session_ready c1"
    using c1(1) by (simp add: idle_def)
  obtain stats where s: "dsi_send e (header @ flds) w sub x c1 =
      Some (ETIMEDOUT, x, after_exchange (header @ flds) (recv_buf c1) stats c1)"
    "st_requests_pending stats = requests_pending (cl_srv c1)"
    using dsi_send_no_reply [OF ready assms(3,4), of "header @ flds"] assms(2) c1(3) rh by auto
  let ?c = "after_exchange (header @ flds) (recv_buf c1) stats c1"
  have "idle ?c"
    using session_ready_after_exchange [OF ready _ s(2)] ready c1(1)
    by (simp add: idle_def session_ready_def buffer_ok_def)
  moreover have "lasting ?c = lasting c1"
    by (simp add: lasting_def after_exchange_def)
  ultimately show ?thesis
    using s(1) c1(2) rh by (simp add: send_fields_def)
qed

lemma enumerateext2_silent:
  assumes "idle c" "\<And>sent. env_net e sent = Sent []" "\<And>n. env_malloc e n" "path_ok (cl_srv c) path"
  shows "\<exists>c'. afp_enumerateext2 e dirid fb db 20 startindex path c = Some (ETIMEDOUT, [], c') \<and> idle c' \<and>
    lasting c' = lasting c"
proof -
  obtain c' where "send_fields e (enumerate_fields c dirid fb db startindex path) DSI_DEFAULT_TIMEOUT afpEnumerateExt2
      (File_List []) c = Some (ETIMEDOUT, File_List [], c')" "idle c'" "lasting c' = lasting c"
    using send_fields_silent [OF assms(1,2,3), of DSI_DEFAULT_TIMEOUT] by force
  then show ?thesis
    using enumerateext2_send [OF assms(4,3)] by (simp add: returned_list_def)
qed

lemma readdir_loop_silent:
  assumes "\<And>sent. env_net e sent = Sent []" "\<And>n. env_malloc e n"
    and "readdir_loop e dirid path fb db startindex files c = Some r"
  shows "\<not> (idle c \<and> path_ok (cl_srv c) path \<and> 30 \<le> version_number (cl_srv c))"
proof -
  let ?P = "\<lambda>(e :: env) (dirid :: u32) path (fb :: u16) (db :: u16) (startindex :: u64) (files :: afp_file_info list)
    (c :: client) (r :: int \<times> afp_file_info list \<times> client). (\<forall>sent. env_net e sent = Sent []) \<longrightarrow> (\<forall>n. env_malloc e n) \<longrightarrow>
    \<not> (idle c \<and> path_ok (cl_srv c) path \<and> 30 \<le> version_number (cl_srv c))"
  have "?P e dirid path fb db startindex files c r"
  proof (rule readdir_loop.raw_induct [of ?P, OF _ assms(3)], intro impI notI)
    fix f :: "env \<Rightarrow> u32 \<Rightarrow> string \<Rightarrow> u16 \<Rightarrow> u16 \<Rightarrow> u64 \<Rightarrow> afp_file_info list \<Rightarrow> client \<Rightarrow>
        (int \<times> afp_file_info list \<times> client) option"
      and e :: env and dirid path fb db and startindex :: u64 and files and c :: client and r
    assume ih: "\<And>(e :: env) dirid path fb db startindex files c r.
        f e dirid path fb db startindex files c = Some r \<Longrightarrow> ?P e dirid path fb db startindex files c r"
      and silent: "\<forall>sent. env_net e sent = Sent []" "\<forall>n. env_malloc e n"
      and c: "idle c \<and> path_ok (cl_srv c) path \<and> 30 \<le> version_number (cl_srv c)"
    obtain c' where c': "afp_enumerateext2 e dirid fb db 20 (ucast startindex) path c = Some (ETIMEDOUT, [], c')"
      "idle c'" "lasting c' = lasting c"
      using enumerateext2_silent [of c e path dirid fb db "ucast startindex"] silent c by blast
    assume "(if version_number (cl_srv c) < 30 then afp_enumerate e dirid fb db 20 (ucast startindex) path c
        else afp_enumerateext2 e dirid fb db 20 (ucast startindex) path c) \<bind>
        (\<lambda>(rc, base, c).
          if rc = - 1 then Some (EIO, files, c)
          else if rc = kFPObjectNotFound then Some (0, files @ base, c)
          else if rc = 0 then f e dirid path fb db (startindex + word_of_nat (length base)) (files @ base) c
          else if rc = kFPAccessDenied then Some (EACCES, files, c)
          else if rc = kFPDirNotFound then Some (0, files, c)
          else if rc = kFPBitmapErr \<or> rc = kFPMiscErr \<or> rc = kFPObjectTypeErr \<or> rc = kFPParamErr \<or>
            rc = kFPCallNotSupported then Some (EIO, files, c)
          else f e dirid path fb db startindex files c) = Some r"
    then have "f e dirid path fb db startindex files c' = Some r"
      using c c'(1) by simp
    then show False
      using ih [of e dirid path fb db startindex files c' r] silent c c'(2) lasting_eqD(5,6) [OF c'(3)]
        path_encoding_cong(2) [of "cl_srv c'" "cl_srv c"] by simp
  qed
  then show ?thesis
    using assms(1,2) by blast
qed

subsection \<open>Main results\<close>

text \<open>(C5) Listing a directory. On a server that lists the entries of a directory in batches of any sizes up
  to twenty, \<open>ll_readdir\<close> ends and returns all the entries, in order, with the parameters the bitmaps
  select.\<close>

theorem ll_readdir_complete:
  assumes "idle c" and "reaches e tree c ns b d" and "invalid_filename (cl_srv c) (path_of (ns @ [b])) = Some False"
    and "30 \<le> version_number (cl_srv c)" and "path_ok (cl_srv c) b" and "\<And>n. env_malloc e n"
    and "readdir_bitmaps resource c = (fb, db)" and "lists e c d b fb db es" and "length es < 2 ^ 32"
    and "\<And>x. x \<in> set es \<Longrightarrow> entry_ok x \<and>
      convert_path_to_unix (srv_path_encoding (cl_srv c)) (fi_name (entry_info fb db x)) AFP_MAX_PATH \<noteq> None"
  shows "\<exists>c'. ll_readdir e (path_of (ns @ [b])) resource c = Some (0, Some (map (entry_info fb db) es), c') \<and>
    idle c' \<and> steady c' = steady c"
proof -
  obtain c1 where c1: "get_dirid e (path_of (ns @ [b])) c = Some (Some (b, d), c1)" "idle c1" "steady c1 = steady c"
    using get_dirid_reaches [OF assms(2,1)] by blast
  note sd = steady_eqD [OF c1(3)]
  have fb: "readdir_bitmaps resource c1 = (fb, db)"
    using assms(7) sd by (simp add: readdir_bitmaps_def supports_unix_def)
  obtain c2 where c2: "readdir_loop e d b fb db 1 [] c1 = Some (0, map (entry_info fb db) es, c2)" "idle c2"
    "steady c2 = steady c"
    using readdir_loop_complete [OF assms(8,6,5) _ assms(4,9) _ c1(2,3), of 0] assms(10) by auto
  have "\<not> (\<exists>p\<in>set (map (entry_info fb db) es).
      convert_path_to_unix (srv_path_encoding (cl_srv c2)) (fi_name p) AFP_MAX_PATH = None)"
    "\<not> version_number (cl_srv c2) < 30"
    using assms(4,10) steady_eqD [OF c2(3)] by auto
  then have "ll_readdir e (path_of (ns @ [b])) resource c = Some (0, Some (map (entry_info fb db) es), c2)"
    using c1(1) c2(1) fb assms(3) by (simp add: ll_readdir_def del: path_of_simps)
  then show ?thesis
    using c2 by blast
qed

lemma ascii_name_converts: "convert_path_to_unix kFPUTF8Name ''a'' AFP_MAX_PATH \<noteq> None"
  "convert_path_to_unix kFPUTF8Name ''d'' AFP_MAX_PATH \<noteq> None"
  by code_simp+

theorem ll_readdir_complete_witness:
  "\<exists>e. map_option (\<lambda>(ret, files, c'). (ret, map_option (map fi_name) files))
     (ll_readdir e ''/'' False (map_vol (vol_attributes_update (\<lambda>_. kSupportsUTF8Names)) example_client)) =
       Some (0, Some [''a'', ''d''])"
proof -
  let ?c = "map_vol (vol_attributes_update (\<lambda>_. kSupportsUTF8Names)) example_client"
  let ?e = "example_env (list_server 0x291F 0x2F1F example_entries)"
  have srv: "30 \<le> version_number (cl_srv ?c)" "path_ok (cl_srv ?c) []" "srv_path_encoding (cl_srv ?c) = kFPUTF8Name"
    "cache ?c = []"
    by (simp_all add: path_ok_def path_encoding_ok_def example_client_def example_server_def afp_server_init_def
        zero_volume_def)
  have bm: "readdir_bitmaps False ?c = (0x291F, 0x2F1F)"
    by (simp add: readdir_bitmaps_def supports_unix_def example_client_def example_server_def afp_server_init_def
        zero_volume_def)
  have ok: "entry_ok x \<and> convert_path_to_unix (srv_path_encoding (cl_srv ?c)) (fi_name (entry_info 0x291F 0x2F1F x))
      AFP_MAX_PATH \<noteq> None" if "x \<in> set example_entries" for x
    using that ascii_name_converts unfolding srv(3)
    by (auto simp: example_entries_def entry_ok_def zero_file_info_def entry_info_def selected_def has_bit_def)
  have small: "length (enumerate_body 0x291F 0x2F1F (take 20 (drop i example_entries))) \<le> 4080" for i
    by (cases i; cases "i - 1") (simp_all add: example_entries_def enumerate_body_def ext2_entry_def entry_block_def
        length_reply_block zero_file_info_def params_length_def block_params_def opt_bytes_def has_bit_def)
  have "lists ?e ?c AFP_ROOT_DID [] 0x291F 0x2F1F example_entries"
    by (rule list_server_lists) (use small in \<open>simp_all add: example_env_def example_entries_def\<close>)
  moreover have "reaches ?e (\<lambda>_ _. None) ?c [] [] AFP_ROOT_DID" "invalid_filename (cl_srv ?c) (path_of ([] @ [[]])) = Some False"
    using srv(4) by (simp_all add: reaches_root invalid_filename_def)
  moreover have "idle ?c" "\<And>n. env_malloc ?e n" "length example_entries < 2 ^ 32"
    using example_client_idle by (simp_all add: example_env_def example_entries_def)
  ultimately obtain c' where "ll_readdir ?e (path_of ([] @ [[]])) False ?c =
      Some (0, Some (map (entry_info 0x291F 0x2F1F) example_entries), c')"
    using ll_readdir_complete [OF _ _ _ srv(1,2) _ bm _ _ ok] by blast
  moreover have "map (fi_name \<circ> entry_info 0x291F 0x2F1F) example_entries = [''a'', ''d'']"
    by (simp add: example_entries_def entry_info_def selected_def has_bit_def Let_def)
  ultimately show ?thesis
    by (intro exI [of _ ?e]) simp
qed

text \<open>(C39) Listing without a server. When the server stops answering, every request of the loop times out, the
  code of a timeout has no case, and \<open>ll_readdir\<close> never returns.\<close>

theorem ll_readdir_hangs:
  assumes "idle c" and "\<And>sent. env_net e sent = Sent []" and "\<And>n. env_malloc e n"
    and "30 \<le> version_number (cl_srv c)" and "path_ok (cl_srv c) b" and "CHR ''/'' \<notin> set b" and "length b < 768"
    and "invalid_filename (cl_srv c) (CHR ''/'' # b) = Some False"
  shows "ll_readdir e (CHR ''/'' # b) resource c = None"
proof -
  have "get_dirid e (CHR ''/'' # b) c = Some (Some (b, AFP_ROOT_DID), c)"
    using assms(6,7) strrchr_path [of b "[]"] by (simp add: get_dirid_def)
  moreover have "readdir_loop e AFP_ROOT_DID b fb db 1 [] c = None" for fb db
    using readdir_loop_silent [OF assms(2,3)] assms(1,4,5) by (metis not_Some_eq)
  ultimately show ?thesis
    using assms(8) by (simp add: ll_readdir_def split: prod.splits)
qed

theorem ll_readdir_hangs_witness: "ll_readdir (example_env (\<lambda>_. Sent [])) ''/'' False example_client = None"
  by (rule ll_readdir_hangs)
     (use example_client_idle in \<open>simp_all add: example_env_def path_ok_def path_encoding_ok_def invalid_filename_def
        example_client_def example_server_def afp_server_init_def\<close>)

end
