(* ===== verification/Midlevel_Calls.thy ===== *)
theory Midlevel_Calls
  imports Midlevel
begin

text \<open>
  The calls of the file system that change a volume, as one type, and what holds for all of them.
\<close>

subsection \<open>Calls and sequences of calls\<close>

datatype ml_call =
    Creat string u32
  | Unlink string
  | Mkdir string u32
  | Rmdir string
  | Chmod string u32
  | Chown string u32 u32
  | Utime string u32
  | Truncate string u64
  | Symlink string string
  | Rename string string

fun ml_run :: "env \<Rightarrow> ml_call \<Rightarrow> client \<Rightarrow> (int \<times> client) option" where
  "ml_run e (Creat path mode) c = ml_creat e path mode c"
| "ml_run e (Unlink path) c = ml_unlink e path c"
| "ml_run e (Mkdir path mode) c = ml_mkdir e path mode c"
| "ml_run e (Rmdir path) c = ml_rmdir e path c"
| "ml_run e (Chmod path mode) c = ml_chmod e path mode c"
| "ml_run e (Chown path uid gid) c = ml_chown e path uid gid c"
| "ml_run e (Utime path modtime) c = ml_utime e path modtime c"
| "ml_run e (Truncate path offset) c = ml_truncate e path offset c"
| "ml_run e (Symlink path1 path2) c = ml_symlink e path1 path2 c"
| "ml_run e (Rename path_from path_to) c = ml_rename e path_from path_to c"

fun ml_runs :: "env \<Rightarrow> ml_call list \<Rightarrow> client \<Rightarrow> (int list \<times> client) option" where
  "ml_runs e [] c = Some ([], c)"
| "ml_runs e (call # calls) c = do {
     (r, c) \<leftarrow> ml_run e call c;
     (rs, c) \<leftarrow> ml_runs e calls c;
     Some (r # rs, c)
   }"

lemma ml_run_readonly:
  assumes "volume_is_readonly c" "ml_run e call c = Some (r, c')"
  shows "c' = c \<and> r < 0"
  using assms
  by (cases call) (auto simp: ml_creat_def ml_unlink_def ml_mkdir_def ml_rmdir_def ml_chmod_def ml_chown_def ml_utime_def
      ml_truncate_def ml_symlink_def ml_rename_def split: bind_splits if_splits)

subsection \<open>Results\<close>

definition is_errno :: "int \<Rightarrow> bool" where
  "is_errno r \<longleftrightarrow> - 75 \<le> r \<and> r \<le> 0"

lemma forbidden_errno: "forbidden e path c = Some r \<Longrightarrow> is_errno r"
  by (auto simp: forbidden_def is_errno_def split: bind_splits if_splits)

lemma forbidden_cases: "forbidden e path c = Some r \<Longrightarrow> r = 0 \<or> r = - EPERM"
  by (auto simp: forbidden_def split: bind_splits if_splits)

lemma appledouble_creat_errno: "appledouble_creat e c path = Some r \<Longrightarrow> r < 0 \<Longrightarrow> is_errno r"
  by (auto simp: appledouble_creat_def is_errno_def split: bind_splits if_splits)

lemma ll_getattr_errno: "ll_getattr e path res c = Some (r, st, c') \<Longrightarrow> is_errno r"
  by (auto simp: ll_getattr_def stat_of_def is_errno_def Let_def split: bind_splits if_splits prod.splits option.splits)

lemma get_unixprivs_errno: "get_unixprivs e dirid path fp c = Some (r, fp', c') \<Longrightarrow> is_errno r"
  by (auto simp: get_unixprivs_def is_errno_def split: bind_splits if_splits)

lemma errno_ranges:
  "is_errno (- setparms_errno rc)" "is_errno (- createfile_errno rc)" "is_errno (- unlink_errno rc)"
  "is_errno (- mkdir_errno rc)" "is_errno (- rmdir_errno rc)" "is_errno (- rename_again_errno rc)"
  by (simp_all add: is_errno_def setparms_errno_def createfile_errno_def unlink_errno_def mkdir_errno_def
      rmdir_errno_def rename_again_errno_def)

lemma set_unixprivs_errno:
  assumes "set_unixprivs e dirid path fp c = Some (r, fp', c')"
  shows "is_errno r"
  using assms errno_ranges(1) get_unixprivs_errno
  by (auto simp: set_unixprivs_def Let_def is_errno_def split: bind_splits if_splits)

lemma ll_zero_file_errno: "ll_zero_file e forkid res c = Some (r, c') \<Longrightarrow> is_errno (- r)"
  by (auto simp: ll_zero_file_def is_errno_def Let_def split: bind_splits if_splits)

lemma appledouble_truncate_errno: "appledouble_truncate e path c = Some (r, c') \<Longrightarrow> r < 0 \<Longrightarrow> is_errno r"
  using ll_zero_file_errno
  by (auto simp: appledouble_truncate_def is_errno_def Let_def split: bind_splits if_splits option.splits prod.splits)
    (fastforce simp: is_errno_def)+

lemma appledouble_truncate_done: "appledouble_truncate e path c = Some (r, c') \<Longrightarrow> \<not> r < 0 \<Longrightarrow> r = 0 \<or> r = 1"
  using ll_zero_file_errno
  by (auto simp: appledouble_truncate_def Let_def split: bind_splits if_splits option.splits prod.splits)

lemma is_errno_simps [simp]: "is_errno 0" "- 75 \<le> r \<Longrightarrow> r \<le> 0 \<Longrightarrow> is_errno r"
  by (simp_all add: is_errno_def)

lemma ml_run_errno:
  assumes "ml_run e call c = Some (r, c')"
  shows "is_errno r"
proof (cases call)
  case (Creat path mode)
  then show ?thesis
    using assms errno_ranges(2)
    by (auto simp: ml_creat_def Let_def createfile_errno_def split: bind_splits if_splits)
      (rule appledouble_creat_errno; assumption)+
next
  case (Unlink path)
  then show ?thesis
    using assms errno_ranges(3) forbidden_errno
    by (auto simp: ml_unlink_def appledouble_unlink_def split: bind_splits if_splits)
next
  case (Mkdir path mode)
  then show ?thesis
    using assms errno_ranges(4) forbidden_errno
    by (auto simp: ml_mkdir_def appledouble_mkdir_def split: bind_splits if_splits)
next
  case (Rmdir path)
  then show ?thesis
    using assms errno_ranges(5) forbidden_errno
    by (auto simp: ml_rmdir_def appledouble_rmdir_def split: bind_splits if_splits)
next
  case (Chmod path mode)
  then show ?thesis
    using assms ll_getattr_errno get_unixprivs_errno
    by (auto simp: ml_chmod_def appledouble_chmod_def Let_def dest!: forbidden_cases
        split: bind_splits if_splits prod.splits)
next
  case (Chown path uid gid)
  then show ?thesis
    using assms forbidden_errno ll_getattr_errno get_unixprivs_errno
    by (auto simp: ml_chown_def appledouble_chown_def split: bind_splits if_splits)
next
  case (Utime path modtime)
  then show ?thesis
    using assms
    by (auto simp: ml_utime_def appledouble_utime_def Let_def dest!: forbidden_cases split: bind_splits if_splits)
next
  case (Truncate path offset)
  then show ?thesis
    using assms ll_zero_file_errno
    by (auto simp: ml_truncate_def split: bind_splits if_splits option.splits)
      ((rule appledouble_truncate_errno; assumption) | (drule appledouble_truncate_done; simp))+
next
  case (Symlink path1 path2)
  then show ?thesis
    using assms errno_ranges(1,2) forbidden_errno
    by (auto simp: ml_symlink_def appledouble_symlink_def Let_def split: bind_splits if_splits prod.splits)
next
  case (Rename path_from path_to)
  then show ?thesis
    using assms errno_ranges(6)
    by (auto simp: ml_rename_def split: bind_splits if_splits)
qed

subsection \<open>A server that refuses\<close>

text \<open>The path names a file in the root directory.\<close>

definition root_name :: "client \<Rightarrow> string \<Rightarrow> string \<Rightarrow> bool" where
  "root_name c path b \<longleftrightarrow> to_afp c path = Some (0, CHR ''/'' # b) \<and> CHR ''/'' \<notin> set b \<and> length b < 768 \<and>
     path_ok (cl_srv c) b \<and> path_ok (cl_srv c) (CHR ''/'' # b) \<and>
     invalid_filename (cl_srv c) (CHR ''/'' # b) = Some False \<and> invalid_filename (cl_srv c) path = Some False"

lemma root_dirid: "root_name c path b \<Longrightarrow> get_dirid_unchecked e (CHR ''/'' # b) c' = Some (b, AFP_ROOT_DID, c')"
  using strrchr_path [of b "[]"] by (simp add: root_name_def get_dirid_unchecked_def get_dirid_def)

lemma no_shadow_files:
  assumes "\<not> extra_flag c VOLUME_EXTRA_FLAGS_SHOW_APPLEDOUBLE"
  shows "extra_translate e c path = Some (0, None)" "forbidden e path c = Some 0" "appledouble_creat e c path = Some 0"
  using assms by (simp_all add: extra_translate_def forbidden_def appledouble_creat_def)

lemma blank_path_refused:
  assumes "refuses e rc c0" "idle c" "lasting c = lasting c0" "\<And>n. env_malloc e n" "path_ok (cl_srv c) path"
    and "sub \<in> set blank_subcommands"
  shows "\<exists>c'. send_path e flds path sub x c = Some (rc, x, c') \<and> idle c' \<and> lasting c' = lasting c0"
  using blank_exchange [OF assms(2,4) refuses_request [OF assms(1-3)] assms(6), of DSI_DEFAULT_TIMEOUT]
    send_path_eq [OF assms(5,4)] assms(3) by force

lemma createfile_refused:
  assumes "refuses e rc c0" "idle c" "lasting c = lasting c0" "\<And>n. env_malloc e n" "path_ok (cl_srv c) path"
  shows "\<exists>c'. afp_createfile e flag did path c = Some (rc, c') \<and> idle c' \<and> lasting c' = lasting c0"
  using blank_path_refused [OF assms, of afpCreateFile "[afpCreateFile, flag] @ volid c @ be32 did" No_Other]
  by (auto simp: afp_createfile_def returned_def blank_subcommands_def)

lemma delete_refused:
  assumes "refuses e rc c0" "idle c" "lasting c = lasting c0" "\<And>n. env_malloc e n" "path_ok (cl_srv c) path"
  shows "\<exists>c'. afp_delete e did path c = Some (rc, c') \<and> idle c' \<and> lasting c' = lasting c0"
  using blank_path_refused [OF assms, of afpDelete "[afpDelete, 0] @ volid c @ be32 did" No_Other]
  by (auto simp: afp_delete_def returned_def blank_subcommands_def)

lemma createdir_refused:
  assumes "refuses e rc c0" "idle c" "lasting c = lasting c0" "\<And>n. env_malloc e n" "path_ok (cl_srv c) path"
  shows "\<exists>w c'. afp_createdir e did path did_p c = Some (rc, w, c') \<and> idle c' \<and> lasting c' = lasting c0"
proof -
  let ?flds = "[afpCreateDir, 0] @ volid c @ be32 did"
  have reply: "\<exists>rc'. afp_reply (env_malloc e) afpCreateDir s (Out32 did_p) = Some (rc', s, Out32 (did_p AND 0xFFFF0000))"
    if "srv_incoming_buffer s = packet h [] @ rest" "srv_data_read s = 16 + length []" for h rest s
  proof -
    obtain ec where "raw_error_code (packet h [] @ rest) = Some ec"
      by (simp add: raw_error_code_def dsi_header_bytes_def rd32le_def rd16le_def rd8_def)
    with that show ?thesis
      by (cases "ec = 0") (simp_all add: afp_reply_def blank_subcommands_def store_reply_def afp_createdir_reply_def Let_def)
  qed
  have "\<exists>c'. send_fields e (?flds @ path_spec (cl_srv c) (to_bytes path)) DSI_DEFAULT_TIMEOUT afpCreateDir (Out32 did_p) c =
      Some (rc, Out32 (did_p AND 0xFFFF0000), c') \<and> idle c' \<and> lasting c' = lasting c"
    by (rule exchange [OF assms(2,4) refuses_request [OF assms(1-3)]]) (use reply in auto)
  then show ?thesis
    using send_path_eq [OF assms(5,4), of ?flds] assms(3) by (auto simp: afp_createdir_def returned32_def)
qed

lemma is_dir_refused:
  assumes "refuses e rc c0" "idle c" "lasting c = lasting c0" "\<And>n. env_malloc e n" "path_ok (cl_srv c) path" "rc \<noteq> 0"
  shows "\<exists>c'. is_dir e did path c = Some (False, c') \<and> idle c' \<and> lasting c' = lasting c0"
  using getfiledirparms_refused [OF assms(2,4,4,5) refuses_request [OF assms(1-3)], of did 0 0 "env_stack e"] assms(3,6)
  by (auto simp: is_dir_def)

lemma moveandrename_refused:
  assumes "refuses e rc c0" "idle c" "lasting c = lasting c0" "\<And>n. env_malloc e n"
    and "path_ok (cl_srv c) src" "path_ok (cl_srv c) new"
  shows "\<exists>c'. afp_moveandrename e src_did dst_did src None new c = Some (rc, c') \<and> idle c' \<and> lasting c' = lasting c0"
proof -
  have "path_ok (cl_srv c) []"
    using assms(5) by (simp add: path_ok_def)
  then show ?thesis
    using moveandrename_exchange [OF assms(2,4,5) _ assms(6) refuses_request [OF assms(1-3)], where dst = None] assms(3)
    by simp
qed

lemma invalid_filename_cong:
  "srv_using_version s = srv_using_version s' \<Longrightarrow> srv_path_encoding s = srv_path_encoding s' \<Longrightarrow>
    invalid_filename s = invalid_filename s'"
proof -
  assume "srv_using_version s = srv_using_version s'" "srv_path_encoding s = srv_path_encoding s'"
  then have "max_filename s = max_filename s'"
    by (simp add: max_filename_def)
  then show ?thesis
    by (intro ext) (simp add: invalid_filename_def split: list.splits)
qed

lemma root_name_lasting:
  assumes "root_name c0 path b" "lasting c = lasting c0"
  shows "path_ok (cl_srv c) b" "path_ok (cl_srv c) (CHR ''/'' # b)" "invalid_filename (cl_srv c) (CHR ''/'' # b) = Some False"
  using assms(1) lasting_eqD(5,6) [OF assms(2)] path_encoding_cong(2) [of "cl_srv c" "cl_srv c0"]
    invalid_filename_cong [of "cl_srv c" "cl_srv c0"]
  by (simp_all add: root_name_def)

text \<open>The result of \<open>ml_rename\<close> when every request is refused with the same code.\<close>

definition rename_errno :: "int \<Rightarrow> int" where
  "rename_errno rc =
     (if rc = kFPObjectLocked \<or> rc = kFPAccessDenied then EACCES
      else if rc = kFPCantRename then EROFS
      else if rc = kFPObjectExists then rename_again_errno rc
      else if rc = kFPObjectNotFound then 0
      else EIO)"

lemma ml_rename_refused:
  assumes "idle c" "refuses e rc c" "\<And>n. env_malloc e n" "rc \<noteq> 0" "\<not> volume_is_readonly c"
    and from_name: "root_name c path_from b1" and to_name: "root_name c path_to b2"
  shows "\<exists>c'. ml_rename e path_from path_to c = Some (- rename_errno rc, c') \<and> idle c'"
proof -
  note to1 = root_name_lasting [OF from_name] and to2 = root_name_lasting [OF to_name]
  obtain c1 where c1: "is_dir e AFP_ROOT_DID (CHR ''/'' # b2) c = Some (False, c1)" "idle c1" "lasting c1 = lasting c"
    using is_dir_refused [OF assms(2,1) refl assms(3) to2(2) [OF refl] assms(4)] by blast
  obtain c2 where c2: "afp_moveandrename e AFP_ROOT_DID AFP_ROOT_DID b1 None b2 c1 = Some (rc, c2)" "idle c2"
    "lasting c2 = lasting c"
    using moveandrename_refused [OF assms(2) c1(2,3) assms(3) to1(1) [OF c1(3)] to2(1) [OF c1(3)]] by blast
  obtain c3 where c3: "afp_delete e AFP_ROOT_DID b2 c2 = Some (rc, c3)" "idle c3" "lasting c3 = lasting c"
    using delete_refused [OF assms(2) c2(2,3) assms(3) to2(1) [OF c2(3)]] by blast
  obtain c4 where c4: "afp_moveandrename e AFP_ROOT_DID AFP_ROOT_DID b1 None b2 c3 = Some (rc, c4)" "idle c4"
    using moveandrename_refused [OF assms(2) c3(2,3) assms(3) to1(1) [OF c3(3)] to2(1) [OF c3(3)]] by blast
  have "to_afp c path_from = Some (0, CHR ''/'' # b1)" "to_afp c path_to = Some (0, CHR ''/'' # b2)"
    using from_name to_name by (simp_all add: root_name_def)
  then show ?thesis
    using c1(1) c2 c3(1) c4 assms(4,5) root_dirid [OF from_name, of e] root_dirid [OF to_name, of e]
    by (simp add: ml_rename_def rename_errno_def)
qed

lemma ml_unlink_refused:
  assumes "idle c" "refuses e rc c" "\<And>n. env_malloc e n" "rc \<noteq> 0" "\<not> volume_is_readonly c"
    and "\<not> extra_flag c VOLUME_EXTRA_FLAGS_SHOW_APPLEDOUBLE" and nm: "root_name c path b"
  shows "\<exists>c'. ml_unlink e path c = Some (- unlink_errno rc, c') \<and> idle c'"
proof -
  note ok = root_name_lasting [OF nm]
  obtain c1 where c1: "is_dir e AFP_ROOT_DID b c = Some (False, c1)" "idle c1" "lasting c1 = lasting c"
    using is_dir_refused [OF assms(2,1) refl assms(3) ok(1) [OF refl] assms(4)] by blast
  obtain c2 where c2: "afp_delete e AFP_ROOT_DID b c1 = Some (rc, c2)" "idle c2"
    using delete_refused [OF assms(2) c1(2,3) assms(3) ok(1) [OF c1(3)]] by blast
  have "to_afp c path = Some (0, CHR ''/'' # b)"
    using nm by (simp add: root_name_def)
  then show ?thesis
    using c1(1) c2 assms(5) root_dirid [OF nm, of e] ok(3) [OF c1(3)] no_shadow_files(2) [OF assms(6)]
    by (simp add: ml_unlink_def appledouble_unlink_def)
qed

lemma ml_mkdir_refused:
  assumes "idle c" "refuses e rc c" "\<And>n. env_malloc e n" "\<not> volume_is_readonly c"
    and "\<not> extra_flag c VOLUME_EXTRA_FLAGS_SHOW_APPLEDOUBLE" and nm: "root_name c path b"
  shows "\<exists>c'. ml_mkdir e path mode c = Some (- mkdir_errno rc, c') \<and> idle c'"
proof -
  obtain w c1 where c1: "afp_createdir e AFP_ROOT_DID b (unset32 e) c = Some (rc, w, c1)" "idle c1"
    using createdir_refused [OF assms(2,1) refl assms(3) root_name_lasting(1) [OF nm refl]] by blast
  have "to_afp c path = Some (0, CHR ''/'' # b)" "invalid_filename (cl_srv c) path = Some False"
    using nm by (simp_all add: root_name_def)
  then show ?thesis
    using c1 assms(4) root_dirid [OF nm, of e] no_shadow_files(2) [OF assms(5)]
    by (simp add: ml_mkdir_def appledouble_mkdir_def)
qed

lemma ml_creat_refused:
  assumes "idle c" "refuses e rc c" "\<And>n. env_malloc e n" "rc \<noteq> 0" "\<not> volume_is_readonly c"
    and "\<not> extra_flag c VOLUME_EXTRA_FLAGS_SHOW_APPLEDOUBLE" and nm: "root_name c path b"
  shows "\<exists>c'. ml_creat e path mode c = Some (- createfile_errno rc, c') \<and> idle c'"
proof -
  obtain c1 where c1: "afp_createfile e kFPSoftCreate AFP_ROOT_DID b c = Some (rc, c1)" "idle c1"
    using createfile_refused [OF assms(2,1) refl assms(3) root_name_lasting(1) [OF nm refl]] by blast
  moreover have "to_afp c path = Some (0, CHR ''/'' # b)" "createfile_errno rc \<noteq> 0"
    using nm assms(4) by (simp_all add: root_name_def createfile_errno_def)
  ultimately show ?thesis
    using assms(5) root_dirid [OF nm, of e] no_shadow_files(3) [OF assms(6)] root_name_lasting(3) [OF nm refl]
    by (simp add: ml_creat_def Let_def)
qed

subsection \<open>Main results\<close>

text \<open>(C9) A read-only volume stays as it is. Whatever sequence of changing calls the file system makes on a
  volume that is read-only, each of them returns an error, and nothing is sent to the server.\<close>

theorem readonly_volume_unchanged:
  assumes "volume_is_readonly c" and "ml_runs e calls c = Some (rs, c')"
  shows "cl_sent c' = cl_sent c \<and> c' = c \<and> (\<forall>r\<in>set rs. r < 0)"
  using assms(2)
proof (induction calls arbitrary: rs)
  case (Cons call calls)
  then show ?case
    using ml_run_readonly [OF assms(1)] by (fastforce split: bind_splits)
qed simp

lemma example_paths: "convert_path_to_afp kFPUTF8Name ''/a'' AFP_MAX_PATH = Some (0, ''/a'')"
  "convert_path_to_afp kFPUTF8Name ''/b'' AFP_MAX_PATH = Some (0, ''/b'')"
  by code_simp+

lemma example_srv:
  "srv_path_encoding (cl_srv example_client) = kFPUTF8Name" "version_number (cl_srv example_client) = 32"
  "invalid_filename (cl_srv example_client) ''/a'' = Some False" "invalid_filename (cl_srv example_client) ''/b'' = Some False"
  "cl_sent example_client = []" "cl_vol example_client = zero_volume"
  by (simp_all add: example_client_def example_server_def afp_server_init_def invalid_filename_def
      invalid_components.simps max_filename_def)

lemma example_readonly_runs:
  "ml_run (example_env (\<lambda>_. Sent [])) (Mkdir ''/a'' 0) (map_vol (vol_attributes_update (\<lambda>_. kReadOnly)) example_client) =
     Some (- EACCES, map_vol (vol_attributes_update (\<lambda>_. kReadOnly)) example_client)"
  "ml_run (example_env (\<lambda>_. Sent [])) (Rename ''/a'' ''/b'') (map_vol (vol_attributes_update (\<lambda>_. kReadOnly)) example_client) =
     Some (- EACCES, map_vol (vol_attributes_update (\<lambda>_. kReadOnly)) example_client)"
  using example_paths example_srv by (simp_all add: ml_mkdir_def ml_rename_def volume_is_readonly_def)

theorem readonly_volume_unchanged_witness:
  "\<exists>c'. ml_runs (example_env (\<lambda>_. Sent [])) [Mkdir ''/a'' 0, Rename ''/a'' ''/b'']
     (map_vol (vol_attributes_update (\<lambda>_. kReadOnly)) example_client) = Some ([- EACCES, - EACCES], c') \<and> cl_sent c' = []"
proof -
  let ?c = "map_vol (vol_attributes_update (\<lambda>_. kReadOnly)) example_client"
  have "ml_runs (example_env (\<lambda>_. Sent [])) [Mkdir ''/a'' 0, Rename ''/a'' ''/b''] ?c = Some ([- EACCES, - EACCES], ?c)"
    using example_readonly_runs by simp
  moreover have "volume_is_readonly ?c"
    by (simp add: volume_is_readonly_def)
  ultimately show ?thesis
    using readonly_volume_unchanged [of ?c "example_env (\<lambda>_. Sent [])" "[Mkdir ''/a'' 0, Rename ''/a'' ''/b'']"]
      example_srv(5) by simp
qed

text \<open>(C24) What the calls return. Every changing call on a path returns 0 or the negation of an \<open>errno\<close>.\<close>

theorem ml_calls_return_errno:
  assumes "ml_run e call c = Some (r, c')"
  shows "- 75 \<le> r \<and> r \<le> 0"
  using ml_run_errno [OF assms] by (simp add: is_errno_def)

theorem ml_calls_return_errno_witness:
  "\<exists>r c'. ml_run (example_env (\<lambda>_. Sent [])) (Mkdir ''/a'' 0)
     (map_vol (vol_attributes_update (\<lambda>_. kReadOnly)) example_client) = Some (r, c') \<and> - 75 \<le> r"
  using ml_calls_return_errno [OF example_readonly_runs(1)] example_readonly_runs(1) by auto

text \<open>(C10) Refusals. When the server refuses every request for a file in the root directory with the same code, creating,
  removing and making a directory return the \<open>errno\<close> of that code, and the session can be used again.
  Renaming a file that the server does not have returns 0, as if the file had been renamed.\<close>

theorem refused_calls:
  assumes "idle c" and "refuses e rc c" and "\<And>n. env_malloc e n" and "rc \<noteq> 0" and "\<not> volume_is_readonly c"
    and "\<not> extra_flag c VOLUME_EXTRA_FLAGS_SHOW_APPLEDOUBLE" and "root_name c path b" and "root_name c path2 b2"
  shows "(\<exists>c'. ml_run e (Creat path mode) c = Some (- createfile_errno rc, c') \<and> idle c') \<and>
    (\<exists>c'. ml_run e (Unlink path) c = Some (- unlink_errno rc, c') \<and> idle c') \<and>
    (\<exists>c'. ml_run e (Mkdir path mode) c = Some (- mkdir_errno rc, c') \<and> idle c') \<and>
    (\<exists>c'. ml_run e (Rename path path2) c = Some (- rename_errno rc, c') \<and> idle c') \<and>
    rename_errno kFPObjectNotFound = 0"
  using ml_creat_refused [OF assms(1-7)] ml_unlink_refused [OF assms(1-7)] ml_mkdir_refused [OF assms(1-3,5-7)]
    ml_rename_refused [OF assms(1-5,7,8)]
  by (simp add: rename_errno_def)

theorem refused_calls_witness:
  "\<exists>c' c''. ml_run (example_env (answering_server (word_of_int kFPObjectNotFound))) (Unlink ''/a'') example_client =
     Some (- ENOENT, c') \<and>
   ml_run (example_env (answering_server (word_of_int kFPObjectNotFound))) (Rename ''/a'' ''/b'') example_client = Some (0, c'')"
proof -
  let ?e = "example_env (answering_server (word_of_int kFPObjectNotFound))"
  have "refuses ?e (sint (word_of_int kFPObjectNotFound :: u32)) example_client"
    by (rule answering_server_refuses) (simp add: example_env_def)
  then have r: "refuses ?e kFPObjectNotFound example_client"
    by simp
  have n: "root_name example_client ''/a'' ''a''" "root_name example_client ''/b'' ''b''"
    using example_paths example_srv
    by (simp_all add: root_name_def path_ok_def path_encoding_ok_def max_path_name_def)
  have v: "\<not> volume_is_readonly example_client" "\<not> extra_flag example_client VOLUME_EXTRA_FLAGS_SHOW_APPLEDOUBLE"
    by (simp_all add: volume_is_readonly_def example_srv(6) zero_volume_def)
  have m: "\<And>n. env_malloc ?e n"
    by (simp add: example_env_def)
  have "unlink_errno kFPObjectNotFound = ENOENT"
    by (simp add: unlink_errno_def)
  then show ?thesis
    using refused_calls [OF example_client_idle r m _ v n, of 0] by auto
qed

end
