(* ===== verification/File_Attributes.thy ===== *)
theory File_Attributes
  imports Readdir_Loop Midlevel_Calls
begin

text \<open>
  The attributes of a file from the server to \<open>struct stat\<close>, and the paths of shadow files.
\<close>

unbundle bit_operations_syntax

subsection \<open>Attributes\<close>

text \<open>The \<open>struct stat\<close> of a file with Unix permissions: what the server knows of it.\<close>

definition unix_stat :: "bool \<Rightarrow> afp_file_info \<Rightarrow> stat" where
  "unix_stat isdir fi = \<lparr>st_mode = permissions fi,
     st_nlink = (if isdir then ucast (fi_offspring fi) + 2 else 1),
     st_uid = up_uid (fi_unixprivs fi), st_gid = up_gid (fi_unixprivs fi),
     st_size = (if isdir then ucast (fi_offspring fi) * 34 + 24 else fi_size fi),
     st_blksize = (if isdir then 0 else 4096), st_blocks = (if isdir then 0 else fi_size fi div 4096),
     st_ctime = fi_creation_date fi, st_mtime = fi_modification_date fi\<rparr>"

lemma getattr_bitmaps_unix:
  assumes "30 \<le> version_number (cl_srv c)" "supports_unix c"
  shows "getattr_bitmaps False c = (0x892F, 0x830F)"
  using assms by (simp add: getattr_bitmaps_def)

lemma stat_of_selected:
  assumes "30 \<le> version_number (cl_srv c)" "vol_mapping (cl_vol c) = AFP_MAPPING_COMMON"
    and "permissions fi \<noteq> 0" "permissions fi AND S_IFDIR \<noteq> 0 \<longleftrightarrow> isdir"
  shows "stat_of False (selected (if isdir then 0x830F else 0x892F) isdir fi lname uname fpp) c = (0, unix_stat isdir fi)"
  using assms
  by (cases isdir)
     (simp_all add: stat_of_def selected_def has_bit_def translate_uidgid_to_client_def zero_stat_def unix_stat_def Let_def)

lemma ll_getattr_unix:
  assumes "idle c" "reaches e tree c ns b d" "invalid_filename (cl_srv c) (path_of (ns @ [b])) = Some False"
    and "30 \<le> version_number (cl_srv c)" "supports_unix c" "vol_mapping (cl_vol c) = AFP_MAPPING_COMMON"
    and "path_ok (cl_srv c) b" "\<And>n. env_malloc e n" "entry_ok (isdir, fi, lname, uname, w, l)"
    and "permissions fi \<noteq> 0" "permissions fi AND S_IFDIR \<noteq> 0 \<longleftrightarrow> isdir"
    and "\<And>c1. idle c1 \<Longrightarrow> steady c1 = steady c \<Longrightarrow>
      answers_request e c1 (getfiledirparms_fields c1 d 0x892F 0x830F b) 0
        (getfiledirparms_body 0x892F 0x830F (isdir, fi, lname, uname, w, l))"
  shows "\<exists>c'. ll_getattr e (path_of (ns @ [b])) False c = Some (0, unix_stat isdir fi, c') \<and> idle c' \<and> steady c' = steady c"
proof -
  obtain c1 where c1: "get_dirid e (path_of (ns @ [b])) c = Some (Some (b, d), c1)" "idle c1" "steady c1 = steady c"
    using get_dirid_reaches [OF assms(2,1)] by blast
  note sd = steady_eqD [OF c1(3)]
  have v: "30 \<le> version_number (cl_srv c1)" "supports_unix c1" "path_ok (cl_srv c1) b"
    using assms(4,5,7) sd path_encoding_cong(2) [of "cl_srv c1" "cl_srv c"] by (simp_all add: supports_unix_def)
  obtain c2 where c2: "afp_getfiledirparms e d 0x892F 0x830F (Some b) (env_stack e) c1 =
      Some (0, selected (if isdir then 0x830F else 0x892F) isdir fi lname uname (env_stack e), c2)" "idle c2"
    "lasting c2 = lasting c1"
    using getfiledirparms_exchange [OF c1(2) assms(8) assms(8) v(3) assms(9) assms(12) [OF c1(2,3)]] by blast
  have s2: "steady c2 = steady c"
    using steady_lasting [OF c2(3)] c1(3) by simp
  have "stat_of False (selected (if isdir then 0x830F else 0x892F) isdir fi lname uname (env_stack e)) c2 =
      (0, unix_stat isdir fi)"
    using stat_of_selected [OF _ _ assms(10,11)] assms(4,6) steady_eqD [OF s2] by simp
  then have "ll_getattr e (path_of (ns @ [b])) False c = Some (0, unix_stat isdir fi, c2)"
    using c1(1) c2(1) assms(3) v(1) getattr_bitmaps_unix [OF v(1,2)]
    by (simp add: ll_getattr_def del: path_of_simps)
  then show ?thesis
    using c2(2) s2 by blast
qed

subsection \<open>Shadow paths\<close>

lemma strrchr_last: "CHR ''/'' \<notin> set n \<Longrightarrow> strrchr (d @ CHR ''/'' # n) CHR ''/'' = Some (length d)"
  by (simp add: strrchr_append)

lemma shadow_file:
  assumes "extra_flag c VOLUME_EXTRA_FLAGS_SHOW_APPLEDOUBLE" "\<And>n. env_malloc e n"
    and "strstr d appledouble = None" "CHR ''/'' \<notin> set n" "n \<noteq> appledouble"
  shows "extra_translate e c (d @ ''/.AppleDouble/'' @ n) =
    (let newpath = d @ CHR ''/'' # n in
     if ends_with finderinfo_string newpath then
       Some (AFP_META_FINDERINFO, Some (take (length newpath - length finderinfo_string) newpath))
     else if ends_with comment_string newpath then
       Some (AFP_META_COMMENT, Some (take (length newpath - length comment_string) newpath))
     else Some (AFP_META_RESOURCE, Some newpath))"
proof -
  let ?path = "d @ ''/.AppleDouble/'' @ n"
  have rr: "strrchr ?path CHR ''/'' = Some (length d + 13)"
    using strrchr_last [OF assms(4), of "d @ ''/.AppleDouble''"] by simp
  have ss: "strstr ?path appledouble = Some (length d + 1)"
    using strstr_behind_char [OF assms(3), of "CHR ''/''" "CHR ''/'' # n"] by simp
  have "?path \<noteq> servericon_string"
    by (rule notI, drule arg_cong [of _ _ length]) simp
  moreover have "drop (length d + 13 + 1) ?path = n" "take (length d + 1) ?path = d @ ''/''"
    by simp_all
  ultimately show ?thesis
    using assms(1,2,5) rr ss by (simp add: extra_translate_def Let_def)
qed

lemma ends_with_append: "0 < length s \<Longrightarrow> ends_with t (s @ t)"
  by (simp add: ends_with_def)

subsection \<open>Main results\<close>

text \<open>(C4) Attributes. On a volume with Unix permissions and common user identifiers, \<open>ml_getattr\<close> of a path
  whose directories the server has, and whose last component it answers for, returns mode, owner, size
  and times exactly as the server has them; the session is idle again.\<close>

theorem ml_getattr_correct:
  assumes "idle c" and "reaches e tree c ns b d" and "to_afp c (path_of (ns @ [b])) = Some (0, cp)"
    and "invalid_filename (cl_srv c) (path_of (ns @ [b])) = Some False"
    and "\<not> extra_flag c VOLUME_EXTRA_FLAGS_SHOW_APPLEDOUBLE" and "30 \<le> version_number (cl_srv c)"
    and "supports_unix c" and "vol_mapping (cl_vol c) = AFP_MAPPING_COMMON" and "path_ok (cl_srv c) b"
    and "\<And>n. env_malloc e n" and "entry_ok (isdir, fi, lname, uname, w, l)" and "permissions fi \<noteq> 0"
    and "permissions fi AND S_IFDIR \<noteq> 0 \<longleftrightarrow> isdir"
    and "\<And>c1. idle c1 \<Longrightarrow> steady c1 = steady c \<Longrightarrow>
      answers_request e c1 (getfiledirparms_fields c1 d 0x892F 0x830F b) 0
        (getfiledirparms_body 0x892F 0x830F (isdir, fi, lname, uname, w, l))"
  shows "\<exists>c'. ml_getattr e (path_of (ns @ [b])) c = Some (0, unix_stat isdir fi, c') \<and> idle c' \<and> steady c' = steady c"
  using ll_getattr_unix [OF assms(1,2,4,6-14)] assms(3) no_shadow_files(1) [OF assms(5)]
  by (simp add: ml_getattr_def appledouble_getattr_def del: path_of_simps)

definition fixed_server :: "byte list \<Rightarrow> byte list list \<Rightarrow> tx_result" where
  "fixed_server body sent = (if sent = [] then Sent [] else case rd16 (last sent) 2 of
     Some rid \<Rightarrow> Sent [Data (reply_packet rid 0 body)]
   | None \<Rightarrow> Sent [])"

lemma fixed_server_answers:
  assumes "env_net e = fixed_server body" "length body \<le> 4080"
  shows "answers_request e c flds 0 body"
proof -
  obtain c1 header where rh: "request_header DSI_DSICommand c = (c1, header)"
    by fastforce
  obtain hb where "set_length (header @ flds) = hb @ flds" "rd16 (hb @ flds) 2 = Some (srv_lastrequestid (cl_srv c1))"
    by (rule request_packet [OF rh])
  then have "answers_request e c flds (sint (0 :: u32)) body"
    using assms(1) by (intro answers_in_one_piece [OF rh _ assms(2)]) (simp add: fixed_server_def)
  then show ?thesis
    by simp
qed

definition example_file :: afp_file_info where
  "example_file = zero_file_info\<lparr>fi_size := 10000, fi_unixprivs := zero_unixprivs\<lparr>up_permissions := 0x81A4\<rparr>\<rparr>"

theorem ml_getattr_correct_witness:
  "\<exists>e c'. ml_getattr e ''/a'' (map_vol (\<lambda>v. v\<lparr>vol_extra_flags := VOLUME_EXTRA_FLAGS_VOL_SUPPORTS_UNIX,
       vol_mapping := AFP_MAPPING_COMMON\<rparr>) example_client) = Some (0, unix_stat False example_file, c')"
proof -
  let ?c = "map_vol (\<lambda>v. v\<lparr>vol_extra_flags := VOLUME_EXTRA_FLAGS_VOL_SUPPORTS_UNIX,
    vol_mapping := AFP_MAPPING_COMMON\<rparr>) example_client"
  let ?body = "getfiledirparms_body 0x892F 0x830F (False, example_file, [], [], 0, 0)"
  let ?e = "example_env (fixed_server ?body)"
  have len: "length ?body \<le> 4080"
    by (simp add: getfiledirparms_body_def entry_block_def length_reply_block example_file_def zero_file_info_def
        params_length_def block_params_def opt_bytes_def has_bit_def)
  have ans: "answers_request ?e c1 flds 0 ?body" for c1 flds
    by (rule fixed_server_answers [OF _ len]) (simp add: example_env_def)
  have "reaches ?e (\<lambda>_ _. None) ?c [] ''a'' AFP_ROOT_DID"
    by (rule reaches_root) (simp_all add: example_srv zero_volume_def)
  moreover have "to_afp ?c (path_of ([] @ [''a''])) = Some (0, ''/a'')"
    "invalid_filename (cl_srv ?c) (path_of ([] @ [''a''])) = Some False"
    using example_paths(1) example_srv by simp_all
  moreover have "idle ?c" "\<not> extra_flag ?c VOLUME_EXTRA_FLAGS_SHOW_APPLEDOUBLE" "30 \<le> version_number (cl_srv ?c)"
    "supports_unix ?c" "vol_mapping (cl_vol ?c) = AFP_MAPPING_COMMON" "path_ok (cl_srv ?c) ''a''" "\<And>n. env_malloc ?e n"
    using example_client_idle example_srv
    by (simp_all add: supports_unix_def path_ok_def path_encoding_ok_def max_path_name_def example_env_def)
  moreover have "entry_ok (False, example_file, [], [], 0, 0)" "permissions example_file \<noteq> 0"
    "(permissions example_file AND S_IFDIR \<noteq> 0) = False"
    by (simp_all add: entry_ok_def example_file_def zero_file_info_def)
  ultimately have "\<exists>c'. ml_getattr ?e (path_of ([] @ [''a''])) ?c = Some (0, unix_stat False example_file, c') \<and> idle c' \<and>
      steady c' = steady ?c"
    by (intro ml_getattr_correct [OF _ _ _ _ _ _ _ _ _ _ _ _ _ ans]) assumption+
  then show ?thesis
    by auto
qed

text \<open>(C25) Shadow files. Where a volume shows them, \<open>.AppleDouble\<close> in a directory stands for the directory, a
  name in it for the resource fork of the file, and the endings \<open>.finderinfo\<close> and \<open>.comment\<close> for its Finder
  information and its comment; in each case the path of the file is recovered.\<close>

theorem shadow_paths:
  assumes "extra_flag c VOLUME_EXTRA_FLAGS_SHOW_APPLEDOUBLE" and "\<And>n. env_malloc e n"
    and "strstr d appledouble = None" and "CHR ''/'' \<notin> set n"
  shows "extra_translate e c (d @ ''/.AppleDouble'') =
      Some (AFP_META_APPLEDOUBLE, Some (if d = [] then ''/'' else d)) \<and>
    extra_translate e c (d @ ''/.AppleDouble/'' @ n @ ''.finderinfo'') =
      Some (AFP_META_FINDERINFO, Some (d @ CHR ''/'' # n)) \<and>
    extra_translate e c (d @ ''/.AppleDouble/'' @ n @ ''.comment'') =
      Some (AFP_META_COMMENT, Some (d @ CHR ''/'' # n)) \<and>
    (n \<noteq> ''.AppleDouble'' \<longrightarrow> \<not> ends_with ''.finderinfo'' (d @ CHR ''/'' # n) \<longrightarrow> \<not> ends_with ''.comment'' (d @ CHR ''/'' # n) \<longrightarrow>
      extra_translate e c (d @ ''/.AppleDouble/'' @ n) = Some (AFP_META_RESOURCE, Some (d @ CHR ''/'' # n)))"
proof (intro conjI impI)
  let ?path = "d @ ''/.AppleDouble''"
  have "strrchr ?path CHR ''/'' = Some (length d)"
    using strrchr_last [of "''.AppleDouble''" d] by simp
  moreover have "?path \<noteq> servericon_string"
    by (rule notI, drule arg_cong [of _ _ length]) simp
  ultimately show "extra_translate e c ?path = Some (AFP_META_APPLEDOUBLE, Some (if d = [] then ''/'' else d))"
    using assms(1,2) by (simp add: extra_translate_def)
  have n: "n @ ''.finderinfo'' \<noteq> ''.AppleDouble''" "n @ ''.comment'' \<noteq> ''.AppleDouble''"
    by (auto dest: arg_cong [of _ _ last])
  have f: "ends_with ''.finderinfo'' ((d @ CHR ''/'' # n) @ ''.finderinfo'')"
    "ends_with ''.comment'' ((d @ CHR ''/'' # n) @ ''.comment'')"
    by (rule ends_with_append, simp)+
  have "\<not> ends_with ''.finderinfo'' ((d @ CHR ''/'' # n) @ ''.comment'')"
    by (auto simp: ends_with_def dest!: arg_cong [of _ _ last] split: if_splits)
  then show "extra_translate e c (d @ ''/.AppleDouble/'' @ n @ ''.comment'') =
      Some (AFP_META_COMMENT, Some (d @ CHR ''/'' # n))"
    using shadow_file [OF assms(1-3), of "n @ ''.comment''"] assms(4) n f by (simp add: Let_def)
  show "extra_translate e c (d @ ''/.AppleDouble/'' @ n @ ''.finderinfo'') =
      Some (AFP_META_FINDERINFO, Some (d @ CHR ''/'' # n))"
    using shadow_file [OF assms(1-3), of "n @ ''.finderinfo''"] assms(4) n f by (simp add: Let_def)
  assume "n \<noteq> ''.AppleDouble''" "\<not> ends_with ''.finderinfo'' (d @ CHR ''/'' # n)" "\<not> ends_with ''.comment'' (d @ CHR ''/'' # n)"
  then show "extra_translate e c (d @ ''/.AppleDouble/'' @ n) = Some (AFP_META_RESOURCE, Some (d @ CHR ''/'' # n))"
    using shadow_file [OF assms] by (simp add: Let_def)
qed

theorem shadow_paths_witness:
  "extra_translate (example_env (\<lambda>_. Sent [])) (map_vol (vol_extra_flags_update (\<lambda>_. VOLUME_EXTRA_FLAGS_SHOW_APPLEDOUBLE)) example_client)
     ''/x/.AppleDouble/y.comment'' = Some (AFP_META_COMMENT, Some ''/x/y'')"
proof -
  let ?c = "map_vol (vol_extra_flags_update (\<lambda>_. VOLUME_EXTRA_FLAGS_SHOW_APPLEDOUBLE)) example_client"
  have "extra_flag ?c VOLUME_EXTRA_FLAGS_SHOW_APPLEDOUBLE" "\<And>n. env_malloc (example_env (\<lambda>_. Sent [])) n"
    "strstr ''/x'' ''.AppleDouble'' = None" "CHR ''/'' \<notin> set ''y''"
    by (simp_all add: example_env_def starts_with_def)
  from shadow_paths [OF this] show ?thesis
    by simp
qed

end
