(* ===== verification/Afp_Url.thy ===== *)
theory Afp_Url
  imports Uams_Def
begin

text \<open>
  \<open>lib/afp_url.c\<close>: the URLs that name a server, the user that logs in, a volume and a path. The buffers
  of the structure and of the parser have fixed sizes; a call that would write behind one of them is
  \<open>None\<close>, as is a search that never ends.
\<close>

datatype e_proto = TCPIP | AT

record afp_url =
  url_protocol :: e_proto
  url_username :: string
  url_uamname :: string
  url_password :: string
  url_servername :: string
  url_port :: int
  url_volumename :: string
  url_path :: string
  url_requested_version :: int
  url_zone :: string
  url_volpassword :: string

definition afp_default_url :: afp_url where
  "afp_default_url = \<lparr>url_protocol = TCPIP, url_username = [], url_uamname = [], url_password = [], url_servername = [],
     url_port = 548, url_volumename = [], url_path = [], url_requested_version = 0, url_zone = [],
     url_volpassword = []\<rparr>"

subsection \<open>Checks\<close>

definition check_servername :: "string \<Rightarrow> bool" where
  "check_servername servername \<longleftrightarrow> strchr servername CHR ''/'' \<noteq> None"

text \<open>\<open>strtol\<close> to base ten: white space, a sign and digits; a number that does not fit is replaced by
  the largest or the smallest value.\<close>

definition is_digit :: "char \<Rightarrow> bool" where
  "is_digit c \<longleftrightarrow> 48 \<le> (of_char c :: nat) \<and> (of_char c :: nat) \<le> 57"

definition is_space :: "char \<Rightarrow> bool" where
  "is_space c \<longleftrightarrow> (of_char c :: nat) = 32 \<or> 9 \<le> (of_char c :: nat) \<and> (of_char c :: nat) \<le> 13"

definition digits_value :: "string \<Rightarrow> int" where
  "digits_value s = foldl (\<lambda>v c. 10 * v + of_char c - 48) 0 (takeWhile is_digit s)"

definition strtol :: "string \<Rightarrow> int" where
  "strtol s =
     (let s = dropWhile is_space s;
          v = (case s of c # r \<Rightarrow> if c = CHR ''-'' then - digits_value r
                 else if c = CHR ''+'' then digits_value r else digits_value s | [] \<Rightarrow> 0)
      in max (- (2 ^ 63)) (min (2 ^ 63 - 1) v))"

definition check_port :: "string \<Rightarrow> bool" where
  "check_port port = (let ret = strtol port in ret < 0 \<or> 32767 < ret)"

definition check_uamname :: "string \<Rightarrow> bool" where
  "check_uamname uam \<longleftrightarrow> uam_string_to_bitmap uam = 0"

definition check_username :: "string \<Rightarrow> bool" where
  "check_username user = False"

definition check_password :: "string \<Rightarrow> bool" where
  "check_password pass = False"

subsection \<open>Doubled characters\<close>

text \<open>The loop of \<open>escape_string\<close> with its flag.\<close>

fun escape_loop :: "char \<Rightarrow> bool \<Rightarrow> string \<Rightarrow> string" where
  "escape_loop c inescape [] = []"
| "escape_loop c inescape (d # ds) =
     (if inescape \<and> d = c then escape_loop c False ds
      else d # escape_loop c (inescape \<or> d = c) ds)"

definition escape_string :: "string \<Rightarrow> char \<Rightarrow> string option" where
  "escape_string s c = (let t = escape_loop c False s in if length t < 1024 then Some t else None)"

definition escape_url :: "afp_url \<Rightarrow> afp_url option" where
  "escape_url url =
     do { pw \<leftarrow> escape_string (url_password url) CHR ''@'';
          user \<leftarrow> escape_string (url_username url) CHR '':'';
          Some (url\<lparr>url_password := pw, url_username := user\<rparr>) }"

partial_function (option) escape_strrchr :: "string \<Rightarrow> char \<Rightarrow> string \<Rightarrow> nat option option" where
  "escape_strrchr haystack c toescape =
     (if strchr toescape c = None then Some (strrchr haystack c)
      else case strrchr haystack c of
        None \<Rightarrow> Some None
      | Some p \<Rightarrow>
          if p = 0 then Some (Some p)
          else if haystack ! (p - 1) \<noteq> c then Some (Some p)
          else if p < 2 then None
          else do { r \<leftarrow> escape_strrchr (drop (p - 2) haystack) c toescape;
                    Some (map_option ((+) (p - 2)) r) })"

declare escape_strrchr.simps [code]

function escape_strchr :: "string \<Rightarrow> char \<Rightarrow> string \<Rightarrow> nat option" where
  "escape_strchr haystack c toescape =
     (if strchr toescape c = None then strchr haystack c
      else case strchr haystack c of
        None \<Rightarrow> None
      | Some p \<Rightarrow>
          if p = length haystack then Some p
          else if (haystack @ [CHR 0x00]) ! (p + 1) \<noteq> c then Some p
          else map_option ((+) (p + 2)) (escape_strchr (drop (p + 2) haystack) c toescape))"
  by pat_completeness auto
termination
  by (relation "measure (\<lambda>(h, c, t). length h)") (auto dest: strchr_SomeD)

declare escape_strchr.simps [simp del]

subsection \<open>The parser\<close>

text \<open>A buffer of \<open>n\<close> bytes that receives a string and its terminator.\<close>

definition fits :: "nat \<Rightarrow> string \<Rightarrow> string option" where
  "fits n s = (if length s < n then Some s else None)"

text \<open>\<open>sscanf\<close> with the format \<open>%[^/]/%[^$]\<close>: the first part, and the second part where there is one.
  Without a first part its buffer stays uninitialised.\<close>

definition scan_parts :: "string \<Rightarrow> (string \<times> string option) option" where
  "scan_parts s =
     (let a = takeWhile (\<lambda>c. c \<noteq> CHR ''/'') s;
          b = takeWhile (\<lambda>c. c \<noteq> CHR ''$'') (drop (length a + 1) s)
      in if a = [] then None
         else do { firstpart \<leftarrow> fits 255 a;
                   if b = [] then Some (firstpart, None)
                   else do { secondpart \<leftarrow> fits 2048 b; Some (firstpart, Some secondpart) } })"

text \<open>The server name and the port: \<open>p\<close> points to the text behind \<open>@\<close>. The result is the name and what
  follows the colon.\<close>

definition split_server :: "string \<Rightarrow> string \<times> string option" where
  "split_server p =
     (let close = (case p of c # r \<Rightarrow> if c = CHR ''['' then strchr p CHR '']'' else None | [] \<Rightarrow> None) in
      case close of
        Some q \<Rightarrow>
          (let r = drop (q + 1) p
           in (drop 1 (take q p), map_option (\<lambda>i. drop (i + 1) r) (strchr r CHR '':'')))
      | None \<Rightarrow>
          (case strchr p CHR '':'' of None \<Rightarrow> (p, None) | Some q \<Rightarrow> (take q p, Some (drop (q + 1) p))))"

definition parse_server :: "afp_url \<Rightarrow> string \<Rightarrow> (int \<times> afp_url) option" where
  "parse_server url p =
     (let (name, port) = split_server p;
          checked = (case port of
             None \<Rightarrow> (0 :: int, url)
           | Some q \<Rightarrow>
               if check_port q then (-1, url)
               else (if strtol q = 0 then -1 else 0, url\<lparr>url_port := strtol q\<rparr>))
      in if fst checked \<noteq> 0 then Some checked
         else do { servername \<leftarrow> fits AFP_SERVER_NAME_UTF8_LEN name;
                   let url = (snd checked)\<lparr>url_servername := servername\<rparr>;
                   Some (if check_servername servername then -1 else 0, url) })"

text \<open>What precedes \<open>@\<close>: the user, the authentication method and the password.\<close>

definition parse_password :: "afp_url \<Rightarrow> string \<Rightarrow> (string \<times> int \<times> afp_url) option" where
  "parse_password url p =
     do { q \<leftarrow> escape_strrchr p CHR '':'' '':'';
          case q of
            None \<Rightarrow> Some (p, 0, url)
          | Some q \<Rightarrow>
              do { password \<leftarrow> fits AFP_MAX_PASSWORD_LEN (drop (q + 1) p);
                   Some (take q p, if check_password password then -1 else 0, url\<lparr>url_password := password\<rparr>) } }"

definition parse_uam :: "afp_url \<Rightarrow> string \<Rightarrow> (string \<times> int \<times> afp_url) option" where
  "parse_uam url p =
     (case strstr p '';AUTH='' of
        None \<Rightarrow> Some (p, 0, url)
      | Some q \<Rightarrow>
          do { uamname \<leftarrow> fits 50 (drop (q + 6) p);
               Some (take q p, if check_uamname uamname then -1 else 0, url\<lparr>url_uamname := uamname\<rparr>) })"

definition parse_user :: "afp_url \<Rightarrow> string \<Rightarrow> (int \<times> afp_url) option" where
  "parse_user url p =
     do { (p, rc, url) \<leftarrow> parse_password url p;
          if rc \<noteq> 0 then Some (rc, url)
          else do { (p, rc, url) \<leftarrow> parse_uam url p;
                    if rc \<noteq> 0 then Some (rc, url)
                    else if 0 < length p
                    then do { username \<leftarrow> fits AFP_MAX_USERNAME_LEN p;
                              Some (if check_username username then -1 else 0, url\<lparr>url_username := username\<rparr>) }
                    else Some (0, url) } }"

definition parse_secondpart :: "afp_url \<Rightarrow> string option \<Rightarrow> afp_url option" where
  "parse_secondpart url secondpart =
     (case secondpart of
        None \<Rightarrow> Some url
      | Some p \<Rightarrow>
          if length p = 0 then Some url
          else case strchr p CHR ''/'' of
            None \<Rightarrow> do { volumename \<leftarrow> fits AFP_VOLUME_NAME_UTF8_LEN p; Some (url\<lparr>url_volumename := volumename\<rparr>) }
          | Some q \<Rightarrow>
              do { volumename \<leftarrow> fits AFP_VOLUME_NAME_UTF8_LEN (take q p);
                   path \<leftarrow> fits AFP_MAX_PATH (CHR ''/'' # drop (q + 1) p);
                   Some (url\<lparr>url_volumename := volumename, url_path := path\<rparr>) })"

text \<open>The text behind \<open>://\<close>, which must follow \<open>afp\<close>: with fewer than three characters before it the
  comparison reads before the string.\<close>

definition after_scheme :: "string \<Rightarrow> string option option" where
  "after_scheme toparse =
     (case strstr toparse ''://'' of
        None \<Rightarrow> Some None
      | Some p \<Rightarrow>
          if p < 3 then None
          else if take 3 (drop (p - 3) toparse) \<noteq> ''afp'' then Some None
          else Some (Some (drop (p + 3) toparse)))"

definition afp_parse_url :: "afp_url \<Rightarrow> string \<Rightarrow> (int \<times> afp_url) option" where
  "afp_parse_url url toparse =
     do { let url = url\<lparr>url_username := [], url_servername := [], url_uamname := [], url_password := [],
            url_volumename := [], url_path := []\<rparr>;
          p \<leftarrow> after_scheme toparse;
          case p of
            None \<Rightarrow> Some (-1, url)
          | Some p \<Rightarrow>
              do { (firstpart, secondpart) \<leftarrow> scan_parts p;
                   let at = escape_strchr firstpart CHR ''@'' ''@'';
                   (rc, url) \<leftarrow> parse_server url (case at of None \<Rightarrow> firstpart | Some p \<Rightarrow> drop (p + 1) firstpart);
                   if rc \<noteq> 0 then Some (rc, url)
                   else do { (rc, url) \<leftarrow> (case at of None \<Rightarrow> Some (0, url) | Some p \<Rightarrow> parse_user url (take p firstpart));
                             if rc \<noteq> 0 then Some (rc, url)
                             else do { url \<leftarrow> parse_secondpart url secondpart;
                                       url \<leftarrow> escape_url url;
                                       Some (0, url) } } } }"

definition afp_url_validate :: "afp_url \<Rightarrow> string \<Rightarrow> afp_url \<Rightarrow> int option" where
  "afp_url_validate new_url url_string valid_url =
     do { (rc, new_url) \<leftarrow> afp_parse_url new_url url_string;
          if rc \<noteq> 0 then Some (-1)
          else if url_username new_url \<noteq> url_username valid_url then Some (-1)
          else if url_uamname new_url \<noteq> url_uamname valid_url then Some (-1)
          else if url_password new_url \<noteq> url_password valid_url then Some (-1)
          else if url_servername new_url \<noteq> url_servername valid_url then Some (-1)
          else if url_volumename new_url \<noteq> url_volumename valid_url then Some (-1)
          else Some 0 }"

subsection \<open>Writing a URL\<close>

text \<open>The longest form of a URL, as the comment of the parser gives it, with \<open>@\<close> doubled in the password
  and a colon in the name of the user.\<close>

definition doubled :: "char \<Rightarrow> string \<Rightarrow> string" where
  "doubled c s = concat (map (\<lambda>x. if x = c then [c, c] else [x]) s)"

definition url_user_part :: "afp_url \<Rightarrow> string" where
  "url_user_part u = doubled CHR '':'' (url_username u) @ '';AUTH='' @ url_uamname u @ '':'' @ doubled CHR ''@'' (url_password u)"

definition url_first_part :: "afp_url \<Rightarrow> string" where
  "url_first_part u = url_user_part u @ ''@'' @ url_servername u @ '':'' @ decimal (nat (url_port u))"

definition print_url :: "afp_url \<Rightarrow> string" where
  "print_url u = ''afp://'' @ url_first_part u @ ''/'' @ url_volumename u @ url_path u"

text \<open>The URLs that this form can express and the buffers can hold.\<close>

definition printable_url :: "afp_url \<Rightarrow> bool" where
  "printable_url u \<longleftrightarrow>
     set (url_username u) \<inter> {CHR ''/'', CHR ''@'', CHR '';''} = {} \<and> url_username u \<noteq> [] \<and>
     uam_string_to_bitmap (url_uamname u) \<noteq> 0 \<and>
     set (url_password u) \<inter> {CHR ''/'', CHR '':''} = {} \<and>
     set (url_servername u) \<inter> {CHR ''/'', CHR ''@'', CHR '':'', CHR ''[''} = {} \<and>
     0 < url_port u \<and> url_port u \<le> 32767 \<and>
     url_volumename u \<noteq> [] \<and> set (url_volumename u) \<inter> {CHR ''/'', CHR ''$''} = {} \<and>
     (\<exists>p. url_path u = CHR ''/'' # p) \<and> CHR ''$'' \<notin> set (url_path u) \<and>
     length (url_first_part u) < 255 \<and>
     length (doubled CHR '':'' (url_username u)) < AFP_MAX_USERNAME_LEN \<and>
     length (doubled CHR ''@'' (url_password u)) < AFP_MAX_PASSWORD_LEN \<and>
     length (url_volumename u) < AFP_VOLUME_NAME_UTF8_LEN \<and> length (url_path u) < AFP_MAX_PATH"

subsection \<open>Doubled characters are undone\<close>

lemma doubled_simps [simp]:
  "doubled c [] = []" "doubled c (x # xs) = (if x = c then c # c # doubled c xs else x # doubled c xs)"
  by (simp_all add: doubled_def)

lemma set_doubled [simp]: "set (doubled c s) = set s"
  by (auto simp: doubled_def)

lemma doubled_eq_Nil [simp]: "doubled c s = [] \<longleftrightarrow> s = []"
  by (cases s) auto

lemma escape_loop_doubled: "escape_loop c False (doubled c s) = s"
  by (induction s) auto

lemma length_escape_loop: "length (escape_loop c b s) \<le> length s"
  by (induction c b s rule: escape_loop.induct) auto

lemma escape_string_doubled:
  assumes "length (doubled c s) < 1024"
  shows "escape_string (doubled c s) c = Some s"
  using assms length_escape_loop [of c False "doubled c s"] by (simp add: escape_string_def escape_loop_doubled Let_def)

lemma escape_strchr_end:
  assumes "x \<noteq> c" "c \<noteq> CHR 0x00"
  shows "escape_strchr (c # x # xs) c [c] = Some 0"
  using assms by (subst escape_strchr.simps) simp

text \<open>The search passes over the doubled characters.\<close>

lemma escape_strchr_plain:
  assumes "d \<noteq> c"
  shows "escape_strchr (d # xs) c [c] = map_option Suc (escape_strchr xs c [c])"
  using assms
  by (subst (1 2) escape_strchr.simps) (auto split: option.splits simp: option.map_comp comp_def intro!: option.map_cong0)

lemma escape_strchr_pair:
  "escape_strchr (c # c # xs) c [c] = map_option ((+) 2) (escape_strchr xs c [c])"
  by (subst escape_strchr.simps) (simp add: numeral_2_eq_2)

lemma escape_strchr_doubled:
  assumes "x \<noteq> c" "c \<noteq> CHR 0x00"
  shows "escape_strchr (doubled c s @ c # x # xs) c [c] = Some (length (doubled c s))"
  by (induction s) (simp_all add: escape_strchr_plain escape_strchr_pair escape_strchr_end assms)

lemma escape_strrchr_single:
  assumes "c \<notin> set b" "a \<noteq> [] \<Longrightarrow> last a \<noteq> c"
  shows "escape_strrchr (a @ c # b) c [c] = Some (Some (length a))"
proof -
  have "a \<noteq> [] \<Longrightarrow> (a @ c # b) ! (length a - 1) = last a"
    by (simp add: nth_append last_conv_nth)
  then show ?thesis
    using assms by (subst escape_strrchr.simps) (auto simp: strrchr_append)
qed

lemma strrchr_drop:
  assumes "strrchr h c = Some p" "k \<le> p"
  shows "strrchr (drop k h) c = Some (p - k)"
proof -
  have "c \<in> set h"
    using assms(1) strrchr_eq_None_iff [of h c] by auto
  then obtain a b where h: "h = a @ c # b" "c \<notin> set b"
    by (metis split_list_last)
  then have "p = length a"
    using assms(1) strrchr_append [of c b a] by simp
  then show ?thesis
    using h assms(2) strrchr_append [of c b "drop k a"] by simp
qed

text \<open>A colon doubled at its last occurrence is searched for without end, or before the string.\<close>

lemma escape_strrchr_double:
  assumes "strrchr h c = Some (Suc i)" "h ! i = c"
  shows "escape_strrchr h c [c] = None"
proof -
  let ?P = "\<lambda>h c t (r :: nat option). \<forall>i. t = [c] \<longrightarrow> strrchr h c = Some (Suc i) \<longrightarrow> h ! i = c \<longrightarrow> False"
  have "?P h c [c] r" if "escape_strrchr h c [c] = Some r" for r
  proof (rule escape_strrchr.raw_induct [of ?P, OF _ that], intro allI impI)
    fix f :: "string \<Rightarrow> char \<Rightarrow> string \<Rightarrow> nat option option" and h c t r i
    assume IH: "\<And>h c t r. f h c t = Some r \<Longrightarrow> ?P h c t r"
      and t: "t = [c]" "strrchr h c = Some (Suc i)" "h ! i = c"
      and r: "(if strchr t c = None then Some (strrchr h c)
        else case strrchr h c of None \<Rightarrow> Some None
             | Some p \<Rightarrow> if p = 0 then Some (Some p) else if h ! (p - 1) \<noteq> c then Some (Some p) else if p < 2 then None
                 else f (drop (p - 2) h) c t \<bind> (\<lambda>r. Some (map_option ((+) (p - 2)) r))) = Some r"
    obtain r' where f: "f (drop (Suc i - 2) h) c t = Some r'" and i: "1 \<le> i"
      using r t by (auto split: if_splits bind_splits)
    have "strrchr (drop (Suc i - 2) h) c = Some (Suc 1)"
      using strrchr_drop [OF t(2), of "Suc i - 2"] i by simp
    moreover have "drop (Suc i - 2) h ! 1 = c"
      using t(3) i strrchr_SomeD(1) [OF t(2)] by simp
    ultimately show False
      using IH [OF f] t(1) by blast
  qed
  then show ?thesis
    using assms by (cases "escape_strrchr h c [c]") auto
qed

subsection \<open>Numbers\<close>

lemma of_char_digit:
  assumes "n < 10"
  shows "(of_char (char_of (48 + n) :: char) :: nat) = 48 + n" "(of_char (char_of (48 + n) :: char) :: int) = 48 + int n"
proof -
  show n: "(of_char (char_of (48 + n) :: char) :: nat) = 48 + n"
    using assms by simp
  show "(of_char (char_of (48 + n) :: char) :: int) = 48 + int n"
    using n by (metis of_nat_add of_nat_numeral of_nat_of_char)
qed

lemma decimal_digits: "x \<in> set (decimal n) \<Longrightarrow> is_digit x"
  by (induction n rule: decimal.induct) (subst (asm) (2) decimal.simps, auto simp: is_digit_def of_char_digit split: if_splits)

lemma digits_value_decimal: "digits_value (decimal n) = int n"
proof -
  have digits: "takeWhile is_digit (decimal n) = decimal n"
    by (simp add: takeWhile_eq_all_conv decimal_digits)
  have "10 * int (n div 10) + int (n mod 10) = int n" for n
    by (simp add: of_nat_div of_nat_mod)
  then have "foldl (\<lambda>v c. 10 * v + of_char c - 48) 0 (decimal n) = int n"
    by (induction n rule: decimal.induct) (subst decimal.simps, auto simp: of_char_digit)
  then show ?thesis
    unfolding digits_value_def digits .
qed

lemma decimal_neq_Nil: "decimal n \<noteq> []"
  by (subst decimal.simps) simp

lemma strtol_decimal:
  assumes "n < 2 ^ 63"
  shows "strtol (decimal n) = int n"
proof -
  obtain c r where d: "decimal n = c # r"
    using decimal_neq_Nil [of n] by (cases "decimal n") auto
  then have "is_digit c"
    using decimal_digits [of c n] by simp
  then have "\<not> is_space c" "c \<noteq> CHR ''-''" "c \<noteq> CHR ''+''"
    by (auto simp: is_digit_def is_space_def)
  then show ?thesis
    using assms digits_value_decimal [of n] by (simp add: strtol_def d)
qed

lemma known_uam:
  assumes "uam_string_to_bitmap name \<noteq> 0"
  shows "length name < 50" "set name \<inter> {CHR ''/'', CHR ''@'', CHR '':''} = {}"
proof -
  have "uam_loop name i ss \<noteq> 0 \<Longrightarrow> \<exists>s \<in> set ss. map to_lower name = map to_lower s" for i ss
    by (induction name i ss rule: uam_loop.induct) (auto simp: strcaseeq_def split: if_splits)
  then obtain s where s: "s \<in> set afp_strings" "map to_lower name = map to_lower s"
    using assms by (auto simp: uam_string_to_bitmap_def)
  have names: "list_all (\<lambda>s. length s < 50 \<and> list_all (\<lambda>c. c \<notin> set (map to_lower s)) ''/@:'') afp_strings"
    by code_simp
  show "length name < 50"
    using s names map_eq_imp_length_eq [OF s(2)] by (auto simp: list_all_iff)
  have "c \<notin> set name" if "c \<in> {CHR ''/'', CHR ''@'', CHR '':''}" for c
  proof
    assume "c \<in> set name"
    then have "to_lower c \<in> set (map to_lower s)"
      unfolding s(2) [symmetric] by simp
    moreover have "to_lower c = c"
      using that by (auto simp: to_lower_def)
    moreover have "c \<notin> set (map to_lower s)"
      using s(1) names that unfolding list_all_iff by (simp del: set_map) blast
    ultimately show False
      by metis
  qed
  then show "set name \<inter> {CHR ''/'', CHR ''@'', CHR '':''} = {}"
    by blast
qed

subsection \<open>Main results\<close>

lemma doubled_append: "doubled c (a @ b) = doubled c a @ doubled c b"
  by (simp add: doubled_def)

lemma doubled_absent: "c \<notin> set a \<Longrightarrow> doubled c a = a"
  by (induction a) auto

lemma takeWhile_until: "c \<notin> set a \<Longrightarrow> takeWhile (\<lambda>x. x \<noteq> c) (a @ c # b) = a"
  by (induction a) auto

lemma scan_first_and_second:
  assumes "CHR ''/'' \<notin> set a" "a \<noteq> []" "length a < 255" "CHR ''$'' \<notin> set b" "b \<noteq> []" "length b < 2048"
  shows "scan_parts (a @ CHR ''/'' # b) = Some (a, Some b)"
proof -
  have b: "takeWhile (\<lambda>x. x \<noteq> CHR ''$'') b = b"
    using assms(4) by (auto simp: takeWhile_eq_all_conv)
  show ?thesis
    using assms by (simp add: scan_parts_def takeWhile_until fits_def b)
qed

lemma parse_server_name_port:
  assumes "set s \<inter> {CHR ''/'', CHR '':'', CHR ''[''} = {}" "0 < n" "n \<le> 32767" "length s < AFP_SERVER_NAME_UTF8_LEN"
  shows "parse_server url (s @ CHR '':'' # decimal n) = Some (0, url\<lparr>url_port := int n, url_servername := s\<rparr>)"
proof -
  have "split_server (s @ CHR '':'' # decimal n) = (s, Some (decimal n))"
    using assms(1) by (cases s) (auto simp: split_server_def strchr_append)
  moreover have "strtol (decimal n) = int n"
    using assms(3) by (intro strtol_decimal) simp
  ultimately show ?thesis
    using assms by (simp add: parse_server_def check_port_def check_servername_def fits_def strchr_eq_None_iff Let_def)
qed

lemma parse_password_last:
  assumes "CHR '':'' \<notin> set pw" "a \<noteq> [] \<Longrightarrow> last a \<noteq> CHR '':''" "length pw < AFP_MAX_PASSWORD_LEN"
  shows "parse_password url (a @ CHR '':'' # pw) = Some (a, 0, url\<lparr>url_password := pw\<rparr>)"
  using assms(3) escape_strrchr_single [OF assms(1,2)] by (simp add: parse_password_def fits_def check_password_def)

lemma parse_uam_known:
  assumes "CHR '';'' \<notin> set user" "uam_string_to_bitmap uam \<noteq> 0"
  shows "parse_uam url (user @ '';AUTH='' @ uam) = Some (user, 0, url\<lparr>url_uamname := uam\<rparr>)"
proof -
  have "strstr (user @ '';AUTH='' @ uam) '';AUTH='' = Some (length user)"
    using strstr_first [OF assms(1), of "''AUTH=''" uam] by simp
  moreover have "drop (length user + 6) (user @ '';AUTH='' @ uam) = uam"
    by simp
  ultimately show ?thesis
    using assms(2) known_uam(1) [OF assms(2)] by (simp add: parse_uam_def fits_def check_uamname_def del: drop_append)
qed

lemma parse_user_part:
  assumes "CHR '';'' \<notin> set user" "user \<noteq> []" "uam_string_to_bitmap uam \<noteq> 0" "CHR '':'' \<notin> set pw"
    "length user < AFP_MAX_USERNAME_LEN" "length pw < AFP_MAX_PASSWORD_LEN"
  shows "parse_user url ((user @ '';AUTH='' @ uam) @ CHR '':'' # pw) =
    Some (0, url\<lparr>url_password := pw, url_uamname := uam, url_username := user\<rparr>)"
proof -
  have "uam \<noteq> []"
    using assms(3) by (auto simp: uam_string_to_bitmap_def afp_strings_def strcaseeq_def)
  then have "last (user @ '';AUTH='' @ uam) \<noteq> CHR '':''"
    using known_uam(2) [OF assms(3)] last_in_set [of uam] by (auto simp del: last_in_set)
  then have "parse_password url ((user @ '';AUTH='' @ uam) @ CHR '':'' # pw) =
      Some (user @ '';AUTH='' @ uam, 0, url\<lparr>url_password := pw\<rparr>)"
    by (rule parse_password_last [OF assms(4) _ assms(6)])
  then show ?thesis
    unfolding parse_user_def using assms(2,5) parse_uam_known [OF assms(1,3)]
    by (simp add: fits_def check_username_def del: append.simps append_assoc)
qed

lemma parse_volume_path:
  assumes "vol \<noteq> []" "CHR ''/'' \<notin> set vol" "length vol < AFP_VOLUME_NAME_UTF8_LEN" "length p + 1 < AFP_MAX_PATH"
  shows "parse_secondpart url (Some (vol @ CHR ''/'' # p)) = Some (url\<lparr>url_volumename := vol, url_path := CHR ''/'' # p\<rparr>)"
  using assms by (simp add: parse_secondpart_def strchr_append fits_def)

lemma split_at_sign:
  assumes "printable_url u"
  shows "escape_strchr (url_first_part u) CHR ''@'' ''@'' = Some (length (url_user_part u))"
proof -
  let ?a = "doubled CHR '':'' (url_username u) @ '';AUTH='' @ url_uamname u @ '':''"
  have "CHR ''@'' \<notin> set ?a"
    using assms known_uam(2) by (auto simp: printable_url_def)
  then have d: "url_user_part u = doubled CHR ''@'' (?a @ url_password u)"
    by (simp add: doubled_append doubled_absent url_user_part_def)
  obtain x xs where x: "url_servername u @ '':'' @ decimal (nat (url_port u)) = x # xs" "x \<noteq> CHR ''@''"
    using assms by (cases "url_servername u") (auto simp: printable_url_def)
  show ?thesis
    using escape_strchr_doubled [OF x(2), of "?a @ url_password u" xs] x(1) d by (simp add: url_first_part_def)
qed

lemma after_afp: "after_scheme (''afp://'' @ r) = Some (Some r)"
  by (simp add: after_scheme_def starts_with_def)

text \<open>(C21) A URL written in the form that the comment of the parser gives as the most complex one,
  with every colon of the name of the user and every at sign of the password doubled, is parsed back
  to its parts, whatever the structure held before. The user, the method, the password, the server,
  the port, the volume and the path are the ones written.\<close>

theorem afp_url_round_trip:
  assumes "printable_url u"
  shows "afp_parse_url u0 (print_url u) = Some (0, u0\<lparr>url_username := url_username u, url_uamname := url_uamname u,
    url_password := url_password u, url_servername := url_servername u, url_port := url_port u,
    url_volumename := url_volumename u, url_path := url_path u\<rparr>)"
proof -
  note u = assms [unfolded printable_url_def]
  obtain p where p: "url_path u = CHR ''/'' # p"
    using u by (elim conjE exE)
  have "CHR ''/'' \<notin> set (decimal (nat (url_port u)))"
    using decimal_digits [of "CHR ''/''"] by (auto simp: is_digit_def)
  then have "CHR ''/'' \<notin> set (url_first_part u)"
    using u known_uam(2) by (auto simp: url_first_part_def url_user_part_def)
  then have scan: "scan_parts (url_first_part u @ CHR ''/'' # url_volumename u @ CHR ''/'' # p) =
      Some (url_first_part u, Some (url_volumename u @ CHR ''/'' # p))"
    using u p by (intro scan_first_and_second) (auto simp: url_first_part_def)
  have server: "parse_server url (url_servername u @ CHR '':'' # decimal (nat (url_port u))) =
      Some (0, url\<lparr>url_port := url_port u, url_servername := url_servername u\<rparr>)" for url
    using u parse_server_name_port [of "url_servername u" "nat (url_port u)"] by (auto simp: url_first_part_def)
  have user: "parse_user url (url_user_part u) = Some (0, url\<lparr>url_password := doubled CHR ''@'' (url_password u),
      url_uamname := url_uamname u, url_username := doubled CHR '':'' (url_username u)\<rparr>)" for url
    using u parse_user_part [of "doubled CHR '':'' (url_username u)" "url_uamname u" "doubled CHR ''@'' (url_password u)" url]
    by (simp add: url_user_part_def)
  have second: "parse_secondpart url (Some (url_volumename u @ CHR ''/'' # p)) =
      Some (url\<lparr>url_volumename := url_volumename u, url_path := CHR ''/'' # p\<rparr>)" for url
    using u p by (intro parse_volume_path) auto
  have escaped: "escape_string (doubled CHR ''@'' (url_password u)) CHR ''@'' = Some (url_password u)"
    "escape_string (doubled CHR '':'' (url_username u)) CHR '':'' = Some (url_username u)"
    using u by (auto intro!: escape_string_doubled)
  have "drop (length (url_user_part u) + 1) (url_first_part u) = url_servername u @ CHR '':'' # decimal (nat (url_port u))"
    "take (length (url_user_part u)) (url_first_part u) = url_user_part u"
    by (simp_all add: url_first_part_def)
  then show ?thesis
    unfolding afp_parse_url_def print_url_def
    by (simp add: after_afp [unfolded append.simps] Let_def scan split_at_sign [OF assms] server user second escape_url_def escaped p
      del: drop_append take_append)
qed

definition example_url :: afp_url where
  "example_url = afp_default_url\<lparr>url_username := ''jo:e'', url_uamname := ''DHX2'', url_password := ''p@ss'',
     url_servername := ''nas'', url_port := 5480, url_volumename := ''Data'', url_path := ''/a/b''\<rparr>"

theorem afp_url_round_trip_witness:
  "afp_parse_url afp_default_url ''afp://jo::e;AUTH=DHX2:p@@ss@nas:5480/Data/a/b'' = Some (0, example_url)"
proof -
  have n: "decimal 5480 = ''5480''"
    by (simp add: decimal.simps) code_simp
  have first: "url_first_part example_url = ''jo::e;AUTH=DHX2:p@@ss@nas:5480''"
    by (simp add: url_first_part_def url_user_part_def example_url_def n)
  have "uam_string_to_bitmap ''DHX2'' \<noteq> 0"
    by code_simp
  then have "printable_url example_url"
    unfolding printable_url_def first by (simp add: example_url_def)
  from afp_url_round_trip [OF this, of afp_default_url] show ?thesis
    by (simp add: print_url_def first) (simp add: example_url_def)
qed

end
