(* ===== verification/Uams.thy ===== *)
theory Uams
  imports Dir_Server Uams_Def
begin

text \<open>
  \<open>lib/uams.c\<close>: the authentication methods, as the source has them with libgcrypt. That library is not part of the
  repository: its functions are the fields of a record, and what the login relies on is a predicate
  on this record. Numbers of the library are natural numbers, and every login draws its random
  bytes from the record once.
\<close>

datatype cipher = GCRY_CIPHER_DES | GCRY_CIPHER_CAST5

text \<open>The library: whether a context can be opened, a key and an initialization vector be set; encryption
  and decryption under a key and a vector; \<open>gcry_mpi_scan\<close>, the bytes that \<open>gcry_mpi_print\<close> writes to a buffer of a
  given size, \<open>gcry_mpi_powm\<close> (\<open>None\<close> if it aborts), \<open>gcry_mpi_add_ui\<close>; random bytes; MD5.\<close>

record gcrypt =
  gc_open :: "cipher \<Rightarrow> bool"
  gc_setkey :: "cipher \<Rightarrow> byte list \<Rightarrow> bool"
  gc_setiv :: "cipher \<Rightarrow> byte list \<Rightarrow> bool"
  gc_encrypt :: "cipher \<Rightarrow> byte list \<Rightarrow> byte list \<Rightarrow> byte list \<Rightarrow> byte list option"
  gc_decrypt :: "cipher \<Rightarrow> byte list \<Rightarrow> byte list \<Rightarrow> byte list \<Rightarrow> byte list option"
  gc_mpi_scan :: "byte list \<Rightarrow> nat"
  gc_mpi_print :: "nat \<Rightarrow> nat \<Rightarrow> byte list"
  gc_mpi_powm :: "nat \<Rightarrow> nat \<Rightarrow> nat \<Rightarrow> nat option"
  gc_mpi_add_ui :: "nat \<Rightarrow> nat \<Rightarrow> nat"
  gc_randomize :: "nat \<Rightarrow> byte list"
  gc_create_nonce :: "nat \<Rightarrow> byte list"
  gc_md5_dlen :: nat
  gc_md5 :: "byte list \<Rightarrow> byte list"

subsection \<open>The registered methods\<close>

datatype uam_login = Noauth_Login | Cleartxt_Login | Randnum_Login | Randnum2_Login | Dhx_Login | Dhx2_Login

record afp_uam =
  uam_bitmap :: u32
  uam_name :: string
  uam_do_server_login :: uam_login
  uam_has_server_passwd :: bool

text \<open>\<open>uam_base\<close> and \<open>uam_names_list\<close>.\<close>

record uam_registry =
  uam_base :: "afp_uam list"
  uam_names_list :: string

definition default_uams_mask :: u32 where
  "default_uams_mask = UAM_CLEARTXTPASSWRD OR (UAM_RANDNUMEXCHANGE OR UAM_2WAYRANDNUM) OR (UAM_DHCAST128 OR UAM_DHX2)"

definition register_uam :: "afp_uam \<Rightarrow> uam_registry \<Rightarrow> int \<times> uam_registry" where
  "register_uam uam r =
     (let uam = uam\<lparr>uam_bitmap := uam_string_to_bitmap (uam_name uam)\<rparr> in
      if uam_bitmap uam = 0 then (-1, r)
      else let r = r\<lparr>uam_base := uam_base r @ [uam]\<rparr> in
        if 255 < length (uam_names_list r) + 20 then (-1, r)
        else if 0 < length (uam_names_list r)
        then (0, r\<lparr>uam_names_list := uam_names_list r @ '', '' @ uam_name uam\<rparr>)
        else (0, r\<lparr>uam_names_list := uam_names_list r @ uam_name uam\<rparr>))"

definition find_uam_by_bitmap :: "uam_registry \<Rightarrow> u32 \<Rightarrow> afp_uam option" where
  "find_uam_by_bitmap r i = find (\<lambda>u. uam_bitmap u = i) (uam_base r)"

definition find_uam_by_name :: "uam_registry \<Rightarrow> string \<Rightarrow> u32" where
  "find_uam_by_name r name =
     (case find (\<lambda>u. uam_name u = name) (uam_base r) of Some u \<Rightarrow> uam_bitmap u | None \<Rightarrow> 0)"

definition uam_table :: "afp_uam list" where
  "uam_table = [
     \<lparr>uam_bitmap = UAM_CLEARTXTPASSWRD, uam_name = ''Cleartxt Passwrd'', uam_do_server_login = Cleartxt_Login, uam_has_server_passwd = True\<rparr>,
     \<lparr>uam_bitmap = UAM_NOUSERAUTHENT, uam_name = ''No User Authent'', uam_do_server_login = Noauth_Login, uam_has_server_passwd = False\<rparr>,
     \<lparr>uam_bitmap = UAM_RANDNUMEXCHANGE, uam_name = ''Randnum Exchange'', uam_do_server_login = Randnum_Login, uam_has_server_passwd = False\<rparr>,
     \<lparr>uam_bitmap = UAM_2WAYRANDNUM, uam_name = ''2-Way Randnum Exchange'', uam_do_server_login = Randnum2_Login, uam_has_server_passwd = False\<rparr>,
     \<lparr>uam_bitmap = UAM_DHCAST128, uam_name = ''DHCAST128'', uam_do_server_login = Dhx_Login, uam_has_server_passwd = False\<rparr>,
     \<lparr>uam_bitmap = UAM_DHX2, uam_name = ''DHX2'', uam_do_server_login = Dhx2_Login, uam_has_server_passwd = False\<rparr>]"

definition init_uams :: "uam_registry \<Rightarrow> uam_registry" where
  "init_uams r = fold (\<lambda>u r. snd (register_uam u r)) uam_table (r\<lparr>uam_names_list := []\<rparr>)"

subsection \<open>Blocks of authentication data\<close>

text \<open>\<open>strncpy\<close> to a field of \<open>n\<close> bytes, the name of the user in a cleared block, and a cleared receive
  buffer; the field \<open>errorcode\<close>, which nothing reads, is not set.\<close>

definition strncpy_bytes :: "nat \<Rightarrow> string \<Rightarrow> byte list" where
  "strncpy_bytes n s = take n (to_bytes s @ replicate n 0)"

definition user_block :: "nat \<Rightarrow> string \<Rightarrow> (nat \<times> byte list) option" where
  "user_block len username = copy_to_pascal (replicate len 0) 0 (to_bytes username)"

definition calloc_rx :: "nat \<Rightarrow> afp_rx_buffer" where
  "calloc_rx n = \<lparr>rx_size = 0, rx_maxsize = n, rx_data = replicate n 0, rx_errorcode = 0\<rparr>"

text \<open>A number printed to a field of \<open>n\<close> bytes and moved to its end.\<close>

definition print_right :: "gcrypt \<Rightarrow> nat \<Rightarrow> nat \<Rightarrow> byte list option" where
  "print_right g n m =
     (let b = gc_mpi_print g n m
      in if length b \<le> n then Some (replicate (n - length b) 0 @ b) else None)"

subsection \<open>No authentication, clear text\<close>

definition noauth_login :: "env \<Rightarrow> string \<Rightarrow> string \<Rightarrow> client \<Rightarrow> (int \<times> client) option" where
  "noauth_login e username passwd c =
     do { (ret, _, c) \<leftarrow> afp_login e ''No User Authent'' [] None c; Some (ret, c) }"

text \<open>A block of \<open>calloc\<close> starts at an even address, so that the parity of \<open>p\<close> is the one of its offset.\<close>

definition cleartxt_block :: "string \<Rightarrow> string \<Rightarrow> byte list option" where
  "cleartxt_block username passwd =
     do { let len = 1 + length username + 1 + 8;
          (n, ai) \<leftarrow> user_block len username;
          let p = n + 1;
          let (p, len) = (if odd p then (p, len - 1) else (p + 1, len));
          ai \<leftarrow> wr_bytes ai p (strncpy_bytes 8 passwd);
          Some (take len ai) }"

definition cleartxt_login :: "env \<Rightarrow> string \<Rightarrow> string \<Rightarrow> client \<Rightarrow> (int \<times> client) option" where
  "cleartxt_login e username passwd c =
     (if \<not> env_malloc e (1 + length username + 1 + 8) then Some (-1, c)
      else do { ai \<leftarrow> cleartxt_block username passwd;
                (ret, _, c) \<leftarrow> afp_login e ''Cleartxt Passwrd'' ai None c;
                Some (ret, c) })"

definition cleartxt_passwd :: "env \<Rightarrow> string \<Rightarrow> string \<Rightarrow> string \<Rightarrow> client \<Rightarrow> (int \<times> client) option" where
  "cleartxt_passwd e username passwd newpasswd c =
     (if \<not> env_malloc e (1 + length username + 1 + 8) then Some (-1, c)
      else do { ai \<leftarrow> cleartxt_block username passwd;
                (ret, _, c) \<leftarrow> afp_changepassword e ''Cleartxt Passwrd'' ai None c;
                Some (ret, c) })"

subsection \<open>Random numbers\<close>

definition randnum_login :: "env \<Rightarrow> gcrypt \<Rightarrow> string \<Rightarrow> string \<Rightarrow> client \<Rightarrow> (int \<times> client) option" where
  "randnum_login e g username passwd c =
     (if \<not> env_malloc e 10 \<or> \<not> env_malloc e (1 + length username) then Some (-1, c)
      else do {
        (_, ai) \<leftarrow> user_block (1 + length username) username;
        (ret, rbuf, c) \<leftarrow> afp_login e ''Randnum Exchange'' ai (Some (calloc_rx 10)) c;
        if ret \<noteq> kFPAuthContinue then Some (ret, c)
        else do {
          p \<leftarrow> map_option rx_data rbuf;
          ID \<leftarrow> rd16 p 0;
          let key_buffer = strncpy_bytes 8 passwd;
          randnum \<leftarrow> rd_bytes p 2 8;
          if \<not> gc_open g GCRY_CIPHER_DES \<or> \<not> gc_setkey g GCRY_CIPHER_DES key_buffer then Some (-1, c)
          else case gc_encrypt g GCRY_CIPHER_DES key_buffer [] randnum of
            None \<Rightarrow> Some (-1, c)
          | Some crypted \<Rightarrow>
              do { (ret, _, c) \<leftarrow> afp_logincont e ID crypted None c; Some (ret, c) } } })"

text \<open>The rotation of the key. A \<open>char\<close> is signed: shifted right by seven, one with its high bit
  set is -1, all ones.\<close>

definition sign_bits :: "byte \<Rightarrow> byte" where
  "sign_bits b = (if bit b 7 then -1 else 0)"

definition rotate_key :: "byte list \<Rightarrow> byte list" where
  "rotate_key key = map2 (\<lambda>a b. push_bit 1 a OR sign_bits b) key (drop 1 key @ take 1 key)"

definition randnum2_login :: "env \<Rightarrow> gcrypt \<Rightarrow> string \<Rightarrow> string \<Rightarrow> client \<Rightarrow> (int \<times> client) option" where
  "randnum2_login e g username passwd c =
     (if \<not> env_malloc e 10 \<or> \<not> env_malloc e (1 + length username) then Some (-1, c)
      else do {
        (_, ai) \<leftarrow> user_block (1 + length username) username;
        (ret, rbuf, c) \<leftarrow> afp_login e ''2-Way Randnum Exchange'' ai (Some (calloc_rx 10)) c;
        if ret \<noteq> kFPAuthContinue then Some (ret, c)
        else do {
          p \<leftarrow> map_option rx_data rbuf;
          ID \<leftarrow> rd16 p 0;
          randnum \<leftarrow> rd_bytes p 2 8;
          let key_buffer = rotate_key (strncpy_bytes 8 passwd);
          if \<not> gc_open g GCRY_CIPHER_DES \<or> \<not> gc_setkey g GCRY_CIPHER_DES key_buffer \<or> \<not> env_malloc e 16 then Some (-1, c)
          else case gc_encrypt g GCRY_CIPHER_DES key_buffer [] randnum of
            None \<Rightarrow> Some (-1, c)
          | Some crypted \<Rightarrow>
              do {
                let nonce = gc_create_nonce g 8;
                if \<not> env_malloc e 8 then Some (-1, c)
                else do {
                  (ret, rbuf, c) \<leftarrow> afp_logincont e ID (crypted @ nonce) (Some (calloc_rx 8)) c;
                  if ret \<noteq> kFPNoErr then Some (ret, c)
                  else case gc_encrypt g GCRY_CIPHER_DES key_buffer [] nonce of
                    None \<Rightarrow> Some (-1, c)
                  | Some crypted \<Rightarrow>
                      do { d \<leftarrow> map_option rx_data rbuf;
                           Some (if crypted \<noteq> d then kFPUserNotAuth else ret, c) } } } } })"

subsection \<open>Diffie-Hellman with fixed parameters\<close>

definition dhx_c2siv :: "byte list" where
  "dhx_c2siv = to_bytes ''LWallace''"

definition dhx_s2civ :: "byte list" where
  "dhx_s2civ = to_bytes ''CJalbert''"

definition p_binary :: "byte list" where
  "p_binary = [0xba, 0x28, 0x73, 0xdf, 0xb0, 0x60, 0x57, 0xd4, 0x3f, 0x20, 0x24, 0x74, 0x4c, 0xee, 0xe7, 0x5b]"

definition g_binary :: "byte list" where
  "g_binary = [0x07]"

text \<open>The first block: the name and \<open>Ma\<close>.\<close>

definition dhx_block :: "gcrypt \<Rightarrow> string \<Rightarrow> nat \<Rightarrow> byte list option" where
  "dhx_block g username Ma =
     do { let ai_len = 1 + length username + 1 + 16;
          (n, ai) \<leftarrow> user_block ai_len username;
          let d = n + 1;
          let (d, ai_len) = (if odd d then (d + 1, ai_len) else (d, ai_len - 1));
          public \<leftarrow> print_right g 16 Ma;
          ai \<leftarrow> wr_bytes ai d public;
          Some (take ai_len ai) }"

definition dhx_login :: "env \<Rightarrow> gcrypt \<Rightarrow> string \<Rightarrow> string \<Rightarrow> client \<Rightarrow> (int \<times> client) option" where
  "dhx_login e g username passwd c =
     do {
       let p = gc_mpi_scan g p_binary;
       let Ra = gc_mpi_scan g (gc_randomize g 32);
       Ma \<leftarrow> gc_mpi_powm g (gc_mpi_scan g g_binary) Ra p;
       if \<not> env_malloc e (1 + length username + 1 + 16) then Some (-1, c)
       else do {
         ai \<leftarrow> dhx_block g username Ma;
         if \<not> env_malloc e 50 then Some (-1, c)
         else do {
           (ret, rbuf, c) \<leftarrow> afp_login e ''DHCAST128'' ai (Some (calloc_rx 50)) c;
           if ret \<noteq> kFPAuthContinue then Some (ret, c)
           else do {
             d \<leftarrow> map_option rx_data rbuf;
             ID \<leftarrow> rd16 d 0;
             Mb \<leftarrow> map_option (gc_mpi_scan g) (rd_bytes d 2 16);
             K \<leftarrow> gc_mpi_powm g Mb Ra p;
             K_binary \<leftarrow> print_right g 16 K;
             crypted \<leftarrow> rd_bytes d 18 32;
             if \<not> gc_open g GCRY_CIPHER_CAST5 \<or> \<not> gc_setkey g GCRY_CIPHER_CAST5 K_binary \<or>
                 \<not> gc_setiv g GCRY_CIPHER_CAST5 dhx_s2civ then Some (-1, c)
             else case gc_decrypt g GCRY_CIPHER_CAST5 K_binary dhx_s2civ crypted of
               None \<Rightarrow> Some (-1, c)
             | Some plain \<Rightarrow>
                 do {
                   let new_nonce = gc_mpi_add_ui g (gc_mpi_scan g (take 16 plain)) 1;
                   if \<not> env_malloc e 80 then Some (-1, c)
                   else do {
                     nonce_binary \<leftarrow> print_right g 16 new_nonce;
                     if \<not> gc_setiv g GCRY_CIPHER_CAST5 dhx_c2siv then Some (-1, c)
                     else case gc_encrypt g GCRY_CIPHER_CAST5 K_binary dhx_c2siv (nonce_binary @ strncpy_bytes 64 passwd) of
                       None \<Rightarrow> Some (-1, c)
                     | Some ai \<Rightarrow>
                         do { (ret, _, c) \<leftarrow> afp_logincont e ID ai None c; Some (ret, c) } } } } } } }"

subsection \<open>Diffie-Hellman with parameters of the server\<close>

text \<open>The three steps of \<open>dhx2_login\<close>, each ended by an exchange: the parameters \<open>ID\<close>, \<open>g\<close>, the length of the
  large numbers, \<open>p\<close> and \<open>Mb\<close>; the session key; the nonces. The comparisons that the source puts into
  \<open>assert\<close> are strings there, which are never null, so they have no effect.\<close>

definition dhx2_parameters :: "gcrypt \<Rightarrow> byte list \<Rightarrow> (u16 \<times> nat \<times> nat \<times> nat \<times> nat) option" where
  "dhx2_parameters g d =
     do { ID \<leftarrow> rd16 d 0;
          base \<leftarrow> map_option (gc_mpi_scan g) (rd_bytes d 2 4);
          bignum_len \<leftarrow> map_option unat (rd16 d 6);
          p \<leftarrow> map_option (gc_mpi_scan g) (rd_bytes d 8 bignum_len);
          Mb \<leftarrow> map_option (gc_mpi_scan g) (rd_bytes d (8 + bignum_len) bignum_len);
          Some (ID, base, bignum_len, p, Mb) }"

text \<open>The last exchange, with the key \<open>K_hash\<close> and the server's answer \<open>d\<close> to the first nonce.\<close>

definition dhx2_finish :: "env \<Rightarrow> gcrypt \<Rightarrow> byte list \<Rightarrow> string \<Rightarrow> byte list \<Rightarrow> client \<Rightarrow> (int \<times> client) option" where
  "dhx2_finish e g K_hash passwd d c =
     do {
       ID \<leftarrow> rd16 d 0;
       crypted \<leftarrow> rd_bytes d 2 32;
       if \<not> gc_setiv g GCRY_CIPHER_CAST5 dhx_s2civ then Some (-1, c)
       else case gc_decrypt g GCRY_CIPHER_CAST5 K_hash dhx_s2civ crypted of
         None \<Rightarrow> Some (-1, c)
       | Some plain \<Rightarrow>
           do {
             let new_nonce = gc_mpi_add_ui g (gc_mpi_scan g (take 16 (drop 16 plain))) 1;
             if \<not> env_malloc e 272 then Some (-1, c)
             else do {
               nonce_binary \<leftarrow> print_right g 16 new_nonce;
               if \<not> gc_setiv g GCRY_CIPHER_CAST5 dhx_c2siv then Some (-1, c)
               else case gc_encrypt g GCRY_CIPHER_CAST5 K_hash dhx_c2siv (nonce_binary @ strncpy_bytes 256 passwd) of
                 None \<Rightarrow> Some (-1, c)
               | Some ai \<Rightarrow>
                   do { (ret, _, c) \<leftarrow> afp_logincont e ID ai None c; Some (ret, c) } } } }"

text \<open>The second exchange, which sends the client's number and nonce.\<close>

definition dhx2_session ::
  "env \<Rightarrow> gcrypt \<Rightarrow> string \<Rightarrow> u16 \<times> nat \<times> nat \<times> nat \<times> nat \<Rightarrow> client \<Rightarrow> (int \<times> client) option" where
  "dhx2_session e g passwd = (\<lambda>(ID, base, bignum_len, p, Mb) c.
     if \<not> env_malloc e bignum_len then Some (-1, c)
     else do {
       let Ra = gc_mpi_scan g (gc_randomize g bignum_len);
       Ma \<leftarrow> gc_mpi_powm g base Ra p;
       K \<leftarrow> gc_mpi_powm g Mb Ra p;
       K_binary \<leftarrow> print_right g bignum_len K;
       if \<not> env_malloc e (gc_md5_dlen g) then Some (-1, c)
       else do {
         let K_hash = gc_md5 g K_binary;
         let nonce_binary = gc_create_nonce g 16;
         if \<not> gc_open g GCRY_CIPHER_CAST5 \<or> \<not> gc_setkey g GCRY_CIPHER_CAST5 K_hash \<or>
             \<not> gc_setiv g GCRY_CIPHER_CAST5 dhx_c2siv \<or> \<not> env_malloc e (bignum_len + 16) then Some (-1, c)
         else do {
           public \<leftarrow> print_right g bignum_len Ma;
           case gc_encrypt g GCRY_CIPHER_CAST5 K_hash dhx_c2siv nonce_binary of
             None \<Rightarrow> Some (-1, c)
           | Some crypted \<Rightarrow>
               if \<not> env_malloc e 34 then Some (-1, c)
               else do {
                 (ret, rbuf, c) \<leftarrow> afp_logincont e ID (public @ crypted) (Some (calloc_rx 34)) c;
                 if ret \<noteq> kFPAuthContinue then Some (ret, c)
                 else do { d \<leftarrow> map_option rx_data rbuf; dhx2_finish e g K_hash passwd d c } } } } })"

definition dhx2_login :: "env \<Rightarrow> gcrypt \<Rightarrow> string \<Rightarrow> string \<Rightarrow> client \<Rightarrow> (int \<times> client) option" where
  "dhx2_login e g username passwd c =
     (if \<not> env_malloc e (length username + 1) \<or> \<not> env_malloc e 520 then Some (-1, c)
      else do {
        (_, ai) \<leftarrow> user_block (length username + 1) username;
        (ret, rbuf, c) \<leftarrow> afp_login e ''DHX2'' ai (Some (calloc_rx 520)) c;
        if ret \<noteq> kFPAuthContinue then Some (ret, c)
        else do {
          d \<leftarrow> map_option rx_data rbuf;
          parameters \<leftarrow> dhx2_parameters g d;
          dhx2_session e g passwd parameters c } })"

subsection \<open>Dispatch\<close>

definition do_server_login :: "env \<Rightarrow> gcrypt \<Rightarrow> uam_login \<Rightarrow> string \<Rightarrow> string \<Rightarrow> client \<Rightarrow> (int \<times> client) option" where
  "do_server_login e g l = (case l of
     Noauth_Login \<Rightarrow> noauth_login e | Cleartxt_Login \<Rightarrow> cleartxt_login e
   | Randnum_Login \<Rightarrow> randnum_login e g | Randnum2_Login \<Rightarrow> randnum2_login e g
   | Dhx_Login \<Rightarrow> dhx_login e g | Dhx2_Login \<Rightarrow> dhx2_login e g)"

definition afp_dologin :: "env \<Rightarrow> gcrypt \<Rightarrow> uam_registry \<Rightarrow> u32 \<Rightarrow> string \<Rightarrow> string \<Rightarrow> client \<Rightarrow> (int \<times> client) option" where
  "afp_dologin e g r uam username passwd c =
     (case find_uam_by_bitmap r uam of
        None \<Rightarrow> Some (-1, c)
      | Some u \<Rightarrow> do_server_login e g (uam_do_server_login u) username passwd c)"

definition afp_dopasswd ::
  "env \<Rightarrow> uam_registry \<Rightarrow> u32 \<Rightarrow> string \<Rightarrow> string \<Rightarrow> string \<Rightarrow> client \<Rightarrow> (int \<times> client) option" where
  "afp_dopasswd e r uam username oldpasswd newpasswd c =
     (case find_uam_by_bitmap r uam of
        None \<Rightarrow> Some (-1, c)
      | Some u \<Rightarrow> if uam_has_server_passwd u then cleartxt_passwd e username oldpasswd newpasswd c else Some (0, c))"

end
