(* ===== verification/Uams_Login.thy ===== *)
theory Uams_Login
  imports Uams Dir_Server
begin

text \<open>
  Logging in against a server: the two methods with a Diffie-Hellman exchange, proved to convey the password
  to a server that follows the protocol.
\<close>

subsection \<open>Numbers in network order\<close>

definition be_nat :: "byte list \<Rightarrow> nat" where
  "be_nat bs = foldl (\<lambda>n b. 256 * n + unat b) 0 bs"

fun be_bytes :: "nat \<Rightarrow> nat \<Rightarrow> byte list" where
  "be_bytes 0 m = []"
| "be_bytes (Suc n) m = be_bytes n (m div 256) @ [word_of_nat m]"

lemma length_be_bytes [simp]: "length (be_bytes n m) = n"
  by (induction n arbitrary: m) auto

lemma be_nat_simps [simp]: "be_nat [] = 0" "be_nat (bs @ [b]) = 256 * be_nat bs + unat b"
  by (simp_all add: be_nat_def)

lemma be_nat_zeros: "be_nat (replicate k 0 @ bs) = be_nat bs"
proof (induction bs rule: rev_induct)
  case Nil
  show ?case
    by (induction k) (simp_all add: replicate_append_same [symmetric])
next
  case (snoc b bs)
  then show ?case
    using be_nat_simps(2) [of "replicate k 0 @ bs" b] by simp
qed

lemma be_bytes_be_nat: "be_bytes (length bs) (be_nat bs) = bs"
proof (induction bs rule: rev_induct)
  case (snoc b bs)
  have "unat b < 256"
    using unsigned_less [of b, where 'a = nat] by simp
  then have "(256 * be_nat bs + unat b) div 256 = be_nat bs"
    by simp
  moreover have "(word_of_nat (256 * be_nat bs + unat b) :: byte) = b"
    by (simp add: word_unat_eq_iff unsigned_of_nat take_bit_eq_mod \<open>unat b < 256\<close> del: of_nat_add)
  ultimately show ?case
    using snoc by simp
qed simp

lemma be_nat_be_bytes: "m < 256 ^ n \<Longrightarrow> be_nat (be_bytes n m) = m"
proof (induction n arbitrary: m)
  case (Suc n)
  then have "be_nat (be_bytes n (m div 256)) = m div 256"
    by (intro Suc.IH) (simp add: less_mult_imp_div_less mult.commute)
  then show ?case
    by (simp add: unsigned_of_nat take_bit_eq_mod)
qed simp

lemma be_nat_less: "be_nat bs < 256 ^ length bs"
proof (induction bs rule: rev_induct)
  case (snoc b bs)
  have "unat b < 256"
    using unsigned_less [of b, where 'a = nat] by simp
  then have "256 * be_nat bs + unat b < 256 * (be_nat bs + 1)"
    by simp
  also have "\<dots> \<le> 256 * 256 ^ length bs"
    using snoc by (intro mult_le_mono) auto
  finally show ?case
    by simp
qed simp

subsection \<open>The library\<close>

text \<open>What libgcrypt documents: unsigned numbers in network order, their arithmetic, and a block cipher in a
  chaining mode, whose blocks have eight bytes, which can be undone.\<close>

definition gcrypt_ok :: "gcrypt \<Rightarrow> bool" where
  "gcrypt_ok g \<longleftrightarrow>
     (\<forall>bs. gc_mpi_scan g bs = be_nat bs) \<and>
     (\<forall>n m. m < 256 ^ n \<longrightarrow> length (gc_mpi_print g n m) \<le> n \<and> be_nat (gc_mpi_print g n m) = m) \<and>
     (\<forall>b x m. 0 < m \<longrightarrow> gc_mpi_powm g b x m = Some (b ^ x mod m)) \<and>
     (\<forall>m k. gc_mpi_add_ui g m k = m + k) \<and>
     gc_open g GCRY_CIPHER_CAST5 \<and>
     (\<forall>key. length key = 16 \<longrightarrow> gc_setkey g GCRY_CIPHER_CAST5 key) \<and>
     (\<forall>iv. length iv = 8 \<longrightarrow> gc_setiv g GCRY_CIPHER_CAST5 iv) \<and>
     (\<forall>key iv x. length key = 16 \<and> length iv = 8 \<and> 8 dvd length x \<longrightarrow>
        (\<exists>y. gc_encrypt g GCRY_CIPHER_CAST5 key iv x = Some y \<and> length y = length x \<and>
          gc_decrypt g GCRY_CIPHER_CAST5 key iv y = Some x)) \<and>
     (\<forall>n. length (gc_create_nonce g n) = n) \<and>
     gc_md5_dlen g = 16 \<and> (\<forall>x. length (gc_md5 g x) = 16)"

lemma gcrypt_okD:
  assumes "gcrypt_ok g"
  shows "gc_mpi_scan g bs = be_nat bs" "0 < m \<Longrightarrow> gc_mpi_powm g b x m = Some (b ^ x mod m)"
    "gc_mpi_add_ui g m k = m + k" "gc_open g GCRY_CIPHER_CAST5"
    "length key = 16 \<Longrightarrow> gc_setkey g GCRY_CIPHER_CAST5 key" "length iv = 8 \<Longrightarrow> gc_setiv g GCRY_CIPHER_CAST5 iv"
    "length (gc_create_nonce g n) = n" "gc_md5_dlen g = 16" "length (gc_md5 g y) = 16"
  using assms unfolding gcrypt_ok_def by (simp_all only: simp_thms)

lemma gcrypt_encrypt:
  assumes "gcrypt_ok g" "length key = 16" "length iv = 8" "8 dvd length x"
  obtains y where "gc_encrypt g GCRY_CIPHER_CAST5 key iv x = Some y" "length y = length x"
    "gc_decrypt g GCRY_CIPHER_CAST5 key iv y = Some x"
proof -
  have "\<exists>y. gc_encrypt g GCRY_CIPHER_CAST5 key iv x = Some y \<and> length y = length x \<and>
      gc_decrypt g GCRY_CIPHER_CAST5 key iv y = Some x"
    using assms by (simp add: gcrypt_ok_def)
  then show ?thesis
    using that by blast
qed

lemma print_right_eq:
  assumes "gcrypt_ok g" "m < 256 ^ n"
  shows "print_right g n m = Some (be_bytes n m)"
proof -
  let ?b = "gc_mpi_print g n m"
  let ?p = "replicate (n - length ?b) 0 @ ?b"
  have b: "length ?b \<le> n" "be_nat ?b = m"
    using assms by (simp_all add: gcrypt_ok_def)
  then have "length ?p = n" "be_nat ?p = m"
    by (simp_all add: be_nat_zeros)
  then have "be_bytes n m = ?p"
    using be_bytes_be_nat [of ?p] by simp
  then show ?thesis
    using b(1) by (simp add: print_right_def Let_def)
qed

lemma iv_lengths [simp]: "length dhx_c2siv = 8" "length dhx_s2civ = 8"
  by (simp_all add: dhx_c2siv_def dhx_s2civ_def)

lemma length_strncpy_bytes [simp]: "length (strncpy_bytes n s) = n"
  by (simp add: strncpy_bytes_def)

lemma key_agreement: "((g :: nat) ^ b mod p) ^ a mod p = (g ^ a mod p) ^ b mod p"
  by (simp add: power_mod power_mult [symmetric] mult.commute)

subsection \<open>Requests of a login\<close>

lemma talk:
  assumes "talks e peer" "idle c" "\<And>n. env_malloc e n" "sub \<notin> {0, afpRead, afpReadExt}" "w \<noteq> 0"
    and "peer (map (drop 16) (cl_sent c)) flds = (rc, body)"
    and reply: "\<And>h rest s. srv_incoming_buffer s = packet h body @ rest \<Longrightarrow>
      srv_data_read s = 16 + length body \<Longrightarrow> \<exists>rc'. afp_reply (env_malloc e) sub s x = Some (rc', s, x')"
  shows "\<exists>c'. send_fields e flds w sub x c = Some (rc, x', c') \<and> idle c' \<and> lasting c' = lasting c \<and>
    map (drop 16) (cl_sent c') = map (drop 16) (cl_sent c) @ [flds]"
proof -
  obtain c1 header where h: "request_header DSI_DSICommand c = (c1, header)"
    by fastforce
  have c1: "idle c1" "lasting c1 = lasting c" "cl_sent c1 = cl_sent c"
    using idle_header [OF assms(2), of DSI_DSICommand] request_header_simps(1) [of DSI_DSICommand c] h by simp_all
  obtain hb where hb: "length hb = 16" "set_length (header @ flds) = hb @ flds"
    by (rule request_packet [OF h])
  have "answers_request e c flds rc body"
    using assms(1,2,6) unfolding talks_def by (metis fst_conv snd_conv)
  then have a: "answers_packet e c1 (header @ flds) rc body"
    by (simp add: answers_request_def h)
  have "\<exists>c'. dsi_send e (header @ flds) w sub x c1 = Some (rc, x', c') \<and> idle c' \<and> lasting c' = lasting c1 \<and>
      cl_sent c' = cl_sent c1 @ [set_length (header @ flds)]"
    by (rule exchange_packet_sent [OF c1(1) assms(3) a assms(4,5)]) (rule reply)
  then show ?thesis
    using h c1 hb by (auto simp: send_fields_def)
qed

text \<open>The receive buffer after a reply, filled up with the zeros it was cleared with.\<close>

definition rx_received :: "nat \<Rightarrow> byte list \<Rightarrow> afp_rx_buffer" where
  "rx_received n body = (calloc_rx n)\<lparr>rx_data := take n body @ replicate (n - length body) 0\<rparr>"

lemma login_reply:
  assumes "sub \<in> {afpLogin, afpLoginCont}" "srv_incoming_buffer s = packet h body @ rest"
    and "srv_data_read s = 16 + length body"
  shows "\<exists>rc. afp_reply m sub s (Rx_Buffer (calloc_rx n)) = Some (rc, s, Rx_Buffer (rx_received n body))"
    "\<exists>rc. afp_reply m sub s No_Other = Some (rc, s, No_Other)"
proof -
  have "rd_bytes (packet h body @ rest) 16 (min (length body) n) = Some (take n body)"
    by (simp add: rd_bytes_def min_def)
  moreover have "wr_bytes (replicate n 0) 0 (take n body) = Some (take n body @ replicate (n - length body) 0)"
    by (auto simp: wr_bytes_def min_def)
  ultimately have "afp_login_reply (packet h body @ rest) (16 + length body) (Some (calloc_rx n)) = Some (0, Some (rx_received n body))"
    by (auto simp: afp_login_reply_def rx_received_def calloc_rx_def Let_def)
  then show "\<exists>rc. afp_reply m sub s (Rx_Buffer (calloc_rx n)) = Some (rc, s, Rx_Buffer (rx_received n body))"
    "\<exists>rc. afp_reply m sub s No_Other = Some (rc, s, No_Other)"
    using assms by (auto simp: afp_reply_def blank_subcommands_def store_reply_def)
qed

definition pascal :: "string \<Rightarrow> byte list" where
  "pascal s = word_of_nat (length s) # to_bytes s"

lemma pascal_bytes_eq:
  assumes "length s < 256"
  shows "pascal_bytes e s = Some (pascal s)"
  using assms by (simp add: pascal_bytes_def pascal_def copy_to_pascal_def wr_bytes_def Let_def)

definition login_fields :: "client \<Rightarrow> string \<Rightarrow> byte list \<Rightarrow> byte list" where
  "login_fields c ua_name ai = [afpLogin] @ pascal (av_name (srv_using_version (cl_srv c))) @ pascal ua_name @ ai"

lemma login_talk:
  assumes "talks e peer" "idle c" "\<And>n. env_malloc e n"
    and "length (av_name (srv_using_version (cl_srv c))) < 256" "length ua_name < 256"
    and "peer (map (drop 16) (cl_sent c)) (login_fields c ua_name ai) = (rc, body)"
  shows "\<exists>c'. afp_login e ua_name ai (Some (calloc_rx n)) c = Some (rc, Some (rx_received n body), c') \<and> idle c' \<and>
    lasting c' = lasting c \<and> map (drop 16) (cl_sent c') = map (drop 16) (cl_sent c) @ [login_fields c ua_name ai]"
proof -
  have "\<exists>c'. send_fields e (login_fields c ua_name ai) DSI_BLOCK_TIMEOUT afpLogin (Rx_Buffer (calloc_rx n)) c =
      Some (rc, Rx_Buffer (rx_received n body), c') \<and> idle c' \<and> lasting c' = lasting c \<and>
      map (drop 16) (cl_sent c') = map (drop 16) (cl_sent c) @ [login_fields c ua_name ai]"
    by (rule talk [OF assms(1-3) _ _ assms(6)]) (simp, simp, rule login_reply(1), simp)
  then show ?thesis
    using assms(3-5) by (auto simp: afp_login_def pascal_bytes_eq rx_other_def returned_rx_opt_def login_fields_def Let_def)
qed

definition logincont_fields :: "u16 \<Rightarrow> byte list \<Rightarrow> byte list" where
  "logincont_fields ID ai = [afpLoginCont, 0] @ be16 ID @ ai"

lemma logincont_talk:
  assumes "talks e peer" "idle c" "\<And>n. env_malloc e n"
    and "peer (map (drop 16) (cl_sent c)) (logincont_fields ID ai) = (rc, body)"
  shows "\<exists>c'. afp_logincont e ID ai (Some (calloc_rx n)) c = Some (rc, Some (rx_received n body), c') \<and> idle c' \<and>
      lasting c' = lasting c \<and> map (drop 16) (cl_sent c') = map (drop 16) (cl_sent c) @ [logincont_fields ID ai]"
    "\<exists>c'. afp_logincont e ID ai None c = Some (rc, None, c') \<and> idle c' \<and> lasting c' = lasting c"
proof -
  have "\<exists>c'. send_fields e (logincont_fields ID ai) DSI_LOGIN_TIMEOUT afpLoginCont (Rx_Buffer (calloc_rx n)) c =
      Some (rc, Rx_Buffer (rx_received n body), c') \<and> idle c' \<and> lasting c' = lasting c \<and>
      map (drop 16) (cl_sent c') = map (drop 16) (cl_sent c) @ [logincont_fields ID ai]"
    by (rule talk [OF assms(1-3) _ _ assms(4)]) (simp, simp, rule login_reply(1), simp)
  then show "\<exists>c'. afp_logincont e ID ai (Some (calloc_rx n)) c = Some (rc, Some (rx_received n body), c') \<and> idle c' \<and>
      lasting c' = lasting c \<and> map (drop 16) (cl_sent c') = map (drop 16) (cl_sent c) @ [logincont_fields ID ai]"
    using assms(3) by (auto simp: afp_logincont_def rx_other_def returned_rx_opt_def logincont_fields_def)
  have "\<exists>c'. send_fields e (logincont_fields ID ai) DSI_LOGIN_TIMEOUT afpLoginCont No_Other c =
      Some (rc, No_Other, c') \<and> idle c' \<and> lasting c' = lasting c \<and>
      map (drop 16) (cl_sent c') = map (drop 16) (cl_sent c) @ [logincont_fields ID ai]"
    by (rule talk [OF assms(1-3) _ _ assms(4)]) (simp, simp, rule login_reply(2), simp)
  then show "\<exists>c'. afp_logincont e ID ai None c = Some (rc, None, c') \<and> idle c' \<and> lasting c' = lasting c"
    using assms(3) by (auto simp: afp_logincont_def rx_other_def returned_rx_opt_def logincont_fields_def)
qed

lemma user_block_eq:
  assumes "length username < 256"
  shows "user_block (1 + length username + k) username = Some (length username, pascal username @ replicate k 0)"
  using assms by (simp add: user_block_def pascal_def copy_to_pascal_def wr_bytes_def Let_def)

subsection \<open>A server with DHCAST128\<close>

definition last16 :: "byte list \<Rightarrow> byte list" where
  "last16 flds = drop (length flds - 16) flds"

lemma last16_append [simp]: "length b = 16 \<Longrightarrow> last16 (a @ b) = b"
  by (simp add: last16_def)

text \<open>The server's secret is \<open>Rb\<close>; it sends \<open>nonce\<close> and accepts its successor with the password \<open>secret\<close> behind it. The key
  follows from the number at the end of the request for login.\<close>

definition dhx_key :: "nat \<Rightarrow> byte list \<Rightarrow> byte list" where
  "dhx_key Rb flds = be_bytes 16 (be_nat (last16 flds) ^ Rb mod be_nat p_binary)"

definition dhx_peer :: "gcrypt \<Rightarrow> nat \<Rightarrow> nat \<Rightarrow> u16 \<Rightarrow> byte list \<Rightarrow> peer" where
  "dhx_peer g Rb nonce ID secret history flds =
     (if take 1 flds = [afpLogin]
      then (kFPAuthContinue, be16 ID @ be_bytes 16 (7 ^ Rb mod be_nat p_binary) @
        (case gc_encrypt g GCRY_CIPHER_CAST5 (dhx_key Rb flds) dhx_s2civ (be_bytes 16 nonce @ replicate 16 0) of
           Some x \<Rightarrow> x | None \<Rightarrow> []))
      else (if history \<noteq> [] \<and> gc_decrypt g GCRY_CIPHER_CAST5 (dhx_key Rb (last history)) dhx_c2siv (drop 4 flds) =
          Some (be_bytes 16 (nonce + 1) @ secret) then 0 else kFPUserNotAuth, []))"

lemma p_binary_bounds: "0 < be_nat p_binary" "be_nat p_binary < 256 ^ 16"
  by (simp_all add: be_nat_def p_binary_def)

lemma less_p_binary: "x mod be_nat p_binary < 256 ^ 16"
  using p_binary_bounds mod_less_divisor less_trans by blast

lemma dhx_block_eq:
  assumes "gcrypt_ok g" "length username < 256" "Ma < 256 ^ 16"
  shows "\<exists>pad. dhx_block g username Ma = Some (pad @ be_bytes 16 Ma)"
proof -
  have u: "user_block (1 + length username + 1 + 16) username = Some (length username, pascal username @ replicate 17 0)"
    using user_block_eq [OF assms(2), of 17] by simp
  have l: "length (pascal username) = length username + 1"
    by (simp add: pascal_def)
  have z: "replicate 17 (0 :: byte) = 0 # replicate 16 0" "replicate 17 (0 :: byte) = replicate 16 0 @ [0]"
    by (simp_all add: numeral_eq_Suc)
  have "wr_bytes (pascal username @ replicate 17 0) (length username + 2) (be_bytes 16 Ma) =
      Some (pascal username @ [0] @ be_bytes 16 Ma)"
    using l by (simp add: wr_bytes_def z(1))
  moreover have "wr_bytes (pascal username @ replicate 17 0) (length username + 1) (be_bytes 16 Ma) =
      Some (pascal username @ be_bytes 16 Ma @ [0])"
    using l by (simp add: wr_bytes_def z(2))
  ultimately show ?thesis
    using l u print_right_eq [OF assms(1,3)]
    by (cases "even (length username)") (simp_all add: dhx_block_def Let_def)
qed

lemma rx_received_exactly: "length body = n \<Longrightarrow> rx_data (rx_received n body) = body"
  by (simp add: rx_received_def)

lemma rd16_be16 [simp]: "rd16 (be16 x @ rest) 0 = Some x"
  by (rule f16.rd_holds_at [of _ _ _ rest]) (simp add: holds_at_def)

lemma dhx_exchange:
  assumes "gcrypt_ok g" "talks e (dhx_peer g Rb nonce ID secret)" "idle c" "\<And>n. env_malloc e n"
    and "length username < 256" "length (av_name (srv_using_version (cl_srv c))) < 256" "nonce + 1 < 256 ^ 16"
  shows "\<exists>c'. dhx_login e g username passwd c =
      Some (if strncpy_bytes 64 passwd = secret then 0 else kFPUserNotAuth, c') \<and> idle c' \<and> lasting c' = lasting c"
proof -
  note g = gcrypt_okD [OF assms(1)]
  define p where "p = be_nat p_binary"
  define Ra where "Ra = be_nat (gc_randomize g 32)"
  define Ma where "Ma = 7 ^ Ra mod p"
  define K where "K = be_bytes 16 (Ma ^ Rb mod p)"
  have p: "0 < p" "\<And>x. x mod p < 256 ^ 16"
    using p_binary_bounds(1) less_p_binary by (simp_all add: p_def)
  have be: "be_nat (be_bytes 16 (x mod p)) = x mod p" "print_right g 16 (x mod p) = Some (be_bytes 16 (x mod p))" for x
    by (rule be_nat_be_bytes [OF p(2)], rule print_right_eq [OF assms(1) p(2)])
  have nonce: "be_nat (be_bytes 16 nonce) = nonce" "print_right g 16 (nonce + 1) = Some (be_bytes 16 (nonce + 1))"
    using assms(7) by (intro be_nat_be_bytes, linarith, intro print_right_eq assms(1))
  obtain pad where ai: "dhx_block g username Ma = Some (pad @ be_bytes 16 Ma)"
    using dhx_block_eq [OF assms(1,5) p(2)] by (auto simp: Ma_def)
  define flds where "flds = login_fields c ''DHCAST128'' (pad @ be_bytes 16 Ma)"
  have "last16 flds = be_bytes 16 Ma"
    using last16_append [of "be_bytes 16 Ma" "[afpLogin] @ pascal (av_name (srv_using_version (cl_srv c))) @ pascal ''DHCAST128'' @ pad"]
    by (simp add: flds_def login_fields_def)
  then have key: "dhx_key Rb flds = K"
    by (simp add: dhx_key_def K_def be Ma_def p_def [symmetric])
  obtain x where x: "gc_encrypt g GCRY_CIPHER_CAST5 K dhx_s2civ (be_bytes 16 nonce @ replicate 16 0) = Some x"
    "length x = 32" "gc_decrypt g GCRY_CIPHER_CAST5 K dhx_s2civ x = Some (be_bytes 16 nonce @ replicate 16 0)"
    by (rule gcrypt_encrypt [OF assms(1), of K dhx_s2civ "be_bytes 16 nonce @ replicate 16 0"]) (simp_all add: K_def)
  obtain y where y: "gc_encrypt g GCRY_CIPHER_CAST5 K dhx_c2siv (be_bytes 16 (nonce + 1) @ strncpy_bytes 64 passwd) = Some y"
    "gc_decrypt g GCRY_CIPHER_CAST5 K dhx_c2siv y = Some (be_bytes 16 (nonce + 1) @ strncpy_bytes 64 passwd)"
    by (rule gcrypt_encrypt [OF assms(1), of K dhx_c2siv "be_bytes 16 (nonce + 1) @ strncpy_bytes 64 passwd"]) (simp_all add: K_def)
  define body where "body = be16 ID @ be_bytes 16 (7 ^ Rb mod p) @ x"
  have "dhx_peer g Rb nonce ID secret h flds = (kFPAuthContinue, body)" for h
    using x(1) key by (simp add: dhx_peer_def body_def p_def) (simp add: flds_def login_fields_def)
  then obtain c1 where c1: "afp_login e ''DHCAST128'' (pad @ be_bytes 16 Ma) (Some (calloc_rx 50)) c =
      Some (kFPAuthContinue, Some (rx_received 50 body), c1)" "idle c1" "lasting c1 = lasting c"
      "map (drop 16) (cl_sent c1) = map (drop 16) (cl_sent c) @ [flds]"
    using login_talk [OF assms(2-4,6), of "''DHCAST128''"] unfolding flds_def by fastforce
  have body: "rx_data (rx_received 50 body) = body" "rd16 body 0 = Some ID"
    "rd_bytes body 2 16 = Some (be_bytes 16 (7 ^ Rb mod p))" "rd_bytes body 18 32 = Some x"
    using x(2) by (simp_all add: body_def rx_received_exactly rd_bytes_def)
  have peer: "dhx_peer g Rb nonce ID secret (map (drop 16) (cl_sent c1)) (logincont_fields ID y) =
      (if strncpy_bytes 64 passwd = secret then 0 else kFPUserNotAuth, [])"
    using y(2) key c1(4) by (simp add: dhx_peer_def logincont_fields_def be16_def)
  obtain c' where c': "afp_logincont e ID y None c1 = Some (if strncpy_bytes 64 passwd = secret then 0 else kFPUserNotAuth, None, c')"
    "idle c'" "lasting c' = lasting c1"
    using logincont_talk(2) [OF assms(2) c1(2) assms(4) peer] by blast
  have "gc_mpi_powm g (be_nat (be_bytes 16 (7 ^ Rb mod p))) Ra p = Some (Ma ^ Rb mod p)"
    using g(2) [OF p(1)] by (simp add: be Ma_def key_agreement)
  moreover have "be_nat g_binary = 7"
    by (simp add: be_nat_def g_binary_def)
  ultimately have "dhx_login e g username passwd c = Some (if strncpy_bytes 64 passwd = secret then 0 else kFPUserNotAuth, c')"
    unfolding dhx_login_def g Let_def p_def [symmetric] Ra_def [symmetric]
    using g(2) [OF p(1)] ai c1(1) c'(1) body x(3) y(1) nonce be
    by (simp add: assms(4) g Ma_def [symmetric] K_def)
  then show ?thesis
    using c' c1 by simp
qed

subsection \<open>A server with DHX2\<close>

text \<open>The parameters of the server; \<open>d2_echo\<close> is what it sends back for the client's nonce.\<close>

record dhx2_server =
  d2_base :: nat
  d2_p :: nat
  d2_len :: nat
  d2_Rb :: nat
  d2_nonce :: nat
  d2_echo :: "byte list \<Rightarrow> byte list"
  d2_id :: u16
  d2_password :: "byte list"

definition dhx2_ok :: "dhx2_server \<Rightarrow> bool" where
  "dhx2_ok s \<longleftrightarrow> d2_base s < 256 ^ 4 \<and> 0 < d2_p s \<and> d2_p s < 256 ^ d2_len s \<and> d2_len s \<le> 256 \<and>
     d2_nonce s + 1 < 256 ^ 16 \<and> (\<forall>n. length (d2_echo s n) = 16)"

text \<open>The key follows from the number at the front of the second request.\<close>

definition dhx2_key :: "gcrypt \<Rightarrow> dhx2_server \<Rightarrow> byte list \<Rightarrow> byte list" where
  "dhx2_key g s flds = gc_md5 g (be_bytes (d2_len s) (be_nat (take (d2_len s) (drop 4 flds)) ^ d2_Rb s mod d2_p s))"

definition dhx2_peer :: "gcrypt \<Rightarrow> dhx2_server \<Rightarrow> peer" where
  "dhx2_peer g s history flds =
     (if take 1 flds = [afpLogin]
      then (kFPAuthContinue, be16 (d2_id s) @ be_bytes 4 (d2_base s) @ be16 (word_of_nat (d2_len s)) @
        be_bytes (d2_len s) (d2_p s) @ be_bytes (d2_len s) (d2_base s ^ d2_Rb s mod d2_p s))
      else if history = [] then (kFPUserNotAuth, [])
      else if take 1 (last history) = [afpLogin]
      then (kFPAuthContinue, be16 (d2_id s) @
        (case gc_decrypt g GCRY_CIPHER_CAST5 (dhx2_key g s flds) dhx_c2siv (drop (4 + d2_len s) flds) of
           Some n \<Rightarrow> (case gc_encrypt g GCRY_CIPHER_CAST5 (dhx2_key g s flds) dhx_s2civ (d2_echo s n @ be_bytes 16 (d2_nonce s)) of
             Some x \<Rightarrow> x | None \<Rightarrow> [])
         | None \<Rightarrow> []))
      else (if gc_decrypt g GCRY_CIPHER_CAST5 (dhx2_key g s (last history)) dhx_c2siv (drop 4 flds) =
          Some (be_bytes 16 (d2_nonce s + 1) @ d2_password s) then 0 else kFPUserNotAuth, []))"

lemma rd_bytes_prefix: "n = length b \<Longrightarrow> p = length a \<Longrightarrow> rd_bytes (a @ b @ r) p n = Some b"
  by (simp add: rd_bytes_def)

lemma dhx2_parameters_eq:
  assumes "gcrypt_ok g" "dhx2_ok s"
  shows "dhx2_parameters g ((be16 (d2_id s) @ be_bytes 4 (d2_base s) @ be16 (word_of_nat (d2_len s)) @
      be_bytes (d2_len s) (d2_p s) @ be_bytes (d2_len s) (d2_base s ^ d2_Rb s mod d2_p s)) @ rest) =
    Some (d2_id s, d2_base s, d2_len s, d2_p s, d2_base s ^ d2_Rb s mod d2_p s)" (is "_ (?body @ rest) = _")
proof -
  note s = assms(2) [unfolded dhx2_ok_def]
  have l: "unat (word_of_nat (d2_len s) :: u16) = d2_len s"
    using s by (simp add: unat_of_nat)
  have "rd16 (?body @ rest) 6 = Some (word_of_nat (d2_len s))"
    by (rule f16.rd_holds_at [of _ _ _ "be_bytes (d2_len s) (d2_p s) @ be_bytes (d2_len s) (d2_base s ^ d2_Rb s mod d2_p s) @ rest"])
       (simp add: holds_at_def)
  moreover have "rd_bytes (?body @ rest) 2 4 = Some (be_bytes 4 (d2_base s))"
    "rd_bytes (?body @ rest) 8 (d2_len s) = Some (be_bytes (d2_len s) (d2_p s))"
    "rd_bytes (?body @ rest) (8 + d2_len s) (d2_len s) = Some (be_bytes (d2_len s) (d2_base s ^ d2_Rb s mod d2_p s))"
    by (simp_all add: rd_bytes_def)
  moreover have "be_nat (be_bytes 4 (d2_base s)) = d2_base s" "be_nat (be_bytes (d2_len s) (d2_p s)) = d2_p s"
    using s by (simp_all only: be_nat_be_bytes)
  moreover have "be_nat (be_bytes (d2_len s) (x mod d2_p s)) = x mod d2_p s" for x
    using s by (intro be_nat_be_bytes) (meson less_trans mod_less_divisor)
  ultimately show ?thesis
    using l by (simp add: dhx2_parameters_def gcrypt_okD [OF assms(1)])
qed

lemma dhx2_finish_eq:
  assumes "gcrypt_ok g" "\<And>n. env_malloc e n" "length K = 16" "length echo = 16" "nonce + 1 < 256 ^ 16"
    and "gc_decrypt g GCRY_CIPHER_CAST5 K dhx_s2civ x = Some (echo @ be_bytes 16 nonce)" "length x = 32"
    and "gc_encrypt g GCRY_CIPHER_CAST5 K dhx_c2siv (be_bytes 16 (nonce + 1) @ strncpy_bytes 256 passwd) = Some y"
    and "afp_logincont e ID y None c = Some (ret, None, c')"
  shows "dhx2_finish e g K passwd (be16 ID @ x) c = Some (ret, c')"
proof -
  have "be_nat (be_bytes 16 nonce) = nonce" "print_right g 16 (nonce + 1) = Some (be_bytes 16 (nonce + 1))"
    using assms(5) by (intro be_nat_be_bytes, linarith, intro print_right_eq assms(1))
  moreover have "rd_bytes (be16 ID @ x) 2 32 = Some x"
    using assms(7) by (simp add: rd_bytes_def)
  ultimately show ?thesis
    unfolding dhx2_finish_def using assms(2-4,6,8,9) by (simp add: gcrypt_okD [OF assms(1)])
qed

text \<open>The answers of the server to the second and to the last request.\<close>

lemma dhx2_second_answer:
  assumes "gcrypt_ok g" "dhx2_ok s" "talks e (dhx2_peer g s)" "idle c" "\<And>n. env_malloc e n"
    and "map (drop 16) (cl_sent c) = h @ [flds]" "take 1 flds = [afpLogin]"
    and "dhx2_key g s (logincont_fields (d2_id s) ai) = K" "drop (4 + d2_len s) (logincont_fields (d2_id s) ai) = x"
    and "take 1 (logincont_fields (d2_id s) ai) \<noteq> [afpLogin]" "length K = 16" "length n = 16"
    and "gc_decrypt g GCRY_CIPHER_CAST5 K dhx_c2siv x = Some n"
  shows "\<exists>y c2. length y = 32 \<and>
      gc_decrypt g GCRY_CIPHER_CAST5 K dhx_s2civ y = Some (d2_echo s n @ be_bytes 16 (d2_nonce s)) \<and>
      afp_logincont e (d2_id s) ai (Some (calloc_rx 34)) c =
      Some (kFPAuthContinue, Some (rx_received 34 (be16 (d2_id s) @ y)), c2) \<and> idle c2 \<and> lasting c2 = lasting c \<and>
      map (drop 16) (cl_sent c2) = map (drop 16) (cl_sent c) @ [logincont_fields (d2_id s) ai]"
proof -
  let ?m = "d2_echo s n @ be_bytes 16 (d2_nonce s)"
  obtain y where y: "gc_encrypt g GCRY_CIPHER_CAST5 K dhx_s2civ ?m = Some y" "length y = 32"
    "gc_decrypt g GCRY_CIPHER_CAST5 K dhx_s2civ y = Some ?m"
    by (rule gcrypt_encrypt [OF assms(1), of K dhx_s2civ ?m]) (use assms(2,11) in \<open>simp_all add: dhx2_ok_def\<close>)
  have "dhx2_peer g s (map (drop 16) (cl_sent c)) (logincont_fields (d2_id s) ai) = (kFPAuthContinue, be16 (d2_id s) @ y)"
    using assms(6-10,13) y(1) by (simp add: dhx2_peer_def)
  from logincont_talk(1) [OF assms(3-5) this, of 34] y(2,3) show ?thesis
    by blast
qed

lemma dhx2_last_answer:
  assumes "gcrypt_ok g" "dhx2_ok s" "talks e (dhx2_peer g s)" "idle c" "\<And>n. env_malloc e n"
    and "map (drop 16) (cl_sent c) = h @ [flds2]" "take 1 flds2 \<noteq> [afpLogin]"
    and "dhx2_key g s flds2 = K" "length K = 16" "length y = 32"
    and "gc_decrypt g GCRY_CIPHER_CAST5 K dhx_s2civ y = Some (d2_echo s n @ be_bytes 16 (d2_nonce s))"
  shows "\<exists>c'. dhx2_finish e g K passwd (be16 (d2_id s) @ y) c =
      Some (if strncpy_bytes 256 passwd = d2_password s then 0 else kFPUserNotAuth, c') \<and> idle c' \<and> lasting c' = lasting c"
proof -
  let ?m = "be_bytes 16 (d2_nonce s + 1) @ strncpy_bytes 256 passwd"
  obtain z where z: "gc_encrypt g GCRY_CIPHER_CAST5 K dhx_c2siv ?m = Some z"
    "gc_decrypt g GCRY_CIPHER_CAST5 K dhx_c2siv z = Some ?m"
    by (rule gcrypt_encrypt [OF assms(1), of K dhx_c2siv ?m]) (simp_all add: assms(9))
  have peer: "dhx2_peer g s (map (drop 16) (cl_sent c)) (logincont_fields (d2_id s) z) =
      (if strncpy_bytes 256 passwd = d2_password s then 0 else kFPUserNotAuth, [])"
    using z(2) assms(6-8) by (simp add: dhx2_peer_def logincont_fields_def be16_def)
  obtain c' where c': "afp_logincont e (d2_id s) z None c =
      Some (if strncpy_bytes 256 passwd = d2_password s then 0 else kFPUserNotAuth, None, c')" "idle c'" "lasting c' = lasting c"
    using logincont_talk(2) [OF assms(3-5) peer] by blast
  have "dhx2_finish e g K passwd (be16 (d2_id s) @ y) c =
      Some (if strncpy_bytes 256 passwd = d2_password s then 0 else kFPUserNotAuth, c')"
    by (rule dhx2_finish_eq [OF assms(1,5,9) _ _ assms(11,10) z(1) c'(1)]) (use assms(2) in \<open>simp_all add: dhx2_ok_def\<close>)
  then show ?thesis
    using c'(2,3) by blast
qed

text \<open>The second and the third exchange, after the request \<open>flds\<close> for login.\<close>

lemma dhx2_session_eq:
  assumes "gcrypt_ok g" "dhx2_ok s" "talks e (dhx2_peer g s)" "idle c" "\<And>n. env_malloc e n"
    and "map (drop 16) (cl_sent c) = h @ [flds]" "take 1 flds = [afpLogin]"
  shows "\<exists>c'. dhx2_session e g passwd (d2_id s, d2_base s, d2_len s, d2_p s, d2_base s ^ d2_Rb s mod d2_p s) c =
      Some (if strncpy_bytes 256 passwd = d2_password s then 0 else kFPUserNotAuth, c') \<and> idle c' \<and> lasting c' = lasting c"
proof -
  note g = gcrypt_okD [OF assms(1)]
  note s = assms(2) [unfolded dhx2_ok_def]
  define l where "l = d2_len s"
  define p where "p = d2_p s"
  define Ra where "Ra = be_nat (gc_randomize g l)"
  define Ma where "Ma = d2_base s ^ Ra mod p"
  define K where "K = gc_md5 g (be_bytes l (Ma ^ d2_Rb s mod p))"
  define n where "n = gc_create_nonce g 16"
  have "0 < p" "p < 256 ^ l"
    using s by (simp_all add: p_def l_def)
  then have p: "0 < p" "\<And>x. x mod p < 256 ^ l"
    by (simp, metis less_trans mod_less_divisor)
  have be: "be_nat (be_bytes l (x mod p)) = x mod p" "print_right g l (x mod p) = Some (be_bytes l (x mod p))" for x
    by (rule be_nat_be_bytes [OF p(2)], rule print_right_eq [OF assms(1) p(2)])
  have K: "length K = 16" "length n = 16"
    by (simp_all add: K_def n_def g)
  obtain x where x: "gc_encrypt g GCRY_CIPHER_CAST5 K dhx_c2siv n = Some x" "length x = 16"
    "gc_decrypt g GCRY_CIPHER_CAST5 K dhx_c2siv x = Some n"
    by (rule gcrypt_encrypt [OF assms(1), of K dhx_c2siv n]) (simp_all add: K)
  define flds2 where "flds2 = logincont_fields (d2_id s) (be_bytes l Ma @ x)"
  have "drop 4 flds2 = be_bytes l Ma @ x"
    by (simp add: flds2_def logincont_fields_def be16_def)
  then have fl: "take l (drop 4 flds2) = be_bytes l Ma" "drop (4 + l) flds2 = x"
    by (simp_all add: add.commute [of 4] flip: drop_drop)
  have fl2: "drop (4 + d2_len s) flds2 = x"
    using fl(2) by (simp add: l_def)
  have fl3: "take 1 flds2 \<noteq> [afpLogin]"
    by (simp add: flds2_def logincont_fields_def)
  have key: "dhx2_key g s flds2 = K"
    using fl(1) by (simp add: dhx2_key_def K_def be Ma_def l_def [symmetric] p_def [symmetric])
  obtain y c2 where y: "length y = 32"
      "gc_decrypt g GCRY_CIPHER_CAST5 K dhx_s2civ y = Some (d2_echo s n @ be_bytes 16 (d2_nonce s))"
    and c2: "afp_logincont e (d2_id s) (be_bytes l Ma @ x) (Some (calloc_rx 34)) c =
      Some (kFPAuthContinue, Some (rx_received 34 (be16 (d2_id s) @ y)), c2)" "idle c2" "lasting c2 = lasting c"
      "map (drop 16) (cl_sent c2) = map (drop 16) (cl_sent c) @ [flds2]"
    using dhx2_second_answer [OF assms(1-7) key [unfolded flds2_def] fl2 [unfolded flds2_def]
        fl3 [unfolded flds2_def] K x(3)] unfolding flds2_def by blast
  obtain c' where c': "dhx2_finish e g K passwd (be16 (d2_id s) @ y) c2 =
      Some (if strncpy_bytes 256 passwd = d2_password s then 0 else kFPUserNotAuth, c')" "idle c'" "lasting c' = lasting c2"
    using dhx2_last_answer [OF assms(1-3) c2(2) assms(5) _ fl3 key K(1) y(1,2)] c2(4) by auto
  have rx: "rx_data (rx_received 34 (be16 (d2_id s) @ y)) = be16 (d2_id s) @ y"
    using y(1) by (simp add: rx_received_exactly)
  have "gc_mpi_powm g (d2_base s ^ d2_Rb s mod p) Ra p = Some (Ma ^ d2_Rb s mod p)" "print_right g l Ma = Some (be_bytes l Ma)"
    using g(2) [OF p(1)] be(2) by (simp_all add: Ma_def key_agreement)
  then have "dhx2_session e g passwd (d2_id s, d2_base s, l, p, d2_base s ^ d2_Rb s mod p) c =
      Some (if strncpy_bytes 256 passwd = d2_password s then 0 else kFPUserNotAuth, c')"
    unfolding dhx2_session_def g Let_def
    using g(2) [OF p(1)] c2(1) c'(1) rx x(1) be
    by (simp add: assms(5) g K_def [symmetric] n_def [symmetric] Ma_def [symmetric] Ra_def [symmetric] K)
  then show ?thesis
    using c' c2 by (simp add: l_def p_def)
qed

lemma dhx2_exchange:
  assumes "gcrypt_ok g" "dhx2_ok s" "talks e (dhx2_peer g s)" "idle c" "\<And>n. env_malloc e n"
    and "length username < 256" "length (av_name (srv_using_version (cl_srv c))) < 256"
  shows "\<exists>c'. dhx2_login e g username passwd c =
      Some (if strncpy_bytes 256 passwd = d2_password s then 0 else kFPUserNotAuth, c') \<and> idle c' \<and> lasting c' = lasting c"
proof -
  define flds where "flds = login_fields c ''DHX2'' (pascal username)"
  define body where "body = be16 (d2_id s) @ be_bytes 4 (d2_base s) @ be16 (word_of_nat (d2_len s)) @
    be_bytes (d2_len s) (d2_p s) @ be_bytes (d2_len s) (d2_base s ^ d2_Rb s mod d2_p s)"
  have flds: "take 1 flds = [afpLogin]"
    by (simp add: flds_def login_fields_def)
  then have "dhx2_peer g s h flds = (kFPAuthContinue, body)" for h
    by (simp add: dhx2_peer_def body_def)
  then obtain c1 where c1: "afp_login e ''DHX2'' (pascal username) (Some (calloc_rx 520)) c =
      Some (kFPAuthContinue, Some (rx_received 520 body), c1)" "idle c1" "lasting c1 = lasting c"
      "map (drop 16) (cl_sent c1) = map (drop 16) (cl_sent c) @ [flds]"
    using login_talk [OF assms(3-5,7), of "''DHX2''"] unfolding flds_def by fastforce
  have "length body \<le> 520"
    using assms(2) by (simp add: body_def dhx2_ok_def)
  then have par: "dhx2_parameters g (rx_data (rx_received 520 body)) =
      Some (d2_id s, d2_base s, d2_len s, d2_p s, d2_base s ^ d2_Rb s mod d2_p s)"
    using dhx2_parameters_eq [OF assms(1,2), of "replicate (520 - length body) 0"]
    by (simp add: rx_received_def body_def)
  have "user_block (length username + 1) username = Some (length username, pascal username)"
    using user_block_eq [OF assms(6), of 0] by simp
  then have "dhx2_login e g username passwd c =
      dhx2_session e g passwd (d2_id s, d2_base s, d2_len s, d2_p s, d2_base s ^ d2_Rb s mod d2_p s) c1"
    using par c1(1) by (simp add: dhx2_login_def assms(5))
  then show ?thesis
    using dhx2_session_eq [OF assms(1-3) c1(2) assms(5) c1(4) flds] c1(3) by simp
qed

subsection \<open>Main results\<close>

text \<open>(C6) Logging in with DHCAST128. Against a server that follows the protocol, from any idle session, the
  login ends, with success exactly if the first 64 bytes of the password are the ones that the server
  has: both sides derive the same key from the numbers they exchange, and the server decrypts the
  successor of its nonce and the password. The session is idle again.\<close>

theorem dhx_login_correct:
  assumes "gcrypt_ok g" and "talks e (dhx_peer g Rb nonce ID secret)" and "idle c" and "\<And>n. env_malloc e n"
    and "length username < 256" and "length (av_name (srv_using_version (cl_srv c))) < 256" and "nonce + 1 < 256 ^ 16"
  shows "\<exists>c'. dhx_login e g username passwd c =
      Some (if strncpy_bytes 64 passwd = secret then 0 else kFPUserNotAuth, c') \<and> idle c' \<and> lasting c' = lasting c"
  by (rule dhx_exchange [OF assms])

text \<open>(C13) Logging in with DHX2, with the parameters that the server chooses, of up to 256 bytes. The login
  ends, with success exactly if the password is the one of the server. It does so whatever the server
  sends back for the nonce of the client: although the code compares it with the expected
  successor, the password is sent in any case.\<close>

theorem dhx2_login_correct:
  assumes "gcrypt_ok g" and "dhx2_ok s" and "talks e (dhx2_peer g s)" and "idle c" and "\<And>n. env_malloc e n"
    and "length username < 256" and "length (av_name (srv_using_version (cl_srv c))) < 256"
  shows "\<exists>c'. dhx2_login e g username passwd c =
      Some (if strncpy_bytes 256 passwd = d2_password s then 0 else kFPUserNotAuth, c') \<and> idle c' \<and> lasting c' = lasting c"
  by (rule dhx2_exchange [OF assms])

text \<open>A library whose cipher adds the first byte of the key.\<close>

definition example_gcrypt :: gcrypt where
  "example_gcrypt = \<lparr>gc_open = (\<lambda>_. True), gc_setkey = (\<lambda>_ _. True), gc_setiv = (\<lambda>_ _. True),
     gc_encrypt = (\<lambda>_ key _ x. Some (map (\<lambda>b. b + hd key) x)), gc_decrypt = (\<lambda>_ key _ x. Some (map (\<lambda>b. b - hd key) x)),
     gc_mpi_scan = be_nat, gc_mpi_print = be_bytes,
     gc_mpi_powm = (\<lambda>b x m. if m = 0 then None else Some (b ^ x mod m)), gc_mpi_add_ui = (+),
     gc_randomize = (\<lambda>n. replicate n 3), gc_create_nonce = (\<lambda>n. replicate n 5),
     gc_md5_dlen = 16, gc_md5 = (\<lambda>x. replicate 16 (hd x))\<rparr>"

lemma example_gcrypt_ok: "gcrypt_ok example_gcrypt"
  by (simp add: gcrypt_ok_def example_gcrypt_def be_nat_be_bytes comp_def)

theorem dhx_login_correct_witness:
  "\<exists>c'. dhx_login (example_env (peer_server (dhx_peer example_gcrypt 11 99 7 (strncpy_bytes 64 ''secret''))))
     example_gcrypt ''user'' ''secret'' example_client = Some (0, c')"
proof -
  let ?peer = "dhx_peer example_gcrypt 11 99 7 (strncpy_bytes 64 ''secret'')"
  let ?e = "example_env (peer_server ?peer)"
  have "length (snd (?peer h f)) \<le> 4080" "- (2 ^ 31) \<le> fst (?peer h f) \<and> fst (?peer h f) < 2 ^ 31" for h f
    by (simp_all add: dhx_peer_def example_gcrypt_def)
  then have t: "talks ?e ?peer"
    by (intro peer_server_talks) (simp_all add: example_env_def)
  have m: "env_malloc ?e n" for n
    by (simp add: example_env_def)
  have "length ''user'' < 256" "length (av_name (srv_using_version (cl_srv example_client))) < 256" "99 + 1 < (256 :: nat) ^ 16"
    by (simp_all add: example_client_def example_server_def)
  from dhx_login_correct [OF example_gcrypt_ok t example_client_idle m this, of "''secret''"] show ?thesis
    by auto
qed

definition example_dhx2 :: dhx2_server where
  "example_dhx2 = \<lparr>d2_base = 5, d2_p = 251, d2_len = 64, d2_Rb = 11, d2_nonce = 99, d2_echo = (\<lambda>_. replicate 16 0),
     d2_id = 7, d2_password = strncpy_bytes 256 ''secret''\<rparr>"

theorem dhx2_login_correct_witness:
  "\<exists>c'. dhx2_login (example_env (peer_server (dhx2_peer example_gcrypt example_dhx2)))
     example_gcrypt ''user'' ''wrong'' example_client = Some (kFPUserNotAuth, c')"
proof -
  let ?peer = "dhx2_peer example_gcrypt example_dhx2"
  let ?e = "example_env (peer_server ?peer)"
  have "length (snd (?peer h f)) \<le> 4080" "- (2 ^ 31) \<le> fst (?peer h f) \<and> fst (?peer h f) < 2 ^ 31" for h f
    by (simp_all add: dhx2_peer_def example_gcrypt_def example_dhx2_def)
  then have t: "talks ?e ?peer"
    by (intro peer_server_talks) (simp_all add: example_env_def)
  have ok: "dhx2_ok example_dhx2"
    using power_increasing [of 1 64 "256 :: nat"] by (simp add: dhx2_ok_def example_dhx2_def)
  have ne: "strncpy_bytes 256 ''wrong'' \<noteq> d2_password example_dhx2"
    by (simp add: strncpy_bytes_def numeral_eq_Suc example_dhx2_def) code_simp
  have m: "env_malloc ?e n" for n
    by (simp add: example_env_def)
  have "length ''user'' < 256" "length (av_name (srv_using_version (cl_srv example_client))) < 256"
    by (simp_all add: example_client_def example_server_def)
  from dhx2_login_correct [OF example_gcrypt_ok ok t example_client_idle m this, of "''wrong''"] ne show ?thesis
    by auto
qed

end
