(* ===== verification/Afp_Server.thy ===== *)
theory Afp_Server
  imports Uams Did_Cache
begin

text \<open>
  \<open>lib/afp.c\<close>, \<open>lib/server.c\<close> and the descriptors of \<open>lib/loop.c\<close>: the list of servers, what is chosen for a session,
  the login with its messages and session tokens, and the names of the volumes.
\<close>

subsection \<open>The list of servers\<close>

text \<open>\<open>server_base\<close> and the \<open>next\<close> pointers of the servers, which are known by their addresses.\<close>

record server_list =
  sl_base :: "nat option"
  sl_next :: "nat \<Rightarrow> nat option"

definition add_server :: "nat \<Rightarrow> server_list \<Rightarrow> server_list" where
  "add_server newserver l = l\<lparr>sl_next := (sl_next l)(newserver := sl_base l), sl_base := Some newserver\<rparr>"

text \<open>The loops \<open>for (;s;s=s->next)\<close> with a test that ends them; where the list is a cycle without a server
  that passes the test they do not end.\<close>

partial_function (option) find_server :: "(nat \<Rightarrow> bool) \<Rightarrow> (nat \<Rightarrow> nat option) \<Rightarrow> nat option \<Rightarrow> nat option option" where
  "find_server test nxt s = (case s of
     None \<Rightarrow> Some None
   | Some a \<Rightarrow> if test a then Some (Some a) else find_server test nxt (nxt a))"

declare find_server.simps [code]

definition server_in_list :: "nat \<Rightarrow> server_list \<Rightarrow> bool option" where
  "server_in_list server l =
     map_option (\<lambda>r. r \<noteq> None) (find_server (\<lambda>s. s = server) (sl_next l) (sl_base l))"

text \<open>\<open>heap\<close> gives the server at an address.\<close>

definition find_server_by_signature :: "(nat \<Rightarrow> afp_server) \<Rightarrow> byte list \<Rightarrow> server_list \<Rightarrow> nat option option" where
  "find_server_by_signature heap signature l =
     find_server (\<lambda>s. take AFP_SIGNATURE_LEN (srv_signature (heap s)) = take AFP_SIGNATURE_LEN signature) (sl_next l) (sl_base l)"

definition find_server_by_name :: "(nat \<Rightarrow> afp_server) \<Rightarrow> string \<Rightarrow> server_list \<Rightarrow> nat option option" where
  "find_server_by_name heap name l =
     find_server (\<lambda>s. srv_server_name_utf8 (heap s) = name \<or> srv_server_name (heap s) = name) (sl_next l) (sl_base l)"

text \<open>The part of \<open>afp_server_remove\<close> that takes a server out of the list; the second component says whether it was found.\<close>

definition unlink_server :: "nat \<Rightarrow> server_list \<Rightarrow> (bool \<times> server_list) option" where
  "unlink_server s l =
     (if sl_base l = Some s then Some (True, l\<lparr>sl_base := sl_next l s\<rparr>)
      else do { r \<leftarrow> find_server (\<lambda>s2. sl_next l s2 = Some s) (sl_next l) (sl_base l);
                Some (case r of
                   None \<Rightarrow> (False, l)
                 | Some s2 \<Rightarrow> (True, l\<lparr>sl_next := (sl_next l)(s2 := sl_next l s)\<rparr>)) })"

subsection \<open>Descriptors\<close>

text \<open>\<open>rds\<close> and \<open>max_fd\<close> of \<open>loop.c\<close>.\<close>

record fds =
  rds :: "nat set"
  max_fd :: nat

definition add_fd :: "nat \<Rightarrow> fds \<Rightarrow> fds" where
  "add_fd fd f = (let f = f\<lparr>rds := insert fd (rds f)\<rparr> in
     if max_fd f < fd + 1 then f\<lparr>max_fd := fd + 1\<rparr> else f)"

text \<open>The loop of \<open>rm_fd\<close> from \<open>i\<close> down.\<close>

fun highest_fd :: "nat set \<Rightarrow> nat \<Rightarrow> nat option" where
  "highest_fd r 0 = (if 0 \<in> r then Some 0 else None)"
| "highest_fd r (Suc i) = (if Suc i \<in> r then Some (Suc i) else highest_fd r i)"

definition rm_fd :: "nat \<Rightarrow> fds \<Rightarrow> fds" where
  "rm_fd fd f =
     (let r = rds f - {fd};
          m = (case highest_fd r (max_fd f) of Some i \<Rightarrow> i | None \<Rightarrow> max_fd f)
      in f\<lparr>rds := r, max_fd := m + 1\<rparr>)"

subsection \<open>What a session uses\<close>

definition afp_server_identify :: "afp_server \<Rightarrow> afp_server" where
  "afp_server_identify s = s\<lparr>srv_server_type :=
     (if srv_machine_type s = ''Netatalk'' then AFPFS_SERVER_TYPE_NETATALK
      else if srv_machine_type s = ''AirPort'' then AFPFS_SERVER_TYPE_AIRPORT
      else if srv_machine_type s = ''Macintosh'' then AFPFS_SERVER_TYPE_MACINTOSH
      else AFPFS_SERVER_TYPE_UNKNOWN)\<rparr>"

text \<open>The loop of \<open>pick_version\<close>: the array from index \<open>i\<close> on; \<open>version_num\<close> and \<open>highest\<close> are signed. The entry is read before its index is
  compared with the bound.\<close>

fun pick_loop :: "byte \<Rightarrow> nat \<Rightarrow> byte list \<Rightarrow> int \<Rightarrow> int \<Rightarrow> (bool \<times> int \<times> int) option" where
  "pick_loop requested i [] version_num highest = None"
| "pick_loop requested i (v # vs) version_num highest =
     (if v = 0 \<or> SERVER_MAX_VERSIONS \<le> i then Some (False, version_num, highest)
      else let highest = max highest (sint v) in
        if v = requested then Some (True, sint v, highest)
        else pick_loop requested (i + 1) vs (sint v) highest)"

definition pick_version :: "byte list \<Rightarrow> byte \<Rightarrow> afp_versions option option" where
  "pick_version versions requested =
     do { let requested = (if requested \<noteq> 0 then min requested 32 else requested);
          (found_version, version_num, highest) \<leftarrow> pick_loop requested 0 versions 0 0;
          let version_num = (if found_version then version_num else highest);
          Some (find (\<lambda>p. av_number p = version_num) afp_versions_table) }"

fun pick_uam_loop :: "u32 \<Rightarrow> nat \<Rightarrow> int" where
  "pick_uam_loop m 0 = (if bit m 0 then 1 else -1)"
| "pick_uam_loop m (Suc i) = (if bit m (Suc i) then 2 ^ Suc i else pick_uam_loop m i)"

definition pick_uam :: "u32 \<Rightarrow> u32 \<Rightarrow> int" where
  "pick_uam uam2 uam1 = pick_uam_loop (uam2 AND uam1) 15"

definition something_is_mounted :: "afp_server \<Rightarrow> bool" where
  "something_is_mounted server = list_ex (\<lambda>v. vol_mounted v \<noteq> AFP_VOLUME_UNMOUNTED) (srv_volumes server)"

subsection \<open>Names of volumes\<close>

text \<open>The index of the volume.\<close>

definition find_volume_by_name :: "afp_server \<Rightarrow> string \<Rightarrow> nat option option" where
  "find_volume_by_name server volname =
     do { (_, d) \<leftarrow> convert_utf8pre_to_utf8dec (to_bytes volname) AFP_VOLUME_NAME_LEN;
          Some (find (\<lambda>i. c_str d = vol_volume_name_printable (srv_volumes server ! i)) [0..<length (srv_volumes server)]) }"

text \<open>The loop of \<open>afp_list_volnames\<close>: the string in the buffer, and \<open>len\<close>, which also counts what did not fit. A
  \<open>len\<close> behind the buffer makes \<open>snprintf\<close> write there.\<close>

fun list_volnames_loop :: "nat \<Rightarrow> string list \<Rightarrow> string \<Rightarrow> nat \<Rightarrow> (nat \<times> string) option" where
  "list_volnames_loop max_len [] names len = Some (len, names)"
| "list_volnames_loop max_len (n # ns) names len =
     (let t = (if ns \<noteq> [] then n @ '', '' else n) in
      if max_len < len then None
      else list_volnames_loop max_len ns (names @ take (max_len - len - 1) t) (len + length t))"

definition afp_list_volnames :: "afp_server \<Rightarrow> nat \<Rightarrow> (nat \<times> string) option" where
  "afp_list_volnames server max_len =
     list_volnames_loop max_len (map vol_volume_name_printable (srv_volumes server)) [] 0"

subsection \<open>Login\<close>

text \<open>\<open>*l += snprintf(mesg,max-*l,...)\<close>: the text replaces what the buffer held before, cut to the size that is left.\<close>

definition say :: "u32 \<Rightarrow> string \<Rightarrow> string \<times> u32 \<Rightarrow> string \<times> u32" where
  "say mx t ml = (let n = unat (mx - snd ml)
     in (if n = 0 then fst ml else take (n - 1) t, snd ml + word_of_nat (length t)))"

text \<open>The token that is sent; the bytes behind its length are not set.\<close>

definition setup_default_outgoing_token :: afp_token where
  "setup_default_outgoing_token = \<lparr>tok_length = 16, tok_data =
     [0x54, 0xc0, 0x75, 0xb0, 0x15, 0xe6, 0x1c, 0x13, 0x86, 0x75, 0xd2, 0xc2, 0xfd, 0x03, 0x4e, 0x3b] @
     replicate (AFP_TOKEN_MAX_LEN - 16) 0\<rparr>"

definition resume_token :: "env \<Rightarrow> client \<Rightarrow> (int \<times> client) option" where
  "resume_token e c =
     do { let (now, c) = gettimeofday e c;
          (ret, t, c) \<leftarrow> afp_getsessiontoken e kReconnWithTimeAndID (word_of_nat now) setup_default_outgoing_token
            (srv_token (cl_srv c)) c;
          Some (ret, map_srv (srv_token_update (\<lambda>_. t)) c) }"

definition setup_token :: "env \<Rightarrow> client \<Rightarrow> (int \<times> client) option" where
  "setup_token e c =
     do { let (now, c) = gettimeofday e c;
          (ret, t, c) \<leftarrow> afp_getsessiontoken e kLoginWithTimeAndID (word_of_nat now) setup_default_outgoing_token
            (srv_token (cl_srv c)) c;
          Some (ret, map_srv (srv_token_update (\<lambda>_. t)) c) }"

text \<open>The \<open>switch\<close> of \<open>afp_server_login\<close>: the messages for a code, and whether the login goes on.\<close>

definition login_messages :: "int \<Rightarrow> string list \<times> bool" where
  "login_messages rc =
     (if rc = -1 then ([''Could not find a valid UAM'' @ [CHR 0x0A]], False)
      else if rc = kFPAuthContinue then ([''Authentication method unsupported by AFPFS'' @ [CHR 0x0A]], False)
      else if rc = kFPBadUAM then ([''Specified UAM is unknown'' @ [CHR 0x0A]], False)
      else if rc = kFPBadVersNum
      then ([''Server does not support this AFP version'' @ [CHR 0x0A], ''Already logged in'' @ [CHR 0x0A]], True)
      else if rc \<in> {kFPCallNotSupported, kFPMiscErr} then ([''Already logged in'' @ [CHR 0x0A]], True)
      else if rc = kFPNoServer then ([''Authentication server not responding'' @ [CHR 0x0A]], False)
      else if rc \<in> {kFPPwdExpiredErr, kFPPwdNeedsChangeErr}
      then ([''Warning: password needs changing'' @ [CHR 0x0A]], False)
      else if rc = kFPServerGoingDown then ([''Server going down, so I can't log you in.'' @ [CHR 0x0A]], False)
      else if rc = kFPUserNotAuth then ([''Authentication failed'' @ [CHR 0x0A]], False)
      else if rc = 0 then ([], True)
      else ([''Unknown error, maybe username/passwd needed?'' @ [CHR 0x0A]], False))"

definition afp_server_login ::
  "env \<Rightarrow> gcrypt \<Rightarrow> uam_registry \<Rightarrow> u32 \<Rightarrow> string \<times> u32 \<Rightarrow> client \<Rightarrow> (int \<times> (string \<times> u32) \<times> client) option" where
  "afp_server_login e g r mx ml c =
     do { let s = cl_srv c;
          (rc, c) \<leftarrow> afp_dologin e g r (srv_using_uam s) (srv_username s) (srv_password s) c;
          let ml = fold (say mx) (fst (login_messages rc)) ml;
          if \<not> snd (login_messages rc) then Some (1, ml, c)
          else if srv_flags (cl_srv c) AND kSupportsReconnect = 0 then Some (0, ml, c)
          else if srv_need_resume (cl_srv c)
          then do { (_, c) \<leftarrow> resume_token e c; Some (0, ml, map_srv (srv_need_resume_update (\<lambda>_. False)) c) }
          else do { (_, c) \<leftarrow> setup_token e c; Some (0, ml, c) } }"

text \<open>\<open>afp_free_server\<close> and \<open>afp_server_remove\<close> as one server sees them: \<open>cl_registered\<close> says whether it is in the list, and
  a server that has been taken out of it has been freed.\<close>

definition afp_free_server :: "client \<Rightarrow> client" where
  "afp_free_server c = (loop_disconnect (map_srv (srv_command_requests_update (\<lambda>_. [])) c))\<lparr>cl_registered := False\<rparr>"

definition afp_server_remove :: "client \<Rightarrow> int \<times> client" where
  "afp_server_remove c =
     (let c = map_srv (srv_command_requests_update (map (req_done_waiting_update (\<lambda>_. True)))) c in
      if cl_registered c then (0, afp_free_server c) else (- 1, c))"

text \<open>\<open>afp_server_complete_connection\<close> (\<open>server.c\<close>): whether the server is returned, and the messages for the client. A server that is not
  returned is removed.\<close>

definition afp_server_complete_connection ::
  "env \<Rightarrow> gcrypt \<Rightarrow> uam_registry \<Rightarrow> byte list \<Rightarrow> u32 \<Rightarrow> string \<Rightarrow> string \<Rightarrow> u32 \<Rightarrow> u32 \<Rightarrow> client \<Rightarrow> (bool \<times> string list \<times> client) option" where
  "afp_server_complete_connection e g r versions uams username password requested_version uam_mask c =
     do {
       let remove = (\<lambda>t c. (False, [line t], snd (afp_server_remove c)));
       let c = map_srv (\<lambda>s. s\<lparr>srv_requested_version := ucast requested_version, srv_username := username, srv_password := password\<rparr>) c;
       (_, c) \<leftarrow> dsi_opensession e c;
       v \<leftarrow> pick_version versions (ucast requested_version);
       case v of
         None \<Rightarrow> Some (remove (''Server cannot handle AFP version '' @ signed_decimal (sint requested_version))
           (map_srv (srv_using_version_update (\<lambda>_. no_version)) c))
       | Some v \<Rightarrow>
           do {
             let c = map_srv (srv_using_version_update (\<lambda>_. v)) c;
             let using_uam = pick_uam uams uam_mask;
             if using_uam = -1 then Some (remove ''Could not pick a matching UAM.'' c)
             else do {
               let c = map_srv (srv_using_uam_update (\<lambda>_. word_of_int using_uam)) c;
               (failed, ml, c) \<leftarrow> afp_server_login e g r 1024 (c_str (fresh e 1024), 0) c;
               if failed \<noteq> 0 then Some (remove (''Login error: '' @ fst ml) c)
               else do {
                 (failed, c) \<leftarrow> afp_getsrvrparms e c;
                 if failed \<noteq> 0 then Some (remove ''Could not get server parameters'' c)
                 else do {
                   let c = (if srv_connect_time (cl_srv c) = 946684800
                     then (let (now, c) = gettimeofday e c in map_srv (srv_connect_time_update (\<lambda>_. now)) c) else c);
                   (_, loginmsg, c) \<leftarrow> afp_getsrvrmsg e AFPMESG_LOGIN (30 \<le> version_number (cl_srv c))
                     (word_of_int DSI_DEFAULT_TIMEOUT) [] c;
                   Some (True, if loginmsg = [] then [] else [line (''Login message: '' @ loginmsg)],
                     map_srv (srv_loginmesg_update (\<lambda>_. loginmsg)) c) } } } } }"

subsection \<open>The list as a chain\<close>

fun chain :: "(nat \<Rightarrow> nat option) \<Rightarrow> nat option \<Rightarrow> nat list \<Rightarrow> bool" where
  "chain nxt s [] \<longleftrightarrow> s = None"
| "chain nxt s (a # as) \<longleftrightarrow> s = Some a \<and> chain nxt (nxt a) as"

lemma chain_cong: "(\<And>a. a \<in> set as \<Longrightarrow> f a = g a) \<Longrightarrow> chain f s as = chain g s as"
  by (induction as arbitrary: s) auto

lemma find_server_chain: "chain nxt s as \<Longrightarrow> find_server P nxt s = Some (find P as)"
  by (induction as arbitrary: s) (subst find_server.simps; auto)+

definition server_chain :: "server_list \<Rightarrow> nat list \<Rightarrow> bool" where
  "server_chain l as \<longleftrightarrow> chain (sl_next l) (sl_base l) as \<and> distinct as"

text \<open>A server that is not in the list is put at its front; every search of the list ends.\<close>

lemma add_server_chain:
  assumes "server_chain l as" "a \<notin> set as"
  shows "server_chain (add_server a l) (a # as)"
proof -
  have "chain ((sl_next l)(a := sl_base l)) (sl_base l) as = chain (sl_next l) (sl_base l) as"
    using assms(2) by (intro chain_cong) auto
  then show ?thesis
    using assms by (auto simp: server_chain_def add_server_def)
qed

lemma server_in_list_chain:
  assumes "server_chain l as"
  shows "server_in_list a l = Some (a \<in> set as)"
proof -
  have "find (\<lambda>s. s = a) as = (if a \<in> set as then Some a else None)"
    by (induction as) auto
  then show ?thesis
    using assms find_server_chain [of "sl_next l" "sl_base l" as] by (auto simp: server_in_list_def server_chain_def)
qed

text \<open>A server that is connected again while it is the first of the list, as \<open>afp_server_reconnect\<close> does, makes a cycle: a
  search that it does not end goes on for ever.\<close>

lemma find_server_cycle:
  assumes "nxt a = Some a" "\<not> test a"
  shows "find_server test nxt (Some a) = None"
proof -
  let ?P = "\<lambda>t n s (r :: nat option). t = test \<longrightarrow> n = nxt \<longrightarrow> s \<noteq> Some a"
  have "?P test nxt (Some a) r" if "find_server test nxt (Some a) = Some r" for r
  proof (rule find_server.raw_induct [of ?P, OF _ that], intro impI)
    fix f :: "(nat \<Rightarrow> bool) \<Rightarrow> (nat \<Rightarrow> nat option) \<Rightarrow> nat option \<Rightarrow> nat option option" and t n s r
    assume IH: "\<And>t n s r. f t n s = Some r \<Longrightarrow> ?P t n s r"
      and r: "(case s of None \<Rightarrow> Some None | Some a \<Rightarrow> if t a then Some (Some a) else f t n (n a)) = Some r"
      and t: "t = test" "n = nxt"
    show "s \<noteq> Some a"
    proof
      assume "s = Some a"
      then have "f t n (Some a) = Some r"
        using r t assms by simp
      then show False
        using IH t by blast
    qed
  qed
  then show ?thesis
    by (cases "find_server test nxt (Some a)") auto
qed

lemma reconnected_server_cycle:
  assumes "sl_base l = Some a" "\<not> test a"
  shows "find_server test (sl_next (add_server a l)) (sl_base (add_server a l)) = None"
  using assms by (simp add: add_server_def find_server_cycle)

subsection \<open>Descriptors are below the bound\<close>

definition fds_ok :: "fds \<Rightarrow> bool" where
  "fds_ok f \<longleftrightarrow> (\<forall>fd \<in> rds f. fd < max_fd f)"

lemma highest_fd_None: "highest_fd r n = None \<longleftrightarrow> (\<forall>i \<le> n. i \<notin> r)"
  by (induction n) (auto simp: le_Suc_eq)

lemma highest_fd_Some: "highest_fd r n = Some i \<Longrightarrow> i \<in> r \<and> (\<forall>j \<le> n. i < j \<longrightarrow> j \<notin> r)"
  by (induction n) (auto simp: le_Suc_eq split: if_splits)

lemma add_fd_ok: "fds_ok f \<Longrightarrow> fds_ok (add_fd fd f) \<and> rds (add_fd fd f) = insert fd (rds f)"
  by (auto simp: fds_ok_def add_fd_def Let_def)

lemma rm_fd_ok:
  assumes "fds_ok f"
  shows "fds_ok (rm_fd fd f) \<and> rds (rm_fd fd f) = rds f - {fd}"
proof (cases "highest_fd (rds f - {fd}) (max_fd f)")
  case None
  then show ?thesis
    using assms by (auto simp: rm_fd_def fds_ok_def Let_def less_Suc_eq)
next
  case (Some i)
  have "j \<le> i" if "j \<in> rds f - {fd}" for j
    using highest_fd_Some [OF Some] that assms by (auto simp: fds_ok_def not_less [symmetric] dest: less_imp_le)
  then show ?thesis
    using Some by (auto simp: rm_fd_def fds_ok_def Let_def less_Suc_eq_le)
qed

subsection \<open>The choice of a version and a method\<close>

lemma pick_loop_found:
  assumes "requested \<in> set vs" "0 \<notin> set vs" "i + length vs \<le> SERVER_MAX_VERSIONS"
  shows "\<exists>h. pick_loop requested i (vs @ rest) n m = Some (True, sint requested, h)"
  using assms by (induction vs arbitrary: i n m) (auto simp: Let_def)

lemma pick_loop_missing:
  assumes "requested \<notin> set vs" "0 \<notin> set vs" "i + length vs \<le> SERVER_MAX_VERSIONS"
  shows "\<exists>n'. pick_loop requested i (vs @ 0 # rest) n m = Some (False, n', fold max (map sint vs) m)"
  using assms by (induction vs arbitrary: i n m) (auto simp: Let_def max.commute)

text \<open>For a list of versions that ends before the array does, the requested version is chosen if the server has it, else
  the highest one of the server. Ten versions make the loop read behind the array.\<close>

lemma pick_version_requested:
  assumes "requested \<in> set vs" "0 \<notin> set vs" "length vs < SERVER_MAX_VERSIONS" "requested \<le> 32"
  shows "pick_version (vs @ 0 # rest) requested = Some (find (\<lambda>p. av_number p = sint requested) afp_versions_table)"
proof -
  have "requested \<noteq> 0"
    using assms(1,2) by auto
  moreover obtain h where "pick_loop requested 0 (vs @ 0 # rest) 0 0 = Some (True, sint requested, h)"
    using pick_loop_found [OF assms(1,2), of 0 "0 # rest" 0 0] assms(3) by auto
  ultimately show ?thesis
    using assms(4) by (simp add: pick_version_def Let_def min_def)
qed

lemma pick_version_highest:
  assumes "0 \<notin> set vs" "length vs < SERVER_MAX_VERSIONS"
  shows "pick_version (vs @ 0 # rest) 0 = Some (find (\<lambda>p. av_number p = Max (insert 0 (sint ` set vs))) afp_versions_table)"
proof -
  obtain n where "pick_loop 0 0 (vs @ 0 # rest) 0 0 = Some (False, n, fold max (map sint vs) 0)"
    using pick_loop_missing [OF assms(1,1), of 0 rest 0 0] assms(2) by auto
  moreover have "fold max (map sint vs) 0 = Max (insert 0 (sint ` set vs))"
    using Max.set_eq_fold [of 0 "map sint vs"] by simp
  ultimately show ?thesis
    by (simp add: pick_version_def Let_def)
qed

lemma pick_version_full: 
  assumes "length vs = SERVER_MAX_VERSIONS" "0 \<notin> set vs"
  shows "pick_version vs 0 = None"
proof -
  have "pick_loop 0 i vs n m = None" if "0 \<notin> set vs" "i + length vs = SERVER_MAX_VERSIONS" for vs i n m
    using that by (induction vs arbitrary: i n m) (auto simp: Let_def)
  then show ?thesis
    using assms by (simp add: pick_version_def)
qed

text \<open>The method is the highest one that both sides have.\<close>

lemma pick_uam_loop_cases:
  "(\<exists>i \<le> n. pick_uam_loop m n = 2 ^ i \<and> bit m i \<and> (\<forall>j \<le> n. i < j \<longrightarrow> \<not> bit m j)) \<or>
   pick_uam_loop m n = -1 \<and> (\<forall>j \<le> n. \<not> bit m j)"
  by (induction n) (auto simp: le_Suc_eq)

lemma pick_uam_correct:
  "(\<exists>i \<le> 15. pick_uam a b = 2 ^ i \<and> bit a i \<and> bit b i \<and> (\<forall>j \<le> 15. i < j \<longrightarrow> \<not> (bit a j \<and> bit b j))) \<or>
   pick_uam a b = -1 \<and> (\<forall>j \<le> 15. \<not> (bit a j \<and> bit b j))"
  using pick_uam_loop_cases [of 15 "a AND b"] by (simp add: pick_uam_def bit_and_iff)

end
