(* ===== verification/Afp_Volume.thy ===== *)
theory Afp_Volume
  imports Afp_Server Users Dir_Server
begin

text \<open>
  The rest of \<open>lib/afp.c\<close>: connecting to a server, opening and unmounting its volumes, and re-establishing a session. \<open>connects\<close> stands for
  \<open>socket\<close> and \<open>connect\<close>, \<open>hook\<close> for the function \<open>unmount_volume\<close> of the registered client, which calls the FUSE library.
\<close>

unbundle bit_operations_syntax

subsection \<open>Volumes of a server\<close>

text \<open>\<open>cl_vol\<close> is the volume a function works on. When it is called for the volume at index \<open>i\<close> of the server, the entry of the array is
  that volume.\<close>

definition put_volume :: "nat \<Rightarrow> client \<Rightarrow> client" where
  "put_volume i c = map_srv (srv_volumes_update (\<lambda>vs. vs[i := cl_vol c])) c"

definition on_volume :: "nat \<Rightarrow> (client \<Rightarrow> ('a \<times> client) option) \<Rightarrow> client \<Rightarrow> ('a \<times> client) option" where
  "on_volume i f c = do {
     (r, c) \<leftarrow> f (c\<lparr>cl_vol := srv_volumes (cl_srv c) ! i\<rparr>);
     Some (r, put_volume i c)
   }"

type_synonym unmount_hook = "client \<Rightarrow> client option"

text \<open>The entries of the directory cache are freed and \<open>did_cache_base\<close> still points to the first one: the list is kept here as the
  contents that pointer had.\<close>

definition afp_unmount_volume :: "env \<Rightarrow> unmount_hook \<Rightarrow> nat \<Rightarrow> client \<Rightarrow> (int \<times> client) option" where
  "afp_unmount_volume e hook i c =
     (if vol_mounted (cl_vol c) \<noteq> AFP_VOLUME_MOUNTED then Some (- 1, c)
      else do {
        let c = put_volume i (map_vol (vol_mounted_update (\<lambda>_. AFP_VOLUME_UNMOUNTING)) c);
        (_, c) \<leftarrow> afp_flush e c;
        c \<leftarrow> remove_fork_list e c;
        c \<leftarrow> (if vol_dtrefnum (cl_vol c) \<noteq> 0 then map_option snd (afp_closedt e (vol_dtrefnum (cl_vol c)) c)
              else Some c);
        c \<leftarrow> hook (map_vol (vol_dtrefnum_update (\<lambda>_. 0)) c);
        let c = put_volume i (map_vol (vol_mounted_update (\<lambda>_. AFP_VOLUME_UNMOUNTED)) c);
        if something_is_mounted (cl_srv c) then Some (0, c)
        else do {
          (_, c) \<leftarrow> afp_logout e 0 c;
          Some (- 1, snd (afp_server_remove c))
        }
      })"

text \<open>The loop over the volumes; it ends with the first nonzero result, as the last volume has.\<close>

fun unmount_volumes :: "env \<Rightarrow> unmount_hook \<Rightarrow> nat list \<Rightarrow> client \<Rightarrow> (int \<times> client) option" where
  "unmount_volumes e hook [] c = Some (0, c)"
| "unmount_volumes e hook (i # is) c =
     (if vol_mounted (srv_volumes (cl_srv c) ! i) = AFP_VOLUME_MOUNTED then do {
        (ret, c) \<leftarrow> on_volume i (afp_unmount_volume e hook i) c;
        if ret \<noteq> 0 then Some (1, c) else unmount_volumes e hook is c
      }
      else unmount_volumes e hook is c)"

definition afp_unmount_all_volumes :: "env \<Rightarrow> unmount_hook \<Rightarrow> client \<Rightarrow> (int \<times> client) option" where
  "afp_unmount_all_volumes e hook c = unmount_volumes e hook [0..<length (srv_volumes (cl_srv c))] c"

text \<open>\<open>dsi_incoming_closesession\<close> (\<open>dsi.c\<close>), which the receiving functions reach through \<open>env_close_session\<close>.\<close>

definition dsi_incoming_closesession :: "env \<Rightarrow> unmount_hook \<Rightarrow> client \<Rightarrow> client option" where
  "dsi_incoming_closesession e hook c = do {
     (_, c) \<leftarrow> afp_unmount_all_volumes e hook c;
     Some (loop_disconnect c)
   }"

subsection \<open>Opening a volume\<close>

text \<open>The codes that are errors; every other one is treated as success.\<close>

definition connect_error :: "int \<Rightarrow> string option" where
  "connect_error ret =
     (if ret = kFPAccessDenied then Some (''Incorrect volume password'' @ [CHR 0x0A])
      else if ret \<in> {kFPBitmapErr, kFPMiscErr, kFPObjectNotFound, kFPParamErr} then Some (''Could not open volume'' @ [CHR 0x0A])
      else if ret = ETIMEDOUT then Some (''Timed out waiting to open volume'' @ [CHR 0x0A])
      else None)"

definition connect_bitmap :: "client \<Rightarrow> u16" where
  "connect_bitmap c =
     (let bitmap = kFPVolAttributeBit OR kFPVolSignatureBit OR kFPVolCreateDateBit OR kFPVolIDBit OR kFPVolNameBit in
      if 30 \<le> version_number (cl_srv c) then bitmap OR kFPVolNameBit OR kFPVolBlockSizeBit else bitmap)"

definition unix_flag :: "client \<Rightarrow> client" where
  "unix_flag c =
     (if version_number (cl_srv c) < 30 then c
      else if srv_server_type (cl_srv c) = AFPFS_SERVER_TYPE_NETATALK \<and> vol_attributes (cl_vol c) AND kSupportsUnixPrivs = 0
      then map_vol (vol_extra_flags_update (\<lambda>f. f AND NOT VOLUME_EXTRA_FLAGS_VOL_SUPPORTS_UNIX)) c
      else map_vol (vol_extra_flags_update (\<lambda>f. f OR VOLUME_EXTRA_FLAGS_VOL_SUPPORTS_UNIX)) c)"

definition afp_connect_volume ::
  "env \<Rightarrow> unmount_hook \<Rightarrow> nat \<Rightarrow> u32 \<Rightarrow> string \<times> u32 \<Rightarrow> client \<Rightarrow> ((int \<times> string \<times> u32) \<times> client) option" where
  "afp_connect_volume e hook i mx ml c = do {
     let password = c_str (vol_volpassword (cl_vol c));
     (ret, c) \<leftarrow> afp_volopen e (connect_bitmap c) (if password = [] then None else Some password) c;
     case connect_error ret of
       Some t \<Rightarrow> Some ((1, say mx t ml), c)
     | None \<Rightarrow> do {
         let name = vol_volume_name_printable (cl_vol c);
         let new_encoding = (if vol_attributes (cl_vol c) AND kSupportsUTF8Names \<noteq> 0 then kFPUTF8Name else kFPLongName);
         let ml = (if new_encoding \<noteq> srv_path_encoding (cl_srv c)
           then say mx (''Volume '' @ name @ '' changes the server's encoding'' @ [CHR 0x0A]) ml else ml);
         let c = map_srv (srv_path_encoding_update (\<lambda>_. new_encoding)) c;
         if vol_signature (cl_vol c) \<noteq> AFP_VOL_FIXED then do {
           let ml = say mx (''Volume '' @ name @ '' does not support fixed directories'' @ [CHR 0x0A]) ml;
           (_, c) \<leftarrow> afp_unmount_volume e hook i c;
           Some ((1, ml), c)
         }
         else Some ((0, ml), put_volume i (map_vol (vol_mounted_update (\<lambda>_. AFP_VOLUME_MOUNTED)) (unix_flag c)))
       }
   }"

subsection \<open>Connecting\<close>

text \<open>The loop over the addresses of the server: the descriptor, which is -1 after a failed attempt, and the address that was used.\<close>

fun try_addresses :: "('a \<Rightarrow> int option) \<Rightarrow> 'a list \<Rightarrow> int \<Rightarrow> int \<times> 'a option" where
  "try_addresses connects [] fd = (fd, None)"
| "try_addresses connects (a # as) fd =
     (case connects a of Some fd \<Rightarrow> (fd, Some a) | None \<Rightarrow> try_addresses connects as (- 1))"

definition afp_server_connect ::
  "env \<Rightarrow> ('a \<Rightarrow> int option) \<Rightarrow> int \<Rightarrow> 'a list \<Rightarrow> bool \<Rightarrow> client \<Rightarrow> (int \<times> client) option" where
  "afp_server_connect e connects errno addresses full c = do {
     let fd = fst (try_addresses connects addresses (srv_fd (cl_srv c)));
     let c = map_srv (srv_fd_update (\<lambda>_. fd)) c;
     if fd < 0 then Some (- errno, c)
     else do {
       let c = (map_srv (\<lambda>s. s\<lparr>srv_lastrequestid := 0, srv_connect_state := SERVER_STATE_CONNECTED\<rparr>) c)\<lparr>cl_registered := True\<rparr>;
       if \<not> full then Some (0, c)
       else do {
         let (_, c) = gettimeofday e c;
         (error, c) \<leftarrow> dsi_getstatus e c;
         if error \<noteq> 0 then Some (- error, c)
         else do {
           let (_, c) = gettimeofday e c;
           Some (0, map_srv (\<lambda>s. (afp_server_identify s)\<lparr>srv_rx_quantum := 128 * 1024\<rparr>) c)
         }
       }
     }
   }"

text \<open>The volumes that have a mount point are opened again.\<close>

fun reconnect_volumes ::
  "env \<Rightarrow> unmount_hook \<Rightarrow> u32 \<Rightarrow> nat list \<Rightarrow> string \<times> u32 \<Rightarrow> client \<Rightarrow> ((string \<times> u32) \<times> client) option" where
  "reconnect_volumes e hook mx [] ml c = Some (ml, c)"
| "reconnect_volumes e hook mx (i # is) ml c =
     (if vol_mountpoint (srv_volumes (cl_srv c) ! i) = [] then reconnect_volumes e hook mx is ml c
      else do {
        ((failed, ml), c) \<leftarrow> on_volume i (afp_connect_volume e hook i mx ml) c;
        reconnect_volumes e hook mx is (if failed = 0 then ml
          else say mx (''Could not mount '' @ vol_volume_name_printable (cl_vol c) @ [CHR 0x0A]) ml) c
      })"

definition afp_server_reconnect ::
  "env \<Rightarrow> gcrypt \<Rightarrow> uam_registry \<Rightarrow> unmount_hook \<Rightarrow> ('a \<Rightarrow> int option) \<Rightarrow> int \<Rightarrow> 'a list \<Rightarrow> u32 \<Rightarrow> string \<times> u32 \<Rightarrow> client \<Rightarrow>
     (int \<times> (string \<times> u32) \<times> client) option" where
  "afp_server_reconnect e g r hook connects errno addresses mx ml c = do {
     (err, c) \<leftarrow> afp_server_connect e connects errno addresses False c;
     if err \<noteq> 0
     then Some (1, say mx (''Error resuming connection to '' @ srv_server_name_printable (cl_srv c) @ [CHR 0x0A]) ml, c)
     else do {
       (_, c) \<leftarrow> dsi_opensession e c;
       (failed, ml, c) \<leftarrow> afp_server_login e g r mx ml c;
       if failed \<noteq> 0 then Some (1, ml, c)
       else do {
         (ml, c) \<leftarrow> reconnect_volumes e hook mx [0..<length (srv_volumes (cl_srv c))] ml c;
         Some (0, ml, c)
       }
     }
   }"

subsection \<open>Requests without a result\<close>

text \<open>On a server that answers everything a request without a result comes back, and what has been sent is known.\<close>

lemma request_header_id:
  assumes "request_header cmd c = (c1, header)"
  shows "rd16 (header @ flds) 2 = Some (srv_lastrequestid (cl_srv c1))" "length header = 16"
proof -
  obtain h where h: "header = dsi_header_bytes h" "hdr_requestid h = srv_lastrequestid (cl_srv c1)"
    using assms by (auto simp: request_header_def dsi_setup_header_def Let_def)
  then show "rd16 (header @ flds) 2 = Some (srv_lastrequestid (cl_srv c1))" "length header = 16"
    using header_id [of h flds] by simp_all
qed

lemma blank_sent:
  assumes "idle c" "\<And>d. responsive e d" "\<And>n. env_malloc e n" "sub \<in> set blank_subcommands" "w \<noteq> 0"
  shows "\<exists>rc c' p. send_fields e flds w sub x c = Some (rc, x, c') \<and> idle c' \<and> lasting c' = lasting c \<and>
    cl_sent c' = cl_sent c @ [p] \<and> drop 16 p = flds"
proof -
  obtain c1 header where rh: "request_header DSI_DSICommand c = (c1, header)"
    by fastforce
  have c1: "idle c1" "lasting c1 = lasting c" "cl_sent c1 = cl_sent c"
    using idle_header [OF assms(1), of DSI_DSICommand] request_header_simps(1) [of DSI_DSICommand c] rh by simp_all
  note hd = request_header_id(1) [OF rh, of flds] request_header_id(2) [OF rh]
  obtain rc body where ans: "answers_packet e c1 (header @ flds) rc body"
    using assms(2) [of c1] c1(1) hd(1) unfolding responsive_def by blast
  have sub: "sub \<notin> {0, afpRead, afpReadExt}"
    using assms(4) by (auto simp: blank_subcommands_def)
  have "\<exists>c'. dsi_send e (header @ flds) w sub x c1 = Some (rc, x, c') \<and> idle c' \<and> lasting c' = lasting c1 \<and>
      cl_sent c' = cl_sent c1 @ [set_length (header @ flds)]"
    by (rule exchange_packet_sent [OF c1(1) assms(3) ans sub assms(5)]) (rule blank_reply [OF assms(4)])
  then show ?thesis
    using rh c1 hd(2) by (auto simp: send_fields_def set_length_def)
qed

lemma dsi_send_no_wait:
  assumes "session_ready c" "env_malloc e sizeof_dsi_request" "env_net e (cl_sent c @ [set_length msg]) = Sent evs"
  shows "\<exists>stats. dsi_send e msg 0 sub x c = Some (0, x, after_exchange msg (recv_buf c) stats c) \<and>
    st_requests_pending stats = requests_pending (cl_srv c)"
proof -
  let ?w = "waiting msg 0 sub x c" and ?r = "new_request 0 sub x c"
  let ?c = "snd (dsi_remove_from_request_queue (cl_fresh c) ?w)"
  have "unlink_request (cl_fresh c) (queue c @ [?r]) = Some (queue c)"
    using unlink_last [OF new_request_addr [OF assms(1)]] by (simp add: new_request_def)
  then have "?c = after_exchange msg (recv_buf c) (srv_stats (cl_srv ?c)) c"
    "st_requests_pending (srv_stats (cl_srv ?c)) = requests_pending (cl_srv c)"
    using assms(1)
    by (cases c; cases "cl_srv c"; simp add: dsi_remove_from_request_queue_def server_still_valid_def
        session_ready_def queue_ok_def waiting_def after_exchange_def)+
  moreover have "dsi_send e msg 0 sub x c = Some (0, x, ?c)"
    using dsi_start_sent [OF assms, of 0 sub x] by (simp add: dsi_send_def)
  ultimately show ?thesis
    by metis
qed

lemma no_wait_sent:
  assumes "idle c" "\<And>d. responsive e d" "\<And>n. env_malloc e n"
  shows "\<exists>c' p. send_fields e flds 0 sub x c = Some (0, x, c') \<and> idle c' \<and> lasting c' = lasting c \<and>
    cl_sent c' = cl_sent c @ [p] \<and> drop 16 p = flds"
proof -
  obtain c1 header where rh: "request_header DSI_DSICommand c = (c1, header)"
    by fastforce
  have c1: "idle c1" "lasting c1 = lasting c" "cl_sent c1 = cl_sent c"
    using idle_header [OF assms(1), of DSI_DSICommand] request_header_simps(1) [of DSI_DSICommand c] rh by simp_all
  note hd = request_header_id(1) [OF rh, of flds] request_header_id(2) [OF rh]
  obtain evs where net: "env_net e (cl_sent c1 @ [set_length (header @ flds)]) = Sent evs"
    using assms(2) [of c1] c1(1) hd(1) unfolding responsive_def answers_packet_def by blast
  have ready: "session_ready c1"
    using c1(1) by (simp add: idle_def)
  obtain stats where send: "dsi_send e (header @ flds) 0 sub x c1 =
      Some (0, x, after_exchange (header @ flds) (recv_buf c1) stats c1)" "st_requests_pending stats = requests_pending (cl_srv c1)"
    using dsi_send_no_wait [OF ready assms(3) net] by blast
  have "session_ready (after_exchange (header @ flds) (recv_buf c1) stats c1)"
    using ready send(2) by (intro session_ready_after_exchange) (auto simp: session_ready_def buffer_ok_def)
  then show ?thesis
    using send(1) rh c1 hd(2)
    by (auto simp: send_fields_def idle_def after_exchange_def lasting_def set_length_def)
qed

subsection \<open>Unmounting\<close>

lemma idle_put_volume [simp]: "idle (put_volume i c) = idle c"
  by (simp add: put_volume_def idle_def session_ready_def queue_ok_def buffer_ok_def server_still_valid_def)

lemma put_volume_simps [simp]:
  "cl_vol (put_volume i c) = cl_vol c" "cl_sent (put_volume i c) = cl_sent c" "cl_registered (put_volume i c) = cl_registered c"
  "srv_volumes (cl_srv (put_volume i c)) = (srv_volumes (cl_srv c))[i := cl_vol c]"
  by (simp_all add: put_volume_def)

lemma lasting_volumes:
  assumes "lasting c' = lasting c"
  shows "srv_volumes (cl_srv c') = srv_volumes (cl_srv c)"
  using arg_cong [OF assms, of "srv_volumes \<circ> cl_srv"] by (simp add: lasting_def)

definition fork_requests :: "afp_file_info list \<Rightarrow> byte list list" where
  "fork_requests fs = concat (map (\<lambda>f. [[afpFlushFork, 0] @ be16 (fi_forkid f), [afpCloseFork, 0] @ be16 (fi_forkid f)]) fs)"

lemma close_forks_sent:
  assumes "idle c" "\<And>d. responsive e d" "\<And>n. env_malloc e n" "vol_open_forks (cl_vol c) = ps"
  shows "\<exists>c' ms. close_forks e ps c = Some c' \<and> idle c' \<and> cl_sent c' = cl_sent c @ ms \<and> map (drop 16) ms = fork_requests ps \<and>
    cl_vol c' = (cl_vol c)\<lparr>vol_open_forks := []\<rparr> \<and> srv_volumes (cl_srv c') = srv_volumes (cl_srv c) \<and> cl_registered c' = cl_registered c"
  using assms(1,4)
proof (induction ps arbitrary: c)
  case Nil
  then show ?case
    by (cases c; cases "cl_vol c") (simp add: fork_requests_def)
next
  case (Cons p ps)
  have sub: "afpFlushFork \<in> set blank_subcommands"
    by (simp add: blank_subcommands_def)
  obtain rc1 c1 m1 where f: "afp_flushfork e (fi_forkid p) c = Some (rc1, c1)" "idle c1" "lasting c1 = lasting c"
    "cl_sent c1 = cl_sent c @ [m1]" "drop 16 m1 = [afpFlushFork, 0] @ be16 (fi_forkid p)"
    using blank_sent [OF Cons.prems(1) assms(2,3) sub, of DSI_DEFAULT_TIMEOUT "[afpFlushFork, 0] @ be16 (fi_forkid p)" No_Other]
    by (auto simp: afp_flushfork_def returned_def)
  obtain rc2 c2 m2 where g: "afp_closefork e (fi_forkid p) c1 = Some (rc2, c2)" "idle c2" "lasting c2 = lasting c1"
    "cl_sent c2 = cl_sent c1 @ [m2]" "drop 16 m2 = [afpCloseFork, 0] @ be16 (fi_forkid p)"
    using blank_sent [OF f(2) assms(2,3) sub, of DSI_DEFAULT_TIMEOUT "[afpCloseFork, 0] @ be16 (fi_forkid p)" No_Other]
    by (auto simp: afp_closefork_def returned_def)
  let ?c = "map_vol (vol_open_forks_update (\<lambda>_. ps)) c2"
  have same: "cl_vol c2 = cl_vol c" "srv_volumes (cl_srv c2) = srv_volumes (cl_srv c)" "cl_registered c2 = cl_registered c"
    using f(3) g(3) lasting_eqD(1,3) [of c2 c] lasting_volumes [of c2 c] by simp_all
  obtain c' ms where ih: "close_forks e ps ?c = Some c'" "idle c'" "cl_sent c' = cl_sent ?c @ ms" "map (drop 16) ms = fork_requests ps"
    "cl_vol c' = (cl_vol ?c)\<lparr>vol_open_forks := []\<rparr>" "srv_volumes (cl_srv c') = srv_volumes (cl_srv ?c)" "cl_registered c' = cl_registered ?c"
    using Cons.IH [of ?c] g(2) by auto
  have "close_forks e (p # ps) c = Some c'"
    using f(1) g(1) ih(1) by simp
  then show ?case
    using ih f g same by (intro exI [of _ c'] exI [of _ "m1 # m2 # ms"]) (simp add: fork_requests_def)
qed

text \<open>The requests of \<open>afp_unmount_volume\<close>.\<close>

definition unmount_requests :: "afp_volume \<Rightarrow> bool \<Rightarrow> byte list list" where
  "unmount_requests v final = [[afpFlush, 0] @ be16 (vol_volid v)] @ fork_requests (vol_open_forks v) @
     (if vol_dtrefnum v = 0 then [] else [[afpCloseDT, 0] @ be16 (vol_dtrefnum v)]) @ (if final then [[afpLogout, 0]] else [])"

lemma unmount_before_logout:
  assumes "idle c" "\<And>d. responsive e d" "\<And>n. env_malloc e n" "vol_mounted (cl_vol c) = AFP_VOLUME_MOUNTED"
    and v: "v = (cl_vol c)\<lparr>vol_mounted := AFP_VOLUME_UNMOUNTED, vol_open_forks := [], vol_dtrefnum := 0\<rparr>"
  shows "\<exists>d ms. afp_unmount_volume e Some i c = (if something_is_mounted (cl_srv d) then Some (0, d)
      else do { (_, d) \<leftarrow> afp_logout e 0 d; Some (- 1, snd (afp_server_remove d)) }) \<and>
    idle d \<and> cl_sent d = cl_sent c @ ms \<and> map (drop 16) ms = unmount_requests (cl_vol c) False \<and> cl_vol d = v \<and>
    srv_volumes (cl_srv d) = (srv_volumes (cl_srv c))[i := v] \<and> cl_registered d = cl_registered c"
proof -
  let ?c = "put_volume i (map_vol (vol_mounted_update (\<lambda>_. AFP_VOLUME_UNMOUNTING)) c)"
  have blank: "afpFlush \<in> set blank_subcommands" "afpCloseDT \<in> set blank_subcommands"
    by (simp_all add: blank_subcommands_def)
  have "idle ?c"
    using assms(1) by simp
  from blank_sent [OF this assms(2,3) blank(1), of DSI_DEFAULT_TIMEOUT "[afpFlush, 0] @ volid ?c" "Volume (cl_vol ?c)"]
  obtain rc1 c1 m1 where send: "send_fields e ([afpFlush, 0] @ volid ?c) DSI_DEFAULT_TIMEOUT afpFlush (Volume (cl_vol ?c)) ?c =
      Some (rc1, Volume (cl_vol ?c), c1)" and f: "idle c1" "lasting c1 = lasting ?c"
    "cl_sent c1 = cl_sent ?c @ [m1]" "drop 16 m1 = [afpFlush, 0] @ volid ?c"
    by auto
  have "c1\<lparr>cl_vol := cl_vol ?c\<rparr> = c1"
    using lasting_eqD(1) [OF f(2)] by (cases c1) simp
  then have flush: "afp_flush e ?c = Some (rc1, c1)"
    using send by (simp add: afp_flush_def returned_volume_def)
  have s1: "cl_vol c1 = (cl_vol c)\<lparr>vol_mounted := AFP_VOLUME_UNMOUNTING\<rparr>" "cl_registered c1 = cl_registered c"
    "srv_volumes (cl_srv c1) = (srv_volumes (cl_srv c))[i := (cl_vol c)\<lparr>vol_mounted := AFP_VOLUME_UNMOUNTING\<rparr>]"
    using lasting_eqD(1,3) [OF f(2)] lasting_volumes [OF f(2)] by simp_all
  obtain c2 m2 where g: "remove_fork_list e c1 = Some c2" "idle c2" "cl_sent c2 = cl_sent c1 @ m2"
    "map (drop 16) m2 = fork_requests (vol_open_forks (cl_vol c))" "cl_vol c2 = (cl_vol c1)\<lparr>vol_open_forks := []\<rparr>"
    "srv_volumes (cl_srv c2) = srv_volumes (cl_srv c1)" "cl_registered c2 = cl_registered c1"
    using close_forks_sent [OF f(1) assms(2,3) refl] s1(1) by (auto simp: remove_fork_list_def)
  obtain c3 m3 where h: "(if vol_dtrefnum (cl_vol c2) \<noteq> 0 then map_option snd (afp_closedt e (vol_dtrefnum (cl_vol c2)) c2) else Some c2) = Some c3"
    "idle c3" "cl_sent c3 = cl_sent c2 @ m3" "cl_vol c3 = cl_vol c2" "srv_volumes (cl_srv c3) = srv_volumes (cl_srv c2)"
    "cl_registered c3 = cl_registered c2"
    "map (drop 16) m3 = (if vol_dtrefnum (cl_vol c) = 0 then [] else [[afpCloseDT, 0] @ be16 (vol_dtrefnum (cl_vol c))])"
  proof (cases "vol_dtrefnum (cl_vol c2) = 0")
    case True
    then show ?thesis
      using that [of c2 "[]"] g(2,5) s1(1) by simp
  next
    case False
    obtain rc c3 m where k: "afp_closedt e (vol_dtrefnum (cl_vol c2)) c2 = Some (rc, c3)" "idle c3" "lasting c3 = lasting c2"
      "cl_sent c3 = cl_sent c2 @ [m]" "drop 16 m = [afpCloseDT, 0] @ be16 (vol_dtrefnum (cl_vol c2))"
      using blank_sent [OF g(2) assms(2,3) blank(2), of DSI_DEFAULT_TIMEOUT "[afpCloseDT, 0] @ be16 (vol_dtrefnum (cl_vol c2))" No_Other]
      by (auto simp: afp_closedt_def returned_def)
    then show ?thesis
      using that [of c3 "[m]"] False g(5) s1(1) lasting_eqD(1,3) [OF k(3)] lasting_volumes [OF k(3)] by simp
  qed
  let ?d = "put_volume i (map_vol (vol_mounted_update (\<lambda>_. AFP_VOLUME_UNMOUNTED)) (map_vol (vol_dtrefnum_update (\<lambda>_. 0)) c3))"
  have "afp_unmount_volume e Some i c = (if something_is_mounted (cl_srv ?d) then Some (0, ?d)
      else do { (_, d) \<leftarrow> afp_logout e 0 ?d; Some (- 1, snd (afp_server_remove d)) })"
    using assms(4) flush g(1) h(1) by (simp add: afp_unmount_volume_def Let_def)
  moreover have "cl_vol ?d = v"
    using h(4) g(5) s1(1) v by (cases "cl_vol c") simp
  ultimately show ?thesis
    using f(3,4) g h s1
    by (intro exI [of _ ?d] exI [of _ "[m1] @ m2 @ m3"]) (simp add: unmount_requests_def)
qed

lemma something_mounted_update:
  assumes "i < length (srv_volumes s)" "srv_volumes s' = (srv_volumes s)[i := v]" "vol_mounted v = AFP_VOLUME_UNMOUNTED"
  shows "something_is_mounted s' \<longleftrightarrow> (\<exists>j < length (srv_volumes s). j \<noteq> i \<and> vol_mounted (srv_volumes s ! j) \<noteq> AFP_VOLUME_UNMOUNTED)"
  using assms by (auto simp: something_is_mounted_def list_ex_length nth_list_update)

lemma idle_registered: "idle c \<Longrightarrow> cl_registered c"
  by (simp add: idle_def session_ready_def queue_ok_def server_still_valid_def)

lemma unmount_volume:
  assumes "idle c" and "\<And>d. responsive e d" and "\<And>n. env_malloc e n" and "vol_mounted (cl_vol c) = AFP_VOLUME_MOUNTED"
    and "i < length (srv_volumes (cl_srv c))"
    and "final \<longleftrightarrow> (\<forall>j < length (srv_volumes (cl_srv c)). j \<noteq> i \<longrightarrow> vol_mounted (srv_volumes (cl_srv c) ! j) = AFP_VOLUME_UNMOUNTED)"
  shows "\<exists>c' ms. afp_unmount_volume e Some i c = Some (if final then - 1 else 0, c') \<and>
    cl_sent c' = cl_sent c @ ms \<and> map (drop 16) ms = unmount_requests (cl_vol c) final \<and>
    vol_mounted (cl_vol c') = AFP_VOLUME_UNMOUNTED \<and> vol_open_forks (cl_vol c') = [] \<and> cl_registered c' = (\<not> final) \<and>
    (\<not> final \<longrightarrow> idle c' \<and> srv_volumes (cl_srv c') = (srv_volumes (cl_srv c))[i := cl_vol c'])"
proof -
  let ?v = "(cl_vol c)\<lparr>vol_mounted := AFP_VOLUME_UNMOUNTED, vol_open_forks := [], vol_dtrefnum := 0\<rparr>"
  obtain d ms where d: "afp_unmount_volume e Some i c = (if something_is_mounted (cl_srv d) then Some (0, d)
      else do { (_, d) \<leftarrow> afp_logout e 0 d; Some (- 1, snd (afp_server_remove d)) })" "idle d" "cl_sent d = cl_sent c @ ms"
    "map (drop 16) ms = unmount_requests (cl_vol c) False" "cl_vol d = ?v" "srv_volumes (cl_srv d) = (srv_volumes (cl_srv c))[i := ?v]"
    using unmount_before_logout [OF assms(1-4) refl, of i] by blast
  have m: "something_is_mounted (cl_srv d) \<longleftrightarrow> \<not> final"
    using something_mounted_update [OF assms(5) d(6)] assms(6) by auto
  show ?thesis
  proof (cases final)
    case False
    then show ?thesis
      using d m idle_registered [OF d(2)] by auto
  next
    case True
    obtain c1 p where l: "afp_logout e 0 d = Some (0, c1)" "idle c1" "lasting c1 = lasting d" "cl_sent c1 = cl_sent d @ [p]"
      "drop 16 p = [afpLogout, 0]"
      using no_wait_sent [OF d(2) assms(2,3), of "[afpLogout, 0]" afpLogout No_Other] by (auto simp: afp_logout_def returned_def)
    have r: "cl_sent (snd (afp_server_remove c1)) = cl_sent c1" "cl_vol (snd (afp_server_remove c1)) = cl_vol c1"
      "\<not> cl_registered (snd (afp_server_remove c1))"
      by (simp_all add: afp_server_remove_def afp_free_server_def loop_disconnect_def Let_def)
    have "afp_unmount_volume e Some i c = Some (- 1, snd (afp_server_remove c1))"
      using d(1) m True l(1) by simp
    moreover have "map (drop 16) (ms @ [p]) = unmount_requests (cl_vol c) True"
      using d(4) l(5) by (simp add: unmount_requests_def)
    ultimately show ?thesis
      using r True d(3,5) l(4) lasting_eqD(1) [OF l(3)] by (intro exI [of _ "snd (afp_server_remove c1)"] exI [of _ "ms @ [p]"]) simp
  qed
qed

subsection \<open>Main results\<close>

text \<open>(C15) Unmounting. On a server that answers every request in some way, \<open>afp_unmount_volume\<close> ends. It flushes the volume,
  flushes and closes every open fork in the order of the list, closes the desktop database if it is open, and logs out if no other volume of the server
  is mounted; these are all requests, and the volume itself is never closed. Afterwards the volume is unmounted and has no open forks. The result
  is 0 while other volumes are mounted; after the last one it is -1, and the server has been removed.\<close>

theorem afp_unmount_volume_correct:
  assumes "idle c" and "\<And>d. responsive e d" and "\<And>n. env_malloc e n" and "vol_mounted (cl_vol c) = AFP_VOLUME_MOUNTED"
    and "i < length (srv_volumes (cl_srv c))"
    and "final \<longleftrightarrow> (\<forall>j < length (srv_volumes (cl_srv c)). j \<noteq> i \<longrightarrow> vol_mounted (srv_volumes (cl_srv c) ! j) = AFP_VOLUME_UNMOUNTED)"
  shows "\<exists>c' ms. afp_unmount_volume e Some i c = Some (if final then - 1 else 0, c') \<and>
    cl_sent c' = cl_sent c @ ms \<and> map (drop 16) ms = unmount_requests (cl_vol c) final \<and>
    vol_mounted (cl_vol c') = AFP_VOLUME_UNMOUNTED \<and> vol_open_forks (cl_vol c') = [] \<and> cl_registered c' = (\<not> final)"
  using unmount_volume [OF assms(1-5,6)] by blast

definition mounted_example :: client where
  "mounted_example = (let v = zero_volume\<lparr>vol_volid := 7, vol_mounted := AFP_VOLUME_MOUNTED, vol_open_forks := [zero_file_info\<lparr>fi_forkid := 3\<rparr>]\<rparr> in
     map_srv (srv_volumes_update (\<lambda>_. [zero_volume, v])) (map_vol (\<lambda>_. v) example_client))"

theorem afp_unmount_volume_correct_witness:
  "\<exists>c'. afp_unmount_volume (example_env (answering_server 0)) Some 1 mounted_example = Some (- 1, c') \<and>
     map (drop 16) (cl_sent c') = [[afpFlush, 0, 0, 7], [afpFlushFork, 0, 0, 3], [afpCloseFork, 0, 0, 3], [afpLogout, 0]]"
proof -
  let ?e = "example_env (answering_server 0)"
  have e: "responsive ?e d" "env_malloc ?e n" for d n
    by (rule refuses_responsive, rule answering_server_refuses) (simp_all add: example_env_def)
  have c: "idle mounted_example" "vol_mounted (cl_vol mounted_example) = AFP_VOLUME_MOUNTED" "1 < length (srv_volumes (cl_srv mounted_example))"
    "cl_sent mounted_example = []"
    using example_client_idle
    by (simp_all add: mounted_example_def idle_def session_ready_def queue_ok_def buffer_ok_def server_still_valid_def example_client_def Let_def)
  have "\<forall>j < length (srv_volumes (cl_srv mounted_example)). j \<noteq> 1 \<longrightarrow> vol_mounted (srv_volumes (cl_srv mounted_example) ! j) = AFP_VOLUME_UNMOUNTED"
    by (auto simp: mounted_example_def zero_volume_def Let_def less_Suc_eq)
  moreover have "unmount_requests (cl_vol mounted_example) True =
      [[afpFlush, 0, 0, 7], [afpFlushFork, 0, 0, 3], [afpCloseFork, 0, 0, 3], [afpLogout, 0]]"
    by (simp add: unmount_requests_def fork_requests_def mounted_example_def zero_volume_def Let_def be16_def)
  ultimately show ?thesis
    using afp_unmount_volume_correct [OF c(1) e c(2,3), of True] c(4) by auto
qed

end
