(* ===== verification/Afp_Mount.thy ===== *)
theory Afp_Mount
  imports Afp_Volume File_Attributes
begin

text \<open>
  Mounting a volume against a server that opens it.
\<close>

unbundle bit_operations_syntax

subsection \<open>The reply to a request to open a volume\<close>

text \<open>The parameters the client asks for with AFP 3, and what may follow them.\<close>

abbreviation (input) open_bitmap :: u16 where
  "open_bitmap \<equiv> 0x927"

definition open_body :: "afp_volume \<Rightarrow> u16 \<Rightarrow> u32 \<Rightarrow> byte list \<Rightarrow> byte list" where
  "open_body v name_offset date trailer = be16 open_bitmap @ be16 (vol_attributes v) @ be16 (vol_signature v) @ be32 date @
     be16 (vol_volid v) @ be16 name_offset @ be32 (ucast (f_bsize (vol_stat v))) @ trailer"

definition opened :: "afp_volume \<Rightarrow> u32 \<Rightarrow> string \<Rightarrow> afp_volume \<Rightarrow> afp_volume" where
  "opened v date printable w = w\<lparr>vol_attributes := vol_attributes v, vol_signature := vol_signature v,
     vol_creation_date := ad_date_to_unix date, vol_volid := vol_volid v,
     vol_stat := (vol_stat w)\<lparr>f_bsize := ucast (ucast (f_bsize (vol_stat v)) :: u32)\<rparr>, vol_volume_name_printable := printable\<rparr>"

lemma connect_bitmap_eq: "30 \<le> version_number (cl_srv c) \<Longrightarrow> connect_bitmap c = open_bitmap"
  by (simp add: connect_bitmap_def)

lemma parse_open_body:
  fixes v w :: afp_volume
  assumes "msg = be16 (vol_attributes v) @ be16 (vol_signature v) @ be32 date @ be16 (vol_volid v) @ be16 name_offset @
    be32 (ucast (f_bsize (vol_stat v))) @ trailer"
  shows "parse_volbitmap_reply w open_bitmap msg = Some ((opened v date (vol_volume_name_printable w) w))"
proof -
  have at: "holds_at msg 0 (be16 (vol_attributes v) @ drop 2 msg)" "holds_at msg 2 (be16 (vol_signature v) @ drop 4 msg)"
    "holds_at msg 4 (be32 date @ drop 8 msg)" "holds_at msg 8 (be16 (vol_volid v) @ drop 10 msg)"
    "holds_at msg 10 (be16 name_offset @ drop 12 msg)" "holds_at msg 12 (be32 (ucast (f_bsize (vol_stat v))) @ drop 16 msg)"
    using assms by (simp_all add: holds_at_def)
  have rd: "rd16 msg 0 = Some (vol_attributes v)" "rd16 msg 2 = Some (vol_signature v)" "rd32 msg 4 = Some date"
    "rd16 msg 8 = Some (vol_volid v)" "rd16 msg 10 = Some name_offset" "rd32 msg 12 = Some (ucast (f_bsize (vol_stat v)))"
    using f16.rd_holds_at [OF at(1)] f16.rd_holds_at [OF at(2)] f32.rd_holds_at [OF at(3)] f16.rd_holds_at [OF at(4)]
      f16.rd_holds_at [OF at(5)] f32.rd_holds_at [OF at(6)] by simp_all
  have rd': "rd16 msg (Suc (Suc 0)) = Some (vol_signature v)" "rd32 msg (Suc (Suc (Suc (Suc 0)))) = Some date"
    using rd(2,3) by (simp_all add: eval_nat_numeral)
  show ?thesis
    by (cases w) (simp add: parse_volbitmap_reply_def has_bit_def param_def rd rd' opened_def)
qed

lemma volopen_reply:
  assumes "srv_incoming_buffer s = packet h (open_body v name_offset date trailer) @ rest"
    and "srv_data_read s = 16 + length (open_body v name_offset date trailer)"
    and "vol_attributes v AND kSupportsUTF8Names \<noteq> 0"
    and "convert_utf8dec_to_utf8pre (to_bytes (vol_volume_name w)) AFP_VOLUME_NAME_UTF8_LEN = Some pr"
  shows "afp_reply m afpOpenVol s (Volume w) = Some (0, s, Volume (opened v date (of_bytes pr) w))"
proof -
  let ?msg = "be16 (vol_attributes v) @ be16 (vol_signature v) @ be32 date @ be16 (vol_volid v) @ be16 name_offset @
    be32 (ucast (f_bsize (vol_stat v))) @ trailer @ rest"
  have b: "srv_incoming_buffer s = dsi_header_bytes h @ be16 open_bitmap @ ?msg"
    using assms(1) by (simp add: open_body_def)
  have "holds_at (srv_incoming_buffer s) 16 (be16 open_bitmap @ ?msg)"
    unfolding b by (simp add: holds_at_def)
  then have "rd16 (srv_incoming_buffer s) 16 = Some open_bitmap"
    by (rule f16.rd_holds_at)
  moreover have "drop 18 (srv_incoming_buffer s) = ?msg"
    unfolding b by simp
  moreover have "18 \<le> srv_data_read s"
    using assms(2) by (simp add: open_body_def)
  ultimately show ?thesis
    using parse_open_body [OF refl, where v = v and date = date and name_offset = name_offset and trailer = "trailer @ rest" and w = w] assms(3,4)
    by (simp add: afp_reply_def blank_subcommands_def store_reply_def afp_volopen_reply_def opened_def)
qed

subsection \<open>The request\<close>

definition open_fields :: "string \<Rightarrow> byte list" where
  "open_fields name = [afpOpenVol, 0] @ be16 open_bitmap @ word_of_nat (length name) # to_bytes name"

lemma volopen_packet:
  assumes "length name < 256" "env_malloc e (21 + length name)" "vol_volume_name (cl_vol c) = name"
  shows "afp_volopen e open_bitmap None c =
    returned_volume (send_fields e (open_fields name) DSI_OPENVOLUME_TIMEOUT afpOpenVol (Volume (cl_vol c)) c)"
proof -
  obtain c1 header where rh: "request_header DSI_DSICommand c = (c1, header)"
    by fastforce
  have len: "length header = 16" and vol: "cl_vol c1 = cl_vol c"
    using request_header_id(2) [OF rh] request_header_simps(2) [of DSI_DSICommand c] rh by simp_all
  have "copy_to_pascal (header @ [afpOpenVol, 0] @ be16 open_bitmap @ fresh e (length name + 1)) 20 (to_bytes name) =
      Some (length name, header @ open_fields name)"
    using assms(1) len by (simp add: copy_to_pascal_eq wr_bytes_def open_fields_def)
  then show ?thesis
    using assms(2,3) rh vol by (simp add: afp_volopen_def send_fields_def Let_def)
qed

lemma volopen_exchange:
  assumes "idle c" "\<And>n. env_malloc e n" "vol_volume_name (cl_vol c) = name" "length name < 256"
    and "answers_request e c (open_fields name) 0 (open_body v name_offset date trailer)"
    and "vol_attributes v AND kSupportsUTF8Names \<noteq> 0"
    and "convert_utf8dec_to_utf8pre (to_bytes name) AFP_VOLUME_NAME_UTF8_LEN = Some pr"
  shows "\<exists>c'. afp_volopen e open_bitmap None c = Some (0, c'\<lparr>cl_vol := opened v date (of_bytes pr) (cl_vol c)\<rparr>) \<and>
    idle c' \<and> lasting c' = lasting c"
proof -
  have "\<exists>c'. send_fields e (open_fields name) DSI_OPENVOLUME_TIMEOUT afpOpenVol (Volume (cl_vol c)) c =
      Some (0, Volume (opened v date (of_bytes pr) (cl_vol c)), c') \<and> idle c' \<and> lasting c' = lasting c"
  proof (rule exchange [OF assms(1,2,5)])
    show "\<exists>rc'. afp_reply (env_malloc e) afpOpenVol s (Volume (cl_vol c)) =
        Some (rc', s, Volume (opened v date (of_bytes pr) (cl_vol c)))"
      if "srv_incoming_buffer s = packet h (open_body v name_offset date trailer) @ rest"
        "srv_data_read s = 16 + length (open_body v name_offset date trailer)" for h rest s
      using volopen_reply [OF that assms(6)] assms(3,7) by blast
  qed simp_all
  then show ?thesis
    using volopen_packet [OF assms(4) assms(2) assms(3)] by (auto simp: returned_volume_def)
qed

lemma idle_path_encoding [simp]: "idle (map_srv (srv_path_encoding_update f) c) = idle c"
  by (simp add: idle_def session_ready_def queue_ok_def buffer_ok_def server_still_valid_def)

lemma connect_volume:
  assumes "idle c" and "\<And>n. env_malloc e n" and "30 \<le> version_number (cl_srv c)" and "c_str (vol_volpassword (cl_vol c)) = []"
    and "vol_volume_name (cl_vol c) = name" and "length name < 256"
    and "answers_request e c (open_fields name) 0 (open_body v name_offset date trailer)"
    and "vol_attributes v AND kSupportsUTF8Names \<noteq> 0" and "vol_signature v = AFP_VOL_FIXED"
    and "convert_utf8dec_to_utf8pre (to_bytes name) AFP_VOLUME_NAME_UTF8_LEN = Some pr"
    and "i < length (srv_volumes (cl_srv c))"
  shows "\<exists>c' ml'. afp_connect_volume e hook i mx ml c = Some ((0, ml'), c') \<and> idle c' \<and>
    (srv_path_encoding (cl_srv c) = kFPUTF8Name \<longrightarrow> ml' = ml) \<and>
    srv_volumes (cl_srv c') = (srv_volumes (cl_srv c))[i := cl_vol c'] \<and> vol_mounted (cl_vol c') = AFP_VOLUME_MOUNTED \<and> vol_volid (cl_vol c') = vol_volid v \<and>
    vol_attributes (cl_vol c') = vol_attributes v \<and> vol_creation_date (cl_vol c') = ad_date_to_unix date \<and>
    srv_path_encoding (cl_srv c') = kFPUTF8Name \<and>
    (supports_unix c' \<longleftrightarrow> \<not> (srv_server_type (cl_srv c) = AFPFS_SERVER_TYPE_NETATALK \<and> vol_attributes v AND kSupportsUnixPrivs = 0))"
proof -
  obtain d where d: "afp_volopen e open_bitmap None c = Some (0, d\<lparr>cl_vol := opened v date (of_bytes pr) (cl_vol c)\<rparr>)" "idle d"
    "lasting d = lasting c"
    using volopen_exchange [OF assms(1,2,5-8,10)] by blast
  have same: "version_number (cl_srv d) = version_number (cl_srv c)" "srv_volumes (cl_srv d) = srv_volumes (cl_srv c)"
    "srv_server_type (cl_srv d) = srv_server_type (cl_srv c)"
    using lasting_eqD(6) [OF d(3)] lasting_volumes [OF d(3)] arg_cong [OF d(3), of "srv_server_type \<circ> cl_srv"]
    by (simp_all add: lasting_def)
  let ?d = "map_srv (srv_path_encoding_update (\<lambda>_. kFPUTF8Name)) (d\<lparr>cl_vol := opened v date (of_bytes pr) (cl_vol c)\<rparr>)"
  let ?c = "put_volume i (map_vol (vol_mounted_update (\<lambda>_. AFP_VOLUME_MOUNTED)) (unix_flag ?d))"
  have enc: "srv_path_encoding (cl_srv d) = srv_path_encoding (cl_srv c)"
    using arg_cong [OF d(3), of "srv_path_encoding \<circ> cl_srv"] by (simp add: lasting_def)
  have "\<exists>ml'. afp_connect_volume e hook i mx ml c = Some ((0, ml'), ?c) \<and> (srv_path_encoding (cl_srv c) = kFPUTF8Name \<longrightarrow> ml' = ml)"
    using d(1) enc assms(3,4,8,9) connect_bitmap_eq [OF assms(3)]
    by (auto simp: afp_connect_volume_def connect_error_def opened_def Let_def)
  moreover have "idle ?c"
    using d(2) by (simp add: unix_flag_def)
  moreover have "srv_volumes (cl_srv ?c) = (srv_volumes (cl_srv c))[i := cl_vol ?c]"
    using same by (simp add: unix_flag_def put_volume_def)
  moreover have "vol_volid (cl_vol ?c) = vol_volid v" "vol_attributes (cl_vol ?c) = vol_attributes v"
    "vol_creation_date (cl_vol ?c) = ad_date_to_unix date" "srv_path_encoding (cl_srv ?c) = kFPUTF8Name"
    "vol_mounted (cl_vol ?c) = AFP_VOLUME_MOUNTED"
    by (simp_all add: unix_flag_def opened_def put_volume_def)
  moreover have "supports_unix ?c \<longleftrightarrow>
      \<not> (srv_server_type (cl_srv c) = AFPFS_SERVER_TYPE_NETATALK \<and> vol_attributes v AND kSupportsUnixPrivs = 0)"
    using same assms(3) by (simp add: supports_unix_def unix_flag_def opened_def put_volume_def and.assoc)
  ultimately show ?thesis
    by (elim exE conjE) (rule exI [of _ ?c], rule exI, intro conjI; assumption)
qed

subsection \<open>Main results\<close>

text \<open>(C14) Mounting. With AFP 3 and no volume password, when the server opens a volume with Unicode names and fixed
  directory identifiers, \<open>afp_connect_volume\<close> returns 0 without a message of failure. The volume has the identifier, the attributes and the dates of the
  reply, is marked as mounted in the array of the server, paths are sent in UTF-8 from now on, and Unix privileges are used unless the server is a Netatalk
  whose volume does not have them.\<close>

theorem afp_connect_volume_correct:
  assumes "idle c" and "\<And>n. env_malloc e n" and "30 \<le> version_number (cl_srv c)" and "c_str (vol_volpassword (cl_vol c)) = []"
    and "vol_volume_name (cl_vol c) = name" and "length name < 256"
    and "answers_request e c (open_fields name) 0 (open_body v name_offset date trailer)"
    and "vol_attributes v AND kSupportsUTF8Names \<noteq> 0" and "vol_signature v = AFP_VOL_FIXED"
    and "convert_utf8dec_to_utf8pre (to_bytes name) AFP_VOLUME_NAME_UTF8_LEN = Some pr"
    and "i < length (srv_volumes (cl_srv c))"
  shows "\<exists>c' ml'. afp_connect_volume e hook i mx ml c = Some ((0, ml'), c') \<and> idle c' \<and>
    srv_volumes (cl_srv c') ! i = cl_vol c' \<and> vol_mounted (cl_vol c') = AFP_VOLUME_MOUNTED \<and> vol_volid (cl_vol c') = vol_volid v \<and>
    vol_attributes (cl_vol c') = vol_attributes v \<and> vol_creation_date (cl_vol c') = ad_date_to_unix date \<and>
    srv_path_encoding (cl_srv c') = kFPUTF8Name \<and>
    (supports_unix c' \<longleftrightarrow> \<not> (srv_server_type (cl_srv c) = AFPFS_SERVER_TYPE_NETATALK \<and> vol_attributes v AND kSupportsUnixPrivs = 0))"
proof -
  obtain c' ml' where "afp_connect_volume e hook i mx ml c = Some ((0, ml'), c')" "idle c'"
    and vols: "srv_volumes (cl_srv c') = (srv_volumes (cl_srv c))[i := cl_vol c']"
    and rest: "vol_mounted (cl_vol c') = AFP_VOLUME_MOUNTED" "vol_volid (cl_vol c') = vol_volid v"
      "vol_attributes (cl_vol c') = vol_attributes v" "vol_creation_date (cl_vol c') = ad_date_to_unix date"
      "srv_path_encoding (cl_srv c') = kFPUTF8Name"
      "supports_unix c' \<longleftrightarrow> \<not> (srv_server_type (cl_srv c) = AFPFS_SERVER_TYPE_NETATALK \<and> vol_attributes v AND kSupportsUnixPrivs = 0)"
    using connect_volume [OF assms, of hook mx ml] by blast
  moreover have "srv_volumes (cl_srv c') ! i = cl_vol c'"
    using assms(11) by (simp add: vols)
  ultimately show ?thesis
    by blast
qed

definition volume_example :: client where
  "volume_example = map_srv (srv_volumes_update (\<lambda>_. [zero_volume\<lparr>vol_volume_name := ''Data''\<rparr>]))
     (map_vol (vol_volume_name_update (\<lambda>_. ''Data'')) example_client)"

definition data_volume :: afp_volume where
  "data_volume = zero_volume\<lparr>vol_volid := 7, vol_attributes := kSupportsUTF8Names, vol_signature := AFP_VOL_FIXED\<rparr>"

theorem afp_connect_volume_correct_witness:
  "\<exists>c' ml. afp_connect_volume (example_env (fixed_server (open_body data_volume 16 0 []))) Some 0 1024 ([], 0) volume_example =
     Some ((0, ml), c') \<and> vol_mounted (srv_volumes (cl_srv c') ! 0) = AFP_VOLUME_MOUNTED \<and> vol_volid (cl_vol c') = 7"
proof -
  let ?body = "open_body data_volume 16 0 []"
  let ?e = "example_env (fixed_server ?body)"
  have m: "env_malloc ?e n" for n
    by (simp add: example_env_def)
  have a: "answers_request ?e volume_example (open_fields ''Data'') 0 ?body"
    by (rule fixed_server_answers) (simp_all add: example_env_def open_body_def)
  have c: "idle volume_example" "30 \<le> version_number (cl_srv volume_example)" "c_str (vol_volpassword (cl_vol volume_example)) = []"
    "vol_volume_name (cl_vol volume_example) = ''Data''" "0 < length (srv_volumes (cl_srv volume_example))"
    using example_client_idle
    by (simp_all add: volume_example_def idle_def session_ready_def queue_ok_def buffer_ok_def server_still_valid_def example_client_def
        example_server_def afp_server_init_def zero_volume_def c_str_def)
  have v: "vol_attributes data_volume AND kSupportsUTF8Names \<noteq> 0" "vol_signature data_volume = AFP_VOL_FIXED" "vol_volid data_volume = 7"
    by (simp_all add: data_volume_def)
  have p: "convert_utf8dec_to_utf8pre (to_bytes ''Data'') AFP_VOLUME_NAME_UTF8_LEN = Some (to_bytes ''Data'')"
    by code_simp
  show ?thesis
    using afp_connect_volume_correct [OF c(1) m c(2,3,4) _ a v(1,2) p c(5), of Some 1024 "([], 0)"] v(3) by auto
qed

end
