(* ===== verification/Afp_Connect.thy ===== *)
theory Afp_Connect
  imports Afp_Mount Afp_Url Uams_Login
begin

text \<open>
  \<open>lib/connect.c\<close>: from a URL to a server that is logged in, on the list of all servers of the process. A server is a
  \<open>client\<close> behind an address; the record \<open>outside\<close> holds what the process gets from the system and from other libraries.
\<close>

unbundle bit_operations_syntax

subsection \<open>The servers of the process\<close>

text \<open>\<open>struct addrinfo\<close>: the two pointers are compared, the other fields are shown in the status.\<close>

record addrinfo =
  ai_family :: int
  ai_protocol :: u32
  ai_addr :: nat
  ai_canonname :: nat

text \<open>\<open>sw_list\<close> is \<open>server_base\<close> with the \<open>next\<close> pointers; \<open>sw_address\<close> and \<open>sw_used\<close> are the fields \<open>address\<close> and
  \<open>used_address\<close>; an address in \<open>sw_freed\<close> has been given
  back, and \<open>sw_fresh\<close> is the next one that \<open>malloc\<close> returns.\<close>

record servers =
  sw_list :: server_list
  sw_heap :: "nat \<Rightarrow> client"
  sw_address :: "nat \<Rightarrow> addrinfo list"
  sw_used :: "nat \<Rightarrow> addrinfo option"
  sw_freed :: "nat set"
  sw_fresh :: nat

text \<open>The surroundings: the network and the memory of each server, the two libraries, the entry of \<open>getpwuid\<close>, whether the structure of a server
  can be allocated, \<open>getaddrinfo\<close>, \<open>connect\<close>, the error it leaves, \<open>strerror\<close> and the function that ends a FUSE mount.\<close>

record outside =
  out_env :: "nat \<Rightarrow> env"
  out_gcrypt :: gcrypt
  out_uams :: uam_registry
  out_passwd :: passwd
  out_malloc :: "nat \<Rightarrow> bool"
  out_addresses :: "string \<Rightarrow> string \<Rightarrow> addrinfo list option"
  out_connects :: "nat \<Rightarrow> addrinfo \<Rightarrow> int option"
  out_errno :: int
  out_strerror :: "int \<Rightarrow> string"
  out_unmount :: unmount_hook

text \<open>An operation on the server at address \<open>a\<close>. It takes the server out of the list when it unregisters it, which also frees it, and puts it into the
  list when it registers it. On a server that has been freed there is no result.\<close>

definition on_server :: "nat \<Rightarrow> (client \<Rightarrow> ('a \<times> client) option) \<Rightarrow> servers \<Rightarrow> ('a \<times> servers) option" where
  "on_server a f w =
     (if a \<in> sw_freed w then None
      else do {
        (r, c) \<leftarrow> f (sw_heap w a);
        let before = cl_registered (sw_heap w a);
        let w = w\<lparr>sw_heap := (sw_heap w)(a := c)\<rparr>;
        if before \<and> \<not> cl_registered c then do {
          (_, l) \<leftarrow> unlink_server a (sw_list w);
          Some (r, w\<lparr>sw_list := l, sw_freed := insert a (sw_freed w)\<rparr>)
        }
        else if \<not> before \<and> cl_registered c then Some (r, w\<lparr>sw_list := add_server a (sw_list w)\<rparr>)
        else Some (r, w)
      })"

definition update_server :: "nat \<Rightarrow> (client \<Rightarrow> client) \<Rightarrow> servers \<Rightarrow> servers option" where
  "update_server a f w = map_option snd (on_server a (\<lambda>c. Some ((), f c)) w)"

text \<open>A new server: what \<open>afp_server_init\<close> makes of the memory it gets; \<open>None\<close> is the null pointer.\<close>

definition new_server :: "outside \<Rightarrow> addrinfo list \<Rightarrow> servers \<Rightarrow> (nat \<times> servers) option" where
  "new_server out addresses w =
     (let a = sw_fresh w; e = out_env out a in
      if \<not> out_malloc out a then None
      else Some (a, w\<lparr>sw_fresh := a + 1, sw_address := (sw_address w)(a := addresses), sw_used := (sw_used w)(a := None), sw_heap := (sw_heap w)(a :=
        \<lparr>cl_srv = afp_server_init (out_passwd out) (fresh e 4096) (fresh e AFP_DEFAULT_ATTENTION_QUANTUM), cl_vol = zero_volume,
         cl_sent = [], cl_ticks = 0, cl_fresh = 0, cl_registered = False, cl_send_mutex = False, cl_attention_threads = 0\<rparr>)\<rparr>))"

text \<open>\<open>bcmp\<close> gets the addresses of the pointers \<open>ai_addr\<close>: it compares these pointers and the ones that follow them in the structure, never the
  socket addresses.\<close>

definition find_server_by_address :: "addrinfo \<Rightarrow> servers \<Rightarrow> nat option option" where
  "find_server_by_address address w =
     find_server (\<lambda>s. case sw_used w s of
         Some u \<Rightarrow> ai_addr u \<noteq> 0 \<and> ai_addr address \<noteq> 0 \<and> ai_addr u = ai_addr address \<and> ai_canonname u = ai_canonname address
       | None \<Rightarrow> False) (sl_next (sw_list w)) (sl_base (sw_list w))"

subsection \<open>Connecting\<close>

definition afp_get_address :: "outside \<Rightarrow> string \<Rightarrow> u32 \<Rightarrow> addrinfo list option \<times> string list" where
  "afp_get_address out hostname port =
     (case out_addresses out hostname (take 5 (decimal (unat port))) of
        None \<Rightarrow> (None, [line (''Could not resolve '' @ hostname @ ''.'')])
      | Some addresses \<Rightarrow> (Some addresses, []))"

definition server_connect :: "outside \<Rightarrow> nat \<Rightarrow> addrinfo list \<Rightarrow> bool \<Rightarrow> servers \<Rightarrow> (int \<times> servers) option" where
  "server_connect out a addresses full w = do {
     let (fd, used) = try_addresses (out_connects out a) addresses (srv_fd (cl_srv (sw_heap w a)));
     (ret, w) \<leftarrow> on_server a (afp_server_connect (out_env out a) (out_connects out a) (out_errno out) addresses full) w;
     Some (ret, if fd < 0 then w else w\<lparr>sw_used := (sw_used w)(a := used)\<rparr>)
   }"

definition server_remove :: "nat \<Rightarrow> servers \<Rightarrow> servers option" where
  "server_remove a w = map_option snd (on_server a (\<lambda>c. Some (afp_server_remove c)) w)"

text \<open>The label \<open>error\<close> with the server \<open>s\<close>; reading a server that has been freed has no result.\<close>

definition give_up :: "nat \<Rightarrow> servers \<Rightarrow> servers option" where
  "give_up s w =
     (if s \<in> sw_freed w then None
      else if something_is_mounted (cl_srv (sw_heap w s)) then Some w
      else server_remove s w)"

text \<open>The label \<open>have_server\<close>. The type of an AirPort is written differently here and in \<open>afp_server_identify\<close>.\<close>

definition connect_server_type :: "afp_server \<Rightarrow> afp_server" where
  "connect_server_type s = s\<lparr>srv_server_type :=
     (if srv_machine_type s = ''Netatalk'' then AFPFS_SERVER_TYPE_NETATALK
      else if srv_machine_type s = ''Airport'' then AFPFS_SERVER_TYPE_AIRPORT
      else if srv_machine_type s = ''Macintosh'' then AFPFS_SERVER_TYPE_MACINTOSH
      else AFPFS_SERVER_TYPE_UNKNOWN)\<rparr>"

definition have_server :: "nat \<Rightarrow> string list \<Rightarrow> servers \<Rightarrow> (nat option \<times> string list \<times> servers) option" where
  "have_server s ms w = map_option (\<lambda>w. (Some s, ms, w)) (update_server s (map_srv connect_server_type) w)"

text \<open>What is kept of the first connection, which only asks for the status.\<close>

definition copy_status :: "afp_server \<Rightarrow> afp_server \<Rightarrow> afp_server" where
  "copy_status t s = s\<lparr>srv_supported_uams := srv_supported_uams t, srv_signature := srv_signature t, srv_server_name := srv_server_name t,
     srv_server_name_utf8 := srv_server_name_utf8 t, srv_server_name_printable := srv_server_name_printable t,
     srv_machine_type := srv_machine_type t, srv_icon := srv_icon t, srv_rx_quantum := srv_rx_quantum t\<rparr>"

record afp_connection_request =
  cr_uam_mask :: u32
  cr_url :: afp_url

text \<open>Without a user and a password only the method without authentication is tried, if the server has it.\<close>

definition login_mask :: "afp_connection_request \<Rightarrow> afp_server \<Rightarrow> u32" where
  "login_mask req t =
     (if url_username (cr_url req) = [] \<and> url_password (cr_url req) = [] \<and> srv_supported_uams t AND UAM_NOUSERAUTHENT \<noteq> 0
      then UAM_NOUSERAUTHENT else cr_uam_mask req)"

text \<open>The second connection, for a server that is not yet known.\<close>

definition login_server ::
  "outside \<Rightarrow> afp_connection_request \<Rightarrow> addrinfo list \<Rightarrow> afp_server \<Rightarrow> servers \<Rightarrow> (nat option \<times> string list \<times> servers) option" where
  "login_server out req addresses t w = do {
     (s, w) \<leftarrow> new_server out addresses w;
     (ret, w) \<leftarrow> server_connect out s addresses False w;
     if ret \<noteq> 0 then do {
       w \<leftarrow> give_up s w;
       Some (None, [line (''Could not connect to server error: '' @ out_strerror out (out_errno out))], w)
     }
     else do {
       let url = cr_url req;
       ((ok, ms), w) \<leftarrow> on_server s (\<lambda>c. map_option (\<lambda>(ok, ms, c). ((ok, ms), c))
         (afp_server_complete_connection (out_env out s) (out_gcrypt out) (out_uams out) (srv_versions t) (srv_supported_uams t)
           (url_username url) (url_password url) (word_of_int (url_requested_version url)) (login_mask req t) c)) w;
       if \<not> ok then map_option (\<lambda>w. (None, ms, w)) (give_up s w)
       else do {
         w \<leftarrow> update_server s (map_srv (copy_status t)) w;
         have_server s ms w
       }
     }
   }"

definition connect_failure :: "outside \<Rightarrow> int \<Rightarrow> string" where
  "connect_failure out ret =
     (if ret = - ETIMEDOUT then line (''Could not connect, never got a response to getstatus, '' @ out_strerror out (- ret))
      else line (''Could not connect, '' @ out_strerror out (- ret)))"

text \<open>From the first connection on, with the server \<open>tmp\<close> that is only used to ask for the status.\<close>

definition connect_new ::
  "outside \<Rightarrow> afp_connection_request \<Rightarrow> addrinfo list \<Rightarrow> nat \<Rightarrow> servers \<Rightarrow> (nat option \<times> string list \<times> servers) option" where
  "connect_new out req addresses tmp w = do {
     (ret, w) \<leftarrow> server_connect out tmp addresses True w;
     if ret < 0 then do {
       w \<leftarrow> server_remove tmp w;
       Some (None, [connect_failure out ret], w)
     }
     else do {
       w \<leftarrow> update_server tmp loop_disconnect w;
       let t = cl_srv (sw_heap w tmp);
       w \<leftarrow> server_remove tmp w;
       s \<leftarrow> find_server_by_signature (\<lambda>a. cl_srv (sw_heap w a)) (srv_signature t) (sw_list w);
       case s of
         Some s \<Rightarrow> have_server s [] w
       | None \<Rightarrow> login_server out req addresses t w
     }
   }"

definition afp_server_full_connect ::
  "outside \<Rightarrow> afp_connection_request \<Rightarrow> servers \<Rightarrow> (nat option \<times> string list \<times> servers) option" where
  "afp_server_full_connect out req w =
     (case afp_get_address out (url_servername (cr_url req)) (word_of_int (url_port (cr_url req))) of
        (None, ms) \<Rightarrow> Some (None, ms, w)
      | (Some addresses, _) \<Rightarrow> do {
          s \<leftarrow> find_server_by_address (hd addresses) w;
          case s of
            Some s \<Rightarrow> have_server s [] w
          | None \<Rightarrow>
              (case new_server out addresses w of
                 None \<Rightarrow> Some (None, [], w)
               | Some (tmp, w) \<Rightarrow> connect_new out req addresses tmp w)
        })"

subsection \<open>The list stays a list\<close>

text \<open>\<open>as\<close> are the servers of the list in their order: they are allocated, and exactly the registered ones of those that have not been freed.\<close>

definition servers_ok :: "servers \<Rightarrow> nat list \<Rightarrow> bool" where
  "servers_ok w as \<longleftrightarrow> server_chain (sw_list w) as \<and> (\<forall>a \<in> set as. a < sw_fresh w \<and> a \<notin> sw_freed w) \<and>
     (\<forall>a < sw_fresh w. a \<notin> sw_freed w \<longrightarrow> (cl_registered (sw_heap w a) \<longleftrightarrow> a \<in> set as))"

lemma servers_okD:
  assumes "servers_ok w as"
  shows "server_chain (sw_list w) as" "a \<in> set as \<Longrightarrow> a < sw_fresh w" "a \<in> set as \<Longrightarrow> a \<notin> sw_freed w"
    "a < sw_fresh w \<Longrightarrow> a \<notin> sw_freed w \<Longrightarrow> cl_registered (sw_heap w a) \<longleftrightarrow> a \<in> set as"
  using assms by (simp_all add: servers_ok_def)

lemma find_server_ok:
  "servers_ok w as \<Longrightarrow> find_server P (sl_next (sw_list w)) (sl_base (sw_list w)) = Some (find P as)"
  by (rule find_server_chain) (simp add: servers_ok_def server_chain_def)

lemma chain_update: "p \<notin> set ys \<Longrightarrow> chain (nxt(p := q)) s ys = chain nxt s ys"
  by (rule chain_cong) auto

lemma chain_unlink:
  assumes "chain nxt s (xs @ p # a # ys)" "distinct (xs @ p # a # ys)"
  shows "chain (nxt(p := nxt a)) s (xs @ p # ys)"
  using assms by (induction xs arbitrary: s) (auto simp: chain_update)

lemma chain_next: "chain nxt s (xs @ p # ys) \<Longrightarrow> nxt p = (case ys of [] \<Rightarrow> None | y # _ \<Rightarrow> Some y)"
  by (induction xs arbitrary: s) (auto split: list.splits)

lemma find_before:
  assumes "chain nxt s (xs @ p # a # ys)" "distinct (xs @ p # a # ys)"
  shows "find (\<lambda>q. nxt q = Some a) (xs @ p # a # ys) = Some p"
  using assms
proof (induction xs arbitrary: s)
  case (Cons x xs)
  have "nxt x = Some (hd (xs @ p # a # ys))"
    using Cons.prems(1) by (cases xs) auto
  moreover have "hd (xs @ p # a # ys) \<noteq> a"
    using Cons.prems(2) by (cases xs) auto
  ultimately show ?case
    using Cons by auto
qed simp

lemma unlink_server_chain:
  assumes "server_chain l as" "a \<in> set as"
  shows "\<exists>l'. unlink_server a l = Some (True, l') \<and> server_chain l' (remove1 a as)"
proof (cases "sl_base l = Some a")
  case True
  then obtain ys where as: "as = a # ys"
    using assms by (cases as) (auto simp: server_chain_def)
  then show ?thesis
    using assms True by (simp add: unlink_server_def server_chain_def)
next
  case False
  obtain xs ys where as: "as = xs @ a # ys"
    using assms(2) by (metis split_list)
  have "xs \<noteq> []"
    using False assms(1) as by (auto simp: server_chain_def)
  then obtain zs p where "xs = zs @ [p]"
    by (cases xs rule: rev_cases) auto
  then have as: "as = zs @ p # a # ys"
    using as by simp
  then have c: "chain (sl_next l) (sl_base l) (zs @ p # a # ys)" "distinct (zs @ p # a # ys)"
    using assms(1) by (simp_all add: server_chain_def)
  have "remove1 a as = zs @ p # ys"
    using as c(2) by (simp add: remove1_append)
  then show ?thesis
    using False as c chain_unlink [OF c] find_before [OF c] find_server_chain [OF c(1)]
    by (auto simp: unlink_server_def server_chain_def)
qed

text \<open>Every operation on a server of the process keeps this, and the search for the place of the server in the list ends.\<close>

lemma on_server_ok:
  assumes "servers_ok w as" "a < sw_fresh w" "a \<notin> sw_freed w" "f (sw_heap w a) = Some (r, c)"
  obtains w' as' where "on_server a f w = Some (r, w')" "servers_ok w' as'" "sw_fresh w' = sw_fresh w" "sw_heap w' = (sw_heap w)(a := c)"
    "sw_used w' = sw_used w" "sw_freed w' = (if cl_registered (sw_heap w a) \<and> \<not> cl_registered c then insert a (sw_freed w) else sw_freed w)"
    "set as' = (if cl_registered c then insert a (set as) else set as - {a})"
proof -
  note ok = servers_okD [OF assms(1)]
  have reg: "cl_registered (sw_heap w a) \<longleftrightarrow> a \<in> set as"
    by (rule ok(4) [OF assms(2,3)])
  have d: "distinct as"
    using ok(1) by (simp add: server_chain_def)
  consider (remove) "a \<in> set as" "\<not> cl_registered c" | (add) "a \<notin> set as" "cl_registered c" | (same) "a \<in> set as \<longleftrightarrow> cl_registered c"
    by blast
  then show thesis
  proof cases
    case remove
    obtain l where l: "unlink_server a (sw_list w) = Some (True, l)" "server_chain l (remove1 a as)"
      using unlink_server_chain [OF ok(1) remove(1)] by blast
    let ?w = "w\<lparr>sw_heap := (sw_heap w)(a := c), sw_list := l, sw_freed := insert a (sw_freed w)\<rparr>"
    have "on_server a f w = Some (r, ?w)"
      using assms(3,4) l(1) reg remove by (simp add: on_server_def Let_def)
    moreover have "servers_ok ?w (remove1 a as)"
      using assms(1,2) l(2) d by (auto simp: servers_ok_def)
    ultimately show thesis
      using that reg remove d by simp
  next
    case add
    let ?w = "w\<lparr>sw_heap := (sw_heap w)(a := c), sw_list := add_server a (sw_list w)\<rparr>"
    have "on_server a f w = Some (r, ?w)"
      using assms(3,4) reg add by (simp add: on_server_def Let_def)
    moreover have "servers_ok ?w (a # as)"
      using assms(1,2,3) add add_server_chain [OF ok(1) add(1)] by (auto simp: servers_ok_def)
    ultimately show thesis
      using that reg add by simp
  next
    case same
    let ?w = "w\<lparr>sw_heap := (sw_heap w)(a := c)\<rparr>"
    have "on_server a f w = Some (r, ?w)"
      using assms(3,4) reg same by (auto simp: on_server_def Let_def)
    moreover have "servers_ok ?w as"
      using assms(1,2,3) same by (auto simp: servers_ok_def)
    ultimately show thesis
      using reg same by (intro that [of ?w as]) (auto simp: insert_absorb)
  qed
qed

lemma on_server_keeps:
  assumes "servers_ok w as" "a < sw_fresh w" "on_server a f w = Some (r, w')"
  obtains c as' where "f (sw_heap w a) = Some (r, c)" "servers_ok w' as'" "sw_fresh w' = sw_fresh w" "sw_heap w' = (sw_heap w)(a := c)"
    "a \<notin> sw_freed w" "set as' = (if cl_registered c then insert a (set as) else set as - {a})"
    "a \<in> sw_freed w' \<longleftrightarrow> a \<in> set as \<and> \<not> cl_registered c"
proof -
  have a: "a \<notin> sw_freed w"
    using assms(3) by (auto simp: on_server_def)
  obtain r' c where f: "f (sw_heap w a) = Some (r', c)"
    using assms(3) a by (cases "f (sw_heap w a)") (auto simp: on_server_def)
  obtain w1 as' where w1: "on_server a f w = Some (r', w1)" "servers_ok w1 as'" "sw_fresh w1 = sw_fresh w" "sw_heap w1 = (sw_heap w)(a := c)"
    "sw_freed w1 = (if cl_registered (sw_heap w a) \<and> \<not> cl_registered c then insert a (sw_freed w) else sw_freed w)"
    "set as' = (if cl_registered c then insert a (set as) else set as - {a})"
    using on_server_ok [where f = f, OF assms(1,2) a f] by metis
  then have "r' = r" "w1 = w'"
    using assms(3) by simp_all
  then show thesis
    using that [of c as'] f w1 a servers_okD(4) [OF assms(1,2) a] by auto
qed

lemma new_server_ok:
  assumes "servers_ok w as" "new_server out addresses w = Some (a, w')"
  shows "servers_ok w' as" "a < sw_fresh w'" "a \<notin> set as"
  using assms by (auto simp: new_server_def Let_def servers_ok_def less_Suc_eq split: if_splits)

lemma update_server_keeps:
  assumes "servers_ok w as" "a < sw_fresh w" "update_server a f w = Some w'" "\<And>c. cl_registered (f c) = cl_registered c"
  obtains as' where "servers_ok w' as'" "sw_fresh w' = sw_fresh w" "set as' = set as"
proof -
  obtain u where u: "on_server a (\<lambda>c. Some ((), f c)) w = Some (u, w')"
    using assms(3) by (auto simp: update_server_def)
  show thesis
    by (rule on_server_keeps [OF assms(1,2) u])
       (use servers_okD(4) [OF assms(1,2)] assms(4) in \<open>auto intro: that\<close>)
qed

lemma server_remove_keeps:
  assumes "servers_ok w as" "a < sw_fresh w" "server_remove a w = Some w'"
  obtains as' where "servers_ok w' as'" "sw_fresh w' = sw_fresh w" "set as' = set as - {a}"
proof -
  obtain u where "on_server a (\<lambda>c. Some (afp_server_remove c)) w = Some (u, w')"
    using assms(3) by (auto simp: server_remove_def)
  then show thesis
    by (rule on_server_keeps [OF assms(1,2)])
       (auto simp: afp_server_remove_def afp_free_server_def loop_disconnect_def Let_def split: if_splits intro: that)
qed

lemma give_up_keeps:
  assumes "servers_ok w as" "a < sw_fresh w" "give_up a w = Some w'" "\<not> something_is_mounted (cl_srv (sw_heap w a))"
  obtains as' where "servers_ok w' as'" "sw_fresh w' = sw_fresh w" "set as' = set as - {a}"
  using assms server_remove_keeps [OF assms(1,2)] by (auto simp: give_up_def split: if_splits intro: that)

lemma servers_ok_used [simp]: "servers_ok (w\<lparr>sw_used := u\<rparr>) as = servers_ok w as"
  by (simp add: servers_ok_def)

lemma server_connect_keeps:
  assumes "servers_ok w as" "a < sw_fresh w" "server_connect out a addresses full w = Some (ret, w')"
  obtains as' c where "servers_ok w' as'" "sw_fresh w' = sw_fresh w" "set as' = (if cl_registered c then insert a (set as) else set as - {a})"
    "sw_heap w' a = c" "afp_server_connect (out_env out a) (out_connects out a) (out_errno out) addresses full (sw_heap w a) = Some (ret, c)"
proof -
  obtain w1 where w1: "on_server a (afp_server_connect (out_env out a) (out_connects out a) (out_errno out) addresses full) w = Some (ret, w1)"
    and w': "w' = w1 \<or> (\<exists>u. w' = w1\<lparr>sw_used := u\<rparr>)"
    using assms(3) by (auto simp: server_connect_def Let_def split: prod.splits if_splits Option.bind_splits)
  show thesis
    by (rule on_server_keeps [OF assms(1,2) w1]) (use w' in \<open>auto intro: that\<close>)
qed

lemma have_server_keeps:
  assumes "servers_ok w as" "s \<in> set as" "have_server s ms w = Some (r, ms', w')"
  shows "\<exists>as'. servers_ok w' as' \<and> set as' = set as \<union> set_option r"
proof -
  have u: "update_server s (map_srv connect_server_type) w = Some w'" and r: "r = Some s"
    using assms(3) by (auto simp: have_server_def)
  show ?thesis
    by (rule update_server_keeps [OF assms(1) servers_okD(2) [OF assms(1,2)] u]) (use assms(2) r in auto)
qed

lemma complete_connection_removes:
  assumes "afp_server_complete_connection e g r vs uams user password version m c = Some (False, ms, c')"
  shows "\<not> cl_registered c'"
  using assms
  by (auto simp: afp_server_complete_connection_def afp_server_remove_def afp_free_server_def loop_disconnect_def Let_def
      split: option.splits if_splits Option.bind_splits prod.splits)

lemma connected_registered:
  assumes "afp_server_connect e connects err addresses False c = Some (0, c')" "err \<noteq> 0"
  shows "cl_registered c'"
  using assms by (auto simp: afp_server_connect_def Let_def split: if_splits)

lemma connect_volumes:
  assumes "afp_server_connect e connects err addresses False c = Some (ret, c')"
  shows "srv_volumes (cl_srv c') = srv_volumes (cl_srv c)"
  using assms by (auto simp: afp_server_connect_def Let_def split: if_splits)

lemma new_server_volumes:
  assumes "new_server out addresses w = Some (s, w')"
  shows "srv_volumes (cl_srv (sw_heap w' s)) = []"
  using assms by (auto simp: new_server_def afp_server_init_def Let_def split: if_splits)

lemma login_server_keeps:
  assumes "servers_ok w as" "login_server out req addresses t w = Some (r, ms, w')" "out_errno out \<noteq> 0"
  shows "\<exists>as'. servers_ok w' as' \<and> set as' = set as \<union> set_option r"
proof -
  obtain s w1 where w1: "new_server out addresses w = Some (s, w1)"
    using assms(2) by (auto simp: login_server_def split: Option.bind_splits)
  note ok1 = new_server_ok [OF assms(1) w1] new_server_volumes [OF w1]
  obtain ret w2 where w2: "server_connect out s addresses False w1 = Some (ret, w2)"
    using assms(2) w1 by (auto simp: login_server_def split: Option.bind_splits)
  obtain as2 c2 where ok2: "servers_ok w2 as2" "sw_fresh w2 = sw_fresh w1" "set as2 = (if cl_registered c2 then insert s (set as) else set as - {s})"
    "sw_heap w2 s = c2" "afp_server_connect (out_env out s) (out_connects out s) (out_errno out) addresses False (sw_heap w1 s) = Some (ret, c2)"
    by (rule server_connect_keeps [OF ok1(1,2) w2])
  have s2: "s < sw_fresh w2"
    using ok1(2) ok2(2) by simp
  show ?thesis
  proof (cases "ret = 0")
    case False
    then have "give_up s w2 = Some w'" "r = None"
      using assms(2) w1 w2 by (auto simp: login_server_def split: Option.bind_splits)
    moreover have "\<not> something_is_mounted (cl_srv (sw_heap w2 s))"
      using ok2(4) connect_volumes [OF ok2(5)] ok1(4) by (simp add: something_is_mounted_def)
    ultimately obtain as' where as': "servers_ok w' as'" "set as' = set as2 - {s}"
      using give_up_keeps [OF ok2(1) s2] by metis
    have "set as' = set as"
      using as'(2) ok2(3) ok1(3) by simp
    then show ?thesis
      using as'(1) \<open>r = None\<close> by (intro exI [of _ as']) simp
  next
    case True
    let ?f = "\<lambda>c. map_option (\<lambda>(ok, ms, c). ((ok, ms), c))
         (afp_server_complete_connection (out_env out s) (out_gcrypt out) (out_uams out) (srv_versions t) (srv_supported_uams t)
           (url_username (cr_url req)) (url_password (cr_url req)) (word_of_int (url_requested_version (cr_url req))) (login_mask req t) c)"
    obtain ok ms1 w3 where w3: "on_server s ?f w2 = Some ((ok, ms1), w3)"
      and rest: "(if \<not> ok then map_option (\<lambda>w. (None, ms1, w)) (give_up s w3)
        else do { w \<leftarrow> update_server s (map_srv (copy_status t)) w3; have_server s ms1 w }) = Some (r, ms, w')"
      using assms(2) w1 w2 True by (auto simp: login_server_def Let_def split: Option.bind_splits)
    have as2: "set as2 = insert s (set as)"
      using ok2(3) connected_registered [OF ok2(5) [unfolded True] assms(3)] by simp
    then obtain as3 where ok3: "servers_ok w3 as3" "sw_fresh w3 = sw_fresh w2" "s \<in> sw_freed w3 \<or> set as3 = insert s (set as)"
      by (rule_tac on_server_keeps [OF ok2(1) s2 w3]) auto
    have s3: "s < sw_fresh w3"
      using s2 ok3(2) by simp
    show ?thesis
    proof (cases ok)
      case False
      then have "give_up s w3 = Some w'"
        using rest by auto
      moreover obtain c where "?f (sw_heap w2 s) = Some ((False, ms1), c)" "s \<in> set as2 \<Longrightarrow> \<not> cl_registered c \<Longrightarrow> s \<in> sw_freed w3"
        by (rule on_server_keeps [OF ok2(1) s2 w3]) (use False in auto)
      ultimately show ?thesis
        using complete_connection_removes as2 by (auto simp: give_up_def split: if_splits)
    next
      case True
      then obtain w4 where w4: "update_server s (map_srv (copy_status t)) w3 = Some w4" "have_server s ms1 w4 = Some (r, ms, w')"
        using rest by (auto split: Option.bind_splits)
      have rr: "r = Some s"
        using w4(2) by (auto simp: have_server_def)
      obtain as4 where ok4: "servers_ok w4 as4" "sw_fresh w4 = sw_fresh w3" "set as4 = set as3"
        by (rule update_server_keeps [OF ok3(1) s3 w4(1)]) auto
      show ?thesis
        using have_server_keeps [OF ok4(1) _ w4(2)] ok3(3) ok4(3) w4(1) rr by (auto simp: update_server_def on_server_def)
    qed
  qed
qed

lemma find_server_by_address_ok:
  "servers_ok w as \<Longrightarrow> find_server_by_address x w = Some (Some s) \<Longrightarrow> s \<in> set as"
  by (auto simp: find_server_by_address_def find_server_ok find_Some_iff)

lemma find_server_by_signature_ok:
  "servers_ok w as \<Longrightarrow> find_server_by_signature h x (sw_list w) = Some (Some s) \<Longrightarrow> s \<in> set as"
  by (auto simp: find_server_by_signature_def find_server_ok find_Some_iff)

lemma connect_new_keeps:
  assumes "servers_ok w as" "tmp < sw_fresh w" "connect_new out req addresses tmp w = Some (r, ms, w')" "out_errno out \<noteq> 0"
    "tmp \<notin> set as"
  shows "\<exists>as'. servers_ok w' as' \<and> set as' = set as \<union> set_option r"
proof -
  obtain ret w2 where w2: "server_connect out tmp addresses True w = Some (ret, w2)"
    using assms(3) by (auto simp: connect_new_def split: Option.bind_splits)
  obtain as2 where ok2: "servers_ok w2 as2" "tmp < sw_fresh w2" "set as2 - {tmp} = set as"
    by (rule server_connect_keeps [OF assms(1,2) w2]) (use assms(2,5) in auto)
  show ?thesis
  proof (cases "ret < 0")
    case True
    then have "server_remove tmp w2 = Some w'" "r = None"
      using assms(3) w2 by (auto simp: connect_new_def split: Option.bind_splits)
    then show ?thesis
      using server_remove_keeps [OF ok2(1,2)] ok2(3) by (metis Un_empty_right option.set(1))
  next
    case False
    then obtain w3 w4 s4 where w3: "update_server tmp loop_disconnect w2 = Some w3" "server_remove tmp w3 = Some w4"
      and s4: "find_server_by_signature (\<lambda>a. cl_srv (sw_heap w4 a)) (srv_signature (cl_srv (sw_heap w3 tmp))) (sw_list w4) = Some s4"
      and r: "(case s4 of Some s \<Rightarrow> have_server s [] w4
        | None \<Rightarrow> login_server out req addresses (cl_srv (sw_heap w3 tmp)) w4) = Some (r, ms, w')"
      using assms(3) w2 by (auto simp: connect_new_def Let_def split: Option.bind_splits)
    obtain as3 where ok3: "servers_ok w3 as3" "tmp < sw_fresh w3" "set as3 = set as2"
      by (rule update_server_keeps [OF ok2(1,2) w3(1)]) (use ok2(2) in \<open>auto simp: loop_disconnect_def\<close>)
    obtain as4 where ok4: "servers_ok w4 as4" "set as4 = set as"
      by (rule server_remove_keeps [OF ok3(1,2) w3(2)]) (use ok2(3) ok3(3) in auto)
    show ?thesis
    proof (cases s4)
      case None
      then show ?thesis
        using r login_server_keeps [OF ok4(1) _ assms(4)] ok4(2) by simp
    next
      case (Some s)
      then show ?thesis
        using r s4 have_server_keeps [OF ok4(1) find_server_by_signature_ok [OF ok4(1)]] ok4(2) by simp
    qed
  qed
qed

subsection \<open>Main results\<close>

text \<open>(C17) The list of servers. Whenever \<open>afp_server_full_connect\<close> returns, because the name is not resolved, a connection is refused, the server
  gives no status, the server is known already or the login succeeds, the list of servers is a list of different servers that are allocated and
  registered, so that every search of it ends, and the temporary server that is used to ask for the status has left it: the list has the servers it
  had before, and the server that is returned if there is one. After a login that the server refuses the function does not return: its error path
  reads the freed server (\<open>failed_login_reads_freed_server\<close>).\<close>

theorem full_connect_keeps_list:
  assumes "servers_ok w as" and "out_errno out \<noteq> 0" and "afp_server_full_connect out req w = Some (r, ms, w')"
  shows "\<exists>as'. servers_ok w' as' \<and> set as' = set as \<union> set_option r"
proof (cases "afp_get_address out (url_servername (cr_url req)) (word_of_int (url_port (cr_url req)))")
  case (Pair addresses ms1)
  show ?thesis
  proof (cases addresses)
    case None
    then show ?thesis
      using assms(1,3) Pair by (auto simp: afp_server_full_connect_def)
  next
    case (Some as1)
    obtain s where s: "find_server_by_address (hd as1) w = Some s"
      using assms(1) by (simp add: find_server_by_address_def find_server_ok)
    then have full: "(case s of Some s \<Rightarrow> have_server s [] w
        | None \<Rightarrow> (case new_server out as1 w of None \<Rightarrow> Some (None, [], w) | Some (tmp, w) \<Rightarrow> connect_new out req as1 tmp w)) = Some (r, ms, w')"
      using assms(3) Pair Some by (simp add: afp_server_full_connect_def)
    show ?thesis
      using full assms(1) s have_server_keeps [OF assms(1) find_server_by_address_ok [OF assms(1)]]
        new_server_ok [OF assms(1)] connect_new_keeps [OF _ _ _ assms(2)]
      by (cases s; cases "new_server out as1 w") (auto, metis)
  qed
qed

definition example_outside :: "(nat \<Rightarrow> addrinfo \<Rightarrow> int option) \<Rightarrow> outside" where
  "example_outside connects = \<lparr>out_env = (\<lambda>_. (example_env (\<lambda>_. Sent []))\<lparr>env_malloc := (\<lambda>_. False)\<rparr>), out_gcrypt = example_gcrypt,
     out_uams = \<lparr>uam_base = [], uam_names_list = []\<rparr>, out_passwd = \<lparr>pw_name = ''user'', pw_uid = 501, pw_gid = 20\<rparr>,
     out_malloc = (\<lambda>_. True), out_addresses = (\<lambda>_ _. Some [\<lparr>ai_family = 2, ai_protocol = 6, ai_addr = 100, ai_canonname = 0\<rparr>]),
     out_connects = connects, out_errno = 111, out_strerror = (\<lambda>_. ''Connection refused''), out_unmount = Some\<rparr>"

definition one_server :: servers where
  "one_server = \<lparr>sw_list = \<lparr>sl_base = Some 0, sl_next = (\<lambda>_. None)\<rparr>, sw_heap = (\<lambda>_. example_client), sw_address = (\<lambda>_. []), sw_used = (\<lambda>_. None),
     sw_freed = {}, sw_fresh = 1\<rparr>"

lemma one_server_ok: "servers_ok one_server [0]"
  by (simp add: servers_ok_def one_server_def server_chain_def example_client_def)

theorem full_connect_keeps_list_witness:
  "\<exists>w'. afp_server_full_connect (example_outside (\<lambda>_ _. None)) \<lparr>cr_uam_mask = default_uams_mask, cr_url = afp_default_url\<rparr> one_server =
      Some (None, [''Could not connect, Connection refused'' @ [CHR 0x0A]], w') \<and> (\<exists>as'. servers_ok w' as' \<and> set as' = {0})"
proof -
  let ?out = "example_outside (\<lambda>_ _. None)" and ?req = "\<lparr>cr_uam_mask = default_uams_mask, cr_url = afp_default_url\<rparr>"
  have "\<exists>w'. afp_server_full_connect ?out ?req one_server = Some (None, [''Could not connect, Connection refused'' @ [CHR 0x0A]], w')"
    by (simp add: afp_server_full_connect_def afp_get_address_def example_outside_def afp_default_url_def find_server_by_address_def
        find_server.simps one_server_def new_server_def connect_new_def server_connect_def on_server_def afp_server_connect_def
        server_remove_def afp_server_remove_def connect_failure_def line_def Let_def)
  then obtain w' where w': "afp_server_full_connect ?out ?req one_server = Some (None, [''Could not connect, Connection refused'' @ [CHR 0x0A]], w')"
    by blast
  have "out_errno ?out \<noteq> 0"
    by (simp add: example_outside_def)
  then show ?thesis
    using full_connect_keeps_list [OF one_server_ok _ w'] w' by auto
qed

text \<open>(C30) A failed login. When \<open>afp_server_complete_connection\<close> refuses the login, it has already removed and freed the server. The error path of
  \<open>afp_server_full_connect\<close> then asks whether one of its volumes is mounted, and so reads memory that has been freed.\<close>

theorem failed_login_reads_freed_server:
  assumes "servers_ok w as" and "new_server out addresses w = Some (s, w1)" and "server_connect out s addresses False w1 = Some (0, w2)"
    and "out_errno out \<noteq> 0" and "afp_server_complete_connection (out_env out s) (out_gcrypt out) (out_uams out) (srv_versions t)
        (srv_supported_uams t) (url_username (cr_url req)) (url_password (cr_url req)) (word_of_int (url_requested_version (cr_url req)))
        (login_mask req t) (sw_heap w2 s) = Some (False, ms, c)"
  shows "login_server out req addresses t w = None"
proof -
  note ok1 = new_server_ok [OF assms(1,2)]
  obtain as2 c2 where ok2: "servers_ok w2 as2" "s < sw_fresh w2" "s \<in> set as2"
    by (rule server_connect_keeps [OF ok1(1,2) assms(3)]) (use ok1(2) connected_registered [OF _ assms(4)] in \<open>metis insertI1\<close>)
  let ?f = "\<lambda>c. map_option (\<lambda>(ok, ms, c). ((ok, ms), c))
    (afp_server_complete_connection (out_env out s) (out_gcrypt out) (out_uams out) (srv_versions t) (srv_supported_uams t)
      (url_username (cr_url req)) (url_password (cr_url req)) (word_of_int (url_requested_version (cr_url req))) (login_mask req t) c)"
  have c: "?f (sw_heap w2 s) = Some ((False, ms), c)" "\<not> cl_registered c"
    using assms(5) complete_connection_removes [OF assms(5)] by simp_all
  have "s \<notin> sw_freed w2" "cl_registered (sw_heap w2 s)"
    using servers_okD(3,4) [OF ok2(1)] ok2(2,3) by auto
  then obtain w3 where "on_server s ?f w2 = Some ((False, ms), w3)" "s \<in> sw_freed w3"
    using on_server_ok [where f = ?f, OF ok2(1,2) _ c(1)] c(2) by (metis insertI1)
  then show ?thesis
    using assms(2,3) by (simp add: login_server_def give_up_def Let_def)
qed

definition guest_request :: afp_connection_request where
  "guest_request = \<lparr>cr_uam_mask = UAM_NOUSERAUTHENT, cr_url = afp_default_url\<rparr>"

theorem failed_login_reads_freed_server_witness:
  "login_server (example_outside (\<lambda>_ _. Some 3)) guest_request [\<lparr>ai_family = 2, ai_protocol = 6, ai_addr = 100, ai_canonname = 0\<rparr>]
     example_server one_server = None"
proof -
  let ?out = "example_outside (\<lambda>_ _. Some 3)" and ?a = "\<lparr>ai_family = 2, ai_protocol = 6, ai_addr = 100, ai_canonname = 0\<rparr>"
  obtain w1 where w1: "new_server ?out [?a] one_server = Some (1, w1)" "sw_freed w1 = {}" "\<not> cl_registered (sw_heap w1 1)"
    by (simp add: new_server_def one_server_def example_outside_def Let_def)
  obtain w2 where w2: "server_connect ?out 1 [?a] False w1 = Some (0, w2)"
    using w1(2,3) by (auto simp: server_connect_def example_outside_def on_server_def afp_server_connect_def Let_def)
  have "\<exists>ms c. afp_server_complete_connection (out_env ?out 1) (out_gcrypt ?out) (out_uams ?out) (srv_versions example_server)
      (srv_supported_uams example_server) (url_username (cr_url guest_request)) (url_password (cr_url guest_request))
      (word_of_int (url_requested_version (cr_url guest_request))) (login_mask guest_request example_server) c0 = Some (False, ms, c)" for c0
    by (simp add: afp_server_complete_connection_def dsi_opensession_def dsi_send_def dsi_start_def example_outside_def example_env_def
        pick_version_def example_server_def afp_server_init_def guest_request_def afp_default_url_def afp_versions_table_def
        dsi_setup_header_def Let_def numeral_eq_Suc)
  then show ?thesis
    using failed_login_reads_freed_server [OF one_server_ok w1(1) w2, of example_server guest_request] by (auto simp: example_outside_def)
qed

end
