(* ===== verification/Afp_Status.thy ===== *)
theory Afp_Status
  imports Afp_Connect
begin

text \<open>
  \<open>lib/status.c\<close> and \<open>lib/debug.c\<close>: the text that describes a server and its volumes. \<open>ntop\<close> stands for \<open>inet_ntop\<close>, \<open>stack\<close> for what a local
  array holds before it is written, and \<open>tx_delay\<close> for the field of that name, which only this text uses.
\<close>

unbundle bit_operations_syntax

subsection \<open>Names of commands\<close>

definition unknown :: "nat \<Rightarrow> string" where
  "unknown n = ''Unknown '' @ decimal n"

text \<open>The table has no entries for 73 and 74, so that all names behind them stand two places too early.\<close>

definition afp_command_names :: "string list" where
  "afp_command_names =
     [''Zero'', ''afpByteRangeLock'', ''afpCloseVol'', ''afpCloseDir'', ''afpCloseFork'', ''afpCopyFile'', ''afpCreateDir'', ''afpCreateFile'',
      ''afpDelete'', ''afpEnumerate'', ''afpFlush'', ''afpFlushFork'', ''Unknown'', ''Unknown'', ''afpGetForkParms'', ''afpGetSrvrInfo'',
      ''afpGetSrvrParms'', ''afpGetVolParms'', ''afpLogin'', ''afpLoginCont'', ''afpLogout'', ''afpMapID'', ''afpMapName'', ''afpMoveAndRename'',
      ''afpOpenVol'', ''afpOpenDir'', ''afpOpenFork'', ''afpRead'', ''afpRename'', ''afpSetDirParms'', ''afpSetFileParms'', ''afpSetForkParms'',
      ''afpSetVolParms'', ''afpWrite'', ''afpGetFileDirParms'', ''afpSetFileDirParms'', ''afpChangePassword'', ''afpGetUserInfo'', ''afpGetSrvrMsg''] @
     map unknown [39..<48] @ [''afpOpenDT''] @ map unknown [49..<51] @ [''afpGetIcon'', ''afpGetIconInfo''] @ map unknown [53..<56] @
     [''afpAddComment'', ''afpRemoveComment'', ''afpGetComment'', ''afpByteRangeLockExt'', ''afpReadExt'', ''afpWriteExt'', ''afpGetAuthMethods'',
      ''afp_LoginExt'', ''afpGetSessionToken'', ''afpDisconnectOldSession'', ''afpEnumerateExt'', ''afpCatSearchExt'', ''afpEnumerateExt2'',
      ''afpGetExtAttr'', ''afpSetExtAttr'', ''afpRemoveExtAttr'', ''afpListExtAttrs'', ''Some AFP 3.2 undocumented feature''] @
     map unknown [76..<122] @ [''afpZzzzz''] @ map unknown [123..<192] @ [''afpAddIcon''] @ map unknown [193..<256]"

text \<open>The code is a signed \<open>char\<close>: from 128 on the access is before the table.\<close>

definition afp_get_command_name :: "byte \<Rightarrow> string option" where
  "afp_get_command_name code =
     (if sint code < 0 then None else Some (afp_command_names ! nat (sint code)))"

subsection \<open>Printing into a buffer\<close>

text \<open>\<open>pos += snprintf(text+pos,len-pos,...)\<close>: the text in the buffer and \<open>pos\<close>. The difference is signed and becomes an unsigned size:
  once \<open>pos\<close> is larger than \<open>len\<close>, \<open>snprintf\<close> writes behind the buffer.\<close>

definition print :: "nat \<Rightarrow> string \<Rightarrow> string \<times> nat \<Rightarrow> (string \<times> nat) option" where
  "print len t tp =
     (if len < snd tp then None else Some (fst tp @ take (len - snd tp - 1) t, snd tp + length t))"

fun prints :: "nat \<Rightarrow> string list \<Rightarrow> string \<times> nat \<Rightarrow> (string \<times> nat) option" where
  "prints len [] tp = Some tp"
| "prints len (t # ts) tp = do { tp \<leftarrow> print len t tp; prints len ts tp }"

subsection \<open>A volume\<close>

definition volume_line :: "client \<Rightarrow> string" where
  "volume_line c = (let v = cl_vol c in
     line (''    Volume '' @ vol_volume_name_printable v @ '', id '' @ decimal (unat (vol_volid v)) @ '', attribs 0x'' @
       hexadecimal (unat (vol_attributes v)) @ '' mounted: '' @ (if vol_mounted v = AFP_VOLUME_MOUNTED then vol_mountpoint v else ''No'') @
       (if vol_mounted v = AFP_VOLUME_MOUNTED \<and> volume_is_readonly c then '' (read only)'' else '''')))"

definition mount_lines :: "client \<Rightarrow> string \<Rightarrow> string list" where
  "mount_lines c mapping = (let v = cl_vol c; s = cl_srv c; st = vol_did_cache_stats v; fl = vol_extra_flags v in
     [line (''        did cache stats: '' @ decimal (unat (dcs_misses st)) @ '' miss, '' @ decimal (unat (dcs_hits st)) @ '' hit, '' @
        decimal (unat (dcs_expired st)) @ '' expired, '' @ decimal (unat (dcs_force_removed st)) @ '' force removal'') @
      line (''        uid/gid mapping: '' @ mapping @ '' ('' @ signed_decimal (sint (srv_server_uid s)) @ ''/'' @
        signed_decimal (sint (srv_server_gid s)) @ '')''),
      ''        Unix permissions: '' @ (if fl AND VOLUME_EXTRA_FLAGS_VOL_SUPPORTS_UNIX \<noteq> 0 then ''Yes'' else ''No'')] @
     (if srv_server_type s = AFPFS_SERVER_TYPE_NETATALK
      then ['', Netatalk permissions broken: '',
        line (if fl AND VOLUME_EXTRA_FLAGS_VOL_CHMOD_KNOWN = 0 then ''Unknown''
          else if fl AND VOLUME_EXTRA_FLAGS_VOL_CHMOD_BROKEN \<noteq> 0 then ''Yes'' else ''No'')]
      else []))"

definition print_volume_status :: "nat \<Rightarrow> client \<Rightarrow> string \<times> nat \<Rightarrow> (string \<times> nat) option" where
  "print_volume_status len c tp = do {
     tp \<leftarrow> print len (volume_line c) tp;
     if vol_mounted (cl_vol c) = AFP_VOLUME_MOUNTED then do {
       mapping \<leftarrow> get_mapping_name (cl_vol c);
       prints len (mount_lines c mapping) tp
     }
     else Some tp
   }"

fun print_volumes :: "nat \<Rightarrow> client \<Rightarrow> afp_volume list \<Rightarrow> string \<times> nat \<Rightarrow> (string \<times> nat) option" where
  "print_volumes len c [] tp = Some tp"
| "print_volumes len c (v # vs) tp = do {
     tp \<leftarrow> print_volume_status len (c\<lparr>cl_vol := v\<rparr>) tp;
     tp \<leftarrow> print len [CHR 0x0A] tp;
     print_volumes len c vs tp
   }"

subsection \<open>A server\<close>

text \<open>The signature, a \<open>char\<close> at a time with \<open>sprintf("%02x")\<close> into an array of 33 bytes. A byte from 128 on is negative and
  becomes eight digits.\<close>

definition two_digits :: "nat \<Rightarrow> string" where
  "two_digits n = (if n < 16 then CHR ''0'' # hexadecimal n else hexadecimal n)"

definition char_digits :: "byte \<Rightarrow> string" where
  "char_digits b = two_digits (unat (scast b :: u32))"

fun signature_loop :: "nat \<Rightarrow> byte list \<Rightarrow> byte list \<Rightarrow> byte list option" where
  "signature_loop j [] buf = Some buf"
| "signature_loop j (b # bs) buf = do {
     buf \<leftarrow> wr_bytes buf (j * 2) (to_bytes (char_digits b) @ [0]);
     signature_loop (j + 1) bs buf
   }"

definition signature_string :: "byte list \<Rightarrow> byte list \<Rightarrow> string option" where
  "signature_string stack signature = map_option c_str (signature_loop 0 (take AFP_SIGNATURE_LEN signature) (take 33 stack))"

definition ntohs :: "u16 \<Rightarrow> u16" where
  "ntohs w = push_bit 8 w OR drop_bit 8 w"

text \<open>The methods of authentication, from bit \<open>i\<close> on; the last argument is \<open>firsttime\<close>.\<close>

fun print_uams :: "nat \<Rightarrow> afp_server \<Rightarrow> nat list \<Rightarrow> bool \<Rightarrow> string \<times> nat \<Rightarrow> (string \<times> nat) option" where
  "print_uams len s [] firsttime tp = Some tp"
| "print_uams len s (i # is) firsttime tp =
     (if bit (srv_supported_uams s) i then do {
        name \<leftarrow> uam_bitmap_to_string (push_bit i 1);
        name \<leftarrow> name;
        tp \<leftarrow> (if firsttime then print len '', '' tp else Some tp);
        tp \<leftarrow> print len (if push_bit i 1 = srv_using_uam s then name @ '' (used)'' else name) tp;
        print_uams len s is True tp
      }
      else print_uams len s is firsttime tp)"

fun print_requests :: "nat \<Rightarrow> dsi_request list \<Rightarrow> string \<times> nat \<Rightarrow> (string \<times> nat) option" where
  "print_requests len [] tp = Some tp"
| "print_requests len (r # rs) tp = do {
     name \<leftarrow> afp_get_command_name (req_subcommand r);
     tp \<leftarrow> print len (line (''         request '' @ decimal (unat (req_requestid r)) @ '', '' @ name)) tp;
     print_requests len rs tp
   }"

text \<open>The number that is shown as the port is the protocol of the address.\<close>

definition server_lines :: "(addrinfo \<Rightarrow> string) \<Rightarrow> addrinfo \<Rightarrow> afp_server \<Rightarrow> string" where
  "server_lines ntop address s =
     line (''Server '' @ srv_server_name_printable s) @
     line (''    connection: '' @ (if ai_family address \<in> {2, 10} then ntop address else ''unknown address family'') @ '':'' @
       decimal (unat (ntohs (ucast (ai_protocol address)))) @ '' '' @
       (if srv_connect_state s = SERVER_STATE_DISCONNECTED then ''(disconnected)'' else ''(active)'')) @
     line (''    using AFP version: '' @ av_name (srv_using_version s))"

definition transfer_lines :: "afp_server \<Rightarrow> u32 \<Rightarrow> string \<Rightarrow> string list" where
  "transfer_lines s tx_delay signature =
     [[CHR 0x0A] @ line (''    login message: '' @ srv_loginmesg s) @ ''    type: '' @ srv_machine_type s,
      [CHR 0x0A] @ line (''    signature: '' @ signature) @ line (''    transmit delay: '' @ decimal (unat tx_delay) @ ''ms'') @
      line (''    quantums: '' @ decimal (unat (srv_tx_quantum s)) @ ''(tx) '' @ decimal (unat (srv_rx_quantum s)) @ ''(rx)'') @
      line (''    last request id: '' @ decimal (unat (srv_lastrequestid s)) @ '' in queue: '' @
        decimal (unat (st_requests_pending (srv_stats s))))]"

definition statistics_lines :: "afp_server \<Rightarrow> string" where
  "statistics_lines s =
     line (''    transfer: '' @ decimal (unat (st_rx_bytes (srv_stats s))) @ ''(rx) '' @ decimal (unat (st_tx_bytes (srv_stats s))) @ ''(tx)'') @
     line (''    runt packets: '' @ decimal (unat (st_runt_packets (srv_stats s))))"

text \<open>\<open>afp_status_header\<close>: the text, \<open>len\<close> afterwards and the result.\<close>

definition afp_status_header :: "uam_registry \<Rightarrow> int \<Rightarrow> (string \<times> int \<times> int) option" where
  "afp_status_header r len =
     (if len < 0 then None
      else let t = line ''AFPFS Version: 0.8.2'' @ line (''UAMs compiled in: '' @ uam_names_list r) in
        Some (take (nat len - 1) t, len - int (length t), if len = int (length t) then - 1 else int (length t)))"

text \<open>The part of \<open>afp_status_server\<close> for a server; \<open>None\<close> also stands for the null pointers \<open>used_address\<close> and \<open>using_version\<close>, which
  are followed.\<close>

definition server_status ::
  "(addrinfo \<Rightarrow> string) \<Rightarrow> byte list \<Rightarrow> u32 \<Rightarrow> addrinfo option \<Rightarrow> client \<Rightarrow> nat \<Rightarrow> (string \<times> nat) option" where
  "server_status ntop stack tx_delay used c len = do {
     let s = cl_srv c;
     signature \<leftarrow> signature_string stack (srv_signature s);
     address \<leftarrow> used;
     tp \<leftarrow> (if srv_using_version s = no_version then None else print len (server_lines ntop address s) ([], 0));
     tp \<leftarrow> print len ''    server UAMs: '' tp;
     tp \<leftarrow> print_uams len s [0..<8] False tp;
     tp \<leftarrow> prints len (transfer_lines s tx_delay signature) tp;
     tp \<leftarrow> print_requests len (srv_command_requests s) tp;
     tp \<leftarrow> print len (statistics_lines s) tp;
     if len = 0 then Some tp else print_volumes len c (srv_volumes s) tp
   }"

text \<open>The text, and \<open>len\<close> afterwards. The buffer is cleared first, which needs a size that is not negative.\<close>

definition afp_status_server ::
  "(addrinfo \<Rightarrow> string) \<Rightarrow> byte list \<Rightarrow> u32 \<Rightarrow> addrinfo option \<Rightarrow> client option \<Rightarrow> int \<Rightarrow> (string \<times> int) option" where
  "afp_status_server ntop stack tx_delay used server len =
     (if len < 0 then None
      else do {
        (text, pos) \<leftarrow> (case server of
            None \<Rightarrow> print (nat len) (line ''Not connected to any servers'') ([], 0)
          | Some c \<Rightarrow> server_status ntop stack tx_delay used c (nat len));
        Some (text, len - int pos)
      })"

subsection \<open>The signature\<close>

text \<open>What is left of the digits of a byte once the next ones are written over them.\<close>

definition shown_digits :: "byte \<Rightarrow> string" where
  "shown_digits b = take 2 (char_digits b)"

lemma sint_byte: "sint (b :: byte) = (if b < 0x80 then uint b else uint b - 256)"
proof -
  have u: "uint b < 256" "0 \<le> uint b"
    using unsigned_less [of b] by simp_all
  then have d: "uint b div 128 = (if 128 \<le> uint b then 1 else 0)"
    by (auto simp: div_pos_pos_trivial)
  have "bit (uint b) 7 \<longleftrightarrow> 128 \<le> uint b"
    unfolding bit_iff_odd using d by simp
  moreover have "take_bit 8 (uint b) = uint b"
    using u by (simp add: take_bit_int_eq_self)
  moreover have "b < 0x80 \<longleftrightarrow> uint b < 128"
    by (simp add: word_less_def)
  ultimately show ?thesis
    by (simp add: sint_uint signed_take_bit_eq_take_bit_minus)
qed

lemma uint_scast_byte: "uint (scast (b :: byte) :: u32) = (if b < 0x80 then uint b else 0xffffff00 + uint b)"
proof -
  have m: "uint (scast b :: u32) = sint b mod 2 ^ 32"
    unfolding scast_eq unsigned_of_int take_bit_eq_mod by simp
  have u: "uint b < 256" "0 \<le> uint b"
    using unsigned_less [of b] by simp_all
  have p: "(2 :: int) ^ 32 = 4294967296"
    by simp
  have "(uint b - 256) mod 2 ^ 32 = 0xffffff00 + uint b"
    using p u mod_add_self2 [of "uint b - 256" "2 ^ 32"] mod_pos_pos_trivial [of "uint b - 256 + 2 ^ 32" "2 ^ 32"] by linarith
  moreover have "uint b mod 2 ^ 32 = uint b"
    using u p by (intro mod_pos_pos_trivial) linarith+
  ultimately show ?thesis
    unfolding m sint_byte by (cases "b < 0x80") (simp_all only: if_True if_False)
qed

lemma unat_scast_byte:
  shows "b < 0x80 \<Longrightarrow> unat (scast b :: u32) = unat (b :: byte)" and "\<not> b < 0x80 \<Longrightarrow> unat (scast b :: u32) = 0xffffff00 + unat b"
proof -
  show "unat (scast b :: u32) = unat b" if "b < 0x80"
    using uint_scast_byte [of b, unfolded if_P [OF that] uint_nat] by linarith
  show "unat (scast b :: u32) = 0xffffff00 + unat b" if "\<not> b < 0x80"
    using uint_scast_byte [of b, unfolded if_not_P [OF that] uint_nat] by linarith
qed

lemma hexadecimal_digit: "n < 16 \<Longrightarrow> hexadecimal n = [''0123456789abcdef'' ! n]"
  by (subst hexadecimal.simps) simp

lemma hexadecimal_step:
  assumes "0 < q" "r < 16"
  shows "hexadecimal (16 * q + r) = hexadecimal q @ [''0123456789abcdef'' ! r]"
proof -
  have "\<not> 16 * q + r < 16" "(16 * q + r) div 16 = q" "(16 * q + r) mod 16 = r"
    using assms by simp_all
  then show ?thesis
    by (subst hexadecimal.simps) simp
qed

lemma hexadecimal_ffffff: "hexadecimal 0xffffff = ''ffffff''"
proof -
  have "hexadecimal 15 = ''f''"
    by (simp add: hexadecimal_digit)
  then show ?thesis
    using hexadecimal_step [of 15 15] hexadecimal_step [of "0xff" 15] hexadecimal_step [of "0xfff" 15] hexadecimal_step [of "0xffff" 15]
      hexadecimal_step [of "0xfffff" 15] by simp
qed

lemma char_digits_cases:
  shows "b < 0x80 \<Longrightarrow> char_digits b = [''0123456789abcdef'' ! (unat b div 16), ''0123456789abcdef'' ! (unat b mod 16)]"
    and "\<not> b < 0x80 \<Longrightarrow> char_digits b = ''ffffff'' @ [''0123456789abcdef'' ! (unat b div 16), ''0123456789abcdef'' ! (unat b mod 16)]"
proof -
  have u: "unat b < 256"
    using unsigned_less [of b] by simp
  have b: "unat b = 16 * (unat b div 16) + unat b mod 16" "unat b div 16 < 16" "unat b mod 16 < 16"
    using u by simp_all
  show "char_digits b = [''0123456789abcdef'' ! (unat b div 16), ''0123456789abcdef'' ! (unat b mod 16)]" if "b < 0x80"
  proof (cases "unat b < 16")
    case True
    then show ?thesis
      unfolding char_digits_def unat_scast_byte(1) [OF that] two_digits_def by (simp add: hexadecimal_digit)
  next
    case False
    then have "hexadecimal (unat b) = hexadecimal (unat b div 16) @ [''0123456789abcdef'' ! (unat b mod 16)]"
      using hexadecimal_step [of "unat b div 16" "unat b mod 16"] b by simp
    then show ?thesis
      unfolding char_digits_def unat_scast_byte(1) [OF that] two_digits_def using False b(2) by (simp add: hexadecimal_digit)
  qed
  have e: "0xffffff00 + unat b = 16 * (16 * 0xffffff + unat b div 16) + unat b mod 16"
    using b(1) distrib_left [of 16 "16 * 0xffffff" "unat b div 16"] by linarith
  have h: "hexadecimal (16 * (16 * 0xffffff + unat b div 16) + unat b mod 16) =
      ''ffffff'' @ [''0123456789abcdef'' ! (unat b div 16), ''0123456789abcdef'' ! (unat b mod 16)]"
    using hexadecimal_step [OF _ b(3), of "16 * 0xffffff + unat b div 16"] hexadecimal_step [OF _ b(2), of "0xffffff"] hexadecimal_ffffff
    by (metis add_gr_0 append_assoc append_Cons append_Nil mult_pos_pos zero_less_numeral)
  show "char_digits b = ''ffffff'' @ [''0123456789abcdef'' ! (unat b div 16), ''0123456789abcdef'' ! (unat b mod 16)]" if "\<not> b < 0x80"
    unfolding char_digits_def unat_scast_byte(2) [OF that] two_digits_def e h by simp
qed

lemma length_char_digits: "length (char_digits b) = (if b < 0x80 then 2 else 8)"
  using char_digits_cases [of b] by auto

lemma length_shown_digits: "length (shown_digits b) = 2"
  by (simp add: shown_digits_def length_char_digits)

text \<open>The loop from byte \<open>j\<close> on, when \<open>pre\<close> is what has been written for the bytes before it.\<close>

lemma signature_loop_correct:
  assumes "length buf = 33" "take (2 * j) buf = pre" "j + length bs = 16" "length pre = 2 * j" "bs = [] \<Longrightarrow> buf ! 32 = 0"
  shows "case signature_loop j bs buf of
      None \<Rightarrow> \<exists>i < length bs. 13 \<le> j + i \<and> \<not> bs ! i < 0x80
    | Some buf' \<Rightarrow> buf' = pre @ to_bytes (concat (map shown_digits bs)) @ [0] \<and> (\<forall>i < length bs. 13 \<le> j + i \<longrightarrow> bs ! i < 0x80)"
  using assms
proof (induction bs arbitrary: j buf pre)
  case Nil
  then have "buf = take 32 buf @ [buf ! 32]"
    using take_Suc_conv_app_nth [of 32 buf] by simp
  then show ?case
    using Nil by simp
next
  case (Cons b bs)
  let ?d = "to_bytes (char_digits b)"
  show ?case
  proof (cases "j * 2 + length (?d @ [0]) \<le> length buf")
    case False
    then have "13 \<le> j \<and> \<not> b < 0x80"
      using Cons.prems by (auto simp: length_char_digits split: if_splits)
    moreover have "signature_loop j (b # bs) buf = None"
      using False by (simp add: wr_bytes_def)
    ultimately show ?thesis
      by (auto intro: exI [of _ 0])
  next
    case True
    define rest where "rest = drop (j * 2 + length (?d @ [0])) buf"
    let ?buf = "pre @ ?d @ 0 # rest"
    have buf: "wr_bytes buf (j * 2) (?d @ [0]) = Some ?buf" "length ?buf = 33"
      using True Cons.prems(1,2,4) by (simp_all add: wr_bytes_def rest_def mult.commute)
    have small: "13 \<le> j \<Longrightarrow> b < 0x80"
      using True Cons.prems(1) by (auto simp: length_char_digits split: if_splits)
    have pre: "take (2 * Suc j) ?buf = pre @ to_bytes (shown_digits b)"
      using Cons.prems(4) by (simp add: shown_digits_def take_map length_char_digits)
    have last: "?buf ! 32 = 0" if "bs = []"
    proof -
      have "j = 15" "b < 0x80"
        using that Cons.prems(3) small by simp_all
      then show ?thesis
        using Cons.prems(4) by (simp add: nth_append length_char_digits)
    qed
    have shift: "(\<exists>i < length bs. 13 \<le> Suc j + i \<and> \<not> bs ! i < 0x80) \<Longrightarrow> \<exists>i < length (b # bs). 13 \<le> j + i \<and> \<not> (b # bs) ! i < 0x80"
      by (metis add_Suc add_Suc_right length_Cons not_less_eq nth_Cons_Suc)
    have all: "\<forall>i < length (b # bs). 13 \<le> j + i \<longrightarrow> (b # bs) ! i < 0x80"
      if "\<forall>i < length bs. 13 \<le> Suc j + i \<longrightarrow> bs ! i < 0x80"
      using that small by (auto simp: nth_Cons' )
    have "case signature_loop (Suc j) bs ?buf of
        None \<Rightarrow> \<exists>i < length bs. 13 \<le> Suc j + i \<and> \<not> bs ! i < 0x80
      | Some buf' \<Rightarrow> buf' = (pre @ to_bytes (shown_digits b)) @ to_bytes (concat (map shown_digits bs)) @ [0] \<and>
          (\<forall>i < length bs. 13 \<le> Suc j + i \<longrightarrow> bs ! i < 0x80)"
      by (rule Cons.IH [OF buf(2) pre _ _ last]) (use Cons.prems(3,4) in \<open>simp_all add: length_shown_digits\<close>)
    then show ?thesis
      using buf(1) shift all by (cases "signature_loop (Suc j) bs ?buf") simp_all
  qed
qed

lemma hex_digit_neq_NUL: "n < 16 \<Longrightarrow> ''0123456789abcdef'' ! n \<noteq> CHR 0x00"
  by (simp add: numeral_eq_Suc less_Suc_eq) (elim disjE; simp)

lemma shown_digits_neq_NUL: "CHR 0x00 \<notin> set (shown_digits b)"
proof -
  have "unat b < 256"
    using unsigned_less [of b] by simp
  then have "unat b div 16 < 16" "unat b mod 16 < 16"
    by simp_all
  then show ?thesis
    using char_digits_cases [of b] hex_digit_neq_NUL [of "unat b div 16"] hex_digit_neq_NUL [of "unat b mod 16"]
    by (cases "b < 0x80") (auto simp: shown_digits_def)
qed

subsection \<open>Main results\<close>

text \<open>(C29) The signature in the status. Each byte is printed as a signed \<open>char\<close>. If one of the last three bytes of the signature is 128 or more, its eight
  digits are written behind the end of the local array; otherwise the text has two digits for every byte, which are its own for a byte below 128
  and \<open>ff\<close> for every other byte.\<close>

theorem status_signature:
  assumes "length signature = AFP_SIGNATURE_LEN" and "33 \<le> length stack"
  shows "signature_string stack signature =
    (if \<exists>i < AFP_SIGNATURE_LEN. 13 \<le> i \<and> 0x80 \<le> signature ! i then None
     else Some (concat (map (\<lambda>b. if b < 0x80 then [''0123456789abcdef'' ! (unat b div 16), ''0123456789abcdef'' ! (unat b mod 16)] else ''ff'')
       signature)))"
proof -
  have shown: "shown_digits b = (if b < 0x80 then [''0123456789abcdef'' ! (unat b div 16), ''0123456789abcdef'' ! (unat b mod 16)] else ''ff'')" for b
    using char_digits_cases [of b] by (simp add: shown_digits_def)
  have "CHR 0x00 \<notin> set (concat (map shown_digits signature))"
    using shown_digits_neq_NUL by auto
  then have "c_str (to_bytes (concat (map shown_digits signature)) @ [0]) = concat (map shown_digits signature)"
    using c_str_padded [of _ 1] by simp
  moreover have "case signature_loop 0 signature (take 33 stack) of
      None \<Rightarrow> \<exists>i < length signature. 13 \<le> 0 + i \<and> \<not> signature ! i < 0x80
    | Some buf \<Rightarrow> buf = [] @ to_bytes (concat (map shown_digits signature)) @ [0] \<and> (\<forall>i < length signature. 13 \<le> 0 + i \<longrightarrow> signature ! i < 0x80)"
    by (rule signature_loop_correct) (use assms in auto)
  ultimately show ?thesis
    using assms(1) unfolding signature_string_def shown [symmetric]
    by (cases "signature_loop 0 signature (take 33 stack)") (auto simp: not_less [symmetric])
qed

theorem status_signature_witness:
  "signature_string (replicate 33 0) (replicate 15 0x41 @ [0x80]) = None \<and>
   signature_string (replicate 33 0) (0xc0 # replicate 15 0x41) = Some (''ff'' @ concat (replicate 15 ''41''))"
proof
  have "\<exists>i < AFP_SIGNATURE_LEN. 13 \<le> i \<and> (0x80 :: byte) \<le> (replicate 15 0x41 @ [0x80]) ! i"
    by (rule exI [of _ 15]) (simp add: nth_append)
  then show "signature_string (replicate 33 0) (replicate 15 0x41 @ [0x80]) = None"
    using status_signature [of "replicate 15 0x41 @ [0x80]" "replicate 33 0"] by simp
  have "\<not> (\<exists>i < AFP_SIGNATURE_LEN. 13 \<le> i \<and> (0x80 :: byte) \<le> (0xc0 # replicate 15 0x41) ! i)"
    by (auto simp: nth_Cons' not_le [symmetric])
  moreover have "''0123456789abcdef'' ! (unat (0x41 :: byte) div 16) = CHR ''4''" "''0123456789abcdef'' ! (unat (0x41 :: byte) mod 16) = CHR ''1''"
    by simp_all
  ultimately show "signature_string (replicate 33 0) (0xc0 # replicate 15 0x41) = Some (''ff'' @ concat (replicate 15 ''41''))"
    using status_signature [of "0xc0 # replicate 15 0x41" "replicate 33 0"] by simp
qed

end
