(* ===== verification/Fuse_Messages.thy ===== *)
theory Fuse_Messages
  imports Afp_Url
begin

text \<open>
  \<open>fuse/afp_server.h\<close>: what the command \<open>afp_client\<close> and the daemon \<open>afpfsd\<close> send each other over their socket. A message is a structure of C
  as it lies in memory; the layout is the one of the usual little-endian machines (an \<open>int\<close> has 4 bytes and is aligned).
\<close>

unbundle bit_operations_syntax

subsection \<open>Constants\<close>

abbreviation (input) AFP_SERVER_COMMAND_MOUNT :: byte where "AFP_SERVER_COMMAND_MOUNT \<equiv> 1"
abbreviation (input) AFP_SERVER_COMMAND_STATUS :: byte where "AFP_SERVER_COMMAND_STATUS \<equiv> 2"
abbreviation (input) AFP_SERVER_COMMAND_UNMOUNT :: byte where "AFP_SERVER_COMMAND_UNMOUNT \<equiv> 3"
abbreviation (input) AFP_SERVER_COMMAND_SUSPEND :: byte where "AFP_SERVER_COMMAND_SUSPEND \<equiv> 4"
abbreviation (input) AFP_SERVER_COMMAND_RESUME :: byte where "AFP_SERVER_COMMAND_RESUME \<equiv> 5"
abbreviation (input) AFP_SERVER_COMMAND_PING :: byte where "AFP_SERVER_COMMAND_PING \<equiv> 6"
abbreviation (input) AFP_SERVER_COMMAND_EXIT :: byte where "AFP_SERVER_COMMAND_EXIT \<equiv> 7"
abbreviation (input) AFP_SERVER_RESULT_OKAY :: int where "AFP_SERVER_RESULT_OKAY \<equiv> 1"
abbreviation (input) AFP_SERVER_RESULT_ERROR :: int where "AFP_SERVER_RESULT_ERROR \<equiv> 2"
abbreviation (input) MAX_CLIENT_RESPONSE :: nat where "MAX_CLIENT_RESPONSE \<equiv> 2048"
abbreviation (input) AFP_CLIENT_INCOMING_BUF :: nat where "AFP_CLIENT_INCOMING_BUF \<equiv> 2048"

subsection \<open>Fields\<close>

text \<open>An array of \<open>n\<close> characters with a string in it, behind which it is clear.\<close>

definition char_array :: "nat \<Rightarrow> string \<Rightarrow> byte list" where
  "char_array n s = to_bytes s @ replicate (n - length s) 0"

text \<open>The string that starts at an offset; without a NUL it runs out of the buffer.\<close>

definition string_at :: "byte list \<Rightarrow> nat \<Rightarrow> string option" where
  "string_at buf p = (if 0 \<in> set (drop p buf) then Some (c_str (drop p buf)) else None)"

subsection \<open>Messages\<close>

record mount_request =
  mr_url :: afp_url
  mr_uam_mask :: u32
  mr_mountpoint :: string
  mr_volume_options :: u32
  mr_map :: u32
  mr_changeuid :: int

text \<open>The client fills in a \<open>struct afp_server_mount_request\<close> inside its buffer and the daemon reads the same structure inside its own: both programs
  only cast a pointer. The two functions below are the memory layout of this structure, with \<open>struct afp_url\<close> at its start, bytes of padding
  included, 1912 bytes. \<open>mount_request_bytes\<close> gives the bytes of a structure, \<open>mount_request_of\<close> the fields that are at \<open>incoming_string+1\<close>; the lemma
  \<open>mount_request_read\<close> says that they describe the same layout.\<close>

definition mount_request_fields :: "mount_request \<Rightarrow> byte list list" where
  "mount_request_fields r = (let u = mr_url r in
     [le32 (case url_protocol u of TCPIP \<Rightarrow> 0 | AT \<Rightarrow> 1), char_array 127 (url_username u), char_array 50 (url_uamname u),
      char_array 127 (url_password u), char_array AFP_SERVER_NAME_UTF8_LEN (url_servername u) @ [0], le32 (word_of_int (url_port u)),
      char_array AFP_VOLUME_NAME_UTF8_LEN (url_volumename u), char_array 768 (url_path u) @ [0, 0, 0], le32 (word_of_int (url_requested_version u)),
      char_array 255 (url_zone u), char_array 9 (url_volpassword u),
      le32 (mr_uam_mask r), char_array 255 (mr_mountpoint r) @ [0], le32 (mr_volume_options r), le32 (mr_map r), le32 (word_of_int (mr_changeuid r))])"

definition mount_request_bytes :: "mount_request \<Rightarrow> byte list" where
  "mount_request_bytes r = concat (mount_request_fields r)"

abbreviation (input) sizeof_mount_request :: nat where "sizeof_mount_request \<equiv> 1912"

definition mount_request_of :: "byte list \<Rightarrow> mount_request option" where
  "mount_request_of buf = do {
     protocol \<leftarrow> rd32le buf 1; username \<leftarrow> string_at buf 5; uamname \<leftarrow> string_at buf 132; password \<leftarrow> string_at buf 182;
     servername \<leftarrow> string_at buf 309; port \<leftarrow> rd32le buf 565; volumename \<leftarrow> string_at buf 569; path \<leftarrow> string_at buf 602;
     requested_version \<leftarrow> rd32le buf 1373; zone \<leftarrow> string_at buf 1377; volpassword \<leftarrow> string_at buf 1632; uam_mask \<leftarrow> rd32le buf 1641;
     mountpoint \<leftarrow> string_at buf 1645; volume_options \<leftarrow> rd32le buf 1901; mp \<leftarrow> rd32le buf 1905; changeuid \<leftarrow> rd32le buf 1909;
     Some \<lparr>mr_url = \<lparr>url_protocol = (if protocol = 0 then TCPIP else AT), url_username = username, url_uamname = uamname, url_password = password,
         url_servername = servername, url_port = sint port, url_volumename = volumename, url_path = path,
         url_requested_version = sint requested_version, url_zone = zone, url_volpassword = volpassword\<rparr>,
       mr_uam_mask = uam_mask, mr_mountpoint = mountpoint, mr_volume_options = volume_options, mr_map = mp, mr_changeuid = sint changeuid\<rparr>
   }"

text \<open>\<open>struct afp_server_response\<close> and the text behind it; three bytes of the structure are never set.\<close>

abbreviation (input) sizeof_response :: nat where "sizeof_response \<equiv> 8"

definition response_bytes :: "byte list \<Rightarrow> int \<Rightarrow> string \<Rightarrow> byte list" where
  "response_bytes padding result text = [word_of_int result] @ take 3 padding @ le32 (word_of_nat (length text)) @ to_bytes text"

subsection \<open>Reading what was written\<close>

lemma rd32le_at:
  assumes "p = length xs"
  shows "rd32le (xs @ le32 w @ ys) p = Some w"
  using assms
  by (simp add: rd32le_def rd16le_def le32_def be32_def be16_def rd8_append2 rd8_Cons join_be16 join_be32)

lemma rd32le_eq_None_iff: "rd32le b p = None \<longleftrightarrow> length b < p + 4"
  by (auto simp: rd32le_def rd16le_def rd8_def bind_eq_None_conv)

interpretation l32: wire_field le32 rd32le 4
  by unfold_locales (simp_all add: rd32le_at rd32le_eq_None_iff)

lemma length_char_array [simp]: "length s \<le> n \<Longrightarrow> length (char_array n s) = n"
  by (simp add: char_array_def)

lemma string_at_char_array:
  assumes "p = length xs" "length s < n" "CHR 0x00 \<notin> set s"
  shows "string_at (xs @ char_array n s @ ys) p = Some s"
proof -
  obtain k where k: "n - length s = Suc k"
    using assms(2) by (cases "n - length s") auto
  have "takeWhile (\<lambda>x. x \<noteq> 0) (to_bytes s @ 0 # replicate k 0 @ ys) = to_bytes s"
    using assms(3) by (induction s) (auto simp: byte_of_char_eq_0_iff)
  then show ?thesis
    using assms(1) k by (simp add: string_at_def char_array_def c_str_def)
qed

text \<open>A field in a sequence of fields.\<close>

lemma concat_field:
  assumes "i < length fs"
  shows "concat fs = concat (take i fs) @ fs ! i @ concat (drop (Suc i) fs)"
  using id_take_nth_drop [OF assms] by (metis concat.simps(2) concat_append)

lemma string_field:
  assumes "i < length fs" "fs ! i = char_array n s @ pad" "p = length xs + length (concat (take i fs))" "length s < n" "CHR 0x00 \<notin> set s"
  shows "string_at (xs @ concat fs @ ys) p = Some s"
  using string_at_char_array [of p "xs @ concat (take i fs)" s n "pad @ concat (drop (Suc i) fs) @ ys"] assms
  by (simp add: concat_field [OF assms(1)])

lemma int_field:
  assumes "i < length fs" "fs ! i = le32 w" "p = length xs + length (concat (take i fs))"
  shows "rd32le (xs @ concat fs @ ys) p = Some w"
  using l32.rd_enc [of p "xs @ concat (take i fs)" w "concat (drop (Suc i) fs) @ ys"] assms
  by (simp add: concat_field [OF assms(1)])

subsection \<open>Main results\<close>

text \<open>The strings of a request fit into their arrays, and its numbers into an \<open>int\<close>.\<close>

definition c_string :: "nat \<Rightarrow> string \<Rightarrow> bool" where
  "c_string n s \<longleftrightarrow> length s < n \<and> CHR 0x00 \<notin> set s"

definition c_int :: "int \<Rightarrow> bool" where
  "c_int n \<longleftrightarrow> - (2 ^ 31) \<le> n \<and> n < 2 ^ 31"

definition request_fits :: "mount_request \<Rightarrow> bool" where
  "request_fits r \<longleftrightarrow> (let u = mr_url r in c_string 127 (url_username u) \<and> c_string 50 (url_uamname u) \<and> c_string 127 (url_password u) \<and>
     c_string AFP_SERVER_NAME_UTF8_LEN (url_servername u) \<and> c_int (url_port u) \<and> c_string AFP_VOLUME_NAME_UTF8_LEN (url_volumename u) \<and>
     c_string 768 (url_path u) \<and> c_int (url_requested_version u) \<and> c_string 255 (url_zone u) \<and> c_string 9 (url_volpassword u) \<and>
     c_string 255 (mr_mountpoint r) \<and> c_int (mr_changeuid r))"

lemma sint_c_int: "c_int n \<Longrightarrow> sint (word_of_int n :: u32) = n"
  by (simp add: c_int_def signed_of_int signed_take_bit_int_eq_self)

lemma mount_request_read:
  assumes "request_fits r"
  shows "mount_request_of (AFP_SERVER_COMMAND_MOUNT # mount_request_bytes r @ rest) = Some r \<and> length (mount_request_bytes r) = sizeof_mount_request"
proof -
  let ?fs = "mount_request_fields r"
  note fit = assms [unfolded request_fits_def Let_def c_string_def]
  have len: "map length ?fs = [4, 127, 50, 127, 256, 4, 33, 771, 4, 255, 9, 4, 256, 4, 4, 4]"
    using fit by (simp add: mount_request_fields_def Let_def)
  have off: "length (concat (take i ?fs)) = sum_list (take i [4, 127, 50, 127, 256, 4, 33, 771, 4, 255, 9, 4, 256, 4, 4, 4])" for i
    unfolding len [symmetric] by (simp add: length_concat take_map)
  have n: "length ?fs = 16"
    by (simp add: mount_request_fields_def Let_def)
  define b where "b = [AFP_SERVER_COMMAND_MOUNT] @ concat ?fs @ rest"
  have s1: "string_at b 5 = Some (url_username (mr_url r))"
    unfolding b_def by (rule string_field [of 1 _ "127" _ "[]"]) (use fit n off [of 1] in \<open>simp_all add: mount_request_fields_def Let_def\<close>)
  have s2: "string_at b 132 = Some (url_uamname (mr_url r))"
    unfolding b_def by (rule string_field [of 2 _ "50" _ "[]"]) (use fit n off [of 2] in \<open>simp_all add: mount_request_fields_def Let_def\<close>)
  have s3: "string_at b 182 = Some (url_password (mr_url r))"
    unfolding b_def by (rule string_field [of 3 _ "127" _ "[]"]) (use fit n off [of 3] in \<open>simp_all add: mount_request_fields_def Let_def\<close>)
  have s4: "string_at b 309 = Some (url_servername (mr_url r))"
    unfolding b_def by (rule string_field [of 4 _ "AFP_SERVER_NAME_UTF8_LEN" _ "[0]"]) (use fit n off [of 4] in \<open>simp_all add: mount_request_fields_def Let_def\<close>)
  have s6: "string_at b 569 = Some (url_volumename (mr_url r))"
    unfolding b_def by (rule string_field [of 6 _ "AFP_VOLUME_NAME_UTF8_LEN" _ "[]"]) (use fit n off [of 6] in \<open>simp_all add: mount_request_fields_def Let_def\<close>)
  have s7: "string_at b 602 = Some (url_path (mr_url r))"
    unfolding b_def by (rule string_field [of 7 _ "768" _ "[0, 0, 0]"]) (use fit n off [of 7] in \<open>simp_all add: mount_request_fields_def Let_def\<close>)
  have s9: "string_at b 1377 = Some (url_zone (mr_url r))"
    unfolding b_def by (rule string_field [of 9 _ "255" _ "[]"]) (use fit n off [of 9] in \<open>simp_all add: mount_request_fields_def Let_def\<close>)
  have s10: "string_at b 1632 = Some (url_volpassword (mr_url r))"
    unfolding b_def by (rule string_field [of 10 _ "9" _ "[]"]) (use fit n off [of 10] in \<open>simp_all add: mount_request_fields_def Let_def\<close>)
  have s12: "string_at b 1645 = Some (mr_mountpoint r)"
    unfolding b_def by (rule string_field [of 12 _ "255" _ "[0]"]) (use fit n off [of 12] in \<open>simp_all add: mount_request_fields_def Let_def\<close>)
  have i0: "rd32le b 1 = Some ((case url_protocol (mr_url r) of TCPIP \<Rightarrow> 0 | AT \<Rightarrow> 1))"
    unfolding b_def by (rule int_field [of 0]) (use n off [of 0] in \<open>simp_all add: mount_request_fields_def Let_def\<close>)
  have i5: "rd32le b 565 = Some (word_of_int (url_port (mr_url r)))"
    unfolding b_def by (rule int_field [of 5]) (use n off [of 5] in \<open>simp_all add: mount_request_fields_def Let_def\<close>)
  have i8: "rd32le b 1373 = Some (word_of_int (url_requested_version (mr_url r)))"
    unfolding b_def by (rule int_field [of 8]) (use n off [of 8] in \<open>simp_all add: mount_request_fields_def Let_def\<close>)
  have i11: "rd32le b 1641 = Some (mr_uam_mask r)"
    unfolding b_def by (rule int_field [of 11]) (use n off [of 11] in \<open>simp_all add: mount_request_fields_def Let_def\<close>)
  have i13: "rd32le b 1901 = Some (mr_volume_options r)"
    unfolding b_def by (rule int_field [of 13]) (use n off [of 13] in \<open>simp_all add: mount_request_fields_def Let_def\<close>)
  have i14: "rd32le b 1905 = Some (mr_map r)"
    unfolding b_def by (rule int_field [of 14]) (use n off [of 14] in \<open>simp_all add: mount_request_fields_def Let_def\<close>)
  have i15: "rd32le b 1909 = Some (word_of_int (mr_changeuid r))"
    unfolding b_def by (rule int_field [of 15]) (use n off [of 15] in \<open>simp_all add: mount_request_fields_def Let_def\<close>)
  have "mount_request_of b = Some r"
    using assms unfolding mount_request_of_def
    by (simp add: s1 s2 s3 s4 s6 s7 s9 s10 s12 i0 [simplified] i5 i8 i11 i13 i14 i15 sint_c_int request_fits_def Let_def split: e_proto.split)
  moreover have "length (mount_request_bytes r) = sizeof_mount_request"
    using off [of 16] n by (simp add: mount_request_bytes_def)
  ultimately show ?thesis
    by (simp add: mount_request_bytes_def b_def)
qed

definition example_request :: mount_request where
  "example_request = \<lparr>mr_url = afp_default_url\<lparr>url_username := ''user'', url_servername := ''server'', url_volumename := ''Data''\<rparr>,
     mr_uam_mask = 0x80, mr_mountpoint = ''/mnt'', mr_volume_options = 0x34, mr_map = 0, mr_changeuid = 0\<rparr>"

end
