(* ===== verification/Fuse_Commands.thy ===== *)
theory Fuse_Commands
  imports Afp_Status Fuse_Messages
begin

text \<open>
  \<open>fuse/commands.c\<close>, with the parts of \<open>fuse/daemon.c\<close> and \<open>fuse/fuse_error.c\<close> that act on servers and clients: the commands of the daemon. A
  command runs in a thread of its own; here one command runs from its first to its last step. The FUSE library is the field \<open>fuse_run\<close> of the
  record \<open>host\<close>: what has come of a mount when the handler stops to wait for it.
\<close>

unbundle bit_operations_syntax

subsection \<open>Clients of the daemon\<close>

record fuse_client =
  fc_addr :: nat
  fc_fd :: int
  fc_incoming :: "byte list"
  fc_incoming_size :: int
  fc_client_string :: string

datatype fuse_device = No_Device | Device_Denied u32 u32 u32 u32 u32 | Device_Ready

text \<open>What the handlers get from the system: \<open>access\<close> on a mount point (0 or the error), the state of \<open>/dev/fuse\<close> with the numbers that are shown, the
  FUSE library (its result, its error, and the state of the server), what it has written to the standard error, \<open>inet_ntop\<close>, local
  arrays before they are written, the field \<open>tx_delay\<close>, and the flag of the debug mode.\<close>

record host =
  host_out :: outside
  host_access :: "string \<Rightarrow> int"
  host_device :: fuse_device
  fuse_run :: "string list \<Rightarrow> client \<Rightarrow> int \<times> int \<times> client"
  fuse_stderr :: string
  host_ntop :: "addrinfo \<Rightarrow> string"
  host_stack :: "byte list"
  host_tx_delay :: "nat \<Rightarrow> u32"
  host_debug :: bool

text \<open>The list of clients: \<open>remove_client\<close> forgets all of them when it removes the first one.\<close>

fun unlink_client :: "nat \<Rightarrow> fuse_client list \<Rightarrow> fuse_client list option" where
  "unlink_client toremove [] = None"
| "unlink_client toremove (c # cs) = (if fc_addr c = toremove then Some cs else map_option (Cons c) (unlink_client toremove cs))"

definition remove_client :: "nat \<Rightarrow> fuse_client list \<Rightarrow> int \<times> fuse_client list" where
  "remove_client toremove cs =
     (case cs of
        [] \<Rightarrow> (- 1, [])
      | c # rest \<Rightarrow> if fc_addr c = toremove then (0, [])
          else (case unlink_client toremove rest of None \<Rightarrow> (- 1, cs) | Some rest \<Rightarrow> (0, c # rest)))"

definition fuse_add_client :: "nat \<Rightarrow> int \<Rightarrow> fuse_client list \<Rightarrow> fuse_client list" where
  "fuse_add_client addr fd cs =
     cs @ [\<lparr>fc_addr = addr, fc_fd = fd, fc_incoming = replicate AFP_CLIENT_INCOMING_BUF 0, fc_incoming_size = 0, fc_client_string = []\<rparr>]"

subsection \<open>Messages for a client\<close>

text \<open>\<open>log_for_client\<close> (\<open>log.c\<close>) formats at most 1023 characters; \<open>fuse_log_for_client\<close> appends them to the string of the client.\<close>

definition fuse_log_for_client :: "string \<Rightarrow> string \<Rightarrow> string" where
  "fuse_log_for_client message cs = cs @ take (MAX_CLIENT_RESPONSE - length cs - 1) message"

definition log_for_client :: "string \<Rightarrow> string \<Rightarrow> string" where
  "log_for_client t cs = fuse_log_for_client (take 1023 t) cs"

text \<open>Some texts are handed over as the format itself, without arguments: a conversion in them then reads an argument that is not there.\<close>

fun as_format :: "string \<Rightarrow> string option" where
  "as_format [] = Some []"
| "as_format (c # t) =
     (if c = CHR ''%'' then (case t of
          d # t \<Rightarrow> if d = CHR ''%'' then map_option (Cons CHR ''%'') (as_format t) else None
        | [] \<Rightarrow> None)
      else map_option (Cons c) (as_format t))"

definition log_as_format :: "string \<Rightarrow> string \<Rightarrow> string option" where
  "log_as_format t cs = map_option (\<lambda>t. log_for_client t cs) (as_format t)"

text \<open>A handler gets the string of its client and returns a result, the new string and the servers.\<close>

type_synonym handler = "string \<Rightarrow> servers \<Rightarrow> (int \<times> string \<times> servers) option"

definition failed :: handler where
  "failed cs w = Some (AFP_SERVER_RESULT_ERROR, cs, w)"

subsection \<open>Suspending and resuming\<close>

definition server_named :: "string \<Rightarrow> servers \<Rightarrow> nat option option" where
  "server_named name w = find_server_by_name (\<lambda>a. cl_srv (sw_heap w a)) name (sw_list w)"

definition process_suspend :: "host \<Rightarrow> byte list \<Rightarrow> handler" where
  "process_suspend h buf cs w = do {
     name \<leftarrow> string_at buf 1;
     s \<leftarrow> server_named name w;
     case s of
       None \<Rightarrow> failed (log_for_client (line (name @ '' is an unknown server'')) cs) w
     | Some a \<Rightarrow> do {
         (ret, w) \<leftarrow> on_server a (afp_zzzzz (out_env (host_out h) a)) w;
         if ret \<noteq> 0 then failed cs w
         else do {
           w \<leftarrow> update_server a (\<lambda>c. map_srv (srv_connect_state_update (\<lambda>_. SERVER_STATE_DISCONNECTED)) (loop_disconnect c)) w;
           Some (AFP_SERVER_RESULT_OKAY, log_for_client (line (''Disconnected from '' @ name)) cs, w)
         }
       }
   }"

text \<open>\<open>l\<close> starts with the value of \<open>max\<close>, which is larger than the array, and the array is not initialised: the first message is not written. A server that
  is connected again is also put into the list again.\<close>

definition afp_server_reconnect_loud :: "host \<Rightarrow> nat \<Rightarrow> handler" where
  "afp_server_reconnect_loud h a cs w = do {
     let out = host_out h;
     let connected = 0 \<le> fst (try_addresses (out_connects out a) (sw_address w a) (srv_fd (cl_srv (sw_heap w a))));
     ((rc, mesg), w) \<leftarrow> on_server a (\<lambda>c. map_option (\<lambda>(rc, ml, c). ((rc, fst ml), c))
       (afp_server_reconnect (out_env out a) (out_gcrypt out) (out_uams out) (out_unmount out) (out_connects out a) (out_errno out)
         (sw_address w a) 2040 (c_str (take 1024 (host_stack h)), 2040) c)) w;
     let w = (if connected then w\<lparr>sw_list := add_server a (sw_list w)\<rparr> else w);
     Some (rc, if rc \<noteq> 0 then log_for_client mesg cs else cs, w)
   }"

definition process_resume :: "host \<Rightarrow> byte list \<Rightarrow> handler" where
  "process_resume h buf cs w = do {
     name \<leftarrow> string_at buf 1;
     s \<leftarrow> server_named name w;
     case s of
       None \<Rightarrow> failed (log_for_client (line (name @ '' is an unknown server'')) cs) w
     | Some a \<Rightarrow> do {
         (rc, cs, w) \<leftarrow> afp_server_reconnect_loud h a cs w;
         if rc \<noteq> 0 then failed (log_for_client (line (''Unable to reconnect to '' @ name)) cs) w
         else Some (AFP_SERVER_RESULT_OKAY, log_for_client (line (''Resumed connection to '' @ name)) cs, w)
       }
   }"

subsection \<open>Unmounting, status and the small commands\<close>

definition mounted_on :: "string \<Rightarrow> afp_server \<Rightarrow> nat option" where
  "mounted_on mountpoint s = find (\<lambda>j. vol_mountpoint (srv_volumes s ! j) = mountpoint) [0..<length (srv_volumes s)]"

definition process_unmount :: "host \<Rightarrow> byte list \<Rightarrow> handler" where
  "process_unmount h buf cs w = do {
     mountpoint \<leftarrow> string_at buf 1;
     let at = (\<lambda>a. mounted_on mountpoint (cl_srv (sw_heap w a)));
     s \<leftarrow> find_server (\<lambda>a. at a \<noteq> None) (sl_next (sw_list w)) (sl_base (sw_list w));
     case Option.bind s (\<lambda>a. map_option (Pair a) (at a)) of
       None \<Rightarrow> failed (log_for_client (line (''afpfs-ng doesn't have anything mounted on '' @ mountpoint @ ''.'')) cs) w
     | Some (a, j) \<Rightarrow>
         if vol_mounted (srv_volumes (cl_srv (sw_heap w a)) ! j) \<noteq> AFP_VOLUME_MOUNTED
         then failed (log_for_client (line (mountpoint @ '' was not mounted'')) cs) w
         else do {
           (_, w) \<leftarrow> on_server a (on_volume j (afp_unmount_volume (out_env (host_out h) a) (out_unmount (host_out h)) j)) w;
           Some (AFP_SERVER_RESULT_OKAY, cs, w)
         }
   }"

definition process_ping :: handler where
  "process_ping cs w = Some (AFP_SERVER_RESULT_OKAY, log_for_client (line ''Ping!'') cs, w)"

definition process_exit :: handler where
  "process_exit cs w = Some (AFP_SERVER_RESULT_OKAY, log_for_client (line ''Exiting'') cs, w)"

text \<open>The loop over the servers; the text of each is used as a format.\<close>

partial_function (option) status_loop :: "host \<Rightarrow> servers \<Rightarrow> nat option \<Rightarrow> int \<Rightarrow> string \<Rightarrow> string option" where
  "status_loop h w s len cs = (case s of
     None \<Rightarrow> Some cs
   | Some a \<Rightarrow> do {
       (text, len) \<leftarrow> afp_status_server (host_ntop h) (host_stack h) (host_tx_delay h a) (sw_used w a) (Some (sw_heap w a)) len;
       cs \<leftarrow> log_as_format text cs;
       status_loop h w (sl_next (sw_list w) a) len cs
     })"

declare status_loop.simps [code]

definition process_status :: "host \<Rightarrow> int \<Rightarrow> handler" where
  "process_status h incoming_size cs w =
     (if incoming_size + 1 < 66 then failed cs w
      else do {
        (text, len, _) \<leftarrow> afp_status_header (out_uams (host_out h)) 40960;
        cs \<leftarrow> log_as_format text cs;
        cs \<leftarrow> status_loop h w (sl_base (sw_list w)) len cs;
        Some (AFP_SERVER_RESULT_OKAY, cs, w)
      })"

subsection \<open>Mounting\<close>

text \<open>\<open>volopen\<close> for the volume \<open>i\<close> of the server; the messages, which contain the name of the volume, are used as a format.\<close>

definition volopen :: "host \<Rightarrow> nat \<Rightarrow> nat \<Rightarrow> handler" where
  "volopen h a i cs w = do {
     let out = host_out h;
     ((rc, mesg, _), w) \<leftarrow> on_server a (on_volume i (afp_connect_volume (out_env out a) (out_unmount out) i 1024 ([], 0))) w;
     cs \<leftarrow> log_as_format mesg cs;
     Some (rc, cs, w)
   }"

text \<open>The volume as an index, or the null pointer. The password is stored before it is looked at.\<close>

definition missing_volume :: "string \<Rightarrow> afp_server \<Rightarrow> string \<Rightarrow> string option" where
  "missing_volume volname server cs = do {
     let cs = log_for_client (line (''Volume '' @ volname @ '' does not exist on server '' @ srv_server_name_printable server @ ''.'')) cs;
     if srv_volumes server = [] then Some cs
     else do {
       (_, names) \<leftarrow> afp_list_volnames server 1024;
       Some (log_for_client (line (''Choose from: '' @ names)) cs)
     }
   }"

definition mount_volume :: "host \<Rightarrow> nat \<Rightarrow> string \<Rightarrow> string \<Rightarrow> string \<Rightarrow> servers \<Rightarrow> (nat option \<times> string \<times> servers) option" where
  "mount_volume h a volname volpassword cs w = do {
     let server = cl_srv (sw_heap w a);
     i \<leftarrow> find_volume_by_name server volname;
     case i of
       None \<Rightarrow> map_option (\<lambda>cs. (None, cs, w)) (missing_volume volname server cs)
     | Some i \<Rightarrow> do {
         let v = srv_volumes server ! i;
         if vol_mounted v = AFP_VOLUME_MOUNTED
         then Some (None, log_for_client (line (''Volume '' @ volname @ '' is already mounted on '' @ vol_mountpoint v)) cs, w)
         else do {
           let password = (if vol_flags v AND HasPassword \<noteq> 0 then take AFP_VOLPASS_LEN (char_array 9 volpassword) else replicate AFP_VOLPASS_LEN 0);
           w \<leftarrow> update_server a (map_srv (srv_volumes_update (\<lambda>vs. vs[i := v\<lparr>vol_volpassword := password\<rparr>]))) w;
           if vol_flags v AND HasPassword \<noteq> 0 \<and> volpassword = []
           then Some (None, log_for_client (line ''Volume password needed'') cs, w)
           else do {
             (rc, cs, w) \<leftarrow> volopen h a i cs w;
             if rc \<noteq> 0 then Some (None, log_for_client (line (''Could not mount volume '' @ volname)) cs, w)
             else Some (Some i, cs, w)
           }
         }
       }
   }"

text \<open>The command line that \<open>start_fuse_thread\<close> hands to the FUSE library.\<close>

definition fuse_arguments :: "bool \<Rightarrow> bool \<Rightarrow> client \<Rightarrow> string list" where
  "fuse_arguments debug changeuid c =
     [take 67 (srv_server_name_printable (cl_srv c) @ '':'' @ vol_volume_name_printable (cl_vol c)), vol_mountpoint (cl_vol c),
      if debug then ''-d'' else ''-f''] @ (if changeuid then [''-o'', ''allow_other''] else []) @ [''-s'']"

definition report_fuse_errors :: "host \<Rightarrow> string \<Rightarrow> string" where
  "report_fuse_errors h cs =
     (if fuse_stderr h = [] then cs
      else log_for_client (line ''FUSE reported the following error:'' @ take 1024 (fuse_stderr h)) cs)"

text \<open>The end of \<open>process_mount\<close>: what the FUSE library has done so far. The error \<open>ETIMEDOUT\<close> is looked for in its result, where it never is.\<close>

definition mount_outcome :: "int \<Rightarrow> int \<Rightarrow> client \<Rightarrow> bool \<times> string" where
  "mount_outcome fuse_result fuse_errno c =
     (let name = vol_volume_name_printable (cl_vol c) @ '' from server '' @ srv_server_name_printable (cl_srv c) in
      if fuse_result = 0 then
        (if vol_mounted (cl_vol c) = AFP_VOLUME_UNMOUNTED then
           (False, if fuse_errno = ENOENT then line ''Permission denied, maybe a problem with the fuse device or mountpoint?''
              else line (''Mounting of volume '' @ name @ '' failed.''))
         else (True, line (''Mounting of volume '' @ name @ '' succeeded.'')))
      else if fuse_result = ETIMEDOUT then (True, line ''Still trying.'')
      else (False, line (''Unknown error '' @ signed_decimal fuse_result @ '', '' @ signed_decimal fuse_errno @ ''.'')))"

definition start_fuse :: "host \<Rightarrow> nat \<Rightarrow> nat \<Rightarrow> mount_request \<Rightarrow> string \<Rightarrow> servers \<Rightarrow> (bool \<times> string \<times> servers) option" where
  "start_fuse h a i req cs w = do {
     ((ok, text), w) \<leftarrow> on_server a (on_volume i (\<lambda>c. do {
       let c = map_vol (\<lambda>v. v\<lparr>vol_extra_flags := vol_extra_flags v OR mr_volume_options req, vol_mapping := sint (mr_map req)\<rparr>) c;
       (_, c) \<leftarrow> afp_detect_mapping (out_env (host_out h) a) c;
       let c = map_vol (vol_mountpoint_update (\<lambda>_. take 254 (mr_mountpoint req))) c;
       let (fuse_result, fuse_errno, c) = fuse_run h (fuse_arguments (host_debug h) (mr_changeuid req \<noteq> 0) c) c;
       let (ok, text) = mount_outcome fuse_result fuse_errno c;
       Some ((ok, text), if fuse_result \<in> {0, ETIMEDOUT} then c else map_vol (vol_mounted_update (\<lambda>_. AFP_VOLUME_UNMOUNTED)) c)
     })) w;
     Some (ok, log_for_client text (report_fuse_errors h cs), w)
   }"

definition device_denied :: "u32 \<Rightarrow> u32 \<Rightarrow> u32 \<Rightarrow> u32 \<Rightarrow> u32 \<Rightarrow> string" where
  "device_denied mode uid gid euid egid = (let d = (\<lambda>w :: u32. signed_decimal (sint w)) in
     line (''Incorrect permissions on /dev/fuse, mode of device is '' @ octal (unat mode) @ '', uid/gid is '' @ d uid @ ''/'' @ d gid @
       ''.  But your effective uid/gid is '' @ d euid @ ''/'' @ d egid))"

text \<open>\<open>process_mount\<close>; a mount that succeeds returns 0. A result without a server has nothing to remove.\<close>

definition process_mount :: "host \<Rightarrow> int \<Rightarrow> byte list \<Rightarrow> handler" where
  "process_mount h incoming_size buf cs w =
     (if incoming_size - 1 < int sizeof_mount_request then failed cs w
      else do {
        req \<leftarrow> mount_request_of buf;
        let url = mr_url req;
        if host_access h (mr_mountpoint req) \<noteq> 0
        then failed (log_for_client (line (''Incorrect permissions on mountpoint '' @ mr_mountpoint req @ '': '' @
          out_strerror (host_out h) (host_access h (mr_mountpoint req)))) cs) w
        else case host_device h of
            No_Device \<Rightarrow> failed cs w
          | Device_Denied mode uid gid euid egid \<Rightarrow> failed (log_for_client (device_denied mode uid gid euid egid) cs) w
          | Device_Ready \<Rightarrow> do {
              let cs = log_for_client (line (''Mounting '' @ url_volumename url @ '' from '' @ url_servername url @ '' on '' @ mr_mountpoint req)) cs;
              (s, ms, w) \<leftarrow> afp_server_full_connect (host_out h) \<lparr>cr_uam_mask = mr_uam_mask req, cr_url = url\<rparr> w;
              let cs = fold log_for_client ms cs;
              case s of
                None \<Rightarrow> failed cs w
              | Some a \<Rightarrow> do {
                  (volume, cs, w) \<leftarrow> mount_volume h a (url_volumename url) (url_volpassword url) cs w;
                  (ok, cs, w) \<leftarrow> (case volume of None \<Rightarrow> Some (False, cs, w) | Some i \<Rightarrow> start_fuse h a i req cs w);
                  if ok then Some (0, cs, w)
                  else do {
                    w \<leftarrow> give_up a w;
                    failed cs w
                  }
                }
            }
      })"

subsection \<open>The daemon\<close>

text \<open>\<open>dm_written\<close> are the answers with the descriptor they were written to, \<open>dm_exit\<close> is \<open>exit_program\<close>, \<open>dm_fds\<close> are the descriptors of the main loop.\<close>

record daemon =
  dm_servers :: servers
  dm_clients :: "fuse_client list"
  dm_fresh :: nat
  dm_exit :: bool
  dm_fds :: fds
  dm_written :: "(int \<times> byte list) list"

definition run_command :: "host \<Rightarrow> fuse_client \<Rightarrow> servers \<Rightarrow> (int \<times> string \<times> servers) option" where
  "run_command h c w =
     (let buf = fc_incoming c; cmd = buf ! 0; cs = fc_client_string c in
      if cmd = AFP_SERVER_COMMAND_MOUNT then process_mount h (fc_incoming_size c) buf cs w
      else if cmd = AFP_SERVER_COMMAND_STATUS then process_status h (fc_incoming_size c) cs w
      else if cmd = AFP_SERVER_COMMAND_UNMOUNT then process_unmount h buf cs w
      else if cmd = AFP_SERVER_COMMAND_SUSPEND then process_suspend h buf cs w
      else if cmd = AFP_SERVER_COMMAND_RESUME then process_resume h buf cs w
      else if cmd = AFP_SERVER_COMMAND_PING then process_ping cs w
      else if cmd = AFP_SERVER_COMMAND_EXIT then process_exit cs w
      else Some (0, log_for_client (line ''Unknown command'') cs, w))"

text \<open>The answer is put together in an array with room for \<open>MAX_CLIENT_RESPONSE\<close> characters.\<close>

definition process_command_thread :: "host \<Rightarrow> fuse_client \<Rightarrow> daemon \<Rightarrow> daemon option" where
  "process_command_thread h c d = do {
     (ret, cs, w) \<leftarrow> run_command h c (dm_servers d);
     let d = d\<lparr>dm_servers := w, dm_exit := dm_exit d \<or> fc_incoming c ! 0 = AFP_SERVER_COMMAND_EXIT\<rparr>;
     if MAX_CLIENT_RESPONSE < length cs then None
     else do {
       let d = d\<lparr>dm_written := dm_written d @ [(fc_fd c, response_bytes (host_stack h) ret cs)]\<rparr>;
       if fc_fd c = 0 then Some d
       else Some (d\<lparr>dm_fds := rm_fd (nat (fc_fd c)) (dm_fds d), dm_clients := snd (remove_client (fc_addr c) (dm_clients d))\<rparr>)
     }
   }"

text \<open>\<open>data\<close> is what \<open>read\<close> returns, the empty list for the end of the stream and for an error.\<close>

definition process_command :: "host \<Rightarrow> byte list \<Rightarrow> fuse_client \<Rightarrow> daemon \<Rightarrow> daemon option" where
  "process_command h data c d =
     (let data = take AFP_CLIENT_INCOMING_BUF data in
      if data = [] then Some (d\<lparr>dm_clients := snd (remove_client (fc_addr c) (dm_clients d)), dm_fds := rm_fd (nat (fc_fd c)) (dm_fds d)\<rparr>)
      else process_command_thread h
        (c\<lparr>fc_incoming := data @ drop (length data) (fc_incoming c), fc_incoming_size := int (length data)\<rparr>) d)"

definition fuse_process_client_fds :: "host \<Rightarrow> (int \<Rightarrow> byte list) \<Rightarrow> nat set \<Rightarrow> daemon \<Rightarrow> (int \<times> daemon) option" where
  "fuse_process_client_fds h data fdset d =
     (case find (\<lambda>c. nat (fc_fd c) \<in> fdset) (dm_clients d) of
        None \<Rightarrow> Some (0, d)
      | Some c \<Rightarrow> map_option (Pair 1) (process_command h (data (fc_fd c)) c d))"

text \<open>\<open>accepted\<close> is what \<open>accept\<close> returns. A command of the client never makes \<open>fuse_process_client_fds\<close> return -1, so that the first branch of the
  \<open>switch\<close> is never taken. Without a client to serve, the main loop sleeps for ten seconds.\<close>

definition fuse_scan_extra_fds :: "host \<Rightarrow> (int \<Rightarrow> byte list) \<Rightarrow> nat \<Rightarrow> int \<Rightarrow> nat set \<Rightarrow> daemon \<Rightarrow> (int \<times> daemon) option" where
  "fuse_scan_extra_fds h data command_fd accepted fdset d =
     (let new = command_fd \<in> fdset \<and> 0 \<le> accepted;
          d = (if new then d\<lparr>dm_clients := fuse_add_client (dm_fresh d) accepted (dm_clients d), dm_fresh := dm_fresh d + 1,
                dm_fds := (dm_fds d)\<lparr>max_fd := max (max_fd (dm_fds d)) (nat accepted + 1)\<rparr>\<rparr> else d)
      in fuse_process_client_fds h data (if new then insert (nat accepted) fdset else fdset) d)"

subsection \<open>The end of the daemon\<close>

text \<open>\<open>fuse_forced_ending_hook\<close> (\<open>daemon.c\<close>): the loop over the volumes of a server, whose number is read from the server again each time.\<close>

fun end_volumes :: "outside \<Rightarrow> nat \<Rightarrow> nat list \<Rightarrow> servers \<Rightarrow> servers option" where
  "end_volumes out a [] w = (if a \<in> sw_freed w then None else Some w)"
| "end_volumes out a (i # is) w = do {
     (_, w) \<leftarrow> on_server a (on_volume i (afp_unmount_volume (out_env out a) (out_unmount out) i)) w;
     end_volumes out a is w
   }"

partial_function (option) end_servers :: "outside \<Rightarrow> nat option \<Rightarrow> servers \<Rightarrow> servers option" where
  "end_servers out s w = (case s of
     None \<Rightarrow> Some w
   | Some a \<Rightarrow> if a \<in> sw_freed w then None
       else do {
         let c = sw_heap w a;
         w \<leftarrow> (if srv_connect_state (cl_srv c) = SERVER_STATE_CONNECTED then end_volumes out a [0..<length (srv_volumes (cl_srv c))] w else Some w);
         end_servers out (sl_next (sw_list w) a) w
       })"

declare end_servers.simps [code]

definition fuse_forced_ending_hook :: "outside \<Rightarrow> servers \<Rightarrow> servers option" where
  "fuse_forced_ending_hook out w = end_servers out (sl_base (sw_list w)) w"

end
