(* ===== verification/Fuse_Client.thy ===== *)
theory Fuse_Client
  imports Fuse_Messages Uams
begin

text \<open>
  \<open>fuse/client.c\<close>: the command \<open>afp_client\<close>, also called as \<open>mount_afp\<close>. It writes one request into a buffer, sends it to the daemon and prints the
  answer. \<open>opts\<close> is what \<open>getopt_long\<close> finds, option letters with their arguments, and \<open>args\<close> what it leaves behind them; \<open>getpass\<close> is a function
  from the prompt, and \<open>getpwnam\<close> and \<open>getgrnam\<close> are functions from names to numbers.
\<close>

unbundle bit_operations_syntax

subsection \<open>Requests\<close>

text \<open>The result is the contents of \<open>outgoing_buffer\<close> that are sent, or \<open>Inl\<close> with the text that is printed before -1 is returned. An argument that is
  missing is a null pointer.\<close>

type_synonym prepared = "(string + byte list) option"

definition usage :: prepared where
  "usage = Some (Inl (concat [
     line ''afp_client [command] [options]'',
     line ''    mount [mountopts] <server>:<volume> <mountpoint>'',
     line ''         mount options:'',
     line ''         -u, --user <username> : log in as user <username>'',
     line ''         -p, --pass <password> : use <password>'',
     line (''                           If password is '' @ [CHR 0x27] @ ''-'' @ [CHR 0x27] @ '', password will be hidden''),
     line ''         -o, --port <portnum> : connect using <portnum> instead of 548'',
     line ''         -V, --volumepassword <volpass> : use this volume password'',
     line ''         -v, --afpversion <afpversion> set the AFP version, eg. 3.1'',
     line ''         -a, --uam <uam> : use this authentication method, one of:'',
     line (''               '' @ [CHR 0x22] @ ''No User Authent'' @ [CHR 0x22] @ '', '' @ [CHR 0x22] @ ''Cleartxt Passwrd'' @ [CHR 0x22] @ '', ''),
     line (''               '' @ [CHR 0x22] @ ''Randnum Exchange'' @ [CHR 0x22] @ '', '' @ [CHR 0x22] @ ''2-Way Randnum Exchange'' @ [CHR 0x22] @ '', ''),
     line (''               '' @ [CHR 0x22] @ ''DHCAST128'' @ [CHR 0x22] @ '', '' @ [CHR 0x22] @ ''Client Krb v2'' @ [CHR 0x22] @ '', '' @ [CHR 0x22] @ ''DHX2'' @ [CHR 0x22] @ '' '') @ line '''',
     line ''         -m, --map <mapname> : use this uid/gid mapping method, one of:'',
     line (''               '' @ [CHR 0x22] @ ''Common user directory'' @ [CHR 0x22] @ '', '' @ [CHR 0x22] @ ''Login ids'' @ [CHR 0x22]),
     line ''    status: get status of the AFP daemon'' @ line '''',
     line ''    unmount <mountpoint> : unmount'' @ line '''',
     line ''    suspend <servername> : terminates the connection to the server, but'',
     line ''                           maintains the mount.  For laptop suspend/resume'',
     line ''    resume  <servername> : resumes the server connection '' @ line '''',
     line ''    exit                 : unmounts all volumes and exits afpfsd'']))"

definition do_exit :: prepared where
  "do_exit = Some (Inr [AFP_SERVER_COMMAND_EXIT])"

definition do_status :: "(char \<times> string) list \<Rightarrow> prepared" where
  "do_status opts = Some (Inr (AFP_SERVER_COMMAND_STATUS #
     char_array 33 (fold (\<lambda>(c, arg) v. if c = CHR ''v'' then take 32 arg else v) opts []) @ char_array 33 []))"

definition do_resume :: "string list \<Rightarrow> prepared" where
  "do_resume argv =
     (if length argv < 3 then usage else Some (Inr (AFP_SERVER_COMMAND_RESUME # char_array AFP_SERVER_NAME_LEN (take 32 (argv ! 2)))))"

definition do_suspend :: "string list \<Rightarrow> prepared" where
  "do_suspend argv =
     (if length argv < 3 then usage else Some (Inr (AFP_SERVER_COMMAND_SUSPEND # char_array AFP_SERVER_NAME_LEN (take 32 (argv ! 2)))))"

text \<open>The number of arguments is compared with 2, and \<open>argv[2]\<close> is read.\<close>

definition do_unmount :: "string list \<Rightarrow> prepared" where
  "do_unmount argv =
     (if length argv < 2 then usage
      else if length argv < 3 then None
      else Some (Inr (AFP_SERVER_COMMAND_UNMOUNT # char_array 255 (take 254 (argv ! 2)))))"

subsection \<open>Mounting\<close>

abbreviation (input) DEFAULT_MOUNT_FLAGS :: u32 where
  "DEFAULT_MOUNT_FLAGS \<equiv> VOLUME_EXTRA_FLAGS_SHOW_APPLEDOUBLE OR VOLUME_EXTRA_FLAGS_NO_LOCKING OR VOLUME_EXTRA_FLAGS_IGNORE_UNIXPRIVS"

definition clear_request :: mount_request where
  "clear_request = \<lparr>mr_url = afp_default_url\<lparr>url_port := 0\<rparr>, mr_uam_mask = 0, mr_mountpoint = [], mr_volume_options = 0, mr_map = 0, mr_changeuid = 0\<rparr>"

definition map_url :: "(afp_url \<Rightarrow> afp_url) \<Rightarrow> mount_request \<Rightarrow> mount_request" where
  "map_url f r = r\<lparr>mr_url := f (mr_url r)\<rparr>"

text \<open>The value of \<open>strtol\<close> as an \<open>int\<close>.\<close>

definition to_int :: "string \<Rightarrow> int" where
  "to_int s = sint (word_of_int (strtol s) :: u32)"

text \<open>One option: the mask and the request.\<close>

definition mount_option :: "char \<times> string \<Rightarrow> u32 \<times> mount_request \<Rightarrow> u32 \<times> mount_request" where
  "mount_option o_arg mr = (case (o_arg, mr) of ((c, arg), (m, r)) \<Rightarrow>
     if c = CHR ''a'' then (if arg = ''guest'' then UAM_NOUSERAUTHENT else uam_string_to_bitmap arg, r)
     else if c = CHR ''m'' then (m, r\<lparr>mr_map := word_of_nat (map_string_to_num arg)\<rparr>)
     else if c = CHR ''u'' then (m, map_url (url_username_update (\<lambda>_. take 126 arg)) r)
     else if c = CHR ''o'' then (m, map_url (url_port_update (\<lambda>_. to_int arg)) r)
     else if c = CHR ''p'' then (m, map_url (url_password_update (\<lambda>_. take 126 arg)) r)
     else if c = CHR ''V'' then (m, map_url (url_volpassword_update (\<lambda>_. take 8 arg)) r)
     else if c = CHR ''v'' then (m, map_url (url_requested_version_update (\<lambda>_. to_int arg)) r)
     else mr)"

definition ask_passwords :: "(string \<Rightarrow> string option) \<Rightarrow> mount_request \<Rightarrow> mount_request" where
  "ask_passwords getpass r =
     (let ask = (\<lambda>prompt n current. if current = ''-'' then (case getpass prompt of Some p \<Rightarrow> take n p | None \<Rightarrow> current) else current)
      in map_url (\<lambda>u. u\<lparr>url_password := ask ''AFP Password: '' 126 (url_password u),
           url_volpassword := ask ''Password for volume: '' 8 (url_volpassword u)\<rparr>) r)"

text \<open>\<open>sscanf\<close> with \<open>%[^':']:%[^':']\<close>: characters up to a colon or an apostrophe, a colon, and again. It does not know the sizes of the
  arrays.\<close>

definition scan_name :: "string \<Rightarrow> string \<times> string" where
  "scan_name s = (let other = (\<lambda>c. c \<noteq> CHR '':'' \<and> c \<noteq> CHR 0x27) in (takeWhile other s, dropWhile other s))"

definition scan_server_volume :: "string \<Rightarrow> (string \<times> string) option" where
  "scan_server_volume s =
     (case scan_name s of
        (server, CHR '':'' # r) \<Rightarrow> if server = [] \<or> fst (scan_name r) = [] then None else Some (server, fst (scan_name r))
      | _ \<Rightarrow> None)"

text \<open>\<open>args\<close> starts with the word \<open>mount\<close> itself, which is no option.\<close>

definition do_mount :: "(string \<Rightarrow> string option) \<Rightarrow> nat \<Rightarrow> (char \<times> string) list \<Rightarrow> string list \<Rightarrow> prepared" where
  "do_mount getpass argc opts args =
     (if argc < 4 then usage
      else do {
        let (m, r) = fold mount_option opts (default_uams_mask, map_url (url_port_update (\<lambda>_. 548)) clear_request);
        let r = ask_passwords getpass r;
        case args of
          _ # name # more_args \<Rightarrow>
            (case scan_server_volume name of
               None \<Rightarrow> Some (Inl (line ''Incorrect server:volume specification''))
             | Some (server, volume) \<Rightarrow>
                 if AFP_SERVER_NAME_UTF8_LEN \<le> length server \<or> AFP_VOLUME_NAME_UTF8_LEN \<le> length volume then None
                 else if m = 0 then Some (Inl (line ''Unknown UAM''))
                 else (case more_args of
                     [] \<Rightarrow> Some (Inl (line ''No mount point specified''))
                   | mountpoint # _ \<Rightarrow> Some (Inr (AFP_SERVER_COMMAND_MOUNT # mount_request_bytes
                       ((map_url (\<lambda>u. u\<lparr>url_servername := server, url_volumename := volume\<rparr>) r)
                         \<lparr>mr_uam_mask := m, mr_volume_options := DEFAULT_MOUNT_FLAGS, mr_mountpoint := take 254 mountpoint\<rparr>)))))
        | _ \<Rightarrow> Some (Inl (line ''No volume or mount point specified''))
      })"

subsection \<open>The command \<open>mount_afp\<close>\<close>

record mount_state =
  ms_volpass :: "string option"
  ms_uid :: u32
  ms_gid :: u32
  ms_changeuid :: bool
  ms_changegid :: bool
  ms_readonly :: bool

text \<open>One entry of the list after \<open>-o\<close>; \<open>p\<close> is the list from this entry on, which is also what becomes the password of the volume.\<close>

definition mount_word ::
  "(string \<Rightarrow> u32 option) \<Rightarrow> (string \<Rightarrow> u32 option) \<Rightarrow> u32 \<Rightarrow> string \<Rightarrow> string \<Rightarrow> mount_state \<Rightarrow> string + mount_state" where
  "mount_word getpwnam getgrnam euid p word st =
     (if starts_with ''volpass='' word then Inr (st\<lparr>ms_volpass := Some (drop 8 p)\<rparr>)
      else if starts_with ''user='' word then
        (case getpwnam (drop 5 word) of
           None \<Rightarrow> Inl (line (''Unknown user '' @ drop 5 word))
         | Some uid \<Rightarrow> Inr (st\<lparr>ms_uid := uid, ms_changeuid := ms_changeuid st \<or> euid \<noteq> uid\<rparr>))
      else if starts_with ''group='' word then
        (case getgrnam (drop 6 word) of
           None \<Rightarrow> Inl (line (''Unknown group '' @ drop 6 word))
         | Some gid \<Rightarrow> Inr (st\<lparr>ms_gid := gid, ms_changegid := True\<rparr>))
      else if word = ''ro'' then Inr (st\<lparr>ms_readonly := True\<rparr>)
      else Inr st)"

text \<open>The loop over the entries, each of which is copied into an array of 256 characters.\<close>

function mount_words ::
  "(string \<Rightarrow> u32 option) \<Rightarrow> (string \<Rightarrow> u32 option) \<Rightarrow> u32 \<Rightarrow> string \<Rightarrow> mount_state \<Rightarrow> (string + mount_state) option" where
  "mount_words getpwnam getgrnam euid p st =
     (let q = strchr p CHR '',''; word = (case q of Some q \<Rightarrow> take q p | None \<Rightarrow> p) in
      if 256 \<le> length word then None
      else (case mount_word getpwnam getgrnam euid p word st of
          Inl t \<Rightarrow> Some (Inl t)
        | Inr st \<Rightarrow> (case q of None \<Rightarrow> Some (Inr st) | Some q \<Rightarrow> mount_words getpwnam getgrnam euid (drop (q + 1) p) st)))"
  by pat_completeness auto

termination
  by (relation "measure (\<lambda>(_, _, _, p, _). length p)") (auto dest: strchr_SomeD [OF sym])

declare mount_words.simps [simp del]

definition nth_arg :: "string list \<Rightarrow> nat \<Rightarrow> string option" where
  "nth_arg argv i = (if i < length argv then Some (argv ! i) else None)"

definition handle_mount_afp ::
  "(string \<Rightarrow> string option) \<Rightarrow> (string \<Rightarrow> u32 option) \<Rightarrow> (string \<Rightarrow> u32 option) \<Rightarrow> u32 \<Rightarrow> string list \<Rightarrow> prepared" where
  "handle_mount_afp getpass getpwnam getgrnam euid argv =
     (if length argv < 2 then Some (Inl (line ''Usage:'' @ line ''     mount_afp [-o volpass=password] <afp url> <mountpoint>''))
      else do {
        let options = starts_with ''-o'' (argv ! 1);
        let st = \<lparr>ms_volpass = None, ms_uid = euid, ms_gid = 0, ms_changeuid = False, ms_changegid = False, ms_readonly = False\<rparr>;
        parsed \<leftarrow> (if options then do { p \<leftarrow> nth_arg argv 2; mount_words getpwnam getgrnam euid p st } else Some (Inr st));
        case parsed of
          Inl t \<Rightarrow> Some (Inl t)
        | Inr st \<Rightarrow> do {
            urlstring \<leftarrow> nth_arg argv (if options then 3 else 1);
            mountpoint \<leftarrow> nth_arg argv (if options then 4 else 2);
            (rc, url) \<leftarrow> afp_parse_url afp_default_url urlstring;
            if rc \<noteq> 0 then Some (Inl (line ''Could not parse URL''))
            else do {
              let ask = (\<lambda>prompt p. if p = ''-'' then getpass prompt else Some p);
              let url = url\<lparr>url_password := (case ask ''AFP Password: '' (url_password url) of Some p \<Rightarrow> take 126 p | None \<Rightarrow> url_password url)\<rparr>;
              let url = url\<lparr>url_volpassword := (case Option.bind (ms_volpass st) (ask ''Password for volume: '') of
                Some p \<Rightarrow> take 8 p | None \<Rightarrow> url_volpassword url)\<rparr>;
              Some (Inr (AFP_SERVER_COMMAND_MOUNT # mount_request_bytes \<lparr>mr_url = url, mr_uam_mask = default_uams_mask,
                mr_mountpoint = take 254 mountpoint,
                mr_volume_options = (if ms_readonly st then DEFAULT_MOUNT_FLAGS OR VOLUME_EXTRA_FLAGS_READONLY else DEFAULT_MOUNT_FLAGS),
                mr_map = 0, mr_changeuid = of_bool (ms_changeuid st)\<rparr>))
            }
          }
      })"

text \<open>The name of the command is compared as far as the table goes.\<close>

definition prepare_buffer ::
  "(string \<Rightarrow> string option) \<Rightarrow> (char \<times> string) list \<Rightarrow> string list \<Rightarrow> string list \<Rightarrow> prepared" where
  "prepare_buffer getpass opts args argv =
     (if length argv < 2 then usage
      else let command = argv ! 1 in
        if starts_with ''mount'' command then do_mount getpass (length argv) opts args
        else if starts_with ''resume'' command then do_resume argv
        else if starts_with ''suspend'' command then do_suspend argv
        else if starts_with ''status'' command then do_status opts
        else if starts_with ''unmount'' command then do_unmount argv
        else if starts_with ''exit'' command then do_exit
        else usage)"

subsection \<open>The answer\<close>

text \<open>The loop of \<open>read_answer\<close> over what arrives: what is printed and the buffer at the end, or \<open>None\<close> after 30 seconds without anything. A failed
  \<open>read\<close> moves the position back by one, before the first byte also to -1, and then the length is compared as after any other; the next \<open>read\<close>
  would write in front of the buffer.\<close>

fun answer_loop :: "rx_event list \<Rightarrow> byte list \<Rightarrow> int \<Rightarrow> int \<Rightarrow> (string \<times> byte list) option option" where
  "answer_loop [] buf len expected = Some None"
| "answer_loop (Eof # evs) buf len expected = Some (Some (line ''Dropped connection'', buf))"
| "answer_loop (Rx_Error # evs) buf len expected = do {
     expected \<leftarrow> (if len = 0 then map_option sint (rd32le buf 4) else Some expected);
     let len = len - 1;
     if len = expected + int sizeof_response then Some (Some ([], buf))
     else answer_loop evs buf len expected
   }"
| "answer_loop (Data bs # evs) buf len expected = do {
     let bs = take (nat (int MAX_CLIENT_RESPONSE - len)) bs;
     if bs = [] then Some (Some (line ''Dropped connection'', buf))
     else if len < 0 then None
     else do {
       buf \<leftarrow> wr_bytes buf (nat len) bs;
       expected \<leftarrow> (if len = 0 then map_option sint (rd32le buf 4) else Some expected);
       let len = len + int (length bs);
       if len = expected + int sizeof_response then Some (Some ([], buf))
       else answer_loop evs buf len expected
     }
   }"

text \<open>The result and what is printed. Without a NUL the text is read on behind the buffer.\<close>

definition read_answer :: "rx_event list \<Rightarrow> (int \<times> string) option" where
  "read_answer evs = do {
     answer \<leftarrow> answer_loop evs (replicate MAX_CLIENT_RESPONSE 0) 0 0;
     case answer of
       None \<Rightarrow> Some (- 1, line ''No response from server'')
     | Some (printed, buf) \<Rightarrow> do {
         text \<leftarrow> string_at buf sizeof_response;
         Some (sint (buf ! 0), printed @ text)
       }
   }"

subsection \<open>Answers in pieces\<close>

definition answer_buffer :: "byte list \<Rightarrow> byte list" where
  "answer_buffer bs = bs @ replicate (MAX_CLIENT_RESPONSE - length bs) 0"

lemma wr_answer_buffer:
  assumes "length (done @ bs) \<le> MAX_CLIENT_RESPONSE"
  shows "wr_bytes (answer_buffer done) (length done) bs = Some (answer_buffer (done @ bs))"
  using assms by (simp add: wr_bytes_def answer_buffer_def)

text \<open>Data at a position in the buffer.\<close>

lemma answer_loop_Data:
  "answer_loop (Data bs # evs) buf (int n) expected = do {
     let bs = take (MAX_CLIENT_RESPONSE - n) bs;
     if bs = [] then Some (Some (line ''Dropped connection'', buf))
     else do {
       buf \<leftarrow> wr_bytes buf n bs;
       expected \<leftarrow> (if n = 0 then map_option sint (rd32le buf 4) else Some expected);
       if int (n + length bs) = expected + int sizeof_response then Some (Some ([], buf))
       else answer_loop evs buf (int (n + length bs)) expected
     }
   }"
proof -
  have "nat (int MAX_CLIENT_RESPONSE - int n) = MAX_CLIENT_RESPONSE - n"
    by linarith
  then show ?thesis
    by (simp add: Let_def del: length_take cong: if_cong)
qed

declare answer_loop.simps(4) [simp del] answer_loop_Data [simp]

lemma answer_loop_full_buffer: "answer_loop (Data bs # evs) buf 2048 expected = Some (Some (line ''Dropped connection'', buf))"
  using answer_loop_Data [of bs evs buf 2048 expected] by simp

text \<open>Behind the first piece, which holds the length, the rest is read in whatever pieces it arrives.\<close>

lemma answer_loop_rest:
  assumes "\<forall>p \<in> set ps. p \<noteq> []" "concat ps \<noteq> []" "done \<noteq> []" "int (length (done @ concat ps)) = expected + int sizeof_response"
    and "length (done @ concat ps) \<le> MAX_CLIENT_RESPONSE"
  shows "answer_loop (map Data ps @ evs) (answer_buffer done) (int (length done)) expected = Some (Some ([], answer_buffer (done @ concat ps)))"
  using assms
proof (induction ps arbitrary: "done")
  case (Cons p ps)
  have t: "take (MAX_CLIENT_RESPONSE - length done) p = p" "p \<noteq> []"
    using Cons.prems(1,5) by simp_all
  have w: "wr_bytes (answer_buffer done) (length done) p = Some (answer_buffer (done @ p))"
    using Cons.prems(5) by (intro wr_answer_buffer) simp
  show ?case
  proof (cases "ps = []")
    case True
    then show ?thesis
      using t w Cons.prems(3,4) by (simp add: Let_def)
  next
    case False
    then have rest: "concat ps \<noteq> []"
      using Cons.prems(1) by (cases ps) auto
    then have "0 < length (concat ps)"
      by (rule length_greater_0_conv [THEN iffD2])
    then have "int (length done + length p) \<noteq> expected + 8"
      using Cons.prems(4) unfolding concat.simps length_append by linarith
    moreover have "answer_loop (map Data ps @ evs) (answer_buffer (done @ p)) (int (length (done @ p))) expected =
        Some (Some ([], answer_buffer ((done @ p) @ concat ps)))"
      by (rule Cons.IH) (use Cons.prems rest in auto)
    ultimately show ?thesis
      using t w Cons.prems(3) by (simp add: Let_def)
  qed
qed simp

lemma response_length: "3 \<le> length padding \<Longrightarrow> length (response_bytes padding result text) = sizeof_response + length text"
  by (simp add: response_bytes_def)

lemma response_expected:
  assumes "3 \<le> length padding" "length text < 2 ^ 31" "sizeof_response \<le> length p" "p @ more_bytes = response_bytes padding result text"
  shows "rd32le (p @ zs) 4 = Some (word_of_nat (length text))" "sint (word_of_nat (length text) :: u32) = int (length text)" "p ! 0 = word_of_int result"
proof -
  have p: "take 8 p = [word_of_int result] @ take 3 padding @ le32 (word_of_nat (length text))"
    using arg_cong [OF assms(4), of "take 8"] assms(1,3) by (simp add: response_bytes_def)
  then have "p @ zs = ([word_of_int result] @ take 3 padding) @ le32 (word_of_nat (length text)) @ drop 8 p @ zs"
    by (metis append.assoc append_take_drop_id)
  then show "rd32le (p @ zs) 4 = Some (word_of_nat (length text))"
    using assms(1) by (metis l32.rd_enc length_append length_Cons list.size(3) length_take min.absorb2 numeral_3_eq_3 add_Suc plus_nat.add_0 numeral_eq_Suc pred_numeral_simps(2) BitM.simps(2) BitM.simps(1))
  show "sint (word_of_nat (length text) :: u32) = int (length text)"
    using assms(2) by (simp add: signed_take_bit_int_eq_self signed_of_nat)
  show "p ! 0 = word_of_int result"
    using p assms(3) by (metis append_Cons nth_Cons_0 nth_take zero_less_numeral)
qed

lemma answer_loop_full:
  assumes "\<forall>p \<in> set ps. p \<noteq> []" "done \<noteq> []" "length done \<le> MAX_CLIENT_RESPONSE" "MAX_CLIENT_RESPONSE < length (done @ concat ps)"
    and "int (length (done @ concat ps)) = expected + int sizeof_response"
  shows "answer_loop (map Data ps @ [Eof]) (answer_buffer done) (int (length done)) expected =
    Some (Some (line ''Dropped connection'', take MAX_CLIENT_RESPONSE (done @ concat ps)))"
  using assms
proof (induction ps arbitrary: "done")
  case (Cons p ps)
  consider (full) "length done = 2048" | (fits) "length done < 2048" "length (done @ p) \<le> 2048" | (cut) "length done < 2048" "2048 < length (done @ p)"
    using Cons.prems(3) by linarith
  then show ?case
  proof cases
    case full
    then show ?thesis
      by (simp add: answer_buffer_def answer_loop_full_buffer)
  next
    case fits
    have "p \<noteq> []" "take (2048 - length done) p = p" "int (length done + length p) \<noteq> expected + 8"
      using fits Cons.prems by auto
    moreover have "wr_bytes (answer_buffer done) (length done) p = Some (answer_buffer (done @ p))"
      using fits by (intro wr_answer_buffer) simp
    moreover have "answer_loop (map Data ps @ [Eof]) (answer_buffer (done @ p)) (int (length (done @ p))) expected =
        Some (Some (line ''Dropped connection'', take MAX_CLIENT_RESPONSE ((done @ p) @ concat ps)))"
      by (rule Cons.IH) (use Cons.prems fits in auto)
    ultimately show ?thesis
      using Cons.prems(2) by (simp add: Let_def)
  next
    case cut
    let ?b = "take (2048 - length done) p"
    have b: "?b \<noteq> []" "length (done @ ?b) = 2048"
      using cut by auto
    have "wr_bytes (answer_buffer done) (length done) ?b = Some (answer_buffer (done @ ?b))"
      using b(2) by (intro wr_answer_buffer) simp
    moreover have "int (length done + length ?b) \<noteq> expected + 8"
      using b(2) cut Cons.prems(5) by simp
    moreover have "answer_loop (map Data ps @ [Eof]) buf (int 2048) expected = Some (Some (line ''Dropped connection'', buf))" for buf
      by (cases ps) (simp_all add: answer_loop_full_buffer)
    moreover have "answer_buffer (done @ ?b) = take 2048 (done @ concat (p # ps))"
      using cut b(2) by (simp add: answer_buffer_def)
    ultimately show ?thesis
      using Cons.prems(2) b by (simp add: Let_def)
  qed
qed simp

lemma first_piece:
  assumes "3 \<le> length padding" "length text < 2 ^ 31" "sizeof_response \<le> length p" "length p \<le> MAX_CLIENT_RESPONSE"
    and "p @ more_bytes = response_bytes padding result text"
  shows "answer_loop (Data p # evs) (replicate MAX_CLIENT_RESPONSE 0) 0 0 =
    (if more_bytes = [] then Some (Some ([], answer_buffer p)) else answer_loop evs (answer_buffer p) (int (length p)) (int (length text)))"
proof -
  note e = response_expected [OF assms(1,2,3,5)]
  have w: "wr_bytes (replicate MAX_CLIENT_RESPONSE 0) 0 p = Some (answer_buffer p)"
    using wr_answer_buffer [of "[]" p] assms(4) by (simp add: answer_buffer_def)
  have "length p + length more_bytes = 8 + length text"
    using arg_cong [OF assms(5), of length] response_length [OF assms(1)] by simp
  then have "int (length p) = int (length text) + 8 \<longleftrightarrow> length more_bytes = 0"
    by linarith
  moreover have "p \<noteq> []" "take 2048 p = p"
    using assms(3,4) by auto
  ultimately show ?thesis
    using w e(1) [of "replicate (MAX_CLIENT_RESPONSE - length p) 0"] e(2) answer_loop_Data [of p evs "replicate 2048 0" 0 0]
    by (simp add: answer_buffer_def Let_def)
qed

lemma answer_string:
  assumes "3 \<le> length padding" "CHR 0x00 \<notin> set text" "length text < 2040"
  shows "string_at (answer_buffer (response_bytes padding result text)) sizeof_response = Some text"
proof -
  let ?h = "[word_of_int result] @ take 3 padding @ le32 (word_of_nat (length text))"
  have "answer_buffer (response_bytes padding result text) = ?h @ char_array 2040 text @ []"
    using assms(1) by (simp add: answer_buffer_def response_bytes_def char_array_def)
  then show ?thesis
    using string_at_char_array [of 8 ?h "text" 2040 "[]"] assms by simp
qed

lemma response_no_NUL:
  assumes "3 \<le> length padding" "CHR 0x00 \<notin> set text"
  shows "string_at (take MAX_CLIENT_RESPONSE (response_bytes padding result text)) sizeof_response = None"
proof -
  have "drop 8 (take 2048 (response_bytes padding result text)) = take 2040 (to_bytes text)"
    using assms(1) by (simp add: response_bytes_def drop_take)
  then show ?thesis
    using assms(2) in_set_takeD [of 0 2040 "to_bytes text"] by (auto simp: string_at_def byte_of_char_eq_0_iff)
qed

lemma read_answer_pieces:
  assumes "concat (p # ps) = response_bytes padding result text" and "sizeof_response \<le> length p" and "length p \<le> MAX_CLIENT_RESPONSE"
    and "\<forall>q \<in> set ps. q \<noteq> []" and "3 \<le> length padding" and "CHR 0x00 \<notin> set text" and "length text < MAX_CLIENT_RESPONSE"
    and "- 128 \<le> result" and "result < 128"
  shows "read_answer (map Data (p # ps) @ [Eof]) = (if length text < 2040 then Some (result, text) else None)"
proof -
  let ?r = "response_bytes padding result text"
  have more: "p @ concat ps = ?r"
    using assms(1) by simp
  have small: "length text < 2 ^ 31"
    using assms(7) by simp
  note first = first_piece [OF assms(5) small assms(2,3) more, of "map Data ps @ [Eof]"]
  have len: "length (p @ concat ps) = 8 + length text"
    unfolding more using assms(5) by (rule response_length)
  have p: "p \<noteq> []" "concat ps = [] \<longleftrightarrow> ps = []"
    using assms(2,4) by (fastforce, cases ps) auto
  have all: "answer_loop (map Data (p # ps) @ [Eof]) (replicate MAX_CLIENT_RESPONSE 0) 0 0 =
      Some (Some (if length text \<le> 2040 then ([], answer_buffer ?r) else (line ''Dropped connection'', take 2048 ?r)))"
  proof (cases "ps = []")
    case True
    then show ?thesis
      using first more len assms(3) by (simp del: answer_loop.simps)
  next
    case ne: False
    then have first: "answer_loop (map Data (p # ps) @ [Eof]) (replicate MAX_CLIENT_RESPONSE 0) 0 0 =
        answer_loop (map Data ps @ [Eof]) (answer_buffer p) (int (length p)) (int (length text))"
      using first unfolding p(2) by (simp del: answer_loop.simps)
    show ?thesis
    proof (cases "length text \<le> 2040")
      case True
      have "answer_loop (map Data ps @ [Eof]) (answer_buffer p) (int (length p)) (int (length text)) = Some (Some ([], answer_buffer (p @ concat ps)))"
        by (rule answer_loop_rest [OF assms(4) _ p(1)]) (use p(2) ne len True in auto)
      then show ?thesis
        unfolding first more using True by simp
    next
      case False
      have "answer_loop (map Data ps @ [Eof]) (answer_buffer p) (int (length p)) (int (length text)) = Some (Some (line ''Dropped connection'', take 2048 (p @ concat ps)))"
        by (rule answer_loop_full [OF assms(4) p(1) assms(3)]) (use len False in auto)
      then show ?thesis
        unfolding first more using False by simp
    qed
  qed
  have "?r ! 0 = word_of_int result" "sint (word_of_int result :: byte) = result"
    using assms(8,9) by (simp_all add: response_bytes_def signed_of_int signed_take_bit_int_eq_self)
  moreover have "answer_buffer ?r = take 2048 ?r" if "length text = 2040"
    using that len more by (simp add: answer_buffer_def)
  ultimately show ?thesis
    using all answer_string [OF assms(5,6), of result] response_no_NUL [OF assms(5,6), of result] len more
    by (auto simp: read_answer_def answer_buffer_def nth_append)
qed

subsection \<open>Main results\<close>

text \<open>(C18) The answer of the daemon. In whatever pieces an answer arrives, the first of which has the eight bytes of the header, \<open>read_answer\<close> ends,
  returns the result of the command and prints its text, provided the text has fewer than 2040 characters. A longer text, which the daemon can send,
  fills the buffer without a NUL, and is read on behind it.\<close>

theorem read_answer_correct:
  assumes "concat (p # ps) = response_bytes padding result text" and "sizeof_response \<le> length p" and "length p \<le> MAX_CLIENT_RESPONSE"
    and "\<forall>q \<in> set ps. q \<noteq> []" and "3 \<le> length padding" and "CHR 0x00 \<notin> set text" and "length text < MAX_CLIENT_RESPONSE"
    and "- 128 \<le> result" and "result < 128"
  shows "read_answer (map Data (p # ps) @ [Eof]) = (if length text < 2040 then Some (result, text) else None)"
  using assms by (rule read_answer_pieces)

theorem read_answer_correct_witness:
  "read_answer (map Data [take 9 (response_bytes [7, 7, 7] 1 ''Ping!''), drop 9 (response_bytes [7, 7, 7] 1 ''Ping!'')] @ [Eof]) = Some (1, ''Ping!'')"
proof -
  have "length (response_bytes [7, 7, 7] 1 ''Ping!'') = 13"
    by (simp add: response_length)
  then show ?thesis
    using read_answer_correct [of "take 9 (response_bytes [7, 7, 7] 1 ''Ping!'')" "[drop 9 (response_bytes [7, 7, 7] 1 ''Ping!'')]" "[7, 7, 7]" 1 "''Ping!''"]
    by simp
qed

end
