(* ===== verification/Fuse_Daemon.thy ===== *)
theory Fuse_Daemon
  imports Fuse_Commands Fuse_Client
begin

text \<open>
  What the commands of the daemon do for a client: answers fit into their buffers, a command to unmount or to mount from the client to the file
  server and back, and two ways in which the list of servers is damaged.
\<close>

unbundle bit_operations_syntax

subsection \<open>The room for an answer\<close>

text \<open>The interface of a handler, as the thread that answers the client needs it: the text stays shorter than the buffer of the answer.\<close>

locale reply_handler =
  fixes run :: handler
  assumes room: "run cs w = Some (r, cs', w') \<Longrightarrow> length cs < MAX_CLIENT_RESPONSE \<Longrightarrow> length cs' < MAX_CLIENT_RESPONSE"
begin

lemma response_room:
  assumes "run [] w = Some (r, cs, w')" "3 \<le> length padding"
  shows "length cs < MAX_CLIENT_RESPONSE" "length (response_bytes padding r cs) < sizeof_response + MAX_CLIENT_RESPONSE"
  using room [OF assms(1)] assms(2) by (simp_all add: response_length)

end

lemma log_for_client_room [simp]: "length cs < MAX_CLIENT_RESPONSE \<Longrightarrow> length (log_for_client t cs) < MAX_CLIENT_RESPONSE"
  by (simp add: log_for_client_def fuse_log_for_client_def)

lemma log_as_format_room: "log_as_format t cs = Some cs' \<Longrightarrow> length cs < MAX_CLIENT_RESPONSE \<Longrightarrow> length cs' < MAX_CLIENT_RESPONSE"
  by (auto simp: log_as_format_def)

lemma logs_room: "length cs < MAX_CLIENT_RESPONSE \<Longrightarrow> length (fold log_for_client ts cs) < MAX_CLIENT_RESPONSE"
  by (induction ts arbitrary: cs) auto

lemma status_loop_room:
  assumes "status_loop h w s len cs = Some cs'" "length cs < MAX_CLIENT_RESPONSE"
  shows "length cs' < MAX_CLIENT_RESPONSE"
proof -
  let ?P = "\<lambda>h w s len cs cs'. length cs < MAX_CLIENT_RESPONSE \<longrightarrow> length cs' < MAX_CLIENT_RESPONSE"
  have "?P h w s len cs cs'"
    by (rule status_loop.raw_induct [of ?P, OF _ assms(1)])
       (auto split: option.splits Option.bind_splits, blast dest: log_as_format_room)
  then show ?thesis
    using assms(2) by simp
qed

lemmas handler_splits = option.splits Option.bind_splits prod.splits if_splits fuse_device.splits

interpretation suspend: reply_handler "process_suspend h buf" for h buf
  by unfold_locales (auto simp: process_suspend_def failed_def split: handler_splits)

interpretation resume: reply_handler "process_resume h buf" for h buf
  by unfold_locales (auto simp: process_resume_def afp_server_reconnect_loud_def failed_def Let_def split: handler_splits)

interpretation unmount: reply_handler "process_unmount h buf" for h buf
  by unfold_locales (auto simp: process_unmount_def failed_def Let_def split: handler_splits)

interpretation ping: reply_handler process_ping
  by unfold_locales (auto simp: process_ping_def)

interpretation exit_command: reply_handler process_exit
  by unfold_locales (auto simp: process_exit_def)

interpretation status: reply_handler "process_status h n" for h n
  by unfold_locales (auto simp: process_status_def failed_def dest: log_as_format_room status_loop_room split: handler_splits)

lemma mount_volume_room:
  assumes "mount_volume h a name password cs w = Some (i, cs', w')" "length cs < MAX_CLIENT_RESPONSE"
  shows "length cs' < MAX_CLIENT_RESPONSE"
  using assms by (auto simp: mount_volume_def missing_volume_def volopen_def Let_def dest!: log_as_format_room split: handler_splits)

lemma start_fuse_room:
  assumes "start_fuse h a i req cs w = Some (ok, cs', w')" "length cs < MAX_CLIENT_RESPONSE"
  shows "length cs' < MAX_CLIENT_RESPONSE"
  using assms by (auto simp: start_fuse_def report_fuse_errors_def split: handler_splits)

interpretation mount: reply_handler "process_mount h n buf" for h n buf
  by unfold_locales
     (auto simp: process_mount_def failed_def Let_def logs_room dest!: mount_volume_room start_fuse_room split: handler_splits)

lemma run_command_room:
  assumes "run_command h c w = Some (r, cs, w')" "length (fc_client_string c) < MAX_CLIENT_RESPONSE"
  shows "length cs < MAX_CLIENT_RESPONSE"
  using assms suspend.room resume.room unmount.room ping.room exit_command.room status.room mount.room
  by (auto simp: run_command_def Let_def split: if_splits)

subsection \<open>Unmounting a volume of a server in the list\<close>

lemma responsive_unmount:
  assumes "servers_ok w as" "a \<in> set as" "idle (sw_heap w a)" "\<And>d. responsive e d" "\<And>n. env_malloc e n"
    and v: "v = srv_volumes (cl_srv (sw_heap w a)) ! j" "j < length (srv_volumes (cl_srv (sw_heap w a)))" "vol_mounted v = AFP_VOLUME_MOUNTED"
    and final: "final \<longleftrightarrow> (\<forall>k < length (srv_volumes (cl_srv (sw_heap w a))). k \<noteq> j \<longrightarrow>
      vol_mounted (srv_volumes (cl_srv (sw_heap w a)) ! k) = AFP_VOLUME_UNMOUNTED)"
  shows "\<exists>r w' as' ms v'. on_server a (on_volume j (afp_unmount_volume e Some j)) w = Some (r, w') \<and> servers_ok w' as' \<and>
    cl_sent (sw_heap w' a) = cl_sent (sw_heap w a) @ ms \<and> map (drop 16) ms = unmount_requests v final \<and>
    vol_mounted v' = AFP_VOLUME_UNMOUNTED \<and> (\<not> final \<longrightarrow> idle (sw_heap w' a) \<and>
      srv_volumes (cl_srv (sw_heap w' a)) = (srv_volumes (cl_srv (sw_heap w a)))[j := v']) \<and>
    (a \<in> sw_freed w' \<longleftrightarrow> final) \<and> (a \<in> set as' \<longleftrightarrow> \<not> final) \<and> (\<forall>b. b \<noteq> a \<longrightarrow> sw_heap w' b = sw_heap w b)"
proof -
  let ?c = "(sw_heap w a)\<lparr>cl_vol := v\<rparr>"
  have "idle ?c"
    using assms(3) by simp
  then obtain c' ms where c': "afp_unmount_volume e Some j ?c = Some (if final then - 1 else 0, c')" "cl_sent c' = cl_sent (sw_heap w a) @ ms"
    "map (drop 16) ms = unmount_requests v final" "vol_mounted (cl_vol c') = AFP_VOLUME_UNMOUNTED" "cl_registered c' = (\<not> final)"
    "\<not> final \<longrightarrow> idle c' \<and> srv_volumes (cl_srv c') = (srv_volumes (cl_srv (sw_heap w a)))[j := cl_vol c']"
    using unmount_volume [of ?c e j final] assms(4,5) v(2,3) final by auto
  have a: "a < sw_fresh w" "a \<notin> sw_freed w"
    using servers_okD [OF assms(1)] assms(2) by blast+
  have reg: "cl_registered (sw_heap w a)"
    using servers_okD(4) [OF assms(1) a] assms(2) by simp
  have f: "on_volume j (afp_unmount_volume e Some j) (sw_heap w a) = Some (if final then - 1 else 0, put_volume j c')"
    using c'(1) v(1) by (simp add: on_volume_def)
  obtain w' as' where w': "on_server a (on_volume j (afp_unmount_volume e Some j)) w = Some (if final then - 1 else 0, w')" "servers_ok w' as'"
    "sw_heap w' = (sw_heap w)(a := put_volume j c')" "sw_freed w' = (if final then insert a (sw_freed w) else sw_freed w)"
    "set as' = (if final then set as - {a} else insert a (set as))"
    by (rule on_server_ok [where f = "on_volume j (afp_unmount_volume e Some j)", OF assms(1) a f]) (use reg c'(5) in auto)
  have "a \<in> sw_freed w' \<longleftrightarrow> final" "a \<in> set as' \<longleftrightarrow> \<not> final"
    using w'(4,5) a(2) assms(2) by auto
  then show ?thesis
    using w'(1-3) c'
    by (intro exI [of _ "if final then - 1 else 0"] exI [of _ w'] exI [of _ as'] exI [of _ ms] exI [of _ "cl_vol c'"] conjI) auto
qed

lemma thread_answers:
  assumes "run_command h c (dm_servers d) = Some (r, cs, w)" "length (fc_client_string c) < MAX_CLIENT_RESPONSE"
  shows "\<exists>d'. process_command_thread h c d = Some d' \<and> dm_servers d' = w \<and>
    dm_written d' = dm_written d @ [(fc_fd c, response_bytes (host_stack h) r cs)]"
  using run_command_room [OF assms] assms(1) by (cases "fc_fd c = 0") (simp_all add: process_command_thread_def Let_def)

subsection \<open>The end of the daemon\<close>

lemma end_volumes_freed: "a \<in> sw_freed w \<Longrightarrow> end_volumes out a is w = None"
  by (cases "is") (simp_all add: on_server_def)

lemma skip_unmounted_volume:
  assumes "servers_ok w as" "a \<in> set as" "idle (sw_heap w a)" "vol_mounted (srv_volumes (cl_srv (sw_heap w a)) ! i) \<noteq> AFP_VOLUME_MOUNTED"
  obtains r w' as' where "on_server a (on_volume i (afp_unmount_volume e hook i)) w = Some (r, w')" "servers_ok w' as'" "a \<in> set as'"
    "idle (sw_heap w' a)" "srv_volumes (cl_srv (sw_heap w' a)) = srv_volumes (cl_srv (sw_heap w a))"
proof -
  let ?c = "put_volume i ((sw_heap w a)\<lparr>cl_vol := srv_volumes (cl_srv (sw_heap w a)) ! i\<rparr>)"
  have a: "a < sw_fresh w" "a \<notin> sw_freed w"
    using servers_okD [OF assms(1)] assms(2) by blast+
  have f: "on_volume i (afp_unmount_volume e hook i) (sw_heap w a) = Some (- 1, ?c)"
    using assms(4) by (simp add: on_volume_def afp_unmount_volume_def)
  have reg: "cl_registered (sw_heap w a)"
    using servers_okD(4) [OF assms(1) a] assms(2) by simp
  show thesis
    by (rule on_server_ok [where f = "on_volume i (afp_unmount_volume e hook i)", OF assms(1) a f])
       (use reg assms(3) in \<open>auto intro: that\<close>)
qed

text \<open>While volumes below \<open>i\<close> are unmounted and some other one is mounted, the loop from \<open>i\<close> on comes to the last one, frees the server, and goes on
  with it.\<close>

lemma end_volumes_uses_freed_server:
  assumes "servers_ok w as" "a \<in> set as" "idle (sw_heap w a)" "vs = srv_volumes (cl_srv (sw_heap w a))"
    and "\<forall>v \<in> set vs. vol_mounted v \<in> {AFP_VOLUME_MOUNTED, AFP_VOLUME_UNMOUNTED}" "\<forall>k < i. vol_mounted (vs ! k) = AFP_VOLUME_UNMOUNTED"
    and "\<exists>k < length vs. i \<le> k \<and> vol_mounted (vs ! k) = AFP_VOLUME_MOUNTED"
    and "\<And>d. responsive (out_env out a) d" "\<And>n. env_malloc (out_env out a) n" "out_unmount out = Some"
  shows "end_volumes out a [i..<length vs] w = None"
  using assms(1-7)
proof (induction "length vs - i" arbitrary: i w as vs)
  case 0
  then show ?case
    by auto
next
  case (Suc n)
  note ok = Suc.prems(1-3) and vs = Suc.prems(4)
  have i: "i < length vs" "[i..<length vs] = i # [Suc i..<length vs]"
    using Suc.hyps(2) by (simp_all add: upt_conv_Cons)
  show ?case
  proof (cases "vol_mounted (vs ! i) = AFP_VOLUME_MOUNTED")
    case False
    obtain r w' as' where w': "on_server a (on_volume i (afp_unmount_volume (out_env out a) Some i)) w = Some (r, w')" "servers_ok w' as'"
      "a \<in> set as'" "idle (sw_heap w' a)" "srv_volumes (cl_srv (sw_heap w' a)) = vs"
      using skip_unmounted_volume [OF ok, of i] False vs by metis
    have below: "\<forall>k < Suc i. vol_mounted (vs ! k) = AFP_VOLUME_UNMOUNTED"
      using False Suc.prems(5,6) nth_mem [OF i(1)] by (auto simp: less_Suc_eq)
    have above: "\<exists>k < length vs. Suc i \<le> k \<and> vol_mounted (vs ! k) = AFP_VOLUME_MOUNTED"
      using Suc.prems(7) False by (metis Suc_leI le_neq_implies_less)
    have "n = length vs - Suc i"
      using Suc.hyps(2) by simp
    then have "end_volumes out a [Suc i..<length vs] w' = None"
      using w'(5) by (intro Suc.hyps(1) [OF _ w'(2-4) _ Suc.prems(5) below above]) simp_all
    then show ?thesis
      using w'(1) i(2) assms(10) by simp
  next
    case True
    define final where "final \<longleftrightarrow> (\<forall>k < length vs. k \<noteq> i \<longrightarrow> vol_mounted (vs ! k) = AFP_VOLUME_UNMOUNTED)"
    obtain r w' as' v' where w': "on_server a (on_volume i (afp_unmount_volume (out_env out a) Some i)) w = Some (r, w')" "servers_ok w' as'"
      "vol_mounted v' = AFP_VOLUME_UNMOUNTED" "\<not> final \<longrightarrow> idle (sw_heap w' a) \<and> srv_volumes (cl_srv (sw_heap w' a)) = vs[i := v']"
      "a \<in> sw_freed w' \<longleftrightarrow> final" "a \<in> set as' \<longleftrightarrow> \<not> final"
      using responsive_unmount [OF ok assms(8,9), of "vs ! i" i final] i(1) vs True final_def by blast
    have "end_volumes out a [Suc i..<length vs] w' = None"
    proof (cases final)
      case True
      then show ?thesis
        using w'(5) by (simp add: end_volumes_freed)
    next
      case False
      then obtain k where k: "k < length vs" "k \<noteq> i" "vol_mounted (vs ! k) \<noteq> AFP_VOLUME_UNMOUNTED"
        by (auto simp: final_def)
      then have "i < k" "vol_mounted (vs ! k) = AFP_VOLUME_MOUNTED"
        using Suc.prems(5,6) nth_mem [OF k(1)] by (auto simp: linorder_neq_iff)
      then have "\<exists>k < length (vs[i := v']). Suc i \<le> k \<and> vol_mounted (vs[i := v'] ! k) = AFP_VOLUME_MOUNTED"
        using k(1) by (intro exI [of _ k]) simp
      moreover have "\<forall>v \<in> set (vs[i := v']). vol_mounted v \<in> {AFP_VOLUME_MOUNTED, AFP_VOLUME_UNMOUNTED}"
        using Suc.prems(5) w'(3) set_update_subset_insert [of vs i v'] by auto
      moreover have "\<forall>k < Suc i. vol_mounted (vs[i := v'] ! k) = AFP_VOLUME_UNMOUNTED"
        using Suc.prems(6) w'(3) i(1) by (auto simp: nth_list_update less_Suc_eq)
      ultimately have "end_volumes out a [Suc i..<length (vs[i := v'])] w' = None"
        using Suc.hyps(2) w'(2,4,6) False by (intro Suc.hyps(1)) auto
      then show ?thesis
        by simp
    qed
    then show ?thesis
      using w'(1) i(2) assms(10) by simp
  qed
qed

subsection \<open>Main results\<close>

text \<open>(C28) Answers fit. For every command and whatever the client has sent, the text of the answer is shorter than the buffer it is copied to: the
  thread answers whenever the handler of the command returns, with at most 2055 bytes.\<close>

theorem reply_fits:
  assumes "length (fc_client_string c) < MAX_CLIENT_RESPONSE" and "3 \<le> length (host_stack h)"
    and "run_command h c (dm_servers d) = Some (r, cs, w)"
  shows "\<exists>d'. process_command_thread h c d = Some d' \<and> dm_servers d' = w \<and>
    dm_written d' = dm_written d @ [(fc_fd c, response_bytes (host_stack h) r cs)] \<and>
    length (response_bytes (host_stack h) r cs) < sizeof_response + MAX_CLIENT_RESPONSE"
  using thread_answers [OF assms(3,1)] run_command_room [OF assms(3,1)] assms(2) by (simp add: response_length)

lemma answer_in_one_piece:
  assumes "3 \<le> length padding" "CHR 0x00 \<notin> set text" "length text < 2040" "- 128 \<le> r" "r < 128"
  shows "read_answer [Data (response_bytes padding r text), Eof] = Some (r, text)"
  using read_answer_pieces [of "response_bytes padding r text" "[]" padding r "text"] assms by (simp add: response_length)

definition new_client :: "nat \<Rightarrow> int \<Rightarrow> fuse_client" where
  "new_client addr fd = hd (fuse_add_client addr fd [])"

lemma new_client_simps [simp]:
  "fc_addr (new_client addr fd) = addr" "fc_fd (new_client addr fd) = fd" "fc_client_string (new_client addr fd) = []"
  "fc_incoming (new_client addr fd) = replicate AFP_CLIENT_INCOMING_BUF 0"
  by (simp_all add: new_client_def fuse_add_client_def)

lemma command_string:
  assumes "c_string n s" "n < AFP_CLIENT_INCOMING_BUF"
  shows "string_at ((cmd # char_array n s) @ drop (length (cmd # char_array n s)) (replicate AFP_CLIENT_INCOMING_BUF 0)) 1 = Some s"
  using string_at_char_array [of 1 "[cmd]" s n "drop (length (cmd # char_array n s)) (replicate AFP_CLIENT_INCOMING_BUF 0)"] assms
  by (simp add: c_string_def)

text \<open>(C12) The command to unmount. When the client is called to unmount a mount point, and the first volume of the list of servers with this mount point is
  mounted, on a server that answers every request in some way, the daemon sends exactly the requests that unmount the volume, and the client
  prints nothing and returns 1. The volume is unmounted then, or was the last one mounted, and its server is gone.\<close>

theorem unmount_command_correct:
  assumes "servers_ok (dm_servers d) as" and "c_string 255 mp"
    and "find (\<lambda>a. mounted_on mp (cl_srv (sw_heap (dm_servers d) a)) \<noteq> None) as = Some a"
    and "s = sw_heap (dm_servers d) a" and "mounted_on mp (cl_srv s) = Some j" and "v = srv_volumes (cl_srv s) ! j"
    and "vol_mounted v = AFP_VOLUME_MOUNTED" and "idle s" and "\<And>c. responsive (out_env (host_out h) a) c"
    and "\<And>n. env_malloc (out_env (host_out h) a) n" and "out_unmount (host_out h) = Some" and "3 \<le> length (host_stack h)"
    and "final \<longleftrightarrow> (\<forall>k < length (srv_volumes (cl_srv s)). k \<noteq> j \<longrightarrow> vol_mounted (srv_volumes (cl_srv s) ! k) = AFP_VOLUME_UNMOUNTED)"
  shows "\<exists>req d' ms answer as'. do_unmount [''afp_client'', ''unmount'', mp] = Some (Inr req) \<and>
    process_command h req (new_client addr fd) d = Some d' \<and> servers_ok (dm_servers d') as' \<and> (a \<in> set as' \<longleftrightarrow> \<not> final) \<and>
    cl_sent (sw_heap (dm_servers d') a) = cl_sent s @ ms \<and> map (drop 16) ms = unmount_requests v final \<and>
    (\<not> final \<longrightarrow> vol_mounted (srv_volumes (cl_srv (sw_heap (dm_servers d') a)) ! j) = AFP_VOLUME_UNMOUNTED) \<and>
    dm_written d' = dm_written d @ [(fd, answer)] \<and> read_answer [Data answer, Eof] = Some (AFP_SERVER_RESULT_OKAY, [])"
proof -
  let ?w = "dm_servers d" and ?req = "AFP_SERVER_COMMAND_UNMOUNT # char_array 255 mp"
  let ?buf = "?req @ drop (length ?req) (replicate AFP_CLIENT_INCOMING_BUF 0)"
  let ?c = "(new_client addr fd)\<lparr>fc_incoming := ?buf, fc_incoming_size := int (length ?req)\<rparr>"
  have req: "do_unmount [''afp_client'', ''unmount'', mp] = Some (Inr ?req)" "string_at ?buf 1 = Some mp" "length ?req = 256"
    using assms(2) command_string [OF assms(2)] by (simp_all add: do_unmount_def c_string_def)
  have a: "a \<in> set as"
    using assms(3) by (auto simp: find_Some_iff)
  have j: "j < length (srv_volumes (cl_srv s))"
    using assms(5) by (auto simp: mounted_on_def find_Some_iff)
  obtain r w' as' ms v' where w': "on_server a (on_volume j (afp_unmount_volume (out_env (host_out h) a) Some j)) ?w = Some (r, w')"
    "servers_ok w' as'" "cl_sent (sw_heap w' a) = cl_sent s @ ms" "map (drop 16) ms = unmount_requests v final" "vol_mounted v' = AFP_VOLUME_UNMOUNTED"
    "\<not> final \<longrightarrow> srv_volumes (cl_srv (sw_heap w' a)) = (srv_volumes (cl_srv s))[j := v']" "a \<in> set as' \<longleftrightarrow> \<not> final"
    using responsive_unmount [OF assms(1) a _ assms(9,10), of v j final] assms(4,6-8,13) j by blast
  have f: "find_server (\<lambda>a. mounted_on mp (cl_srv (sw_heap ?w a)) \<noteq> None) (sl_next (sw_list ?w)) (sl_base (sw_list ?w)) = Some (Some a)"
    using assms(3) by (simp add: find_server_ok [OF assms(1)])
  have "run_command h ?c ?w = Some (AFP_SERVER_RESULT_OKAY, [], w')"
    using req(2) f assms(4-7,11) w'(1) by (simp add: run_command_def process_unmount_def Let_def)
  then obtain d' where d': "process_command_thread h ?c d = Some d'" "dm_servers d' = w'"
    "dm_written d' = dm_written d @ [(fd, response_bytes (host_stack h) AFP_SERVER_RESULT_OKAY [])]"
    using thread_answers [of h ?c d] by auto
  have "process_command h ?req (new_client addr fd) d = Some d'"
    using d'(1) req(3) by (simp add: process_command_def Let_def)
  then show ?thesis
    using req(1) d' w' j answer_in_one_piece [OF assms(12), of "[]" 1] by auto
qed

text \<open>(C31) The end of the daemon. When the daemon is told to exit while a volume of the first server of its list is mounted, on a server that answers every
  request in some way, \<open>fuse_forced_ending_hook\<close> unmounts its volumes one after the other. The last one takes the server with it, which is freed, and
  the loop goes on with its number of volumes and its successor in the list: it reads freed memory.\<close>

theorem forced_ending_reads_freed_server:
  assumes "servers_ok w (a # as)" and "idle (sw_heap w a)"
    and "\<forall>v \<in> set (srv_volumes (cl_srv (sw_heap w a))). vol_mounted v \<in> {AFP_VOLUME_MOUNTED, AFP_VOLUME_UNMOUNTED}"
    and "something_is_mounted (cl_srv (sw_heap w a))"
    and "\<And>d. responsive (out_env out a) d" and "\<And>n. env_malloc (out_env out a) n" and "out_unmount out = Some"
  shows "fuse_forced_ending_hook out w = None"
proof -
  let ?vs = "srv_volumes (cl_srv (sw_heap w a))"
  have base: "sl_base (sw_list w) = Some a"
    using servers_okD(1) [OF assms(1)] by (simp add: server_chain_def)
  have "\<exists>k < length ?vs. 0 \<le> k \<and> vol_mounted (?vs ! k) = AFP_VOLUME_MOUNTED"
    using assms(3,4) by (fastforce simp: something_is_mounted_def list_ex_length)
  then have "end_volumes out a [0..<length ?vs] w = None"
    using assms by (intro end_volumes_uses_freed_server [of w "a # as"]) auto
  moreover have "srv_connect_state (cl_srv (sw_heap w a)) = SERVER_STATE_CONNECTED"
    using assms(2) by (simp add: idle_def session_ready_def)
  ultimately show ?thesis
    unfolding fuse_forced_ending_hook_def base by (subst end_servers.simps) simp
qed

text \<open>(C32) Resuming. \<open>process_resume\<close> puts the server into the list again, in which it still is. If it is the first one, it becomes its own successor; from then on
  the commands to suspend and to resume a server with another name never end.\<close>

theorem resume_damages_list:
  assumes "sl_base (sw_list w) = Some a" and "string_at buf 1 = Some name" and "name \<in> {srv_server_name_utf8 (cl_srv (sw_heap w a)), srv_server_name (cl_srv (sw_heap w a))}"
    and "0 \<le> fst (try_addresses (out_connects (host_out h) a) (sw_address w a) (srv_fd (cl_srv (sw_heap w a))))"
    and "process_resume h buf cs w = Some (r, cs', w')" and "a \<notin> sw_freed w'"
    and "string_at buf' 1 = Some name'" and "name' \<notin> {srv_server_name_utf8 (cl_srv (sw_heap w' a)), srv_server_name (cl_srv (sw_heap w' a))}"
  shows "process_suspend h buf' cs'' w' = None \<and> process_resume h buf' cs'' w' = None"
proof -
  have s: "server_named name w = Some (Some a)"
    using assms(1,3) by (auto simp: server_named_def find_server_by_name_def find_server.simps [of _ _ "Some a"])
  obtain f and rc :: "int \<times> string" and w1 where w1: "on_server a f w = Some (rc, w1)" "w' = w1\<lparr>sw_list := add_server a (sw_list w1)\<rparr>"
    using assms(2,4,5) s by (auto simp: process_resume_def afp_server_reconnect_loud_def failed_def Let_def split: Option.bind_splits if_splits)
  have "sl_base (sw_list w1) = Some a"
    using w1 assms(1,6) by (auto simp: on_server_def add_server_def Let_def split: Option.bind_splits if_splits)
  then have "server_named name' w' = None"
    using assms(8) w1(2) unfolding server_named_def find_server_by_name_def by (auto intro!: reconnected_server_cycle)
  then show ?thesis
    using assms(7) by (simp add: process_suspend_def process_resume_def)
qed

subsection \<open>Examples\<close>

definition example_host :: "(byte list list \<Rightarrow> tx_result) \<Rightarrow> host" where
  "example_host net = \<lparr>host_out = (example_outside (\<lambda>_ _. Some 3))\<lparr>out_env := (\<lambda>_. example_env net)\<rparr>, host_access = (\<lambda>_. 0),
     host_device = Device_Ready, fuse_run = (\<lambda>_ c. (0, 0, c)), fuse_stderr = [], host_ntop = (\<lambda>_. ''10.0.0.1''), host_stack = replicate 2048 0,
     host_tx_delay = (\<lambda>_. 0), host_debug = False\<rparr>"

definition daemon_with :: "servers \<Rightarrow> daemon" where
  "daemon_with w = \<lparr>dm_servers = w, dm_clients = [], dm_fresh = 1, dm_exit = False, dm_fds = \<lparr>rds = {}, max_fd = 0\<rparr>, dm_written = []\<rparr>"

theorem reply_fits_witness:
  "\<exists>d'. process_command_thread (example_host (answering_server 0)) ((new_client 0 5)\<lparr>fc_incoming := [AFP_SERVER_COMMAND_PING]\<rparr>) (daemon_with one_server) =
      Some d' \<and> dm_written d' = [(5, [1, 0, 0, 0, 6, 0, 0, 0] @ to_bytes (line ''Ping!''))]"
proof -
  let ?h = "example_host (answering_server 0)" and ?c = "(new_client 0 5)\<lparr>fc_incoming := [AFP_SERVER_COMMAND_PING]\<rparr>"
  have r: "run_command ?h ?c (dm_servers (daemon_with one_server)) = Some (1, line ''Ping!'', one_server)"
    by (simp add: run_command_def process_ping_def log_for_client_def fuse_log_for_client_def daemon_with_def line_def Let_def)
  have p: "length (fc_client_string ?c) < MAX_CLIENT_RESPONSE" "3 \<le> length (host_stack ?h)" "take 3 (host_stack ?h) = [0, 0, 0]"
    by (simp_all add: example_host_def numeral_3_eq_3)
  show ?thesis
    using reply_fits [OF p(1,2) r] p(3)
    by (auto simp: response_bytes_def daemon_with_def line_def le32_def be32_def be16_def)
qed

definition mounted_server :: client where
  "mounted_server = (let v = zero_volume\<lparr>vol_volid := 7, vol_mounted := AFP_VOLUME_MOUNTED, vol_mountpoint := ''/mnt''\<rparr> in
     map_srv (srv_volumes_update (\<lambda>_. [zero_volume, v])) example_client)"

definition mounted_servers :: servers where
  "mounted_servers = one_server\<lparr>sw_heap := (\<lambda>_. mounted_server)\<rparr>"

lemma mounted_servers_ok: "servers_ok mounted_servers [0]" "idle mounted_server"
  using one_server_ok example_client_idle
  by (simp_all add: mounted_servers_def mounted_server_def one_server_def servers_ok_def idle_def session_ready_def queue_ok_def buffer_ok_def
      server_still_valid_def example_client_def Let_def)

lemma example_host_responsive: "responsive (out_env (host_out (example_host (answering_server 0))) a) d"
  "env_malloc (out_env (host_out (example_host (answering_server 0))) a) n"
  by (rule refuses_responsive, rule answering_server_refuses) (simp_all add: example_host_def example_env_def example_outside_def)

theorem unmount_command_correct_witness:
  "\<exists>d' answer. process_command (example_host (answering_server 0)) (AFP_SERVER_COMMAND_UNMOUNT # char_array 255 ''/mnt'') (new_client 0 5)
      (daemon_with mounted_servers) = Some d' \<and> map (drop 16) (cl_sent (sw_heap (dm_servers d') 0)) = [[afpFlush, 0, 0, 7], [afpLogout, 0]] \<and>
    dm_written d' = [(5, answer)] \<and> read_answer [Data answer, Eof] = Some (AFP_SERVER_RESULT_OKAY, [])"
proof -
  let ?h = "example_host (answering_server 0)"
  have d: "dm_servers (daemon_with mounted_servers) = mounted_servers" "dm_written (daemon_with mounted_servers) = []"
    by (simp_all add: daemon_with_def)
  have vs: "srv_volumes (cl_srv mounted_server) = [zero_volume, zero_volume\<lparr>vol_volid := 7, vol_mounted := AFP_VOLUME_MOUNTED, vol_mountpoint := ''/mnt''\<rparr>]"
    "sw_heap mounted_servers = (\<lambda>_. mounted_server)" "cl_sent mounted_server = []"
    by (simp_all add: mounted_server_def mounted_servers_def example_client_def Let_def)
  have on: "mounted_on ''/mnt'' (cl_srv mounted_server) = Some 1"
    by (simp add: mounted_on_def vs(1) zero_volume_def)
  have h: "out_unmount (host_out ?h) = Some" "3 \<le> length (host_stack ?h)"
    by (simp_all add: example_host_def example_outside_def)
  have final: "\<forall>k < length (srv_volumes (cl_srv mounted_server)). k \<noteq> 1 \<longrightarrow> vol_mounted (srv_volumes (cl_srv mounted_server) ! k) = AFP_VOLUME_UNMOUNTED"
    by (auto simp: vs(1) less_Suc_eq zero_volume_def)
  have u: "unmount_requests (srv_volumes (cl_srv mounted_server) ! 1) True = [[afpFlush, 0, 0, 7], [afpLogout, 0]]"
    by (simp add: vs(1) unmount_requests_def fork_requests_def zero_volume_def be16_def)
  show ?thesis
    using unmount_command_correct [of "daemon_with mounted_servers" "[0]" "''/mnt''" 0 mounted_server 1 _ ?h True 0 5] mounted_servers_ok d vs on h final u
      example_host_responsive by (auto simp: c_string_def do_unmount_def)
qed

theorem forced_ending_reads_freed_server_witness: "fuse_forced_ending_hook (host_out (example_host (answering_server 0))) mounted_servers = None"
proof -
  have "sw_heap mounted_servers 0 = mounted_server"
    by (simp add: mounted_servers_def)
  moreover have "something_is_mounted (cl_srv mounted_server)"
    "\<forall>v \<in> set (srv_volumes (cl_srv mounted_server)). vol_mounted v \<in> {AFP_VOLUME_MOUNTED, AFP_VOLUME_UNMOUNTED}"
    by (simp_all add: mounted_server_def something_is_mounted_def zero_volume_def Let_def)
  moreover have "out_unmount (host_out (example_host (answering_server 0))) = Some"
    by (simp add: example_host_def example_outside_def)
  ultimately show ?thesis
    using forced_ending_reads_freed_server [OF mounted_servers_ok(1)] mounted_servers_ok(2) example_host_responsive by auto
qed

definition suspended_servers :: servers where
  "suspended_servers = one_server\<lparr>sw_heap := (\<lambda>_. map_srv (srv_server_name_update (\<lambda>_. ''srv'')) example_client),
     sw_address := (\<lambda>_. [\<lparr>ai_family = 2, ai_protocol = 6, ai_addr = 100, ai_canonname = 0\<rparr>])\<rparr>"

theorem resume_damages_list_witness:
  "\<exists>r cs w'. process_resume ((example_host (answering_server 0))\<lparr>host_out := example_outside (\<lambda>_ _. Some 3)\<rparr>)
      (AFP_SERVER_COMMAND_RESUME # to_bytes ''srv'' @ [0]) [] suspended_servers = Some (r, cs, w') \<and>
    process_suspend ((example_host (answering_server 0))\<lparr>host_out := example_outside (\<lambda>_ _. Some 3)\<rparr>)
      (AFP_SERVER_COMMAND_SUSPEND # to_bytes ''other'' @ [0]) [] w' = None"
proof -
  let ?h = "(example_host (answering_server 0))\<lparr>host_out := example_outside (\<lambda>_ _. Some 3)\<rparr>"
  let ?buf = "AFP_SERVER_COMMAND_RESUME # to_bytes ''srv'' @ [0]" and ?buf' = "AFP_SERVER_COMMAND_SUSPEND # to_bytes ''other'' @ [0]"
  have b: "string_at ?buf 1 = Some ''srv''" "string_at ?buf' 1 = Some ''other''"
    using string_at_char_array [of 1 "[AFP_SERVER_COMMAND_RESUME]" "''srv''" 4 "[]"] string_at_char_array [of 1 "[AFP_SERVER_COMMAND_SUSPEND]" "''other''" 6 "[]"]
    by (simp_all add: char_array_def)
  have w: "sl_base (sw_list suspended_servers) = Some 0" "srv_server_name (cl_srv (sw_heap suspended_servers 0)) = ''srv''"
    "0 \<le> fst (try_addresses (out_connects (host_out ?h) 0) (sw_address suspended_servers 0) (srv_fd (cl_srv (sw_heap suspended_servers 0))))"
    by (simp_all add: suspended_servers_def one_server_def example_outside_def)
  have "\<exists>r cs w'. process_resume ?h ?buf [] suspended_servers = Some (r, cs, w') \<and> 0 \<notin> sw_freed w' \<and>
      ''other'' \<notin> {srv_server_name_utf8 (cl_srv (sw_heap w' 0)), srv_server_name (cl_srv (sw_heap w' 0))}"
    using b(1)
    by (simp add: process_resume_def server_named_def find_server_by_name_def find_server.simps suspended_servers_def one_server_def
        afp_server_reconnect_loud_def example_outside_def on_server_def afp_server_reconnect_def afp_server_connect_def dsi_opensession_def
        dsi_send_def dsi_start_def example_env_def afp_server_login_def afp_dologin_def find_uam_by_bitmap_def login_messages_def
        dsi_setup_header_def failed_def example_client_def example_server_def afp_server_init_def Let_def)
  then show ?thesis
    using resume_damages_list [OF w(1) b(1) _ w(3) _ _ b(2)] w(2) by fastforce
qed

end
