(* ===== verification/Fuse_Mount.thy ===== *)
theory Fuse_Mount
  imports Fuse_Daemon
begin

text \<open>
  Mounting from the request of the client to the mounted volume: \<open>process_mount\<close> with \<open>afp_server_full_connect\<close>, \<open>mount_volume\<close>, \<open>afp_connect_volume\<close>
  and the start of FUSE.
\<close>

subsection \<open>Opening the volume\<close>

lemma on_server_same:
  assumes "servers_ok w as" "a \<in> set as" "f (sw_heap w a) = Some (r, c)" "cl_registered c"
  shows "on_server a f w = Some (r, w\<lparr>sw_heap := (sw_heap w)(a := c)\<rparr>)" "servers_ok (w\<lparr>sw_heap := (sw_heap w)(a := c)\<rparr>) as"
proof -
  note ok = servers_okD [OF assms(1)]
  have "cl_registered (sw_heap w a)" "a \<notin> sw_freed w"
    using ok(2-4) assms(2) by auto
  then show "on_server a f w = Some (r, w\<lparr>sw_heap := (sw_heap w)(a := c)\<rparr>)"
    using assms(3,4) by (simp add: on_server_def)
  show "servers_ok (w\<lparr>sw_heap := (sw_heap w)(a := c)\<rparr>) as"
    using assms(1,2,4) by (auto simp: servers_ok_def)
qed

text \<open>A server that opens the volume \<open>name\<close>, which has Unicode names and fixed directory identifiers, whenever it is asked to.\<close>

definition opens_volume :: "env \<Rightarrow> string \<Rightarrow> afp_volume \<Rightarrow> bool" where
  "opens_volume e name v \<longleftrightarrow> (\<forall>n. env_malloc e n) \<and> length name < 256 \<and>
     (\<exists>name_offset date trailer. \<forall>c. answers_request e c (open_fields name) 0 (open_body v name_offset date trailer)) \<and>
     vol_attributes v AND kSupportsUTF8Names \<noteq> 0 \<and> vol_signature v = AFP_VOL_FIXED \<and>
     (\<exists>pr. convert_utf8dec_to_utf8pre (to_bytes name) AFP_VOLUME_NAME_UTF8_LEN = Some pr)"

lemma connect_on_volume:
  assumes "idle c" "30 \<le> version_number (cl_srv c)" "srv_path_encoding (cl_srv c) = kFPUTF8Name" "i < length (srv_volumes (cl_srv c))"
    and "c_str (vol_volpassword (srv_volumes (cl_srv c) ! i)) = []" "opens_volume e (vol_volume_name (srv_volumes (cl_srv c) ! i)) v"
  obtains c' where "on_volume i (afp_connect_volume e hook i mx ml) c = Some ((0, ml), c')" "idle c'" "i < length (srv_volumes (cl_srv c'))"
    "vol_mounted (srv_volumes (cl_srv c') ! i) = AFP_VOLUME_MOUNTED" "vol_volid (srv_volumes (cl_srv c') ! i) = vol_volid v"
    "vol_attributes (srv_volumes (cl_srv c') ! i) = vol_attributes v"
proof -
  let ?c = "c\<lparr>cl_vol := srv_volumes (cl_srv c) ! i\<rparr>"
  have c: "idle ?c"
    using assms(1) by simp
  obtain name_offset date trailer pr where v: "\<And>n. env_malloc e n" "length (vol_volume_name (srv_volumes (cl_srv c) ! i)) < 256"
    "answers_request e ?c (open_fields (vol_volume_name (srv_volumes (cl_srv c) ! i))) 0 (open_body v name_offset date trailer)"
    "vol_attributes v AND kSupportsUTF8Names \<noteq> 0" "vol_signature v = AFP_VOL_FIXED"
    "convert_utf8dec_to_utf8pre (to_bytes (vol_volume_name (srv_volumes (cl_srv c) ! i))) AFP_VOLUME_NAME_UTF8_LEN = Some pr"
    using assms(6) unfolding opens_volume_def by blast
  have pre: "30 \<le> version_number (cl_srv ?c)" "c_str (vol_volpassword (cl_vol ?c)) = []"
    "vol_volume_name (cl_vol ?c) = vol_volume_name (srv_volumes (cl_srv c) ! i)" "i < length (srv_volumes (cl_srv ?c))"
    using assms(2,4,5) by simp_all
  obtain c' ml' where c': "afp_connect_volume e hook i mx ml ?c = Some ((0, ml'), c')" "idle c'"
    and ml: "srv_path_encoding (cl_srv ?c) = kFPUTF8Name \<longrightarrow> ml' = ml"
    and vols: "srv_volumes (cl_srv c') = (srv_volumes (cl_srv ?c))[i := cl_vol c']"
    and rest: "vol_mounted (cl_vol c') = AFP_VOLUME_MOUNTED" "vol_volid (cl_vol c') = vol_volid v" "vol_attributes (cl_vol c') = vol_attributes v"
    using connect_volume [where c = ?c and i = i and hook = hook and mx = mx and ml = ml, OF c v(1) pre(1-3) v(2-6) pre(4)] by blast
  have "idle (put_volume i c')"
    using c'(2) by simp
  then show thesis
    by (intro that [of "put_volume i c'"]) (use c' ml vols rest assms(3,4) in \<open>simp_all add: on_volume_def put_volume_def\<close>)
qed

lemma mount_volume_opens:
  assumes "servers_ok w as" "a \<in> set as" "s = sw_heap w a" "idle s" "30 \<le> version_number (cl_srv s)" "srv_path_encoding (cl_srv s) = kFPUTF8Name"
    and "find_volume_by_name (cl_srv s) volname = Some (Some i)" "v0 = srv_volumes (cl_srv s) ! i" "vol_mounted v0 \<noteq> AFP_VOLUME_MOUNTED"
    and "vol_flags v0 AND HasPassword = 0" "opens_volume (out_env (host_out h) a) (vol_volume_name v0) v"
  obtains cs' w' where "mount_volume h a volname volpassword cs w = Some (Some i, cs', w')" "servers_ok w' as" "idle (sw_heap w' a)"
    "i < length (srv_volumes (cl_srv (sw_heap w' a)))"
    "vol_mounted (srv_volumes (cl_srv (sw_heap w' a)) ! i) = AFP_VOLUME_MOUNTED"
    "vol_volid (srv_volumes (cl_srv (sw_heap w' a)) ! i) = vol_volid v"
    "vol_attributes (srv_volumes (cl_srv (sw_heap w' a)) ! i) = vol_attributes v"
proof -
  let ?v1 = "v0\<lparr>vol_volpassword := replicate AFP_VOLPASS_LEN 0\<rparr>"
  let ?s1 = "map_srv (srv_volumes_update (\<lambda>vs. vs[i := ?v1])) s"
  have i: "i < length (srv_volumes (cl_srv s))"
    using assms(7) by (auto simp: find_volume_by_name_def find_Some_iff split: Option.bind_splits)
  have s1: "idle ?s1"
    using assms(4) by (simp add: idle_def session_ready_def queue_ok_def buffer_ok_def server_still_valid_def)
  note u = on_server_same [where f = "\<lambda>c. Some ((), map_srv (srv_volumes_update (\<lambda>vs. vs[i := ?v1])) c)", OF assms(1,2), of "()" ?s1]
  let ?w1 = "w\<lparr>sw_heap := (sw_heap w)(a := ?s1)\<rparr>"
  have w1: "update_server a (map_srv (srv_volumes_update (\<lambda>vs. vs[i := ?v1]))) w = Some ?w1" "servers_ok ?w1 as"
    using u assms(3) idle_registered [OF s1] by (simp_all add: update_server_def)
  obtain c' where c': "on_volume i (afp_connect_volume (out_env (host_out h) a) (out_unmount (host_out h)) i 1024 ([], 0)) ?s1 = Some ((0, [], 0), c')"
    "idle c'" "i < length (srv_volumes (cl_srv c'))"
    "vol_mounted (srv_volumes (cl_srv c') ! i) = AFP_VOLUME_MOUNTED" "vol_volid (srv_volumes (cl_srv c') ! i) = vol_volid v"
    "vol_attributes (srv_volumes (cl_srv c') ! i) = vol_attributes v"
    by (rule connect_on_volume [OF s1, where i = i and e = "out_env (host_out h) a" and v = v and hook = "out_unmount (host_out h)" and mx = 1024 and ml = "([], 0)"])
      (use i assms(5,6,11) in \<open>simp_all add: c_str_def\<close>)
  note o = on_server_same [where f = "on_volume i (afp_connect_volume (out_env (host_out h) a) (out_unmount (host_out h)) i 1024 ([], 0))",
    OF w1(2) assms(2), of "(0, [], 0)" c']
  show thesis
    by (rule that [of "log_for_client [] cs" "?w1\<lparr>sw_heap := (sw_heap ?w1)(a := c')\<rparr>"])
      (use w1 c' o idle_registered [OF c'(2)] assms(3,7-10) in
        \<open>simp_all add: mount_volume_def volopen_def log_as_format_def Let_def\<close>)
qed

subsection \<open>Finding the mapping of users\<close>

text \<open>On a server that answers every packet in some way a request returns when its handler can cope with whatever is in the buffer. \<open>f\<close> is what
  the handler makes of the buffer and the number of bytes in it.\<close>

lemma responsive_sent:
  assumes "idle c" "\<And>d. responsive e d" "\<And>n. env_malloc e n" "sub \<notin> {0, afpRead, afpReadExt}" "w \<noteq> 0"
    and reply: "\<And>s. length (srv_incoming_buffer s) = 4096 \<Longrightarrow> 16 \<le> srv_data_read s \<Longrightarrow>
      \<exists>rc. afp_reply (env_malloc e) sub s x = Some (rc, s, f (srv_incoming_buffer s) (srv_data_read s))"
  obtains rc b n c' where "send_fields e flds w sub x c = Some (rc, f b n, c')" "idle c'" "lasting c' = lasting c"
proof -
  obtain c1 header where rh: "request_header DSI_DSICommand c = (c1, header)"
    by fastforce
  have c1: "idle c1" "lasting c1 = lasting c"
    using idle_header [OF assms(1), of DSI_DSICommand] rh by simp_all
  then have ready: "session_ready c1"
    by (simp add: idle_def)
  obtain rc body where "answers_packet e c1 (header @ flds) rc body"
    using assms(2) [of c1] c1(1) request_header_id(1) [OF rh, of flds] unfolding responsive_def by blast
  then obtain chunks hd where net: "env_net e (cl_sent c1 @ [set_length (header @ flds)]) = Sent (map Data chunks)"
    "[] \<notin> set chunks" "concat chunks = packet hd body" "reply_header c1 hd body"
    by (auto simp: answers_packet_def)
  let ?buf = "packet hd body @ drop (16 + length body) (recv_buf c1)"
  have len: "length ?buf = 4096"
    using ready net(4) by (simp add: session_ready_def buffer_ok_def reply_header_def)
  have "\<exists>rc'. afp_reply (env_malloc e) sub s x = Some (rc', s, f ?buf (16 + length body))"
    if "srv_incoming_buffer s = ?buf" "srv_data_read s = 16 + length body" for s
    using reply [of s] that len by simp
  then obtain stats where send: "dsi_send e (header @ flds) w sub x c1 =
      Some (return_code_of hd, f ?buf (16 + length body), after_exchange (header @ flds) ?buf stats c1)"
    "st_requests_pending stats = requests_pending (cl_srv c1)"
    using dsi_send_exchange [OF ready assms(3) net assms(4,5)] by blast
  have "session_ready (after_exchange (header @ flds) ?buf stats c1)"
    using len by (intro session_ready_after_exchange [OF ready _ send(2)])
  then show thesis
    by (intro that [of "return_code_of hd" ?buf "16 + length body" "after_exchange (header @ flds) ?buf stats c1"])
      (use send(1) rh c1 in \<open>simp_all add: send_fields_def idle_def after_exchange_def lasting_def\<close>)
qed

lemma getuserinfo_reply_returns: "length b = 4096 \<Longrightarrow> \<exists>r u g. afp_getuserinfo_reply b n = Some (r, u, g)"
  by (auto simp: afp_getuserinfo_reply_def raw_error_code_def Let_def return_simps rd32le_eq_None_iff split: Option.bind_splits)

lemma mapid_reply_returns: "length b = 4096 \<Longrightarrow> \<exists>r t. afp_mapid_reply b n name = Some (r, t)"
  by (auto simp: afp_mapid_reply_def raw_error_code_def copy_from_pascal_two_def Let_def return_simps rd32le_eq_None_iff split: Option.bind_splits)

lemma user_replies:
  assumes "16 \<le> srv_data_read s"
  shows "afp_reply m afpGetUserInfo s (User_Info u g) =
      store_reply s (case_prod User_Info) (afp_getuserinfo_reply (srv_incoming_buffer s) (srv_data_read s))"
    "afp_reply m afpMapID s (Text t) = store_reply s Text (afp_mapid_reply (srv_incoming_buffer s) (srv_data_read s) t)"
  using assms by (simp_all add: afp_reply_def blank_subcommands_def Let_def)

lemma getuserinfo_returns:
  assumes "idle c" "\<And>d. responsive e d" "\<And>n. env_malloc e n"
  obtains ret uid gid c' where "afp_getuserinfo e this userid bitmap newuid newgid c = Some (ret, uid, gid, c')" "idle c'" "lasting c' = lasting c"
proof -
  let ?f = "\<lambda>b n. case_prod User_Info (snd (the (afp_getuserinfo_reply b n)))"
  have reply: "\<exists>rc. afp_reply (env_malloc e) afpGetUserInfo s (User_Info u g) = Some (rc, s, ?f (srv_incoming_buffer s) (srv_data_read s))"
    if "length (srv_incoming_buffer s) = 4096" "16 \<le> srv_data_read s" for s u g
    using getuserinfo_reply_returns [OF that(1), of "srv_data_read s"] that(2) by (auto simp: user_replies store_reply_def)
  show thesis
  proof (rule responsive_sent [OF assms _ _ reply])
    fix rc b n c'
    assume "send_fields e ([afpGetUserInfo, if this then 1 else 0] @ be32 userid @ be16 bitmap) DSI_DEFAULT_TIMEOUT afpGetUserInfo
      (User_Info (unset32 e) (unset32 e)) c = Some (rc, ?f b n, c')" "idle c'" "lasting c' = lasting c"
    then show thesis
      using that by (cases "snd (the (afp_getuserinfo_reply b n))") (simp add: afp_getuserinfo_def)
  qed simp_all
qed

lemma mapid_returns:
  assumes "idle c" "\<And>d. responsive e d" "\<And>n. env_malloc e n"
  obtains ret name' c' where "afp_mapid e subfunction uid name c = Some (ret, name', c')" "idle c'" "lasting c' = lasting c"
proof -
  let ?f = "\<lambda>b n. Text (snd (the (afp_mapid_reply b n name)))"
  have reply: "\<exists>rc. afp_reply (env_malloc e) afpMapID s (Text name) = Some (rc, s, ?f (srv_incoming_buffer s) (srv_data_read s))"
    if "length (srv_incoming_buffer s) = 4096" "16 \<le> srv_data_read s" for s
    using mapid_reply_returns [OF that(1), of "srv_data_read s" name] that(2) by (auto simp: user_replies store_reply_def)
  show thesis
  proof (rule responsive_sent [OF assms _ _ reply])
    fix rc b n c'
    assume "send_fields e ([afpMapID, subfunction] @ be32 uid) DSI_DEFAULT_TIMEOUT afpMapID (Text name) c = Some (rc, ?f b n, c')"
      "idle c'" "lasting c' = lasting c"
    then show thesis
      using that by (simp add: afp_mapid_def returned_text_def)
  qed simp_all
qed

text \<open>The volume is the same up to its mapping, which is known.\<close>

definition mapped :: "client \<Rightarrow> client \<Rightarrow> bool" where
  "mapped c c' \<longleftrightarrow> idle c' \<and> srv_volumes (cl_srv c') = srv_volumes (cl_srv c) \<and>
     (\<exists>m. m \<noteq> AFP_MAPPING_UNKNOWN \<and> cl_vol c' = (cl_vol c)\<lparr>vol_mapping := m\<rparr>)"

lemma mappedI:
  assumes "mapped c c1" "idle c2" "lasting c2 = lasting c1"
  shows "mapped c c2"
  using assms lasting_eqD(1) [OF assms(3)] lasting_volumes [OF assms(3)] by (simp add: mapped_def)

lemma mapped_map_srv:
  assumes "mapped c c1" "f = srv_server_uid_update g \<or> f = srv_server_gid_valid_update b \<or> f = (\<lambda>s. s\<lparr>srv_server_gid_valid := True, srv_server_gid := n\<rparr>)"
  shows "mapped c (map_srv f c1)"
  using assms by (auto simp: mapped_def idle_def session_ready_def queue_ok_def buffer_ok_def server_still_valid_def)

lemma mapped_common: "mapped c c1 \<Longrightarrow> mapped c (map_vol (vol_mapping_update (\<lambda>_. AFP_MAPPING_COMMON)) c1)"
  unfolding mapped_def by (auto intro: exI [of _ AFP_MAPPING_COMMON])

lemma mapped_idle: "mapped c c' \<Longrightarrow> idle c'"
  by (simp add: mapped_def)

lemma detect_mapping_returns:
  assumes "idle c" "\<And>d. responsive e d" "\<And>n. env_malloc e n"
  shows "\<exists>c'. afp_detect_mapping e c = Some (0, c') \<and> mapped c c'"
proof -
  let ?c = "map_srv (srv_server_gid_valid_update (\<lambda>_. False)) (map_vol (vol_mapping_update (\<lambda>_. AFP_MAPPING_LOGINIDS)) c)"
  have login: "mapped c (map_vol (vol_mapping_update (\<lambda>_. AFP_MAPPING_LOGINIDS)) c)"
    using assms(1) unfolding mapped_def by (intro conjI exI [of _ AFP_MAPPING_LOGINIDS]) simp_all
  then have c: "mapped c ?c"
    by (rule mapped_map_srv) blast
  obtain ret uid gid c1 where 1: "afp_getuserinfo e True 0 kFPGetUserInfo_USER_ID (srv_server_uid (cl_srv ?c)) (unset32 e) ?c = Some (ret, uid, gid, c1)"
    "idle c1" "lasting c1 = lasting ?c"
    by (rule getuserinfo_returns [OF mapped_idle [OF c] assms(2,3)])
  let ?c1 = "map_srv (srv_server_uid_update (\<lambda>_. uid)) c1"
  have c1: "mapped c ?c1"
    using mapped_map_srv [OF mappedI [OF c 1(2,3)]] by blast
  obtain ret' uid' gid' c2 where 2: "afp_getuserinfo e True 0 kFPGetUserInfo_PRI_GROUPID (unset32 e) (unset32 e) ?c1 = Some (ret', uid', gid', c2)"
    "idle c2" "lasting c2 = lasting ?c1"
    by (rule getuserinfo_returns [OF mapped_idle [OF c1] assms(2,3)])
  define c3 where "c3 = (if ret' = 0 then map_srv (\<lambda>s. s\<lparr>srv_server_gid_valid := True, srv_server_gid := gid'\<rparr>) c2 else c2)"
  have c3: "mapped c c3"
    using mappedI [OF c1 2(2,3)]
      mapped_map_srv [OF mappedI [OF c1 2(2,3)], of "\<lambda>s. s\<lparr>srv_server_gid_valid := True, srv_server_gid := gid'\<rparr>"]
    by (cases "ret' = 0") (auto simp: c3_def)
  define sub where "sub = (if vol_attributes (cl_vol c3) AND kSupportsUTF8Names \<noteq> 0 then kUserIDToUTF8Name else kUserIDToName)"
  obtain r name c4 where 3: "afp_mapid e sub (pw_uid (srv_passwd (cl_srv c3))) (c_str (fresh e 255)) c3 = Some (r, name, c4)"
    "idle c4" "lasting c4 = lasting c3"
    by (rule mapid_returns [OF mapped_idle [OF c3] assms(2,3)])
  have c4: "mapped c c4"
    by (rule mappedI [OF c3 3(2,3)])
  have known: "vol_mapping (cl_vol c) \<noteq> AFP_MAPPING_UNKNOWN \<Longrightarrow> mapped c c"
    using assms(1) unfolding mapped_def by (intro conjI exI [of _ "vol_mapping (cl_vol c)"]) simp_all
  have "afp_detect_mapping e c = (if vol_mapping (cl_vol c) \<noteq> AFP_MAPPING_UNKNOWN then Some (0, c)
      else if vol_attributes (cl_vol c) AND kNoNetworkUserIDs \<noteq> 0 then Some (0, map_vol (vol_mapping_update (\<lambda>_. AFP_MAPPING_LOGINIDS)) c)
      else if ret \<noteq> 0 then Some (0, ?c1)
      else if srv_server_uid (cl_srv c3) \<noteq> pw_uid (srv_passwd (cl_srv c3)) then Some (0, c3)
      else Some (0, if name = pw_name (srv_passwd (cl_srv c3)) then map_vol (vol_mapping_update (\<lambda>_. AFP_MAPPING_COMMON)) c4 else c4))"
    unfolding afp_detect_mapping_def Let_def 1(1) bind.bind_lunit prod.case 2(1) c3_def [symmetric] sub_def [symmetric] 3(1) ..
  then show ?thesis
    using known login c1 c3 c4 mapped_common [OF c4] by auto
qed

subsection \<open>Starting FUSE\<close>

text \<open>The FUSE library is still running when the daemon looks.\<close>

definition fuse_runs :: "host \<Rightarrow> bool" where
  "fuse_runs h \<longleftrightarrow> (\<forall>args c. \<exists>er. fuse_run h args c = (0, er, c))"

lemma start_fuse_mounts:
  assumes "servers_ok w as" "a \<in> set as" "c = sw_heap w a" "idle c" "i < length (srv_volumes (cl_srv c))" "v = srv_volumes (cl_srv c) ! i"
    and "vol_mounted v = AFP_VOLUME_MOUNTED" "\<And>d. responsive (out_env (host_out h) a) d" "\<And>n. env_malloc (out_env (host_out h) a) n" "fuse_runs h"
  obtains cs' w' v' where "start_fuse h a i r cs w = Some (True, cs', w')" "servers_ok w' as" "v' = srv_volumes (cl_srv (sw_heap w' a)) ! i"
    "vol_mounted v' = AFP_VOLUME_MOUNTED" "vol_volid v' = vol_volid v" "vol_mountpoint v' = take 254 (mr_mountpoint r)"
    "vol_extra_flags v' = vol_extra_flags v OR mr_volume_options r" "vol_mapping v' \<noteq> AFP_MAPPING_UNKNOWN" "idle (sw_heap w' a)"
proof -
  let ?v1 = "v\<lparr>vol_extra_flags := vol_extra_flags v OR mr_volume_options r, vol_mapping := sint (mr_map r)\<rparr>"
  obtain c1 where c1: "afp_detect_mapping (out_env (host_out h) a) (c\<lparr>cl_vol := ?v1\<rparr>) = Some (0, c1)" "mapped (c\<lparr>cl_vol := ?v1\<rparr>) c1"
    using detect_mapping_returns [where c = "c\<lparr>cl_vol := ?v1\<rparr>" and e = "out_env (host_out h) a", OF _ assms(8,9)] assms(4) by auto
  obtain m where m: "m \<noteq> AFP_MAPPING_UNKNOWN" "cl_vol c1 = ?v1\<lparr>vol_mapping := m\<rparr>" "srv_volumes (cl_srv c1) = srv_volumes (cl_srv c)" "idle c1"
    using c1(2) by (auto simp: mapped_def)
  let ?v = "?v1\<lparr>vol_mapping := m, vol_mountpoint := take 254 (mr_mountpoint r)\<rparr>"
  let ?c = "put_volume i (c1\<lparr>cl_vol := ?v\<rparr>)"
  let ?f = "\<lambda>c. do {
       let c = map_vol (\<lambda>v. v\<lparr>vol_extra_flags := vol_extra_flags v OR mr_volume_options r, vol_mapping := sint (mr_map r)\<rparr>) c;
       (_, c) \<leftarrow> afp_detect_mapping (out_env (host_out h) a) c;
       let c = map_vol (vol_mountpoint_update (\<lambda>_. take 254 (mr_mountpoint r))) c;
       let (fuse_result, fuse_errno, c) = fuse_run h (fuse_arguments (host_debug h) (mr_changeuid r \<noteq> 0) c) c;
       let (ok, text) = mount_outcome fuse_result fuse_errno c;
       Some ((ok, text), if fuse_result \<in> {0, ETIMEDOUT} then c else map_vol (vol_mounted_update (\<lambda>_. AFP_VOLUME_UNMOUNTED)) c)
     }"
  obtain er where er: "\<And>args c. fuse_run h args c = (0, er args c, c)"
    using assms(10) unfolding fuse_runs_def by metis
  have "c1\<lparr>cl_vol := ?v\<rparr> = map_vol (vol_mountpoint_update (\<lambda>_. take 254 (mr_mountpoint r))) c1"
    using m(2) by simp
  moreover have "vol_mounted (cl_vol c1) = AFP_VOLUME_MOUNTED"
    using m(2) assms(7) by simp
  ultimately have "\<exists>t. on_volume i ?f c = Some ((True, t), ?c)"
    using er c1(1) assms(6) by (auto simp: on_volume_def mount_outcome_def comp_def Let_def)
  then obtain t where t: "on_volume i ?f c = Some ((True, t), ?c)" ..
  have c: "idle ?c"
    using m(4) by simp
  note o = on_server_same [where f = "on_volume i ?f", OF assms(1,2), of "(True, t)" ?c]
  have o1: "on_server a (on_volume i ?f) w = Some ((True, t), w\<lparr>sw_heap := (sw_heap w)(a := ?c)\<rparr>)" "servers_ok (w\<lparr>sw_heap := (sw_heap w)(a := ?c)\<rparr>) as"
    using o t assms(3) idle_registered [OF c] by simp_all
  show thesis
    by (rule that [of "log_for_client t (report_fuse_errors h cs)" "w\<lparr>sw_heap := (sw_heap w)(a := ?c)\<rparr>" ?v])
      (use o1 c m assms(5-7) in \<open>simp_all add: start_fuse_def put_volume_def\<close>)
qed

subsection \<open>Main results\<close>

text \<open>(C11) The command to mount. When the request of a client reaches the daemon, the mount point and the FUSE device can be used, the connection to the server
  succeeds, whether it is new or already there, the server opens the volume that the request names, which is not mounted yet and has no
  password, and answers every other request in some way, then the volume is mounted on the mount point of the request, with the identifier from the
  server and the options of the request, the list of servers is as \<open>afp_server_full_connect\<close> leaves it, and the answer has the result 0. The mapping
  of users is known afterwards: that of the request, or, for the default \<open>AFP_MAPPING_UNKNOWN\<close> of the client, the one \<open>afp_detect_mapping\<close> has
  settled on, whatever the server answered to it.\<close>

theorem mount_command_correct:
  assumes "request_fits r" and "host_access h (mr_mountpoint r) = 0" and "host_device h = Device_Ready" and "fuse_runs h"
    and "afp_server_full_connect (host_out h) \<lparr>cr_uam_mask = mr_uam_mask r, cr_url = mr_url r\<rparr> (dm_servers d) = Some (Some a, ms, w)"
    and "servers_ok w as" and "a \<in> set as" and "s = sw_heap w a" and "idle s" and "30 \<le> version_number (cl_srv s)"
    and "srv_path_encoding (cl_srv s) = kFPUTF8Name"
    and "find_volume_by_name (cl_srv s) (url_volumename (mr_url r)) = Some (Some i)" and "v0 = srv_volumes (cl_srv s) ! i"
    and "vol_mounted v0 \<noteq> AFP_VOLUME_MOUNTED" and "vol_flags v0 AND HasPassword = 0"
    and "opens_volume (out_env (host_out h) a) (vol_volume_name v0) v" and "\<And>c. responsive (out_env (host_out h) a) c"
  shows "\<exists>d' cs v'. process_command h (AFP_SERVER_COMMAND_MOUNT # mount_request_bytes r) (new_client addr fd) d = Some d' \<and>
    servers_ok (dm_servers d') as \<and> dm_written d' = dm_written d @ [(fd, response_bytes (host_stack h) 0 cs)] \<and>
    srv_volumes (cl_srv (sw_heap (dm_servers d') a)) ! i = v' \<and> vol_mounted v' = AFP_VOLUME_MOUNTED \<and> vol_volid v' = vol_volid v \<and>
    vol_mountpoint v' = mr_mountpoint r \<and> vol_extra_flags v' AND mr_volume_options r = mr_volume_options r \<and>
    vol_mapping v' \<noteq> AFP_MAPPING_UNKNOWN"
proof -
  let ?req = "AFP_SERVER_COMMAND_MOUNT # mount_request_bytes r"
  let ?buf = "?req @ drop (length ?req) (replicate AFP_CLIENT_INCOMING_BUF 0)"
  let ?c = "(new_client addr fd)\<lparr>fc_incoming := ?buf, fc_incoming_size := int (length ?req)\<rparr>"
  have req: "mount_request_of ?buf = Some r" "length (mount_request_bytes r) = sizeof_mount_request"
    using mount_request_read [OF assms(1)] by simp_all
  have mp: "take 254 (mr_mountpoint r) = mr_mountpoint r"
    using assms(1) by (simp add: request_fits_def c_string_def Let_def)
  let ?t = "line (''Mounting '' @ url_volumename (mr_url r) @ '' from '' @ url_servername (mr_url r) @ '' on '' @ mr_mountpoint r)"
  obtain cs1 w1 where w1: "mount_volume h a (url_volumename (mr_url r)) (url_volpassword (mr_url r)) (fold log_for_client ms (log_for_client ?t [])) w =
      Some (Some i, cs1, w1)" "servers_ok w1 as" "idle (sw_heap w1 a)" "i < length (srv_volumes (cl_srv (sw_heap w1 a)))"
    "vol_mounted (srv_volumes (cl_srv (sw_heap w1 a)) ! i) = AFP_VOLUME_MOUNTED"
    "vol_volid (srv_volumes (cl_srv (sw_heap w1 a)) ! i) = vol_volid v"
    by (rule mount_volume_opens [OF assms(6-16)])
  have malloc: "env_malloc (out_env (host_out h) a) n" for n
    using assms(16) by (simp add: opens_volume_def)
  obtain cs2 w2 v' where w2: "start_fuse h a i r cs1 w1 = Some (True, cs2, w2)" "servers_ok w2 as" "v' = srv_volumes (cl_srv (sw_heap w2 a)) ! i"
    "vol_mounted v' = AFP_VOLUME_MOUNTED" "vol_volid v' = vol_volid (srv_volumes (cl_srv (sw_heap w1 a)) ! i)"
    "vol_mountpoint v' = take 254 (mr_mountpoint r)"
    "vol_extra_flags v' = vol_extra_flags (srv_volumes (cl_srv (sw_heap w1 a)) ! i) OR mr_volume_options r"
    "vol_mapping v' \<noteq> AFP_MAPPING_UNKNOWN"
    by (rule start_fuse_mounts [OF w1(2) assms(7) refl w1(3,4) refl w1(5) assms(17) malloc assms(4)])
  have "run_command h ?c (dm_servers d) = Some (0, cs2, w2)"
    using req assms(2,3,5) w1(1) w2(1) by (simp add: run_command_def process_mount_def Let_def)
  from thread_answers [OF this] obtain d' where d': "process_command_thread h ?c d = Some d'" "dm_servers d' = w2"
    "dm_written d' = dm_written d @ [(fd, response_bytes (host_stack h) 0 cs2)]"
    by auto
  have "process_command h ?req (new_client addr fd) d = Some d'"
    using d'(1) req(2) by (simp add: process_command_def Let_def)
  moreover have "vol_extra_flags v' AND mr_volume_options r = mr_volume_options r"
    unfolding w2(7) by (simp add: bit_eq_iff bit_simps)
  ultimately show ?thesis
    using d' w2 w1(6) mp by auto
qed

lemma fixed_server_responsive:
  assumes "env_net e = fixed_server body" "length body \<le> 4080"
  shows "responsive e c0"
  unfolding responsive_def
proof (intro allI impI, elim conjE)
  fix c :: client and msg
  assume "rd16 msg 2 = Some (srv_lastrequestid (cl_srv c))"
  then have "env_net e (cl_sent c @ [set_length msg]) = Sent [Data (reply_packet (srv_lastrequestid (cl_srv c)) 0 body)]"
    using assms(1) rd16_set_length by (simp add: fixed_server_def)
  then have "answers_packet e c msg (sint (0 :: u32)) body"
    using assms(2) by (auto simp: answers_packet_def reply_packet_def reply_header_def unat_of_nat
        intro!: exI [of _ "[reply_packet (srv_lastrequestid (cl_srv c)) 0 body]"]
          exI [of _ "\<lparr>hdr_flags = DSI_REPLY, hdr_command = DSI_DSICommand,
            hdr_requestid = srv_lastrequestid (cl_srv c), hdr_return_code = 0,
            hdr_length = word_of_nat (length body), hdr_reserved = 0\<rparr>"])
  then show "\<exists>rc body. answers_packet e c msg rc body"
    by blast
qed

definition known_server :: client where
  "known_server = map_srv (\<lambda>s. s\<lparr>srv_path_encoding := kFPUTF8Name,
     srv_volumes := [zero_volume\<lparr>vol_volume_name := ''Data'', vol_volume_name_printable := ''Data''\<rparr>]\<rparr>) example_client"

definition known_servers :: servers where
  "known_servers = one_server\<lparr>sw_heap := (\<lambda>_. known_server),
     sw_used := (\<lambda>_. Some \<lparr>ai_family = 2, ai_protocol = 6, ai_addr = 100, ai_canonname = 0\<rparr>)\<rparr>"

theorem mount_command_correct_witness:
  "sint (mr_map example_request) = AFP_MAPPING_UNKNOWN \<and> vol_attributes data_volume AND kNoNetworkUserIDs = 0 \<and> (\<exists>d' cs. process_command (example_host (fixed_server (open_body data_volume 16 0 [])))
      (AFP_SERVER_COMMAND_MOUNT # mount_request_bytes example_request) (new_client 0 5) (daemon_with known_servers) = Some d' \<and>
    dm_written d' = [(5, response_bytes (replicate 2048 0) 0 cs)] \<and>
    vol_mountpoint (srv_volumes (cl_srv (sw_heap (dm_servers d') 0)) ! 0) = ''/mnt'' \<and>
    vol_mapping (srv_volumes (cl_srv (sw_heap (dm_servers d') 0)) ! 0) \<noteq> AFP_MAPPING_UNKNOWN)"
proof -
  let ?body = "open_body data_volume 16 0 []"
  let ?h = "example_host (fixed_server ?body)" and ?r = example_request
  let ?s = "map_srv connect_server_type known_server"
  let ?w = "known_servers\<lparr>sw_heap := (sw_heap known_servers)(0 := ?s)\<rparr>"
  have r: "request_fits ?r" "url_volumename (mr_url ?r) = ''Data''" "mr_mountpoint ?r = ''/mnt''"
    by (simp_all add: request_fits_def example_request_def afp_default_url_def c_string_def c_int_def Let_def)
  have h: "host_access ?h (mr_mountpoint ?r) = 0" "host_device ?h = Device_Ready" "fuse_runs ?h" "host_stack ?h = replicate 2048 0"
    by (simp_all add: example_host_def fuse_runs_def)
  have s: "idle ?s" "30 \<le> version_number (cl_srv ?s)" "srv_path_encoding (cl_srv ?s) = kFPUTF8Name"
    "srv_volumes (cl_srv ?s) = [zero_volume\<lparr>vol_volume_name := ''Data'', vol_volume_name_printable := ''Data''\<rparr>]"
    using example_client_idle
    by (simp_all add: known_server_def connect_server_type_def idle_def session_ready_def queue_ok_def buffer_ok_def server_still_valid_def
        example_client_def example_server_def afp_server_init_def)
  have ok: "servers_ok known_servers [0]" "servers_ok ?w [0]"
    using one_server_ok by (simp_all add: known_servers_def known_server_def one_server_def servers_ok_def example_client_def)
  have connect: "afp_server_full_connect (host_out ?h) \<lparr>cr_uam_mask = mr_uam_mask ?r, cr_url = mr_url ?r\<rparr> (dm_servers (daemon_with known_servers)) =
      Some (Some 0, [], ?w)"
    using find_server_ok [OF ok(1)]
    by (simp add: afp_server_full_connect_def afp_get_address_def example_host_def example_outside_def daemon_with_def find_server_by_address_def
        have_server_def update_server_def on_server_def known_servers_def one_server_def known_server_def example_client_def)
  have "c_str (snd (the (convert_utf8pre_to_utf8dec (to_bytes ''Data'') AFP_VOLUME_NAME_LEN))) = ''Data''"
    "convert_utf8pre_to_utf8dec (to_bytes ''Data'') AFP_VOLUME_NAME_LEN \<noteq> None"
    by code_simp+
  then have volume: "find_volume_by_name (cl_srv ?s) (url_volumename (mr_url ?r)) = Some (Some 0)"
    unfolding find_volume_by_name_def r(2) s(4) by auto
  have "convert_utf8dec_to_utf8pre (to_bytes ''Data'') AFP_VOLUME_NAME_UTF8_LEN = Some (to_bytes ''Data'')"
    by code_simp
  moreover have "answers_request (out_env (host_out ?h) 0) c (open_fields ''Data'') 0 ?body" for c
    by (rule fixed_server_answers) (simp_all add: example_host_def example_env_def open_body_def)
  ultimately have opens: "opens_volume (out_env (host_out ?h) 0) ''Data'' data_volume"
    unfolding opens_volume_def by (auto simp: data_volume_def example_host_def example_env_def)
  have v0: "vol_mounted (srv_volumes (cl_srv ?s) ! 0) \<noteq> AFP_VOLUME_MOUNTED" "vol_flags (srv_volumes (cl_srv ?s) ! 0) AND HasPassword = 0"
    "vol_volume_name (srv_volumes (cl_srv ?s) ! 0) = ''Data''"
    unfolding s(4) by (simp_all add: zero_volume_def)
  have answer: "responsive (out_env (host_out ?h) 0) c" for c
    by (rule fixed_server_responsive [where body = ?body]) (simp_all add: example_host_def example_env_def open_body_def)
  have "sint (mr_map ?r) = AFP_MAPPING_UNKNOWN" "vol_attributes data_volume AND kNoNetworkUserIDs = 0"
    by (simp_all add: example_request_def data_volume_def)
  moreover have a: "(0 :: nat) \<in> set [0]" "?s = sw_heap ?w 0"
    by simp_all
  ultimately show ?thesis
    using mount_command_correct [OF r(1) h(1,2,3) connect ok(2) a s(1,2,3) volume refl v0(1,2), unfolded v0(3), OF opens answer, of 0 5] h(4) r(3) by (auto simp: daemon_with_def)
qed

end
