(* ===== verification/Dsi_Read.thy ===== *)
theory Dsi_Read
  imports Proto_Exchange
begin

text \<open>
  The replies to \<open>FPRead\<close> and \<open>FPReadExt\<close>, which \<open>dsi_recv\<close> treats apart from all others: their data goes to the buffer
  of the caller as it arrives, without a limit by the size of the receive buffer.
\<close>

subsection \<open>Data that arrives in pieces\<close>

text \<open>The state in which the header of the reply is in the buffer, \<open>r\<close> is the last request of the queue
  and \<open>n\<close> more bytes have been counted.\<close>

definition reading :: "dsi_header \<Rightarrow> dsi_request list \<Rightarrow> dsi_request \<Rightarrow> nat \<Rightarrow> client \<Rightarrow> client" where
  "reading h q r n c = map_srv (srv_command_requests_update (\<lambda>_. q @ [r]))
     (count_rx n (received (dsi_header_bytes h) c))"

definition read_more :: "dsi_header \<Rightarrow> byte list \<Rightarrow> afp_rx_buffer \<Rightarrow> dsi_request \<Rightarrow> dsi_request" where
  "read_more h d rx r = r\<lparr>req_return_code := return_code_of h,
     req_other := Rx_Buffer (rx\<lparr>rx_data := take (rx_size rx) (rx_data rx) @ d @ drop (rx_size rx + length d) (rx_data rx),
       rx_size := rx_size rx + length d\<rparr>)\<rparr>"

text \<open>The request is the reader's: a read that waits for its answer, the last of the queue, with room for \<open>len\<close> bytes.\<close>

definition reader :: "dsi_header \<Rightarrow> nat \<Rightarrow> dsi_request list \<Rightarrow> afp_rx_buffer \<Rightarrow> dsi_request \<Rightarrow> bool" where
  "reader h len q rx r \<longleftrightarrow> req_requestid r = hdr_requestid h \<and> req_subcommand r \<in> {afpRead, afpReadExt} \<and>
     req_wait r \<noteq> 0 \<and> req_addr r \<notin> req_addr ` set q \<and> (\<forall>p \<in> set q. req_requestid p \<noteq> hdr_requestid h) \<and>
     req_other r = Rx_Buffer rx \<and> unat (hdr_length h) = len \<and> len \<le> rx_maxsize rx \<and> len \<le> length (rx_data rx)"

lemma reading_simps [simp]:
  "queue (reading h q r n c) = q @ [r]" "recv_count (reading h q r n c) = 16"
  "recv_buf (reading h q r n c) = dsi_header_bytes h @ drop 16 (recv_buf c)"
  by (simp_all add: reading_def)

lemma find_last: "\<forall>p \<in> set q. \<not> P p \<Longrightarrow> P r \<Longrightarrow> find P (q @ [r]) = Some r"
  by (induction q) auto

lemma gotenough_reading:
  assumes "reader h len q rx r"
  shows "dsi_gotenough e left (reading h q r n c) =
    dsi_recv_read e (r\<lparr>req_return_code := return_code_of h\<rparr>) len left
      (reading h q (r\<lparr>req_return_code := return_code_of h\<rparr>) n c)"
proof -
  let ?c = "reading h q r n c" and ?r = "r\<lparr>req_return_code := return_code_of h\<rparr>"
  have "dsi_header_of (recv_buf ?c) = Some h"
    by (simp add: dsi_header_of_bytes)
  moreover have "find (\<lambda>p. hdr_requestid h = req_requestid p) (q @ [r]) = Some r"
    by (rule find_last) (use assms in \<open>auto simp: reader_def\<close>)
  then have "dsi_find_request (cl_srv ?c) (hdr_requestid h) = Some r"
    by (simp add: dsi_find_request_def)
  moreover have "update_request (req_addr r) (req_return_code_update (\<lambda>_. return_code_of h)) ?c = reading h q ?r n c"
    using update_request_eq [of ?c q r "req_addr r" "req_return_code_update (\<lambda>_. return_code_of h)"] assms
    by (simp add: reader_def reading_def)
  moreover have "req_subcommand r = afpRead \<or> req_subcommand r = afpReadExt" "unat (hdr_length h) = len"
    using assms by (simp_all add: reader_def)
  ultimately show ?thesis
    by (simp add: dsi_gotenough_def)
qed

lemma count_rx_add: "count_rx m (count_rx n c) = count_rx (n + m) c"
  by (simp add: count_rx_def comp_def add.assoc)

text \<open>The state when the sender has been woken up.\<close>

definition read_done :: "dsi_header \<Rightarrow> dsi_request list \<Rightarrow> dsi_request \<Rightarrow> nat \<Rightarrow> client \<Rightarrow> client" where
  "read_done h q r n c = map_srv (\<lambda>s. s\<lparr>srv_command_requests := q @ [r\<lparr>req_wait := 0, req_done_waiting := True\<rparr>],
     srv_data_read := 0\<rparr>) (count_rx n (received (dsi_header_bytes h) c))"

lemma out_reading:
  assumes "req_addr r \<notin> req_addr ` set q" "req_wait r \<noteq> 0"
  shows "dsi_out (Some (req_addr r)) left (map_srv (srv_data_read_update (\<lambda>_. 0)) (reading h q r n c)) =
    Some (0, left, read_done h q r n c)"
proof -
  let ?c = "map_srv (srv_data_read_update (\<lambda>_. 0)) (reading h q r n c)"
  have q: "queue ?c = q @ [r]"
    by simp
  show ?thesis
    using request_at_last [OF q refl assms(1)] update_request_eq [OF q refl assms(1)] assms(2)
    by (simp add: dsi_out_def reading_def read_done_def)
qed

lemma recv_data:
  assumes r: "reader h len q rx r" and d: "d \<noteq> []" "rx_size rx + length d \<le> len"
  shows "dsi_recv e (Data d) (reading h q r n c) =
    Some (0, None, (if rx_size rx + length d = len then read_done else reading) h q (read_more h d rx r) (n + length d) c)"
proof -
  let ?r = "r\<lparr>req_return_code := return_code_of h\<rparr>" and ?r' = "read_more h d rx r"
  let ?c = "reading h q ?r n c" and ?c' = "reading h q ?r' (n + length d) c"
  let ?rx = "rx\<lparr>rx_data := take (rx_size rx) (rx_data rx) @ d @ drop (rx_size rx + length d) (rx_data rx),
     rx_size := rx_size rx + length d\<rparr>"
  have rec: "dsi_recv e (Data d) (reading h q r n c) = dsi_recv_read e ?r len (Some (Data d)) ?c"
    using gotenough_reading [OF r] by (simp add: dsi_recv_def)
  have wr: "wr_bytes (rx_data rx) (rx_size rx) d = Some (rx_data ?rx)"
    using r d(2) by (simp add: wr_bytes_def reader_def)
  have sr: "sock_read (Data d) (min (rx_maxsize rx - rx_size rx) (len - rx_size rx)) = (int (length d), d, None)"
    using r d by (auto simp: reader_def min_def)
  have "update_request (req_addr r) (req_other_update (\<lambda>_. Rx_Buffer ?rx)) (count_rx (length d) ?c) = ?c'"
    using update_request_eq [of "count_rx (length d) ?c" q ?r "req_addr r"] r
    by (simp add: reader_def reading_def read_more_def count_rx_def comp_def add.assoc)
  moreover have "req_addr ?r' \<notin> req_addr ` set q" "req_wait ?r' \<noteq> 0" "req_addr ?r' = req_addr r"
    using r by (simp_all add: reader_def read_more_def)
  moreover have "len \<noteq> 0" "rx_maxsize rx \<noteq> 0" "rx_size rx \<le> len"
    using d r by (auto simp: reader_def)
  ultimately show ?thesis
    unfolding rec using r d wr sr out_reading [of ?r' q None h "n + length d" c]
    by (auto simp: dsi_recv_read_def reader_def Let_def simp del: sock_read.simps)
qed

lemma reader_more:
  assumes "reader h len q rx r" "rx_size rx + length d \<le> len"
  shows "reader h len q (rx\<lparr>rx_data := take (rx_size rx) (rx_data rx) @ d @ drop (rx_size rx + length d) (rx_data rx),
    rx_size := rx_size rx + length d\<rparr>) (read_more h d rx r)"
  using assms by (auto simp: reader_def read_more_def)

lemma read_more_append:
  assumes "rx_size rx + length d \<le> length (rx_data rx)"
  shows "read_more h d' (rx\<lparr>rx_data := take (rx_size rx) (rx_data rx) @ d @ drop (rx_size rx + length d) (rx_data rx),
      rx_size := rx_size rx + length d\<rparr>) (read_more h d rx r) = read_more h (d @ d') rx r"
  using assms by (simp add: read_more_def min_absorb2 add.assoc add.commute add.left_commute)

lemma read_events:
  assumes "reader h len q rx r" and "chunks \<noteq> []" "[] \<notin> set chunks"
    and "rx_size rx + length (concat chunks) = len"
  shows "dsi_events e (map Data chunks) (reading h q r n c) =
    Some (read_done h q (read_more h (concat chunks) rx r) (n + length (concat chunks)) c)"
  using assms
proof (induction chunks arbitrary: rx r n)
  case (Cons d ds)
  let ?rx = "rx\<lparr>rx_data := take (rx_size rx) (rx_data rx) @ d @ drop (rx_size rx + length d) (rx_data rx),
    rx_size := rx_size rx + length d\<rparr>"
  have d: "d \<noteq> []" "rx_size rx + length d \<le> len" "rx_size rx + length d \<le> length (rx_data rx)"
    using Cons.prems by (auto simp: reader_def)
  note step = recv_data [OF Cons.prems(1) d(1,2), of e n c]
  show ?case
  proof (cases "ds = []")
    case True
    then show ?thesis
      using step Cons.prems(4) by (simp add: dsi_events_Cons)
  next
    case False
    then have "0 < length (concat ds)"
      using Cons.prems(3) by (cases ds) auto
    then have "rx_size rx + length d \<noteq> len"
      using Cons.prems(4) by (simp del: length_greater_0_conv)
    then have "dsi_events e (map Data (d # ds)) (reading h q r n c) =
        dsi_events e (map Data ds) (reading h q (read_more h d rx r) (n + length d) c)"
      using step by (simp add: dsi_events_Cons)
    also have "\<dots> = Some (read_done h q (read_more h (concat ds) ?rx (read_more h d rx r)) (n + length d + length (concat ds)) c)"
      by (rule Cons.IH [OF reader_more [OF Cons.prems(1) d(2)] False])
         (use Cons.prems in \<open>auto simp: add.assoc\<close>)
    finally show ?thesis
      by (simp only: read_more_append [OF d(3)]) (simp add: add.assoc)
  qed
qed simp

text \<open>The header, in pieces too, is followed by pieces of the data.\<close>

lemma events_header:
  assumes ok: "buffer_ok c" and len: "unat (hdr_length h) = length body"
    and "bs @ concat chunks = packet h body" "length bs < 16" "[] \<notin> set chunks"
  shows "if body = []
    then dsi_events e (map Data chunks) (received bs c) =
      dsi_gotenough e None (received (dsi_header_bytes h) c) \<bind> finish e []
    else \<exists>ds. [] \<notin> set ds \<and> concat ds = body \<and>
      dsi_events e (map Data chunks) (received bs c) = dsi_events e (map Data ds) (received (dsi_header_bytes h) c)"
  using assms(3-)
proof (induction chunks arbitrary: bs)
  case Nil
  then show ?case
    using arg_cong [OF Nil.prems(1), of length] by simp
next
  case (Cons d ds)
  define x where "x = take (16 - length bs) d"
  define y where "y = drop (16 - length bs) d"
  define left where "left = (if y = [] then None else Some (Data y))"
  have xy: "d = x @ y"
    by (simp add: x_def y_def)
  have pkt: "bs @ d @ concat ds = packet h body" and d: "d \<noteq> []"
    using Cons.prems by auto
  have step: "dsi_recv e (Data d) (received bs c) = (if length (bs @ x) = 16 \<and> body = []
      then dsi_gotenough e left (received (bs @ x) c) else Some (0, left, received (bs @ x) c))"
    using recv_header_bytes [OF ok len pkt Cons.prems(2) d x_def, of e] by (simp add: left_def y_def Let_def)
  show ?case
  proof (cases "length (bs @ x) = 16")
    case True
    have cat: "(bs @ x) @ (y @ concat ds) = packet h body"
      using pkt xy by simp
    from take_16_prefix [OF this] True have hb: "bs @ x = dsi_header_bytes h"
      by simp
    have body: "y @ concat ds = body"
      using cat hb by simp
    have ds: "[] \<notin> set ds"
      using Cons.prems by simp
    show ?thesis
    proof (cases "body = []")
      case True
      then have "y = []" "concat ds = []"
        using body by simp_all
      moreover have "ds = []"
        using \<open>concat ds = []\<close> ds by (cases ds) simp_all
      ultimately show ?thesis
        using step hb True by (simp add: dsi_events_Cons left_def)
    next
      case False
      let ?ds = "(if y = [] then [] else [y]) @ ds"
      have "dsi_events e (map Data (d # ds)) (received bs c) = dsi_events e (map Data ?ds) (received (dsi_header_bytes h) c)"
        using step hb False by (simp add: dsi_events_Cons left_def)
      moreover have "concat ?ds = body" "[] \<notin> set ?ds"
        using body ds by auto
      ultimately show ?thesis
        using False by metis
    qed
  next
    case False
    with Cons.prems(2) have small: "y = []" "length (bs @ d) < 16"
      by (auto simp: x_def y_def)
    then have "dsi_events e (map Data (d # ds)) (received bs c) = dsi_events e (map Data ds) (received (bs @ d) c)"
      using step False xy by (simp add: dsi_events_Cons left_def)
    then show ?thesis
      using Cons.IH [of "bs @ d"] Cons.prems small(2) by simp
  qed
qed

subsection \<open>Request and reply\<close>

definition read_header :: "client \<Rightarrow> dsi_header \<Rightarrow> byte list \<Rightarrow> bool" where
  "read_header c h body \<longleftrightarrow> hdr_requestid h = srv_lastrequestid (cl_srv c) \<and> unat (hdr_length h) = length body"

lemma reading_none:
  assumes "reader h 0 q rx r" "rx_size rx = 0"
  shows "dsi_gotenough e None (reading h q r n c) = Some (0, None, read_done h q (read_more h [] rx r) n c)"
proof -
  have "read_more h [] rx r = r\<lparr>req_return_code := return_code_of h\<rparr>"
    using assms by (simp add: reader_def read_more_def)
  moreover have "dsi_recv_read e (r\<lparr>req_return_code := rc\<rparr>) 0 None (reading h q (r\<lparr>req_return_code := rc\<rparr>) n c) =
      Some (0, None, read_done h q (r\<lparr>req_return_code := rc\<rparr>) n c)" for rc
    using assms out_reading [of "r\<lparr>req_return_code := rc\<rparr>" q None h n c] by (simp add: dsi_recv_read_def reader_def)
  ultimately show ?thesis
    using gotenough_reading [OF assms(1)] by simp
qed

lemma received_waiting:
  assumes "session_ready c"
  shows "received [] (waiting msg w sub x c) = waiting msg w sub x c"
    "received bs (waiting msg w sub x c) =
      map_srv (srv_command_requests_update (\<lambda>_. queue c @ [new_request w sub x c])) (count_rx 0 (received bs (waiting msg w sub x c)))"
  using assms
  by (cases c; cases "cl_srv c"; cases "srv_stats (cl_srv c)";
      simp add: session_ready_def buffer_ok_def waiting_def received_def count_rx_def)+

lemma reader_new:
  assumes "session_ready c" "read_header c h body" "sub \<in> {afpRead, afpReadExt}" "w \<noteq> 0"
    and "length body \<le> rx_maxsize rx" "length body \<le> length (rx_data rx)"
  shows "reader h (length body) (queue c) rx (new_request w sub (Rx_Buffer rx) c)"
  using assms new_request_addr [OF assms(1)]
  by (auto simp: reader_def read_header_def new_request_def session_ready_def)

lemma read_reply_events:
  assumes ready: "session_ready c" and h: "read_header c h body"
    and chunks: "[] \<notin> set chunks" "concat chunks = packet h body"
    and sub: "sub \<in> {afpRead, afpReadExt}" "w \<noteq> 0"
    and rx: "rx_size rx = 0" "length body \<le> rx_maxsize rx" "length body \<le> length (rx_data rx)"
  shows "dsi_events e (map Data chunks) (waiting msg w sub (Rx_Buffer rx) c) =
    Some (read_done h (queue c) (read_more h body rx (new_request w sub (Rx_Buffer rx) c)) (length body)
      (waiting msg w sub (Rx_Buffer rx) c))"
proof -
  let ?r = "new_request w sub (Rx_Buffer rx) c"
  define wt where "wt = waiting msg w sub (Rx_Buffer rx) c"
  have w0: "received [] wt = wt" "received (dsi_header_bytes h) wt = reading h (queue c) ?r 0 wt"
    using received_waiting [OF ready] by (simp_all add: reading_def wt_def)
  have ok: "buffer_ok wt"
    using ready by (simp add: session_ready_def buffer_ok_def wt_def)
  have len: "unat (hdr_length h) = length body"
    using h by (simp add: read_header_def)
  note rd = reader_new [OF ready h sub rx(2,3)]
  note eh = events_header [OF ok len, of "[]" chunks e]
  show ?thesis
  proof (cases "body = []")
    case True
    then show ?thesis
      using eh chunks w0 reading_none [of h "queue c" rx ?r e 0 wt] rd rx(1) by (simp flip: wt_def)
  next
    case False
    then obtain ds where ds: "[] \<notin> set ds" "concat ds = body"
      "dsi_events e (map Data chunks) wt = dsi_events e (map Data ds) (reading h (queue c) ?r 0 wt)"
      using eh chunks w0 by auto
    then have "ds \<noteq> []"
      using False by auto
    then show ?thesis
      using read_events [OF rd _ ds(1), of e 0 wt] ds rx(1) by (simp del: length_concat flip: wt_def)
  qed
qed

lemma remove_read:
  assumes ready: "session_ready c" and r: "req_addr r = cl_fresh c"
  shows "\<exists>stats. snd (dsi_remove_from_request_queue (cl_fresh c) (read_done h (queue c) r n (waiting msg w sub x c))) =
    after_exchange msg (dsi_header_bytes h @ drop 16 (recv_buf c)) stats c \<and>
    st_requests_pending stats = requests_pending (cl_srv c)"
proof -
  have "unlink_request (cl_fresh c) (queue c @ [r\<lparr>req_wait := 0, req_done_waiting := True\<rparr>]) = Some (queue c)"
    using unlink_last [OF new_request_addr [OF ready]] r by simp
  moreover have "recv_count c = 0" "cl_registered c"
    using ready by (simp_all add: session_ready_def buffer_ok_def queue_ok_def server_still_valid_def)
  ultimately show ?thesis
    by (cases c; cases "cl_srv c"; cases "srv_stats (cl_srv c)")
       (simp add: read_done_def dsi_remove_from_request_queue_def server_still_valid_def received_def
         count_rx_def waiting_def after_exchange_def)
qed

lemma dsi_send_read:
  assumes ready: "session_ready c" and malloc: "env_malloc e sizeof_dsi_request"
    and net: "env_net e (cl_sent c @ [set_length msg]) = Sent (map Data chunks)"
    and chunks: "[] \<notin> set chunks" "concat chunks = packet h body" and h: "read_header c h body"
    and sub: "sub \<in> {afpRead, afpReadExt}" "w \<noteq> 0"
    and rx: "rx_size rx = 0" "length body \<le> rx_maxsize rx" "length body \<le> length (rx_data rx)"
  shows "\<exists>stats. dsi_send e msg w sub (Rx_Buffer rx) c = Some (return_code_of h,
      Rx_Buffer (rx\<lparr>rx_data := body @ drop (length body) (rx_data rx), rx_size := length body\<rparr>),
      after_exchange msg (dsi_header_bytes h @ drop 16 (recv_buf c)) stats c) \<and>
    st_requests_pending stats = requests_pending (cl_srv c)"
proof -
  let ?r = "read_more h body rx (new_request w sub (Rx_Buffer rx) c)"
  let ?c = "read_done h (queue c) ?r (length body) (waiting msg w sub (Rx_Buffer rx) c)"
  have a: "req_addr ?r = cl_fresh c"
    by (simp add: read_more_def new_request_def)
  have "request_at (cl_fresh c) ?c = Some (?r\<lparr>req_wait := 0, req_done_waiting := True\<rparr>)"
    by (rule request_at_last [of _ "queue c"]) (use a new_request_addr [OF ready] in \<open>simp_all add: read_done_def\<close>)
  moreover obtain stats where "snd (dsi_remove_from_request_queue (cl_fresh c) ?c) =
      after_exchange msg (dsi_header_bytes h @ drop 16 (recv_buf c)) stats c"
    "st_requests_pending stats = requests_pending (cl_srv c)"
    using remove_read [OF ready a] by blast
  ultimately show ?thesis
    using dsi_start_sent [OF ready malloc net, of w sub "Rx_Buffer rx"] sub(2)
      read_reply_events [OF ready h chunks sub rx, of e msg] rx(1)
    by (intro exI [of _ stats]) (simp add: dsi_send_def Let_def read_more_def new_request_def)
qed

end
