(* ===== verification/Fork_Read.thy ===== *)
theory Fork_Read
  imports Midlevel Dsi_Read Dir_Server
begin

text \<open>
  Reading a fork: the requests \<open>ll_read\<close> makes, and what \<open>ml_read\<close> returns when the server has the file.
\<close>

subsection \<open>The request and its answer\<close>

text \<open>The answer to a read is not limited by the receive buffer.\<close>

definition answers_read :: "env \<Rightarrow> client \<Rightarrow> byte list \<Rightarrow> int \<Rightarrow> byte list \<Rightarrow> bool" where
  "answers_read e c flds rc body \<longleftrightarrow>
     (let (c, header) = request_header DSI_DSICommand c in \<exists>chunks h.
       env_net e (cl_sent c @ [set_length (header @ flds)]) = Sent (map Data chunks) \<and>
       [] \<notin> set chunks \<and> concat chunks = packet h body \<and> read_header c h body \<and> return_code_of h = rc)"

lemma answers_request_read: "answers_request e c flds rc body \<Longrightarrow> answers_read e c flds rc body"
  by (auto simp: answers_request_def answers_packet_def answers_read_def reply_header_def read_header_def
      split: prod.splits)

lemma lasting_after_exchange [simp]: "lasting (after_exchange msg buf stats c) = lasting c"
  by (simp add: lasting_def after_exchange_def)

lemma read_exchange:
  assumes "idle c" "env_malloc e sizeof_dsi_request" "answers_read e c flds rc body"
    and "sub \<in> {afpRead, afpReadExt}" "w \<noteq> 0"
    and "rx_size rx = 0" "length body \<le> rx_maxsize rx" "length body \<le> length (rx_data rx)"
  shows "\<exists>c'. send_fields e flds w sub (Rx_Buffer rx) c =
      Some (rc, Rx_Buffer (rx\<lparr>rx_data := body @ drop (length body) (rx_data rx), rx_size := length body\<rparr>), c') \<and>
    idle c' \<and> lasting c' = lasting c"
proof -
  obtain c1 header where rh: "request_header DSI_DSICommand c = (c1, header)"
    by fastforce
  have c1: "idle c1" "lasting c1 = lasting c"
    using idle_header [OF assms(1), of DSI_DSICommand] rh by simp_all
  then have ready: "session_ready c1"
    by (simp add: idle_def)
  obtain chunks h where net: "env_net e (cl_sent c1 @ [set_length (header @ flds)]) = Sent (map Data chunks)"
    "[] \<notin> set chunks" "concat chunks = packet h body" "read_header c1 h body" "return_code_of h = rc"
    using assms(3) rh by (auto simp: answers_read_def)
  let ?buf = "dsi_header_bytes h @ drop 16 (recv_buf c1)"
  obtain stats where send: "dsi_send e (header @ flds) w sub (Rx_Buffer rx) c1 = Some (rc,
      Rx_Buffer (rx\<lparr>rx_data := body @ drop (length body) (rx_data rx), rx_size := length body\<rparr>),
      after_exchange (header @ flds) ?buf stats c1)" "st_requests_pending stats = requests_pending (cl_srv c1)"
    using dsi_send_read [OF ready assms(2) net(1-4) assms(4-8)] net(5) by blast
  have "session_ready (after_exchange (header @ flds) ?buf stats c1)"
    using ready send(2) by (intro session_ready_after_exchange) (auto simp: session_ready_def buffer_ok_def)
  then show ?thesis
    using send(1) rh c1 by (auto simp: send_fields_def idle_def)
qed

subsection \<open>A server with a fork\<close>

definition read_fields :: "u16 \<Rightarrow> u64 \<Rightarrow> u64 \<Rightarrow> byte list" where
  "read_fields forkid off n = [afpReadExt, 0] @ be16 forkid @ be64 off @ be64 n"

definition lock_fields :: "byte \<Rightarrow> u16 \<Rightarrow> u64 \<Rightarrow> u64 \<Rightarrow> byte list" where
  "lock_fields flag forkid off n = [afpByteRangeLockExt, flag] @ be16 forkid @ be64 off @ be64 n"

text \<open>The server grants every lock. It answers a read with some of the bytes that were asked for, at most as many
  as the client can take at once and at least one if there is any; \<open>kFPEOFErr\<close> comes with the last of the file.\<close>

definition serves_fork :: "env \<Rightarrow> client \<Rightarrow> u16 \<Rightarrow> byte list \<Rightarrow> bool" where
  "serves_fork e c0 forkid file \<longleftrightarrow> (\<forall>c off n. idle c \<and> lasting c = lasting c0 \<longrightarrow>
     (\<forall>flag. \<exists>body. answers_request e c (lock_fields flag forkid off n) kFPNoErr body) \<and>
     (\<exists>rc k. answers_read e c (read_fields forkid off n) rc (take k (drop (unat off) file)) \<and>
        k \<le> unat n \<and> k \<le> unat (srv_rx_quantum (cl_srv c0)) \<and>
        (rc = kFPEOFErr \<and> length file \<le> unat off + k \<or> rc = kFPNoErr \<and> (unat off < length file \<and> 0 < k \<or> n = 0))))"

lemma lockext_reply:
  assumes "srv_incoming_buffer s = packet h body @ rest" "srv_data_read s = 16 + length body"
  shows "\<exists>rc'. afp_reply m afpByteRangeLockExt s (Out64 w) =
    Some (rc', s, Out64 (if length body < 8 then 0 else the (rd64 body 0)))"
proof -
  have rc: "\<exists>w. rd32le (packet h body @ rest) 4 = Some w"
    by (simp add: dsi_header_bytes_def rd32le_def rd16le_def rd8_def)
  have "\<exists>v. rd64 (packet h body @ rest) 16 = Some v \<and> rd64 body 0 = Some v" if "\<not> length body < 8"
    using that
    by (auto simp: rd64_def rd32_def rd16_def rd8_def nth_append dsi_header_bytes_def numeral_2_eq_2 numeral_3_eq_3)
  then show ?thesis
    using assms rc
    by (cases "length body < 8")
       (auto simp: afp_reply_def blank_subcommands_def store_reply_def afp_byterangelockext_reply_def raw_error_code_def)
qed

lemma range_lock_exchange:
  assumes "serves_fork e c0 forkid file" "\<And>n. env_malloc e n" "30 \<le> version_number (cl_srv c0)"
    and "idle c" "lasting c = lasting c0"
  shows "\<exists>c'. range_lock e flag forkid off n c = Some (kFPNoErr, c') \<and> idle c' \<and> lasting c' = lasting c0"
proof -
  obtain body where "answers_request e c (lock_fields flag forkid off n) kFPNoErr body"
    using assms(1,4,5) unfolding serves_fork_def by blast
  from exchange [OF assms(4) assms(2) this, of afpByteRangeLockExt DSI_DEFAULT_TIMEOUT, OF _ _ lockext_reply]
  have "\<exists>c'. send_fields e (lock_fields flag forkid off n) DSI_DEFAULT_TIMEOUT afpByteRangeLockExt
      (Out64 (ucast (unset32 e))) c =
      Some (kFPNoErr, Out64 (if length body < 8 then 0 else the (rd64 body 0)), c') \<and> idle c' \<and> lasting c' = lasting c"
    by simp
  moreover have "version_number (cl_srv c) = version_number (cl_srv c0)"
    using lasting_eqD(6) [OF assms(5)] by simp
  ultimately show ?thesis
    using assms(3,5) by (auto simp: range_lock_def afp_byterangelockext_def lock_fields_def returned64_def)
qed

lemma locking_granted:
  assumes "serves_fork e c0 forkid file" "\<And>n. env_malloc e n" "30 \<le> version_number (cl_srv c0)"
    and "idle c" "lasting c = lasting c0"
  shows "\<exists>c'. ll_handle_locking e forkid off n c = Some (0, c') \<and> idle c' \<and> lasting c' = lasting c0"
    and "\<exists>c'. ll_handle_unlocking e forkid off n c = Some (0, c') \<and> idle c' \<and> lasting c' = lasting c0"
  using range_lock_exchange [OF assms, of ByteRangeLock_Lock off n]
    range_lock_exchange [OF assms, of ByteRangeLock_Unlock off n] assms(4,5)
  by (auto simp: ll_handle_locking_def ll_handle_unlocking_def eval_nat_numeral)

text \<open>One call of \<open>ll_read\<close> delivers a piece of the file: what has arrived stands at the beginning of the buffer.\<close>

lemma ll_read_piece:
  assumes "serves_fork e c0 (fi_forkid fp) file" "\<And>n. env_malloc e n" "30 \<le> version_number (cl_srv c0)"
    and "idle c" "lasting c = lasting c0" "unat sz \<le> length buf" "unat sz < 2 ^ 31"
  shows "\<exists>c' d eof. ll_read e buf sz off fp c = Some (int (length d), eof, d @ drop (length d) buf, c') \<and>
    idle c' \<and> lasting c' = lasting c0 \<and> length d \<le> unat sz \<and> d = take (length d) (drop (unat off) file) \<and>
    (if eof then drop (unat off) file = d else d \<noteq> [] \<or> sz = 0)"
proof -
  let ?rx = "\<lparr>rx_size = 0, rx_maxsize = min (unat (srv_rx_quantum (cl_srv c0))) (unat sz), rx_data = buf, rx_errorcode = 0\<rparr>"
  obtain c1 where c1: "ll_handle_locking e (fi_forkid fp) off sz c = Some (0, c1)" "idle c1" "lasting c1 = lasting c0"
    using locking_granted(1) [OF assms(1-5)] by blast
  obtain rc k where ans: "answers_read e c1 (read_fields (fi_forkid fp) off sz) rc (take k (drop (unat off) file))"
    "k \<le> unat sz" "k \<le> unat (srv_rx_quantum (cl_srv c0))"
    "rc = kFPEOFErr \<and> length file \<le> unat off + k \<or> rc = kFPNoErr \<and> (unat off < length file \<and> 0 < k \<or> sz = 0)"
    using assms(1) c1(2,3) unfolding serves_fork_def by blast
  define d where "d = take k (drop (unat off) file)"
  have len: "length d \<le> k"
    by (simp add: d_def)
  obtain c2 where c2: "afp_readext e (fi_forkid fp) off sz ?rx c1 =
      Some (rc, ?rx\<lparr>rx_data := d @ drop (length d) buf, rx_size := length d\<rparr>, c2)" "idle c2" "lasting c2 = lasting c0"
    using read_exchange [OF c1(2) assms(2) ans(1), of afpReadExt DSI_DEFAULT_TIMEOUT ?rx] ans(2,3) assms(6) len c1(3)
    by (auto simp: afp_readext_def read_fields_def returned_rx_def d_def [symmetric])
  obtain c3 where c3: "ll_handle_unlocking e (fi_forkid fp) off sz c2 = Some (0, c3)" "idle c3" "lasting c3 = lasting c0"
    using locking_granted(2) [OF assms(1-3) c2(2,3)] by blast
  have v: "srv_using_version (cl_srv c1) = srv_using_version (cl_srv c0)"
    "srv_rx_quantum (cl_srv c) = srv_rx_quantum (cl_srv c0)"
    using lasting_eqD(6) [OF c1(3)] lasting_eqD(7) [OF assms(5)] by simp_all
  have "int (length d) < 2 ^ 31"
    using len ans(2) assms(7) by simp
  then have n: "sint (word_of_nat (length d) :: u32) = int (length d)"
    using signed_take_bit_int_eq_self [of 31 "int (length d)"] by (simp add: signed_of_nat)
  have "ll_read e buf sz off fp c = Some (int (length d), rc = kFPEOFErr, d @ drop (length d) buf, c3)"
    using c1(1) c2(1) c3(1) v n ans(4) assms(3) by (auto simp: ll_read_def Let_def)
  moreover have "drop (unat off) file = d" if "rc = kFPEOFErr"
    using that ans(4) by (auto simp: d_def)
  moreover have "d \<noteq> [] \<or> sz = 0" if "rc \<noteq> kFPEOFErr"
    using that ans(4) by (auto simp: d_def)
  moreover have "d = take (length d) (drop (unat off) file)" "length d \<le> unat sz"
    using ans(2) len by (simp_all add: d_def min_def)
  ultimately show ?thesis
    using c3(2,3) by (intro exI [of _ c3] exI [of _ d] exI [of _ "rc = kFPEOFErr"]) auto
qed

lemma ml_read_data:
  assumes "to_afp c path = Some (0, p)" "fi_resource fp = 0"
  shows "ml_read e path buf sz off fp c = map_option (\<lambda>(ret, eof, buf, c). (ret, eof, buf, fp, c)) (ll_read e buf sz off fp c)"
  using assms by (auto simp: ml_read_def Let_def split: bind_splits option.splits)

end
