(* ===== verification/Fuse_Int.thy ===== *)
theory Fuse_Int
  imports Fork_Read Midlevel_Calls
begin

text \<open>
  \<open>fuse/fuse_int.c\<close>: the operations FUSE calls, each on the volume of its context. They hand over to the functions of the middle layer,
  except that \<open>fuse_read\<close> collects what it is asked for in several calls. A handle \<open>fh\<close> is the file it points to;
  what \<open>filler\<close> has been given is the list of names. The messages for the log are left out.
\<close>

unbundle bit_operations_syntax

subsection \<open>Operations on paths\<close>

definition fuse_readlink :: "env \<Rightarrow> string \<Rightarrow> u64 \<Rightarrow> client \<Rightarrow> (int \<times> string \<times> client) option" where
  "fuse_readlink e path sz c = ml_readlink e path sz c"

definition fuse_rmdir :: "env \<Rightarrow> string \<Rightarrow> client \<Rightarrow> (int \<times> client) option" where
  "fuse_rmdir e path c = ml_rmdir e path c"

definition fuse_unlink :: "env \<Rightarrow> string \<Rightarrow> client \<Rightarrow> (int \<times> client) option" where
  "fuse_unlink e path c = ml_unlink e path c"

definition fuse_readdir :: "env \<Rightarrow> string \<Rightarrow> client \<Rightarrow> (int \<times> string list \<times> client) option" where
  "fuse_readdir e path c = do {
     let filled = [''.'', ''..''];
     (ret, filebase, c) \<leftarrow> ml_readdir e path [] c;
     if ret \<noteq> 0 then Some (ret, filled, c) else Some (0, filled @ map fi_name filebase, c)
   }"

definition fuse_mknod :: "env \<Rightarrow> string \<Rightarrow> u32 \<Rightarrow> client \<Rightarrow> (int \<times> client) option" where
  "fuse_mknod e path mode c = ml_creat e path mode c"

definition fuse_mkdir :: "env \<Rightarrow> string \<Rightarrow> u32 \<Rightarrow> client \<Rightarrow> (int \<times> client) option" where
  "fuse_mkdir e path mode c = ml_mkdir e path mode c"

definition fuse_chown :: "env \<Rightarrow> string \<Rightarrow> u32 \<Rightarrow> u32 \<Rightarrow> client \<Rightarrow> (int \<times> client) option" where
  "fuse_chown e path uid gid c = ml_chown e path uid gid c"

definition fuse_truncate :: "env \<Rightarrow> string \<Rightarrow> u64 \<Rightarrow> client \<Rightarrow> (int \<times> client) option" where
  "fuse_truncate e path offset c = ml_truncate e path offset c"

definition fuse_chmod :: "env \<Rightarrow> string \<Rightarrow> u32 \<Rightarrow> client \<Rightarrow> (int \<times> client) option" where
  "fuse_chmod e path mode c = do {
     (ret, c) \<leftarrow> ml_chmod e path mode c;
     Some (if ret = - EFAULT then 0 else ret, c)
   }"

definition fuse_utime :: "env \<Rightarrow> string \<Rightarrow> u32 \<Rightarrow> client \<Rightarrow> (int \<times> client) option" where
  "fuse_utime e path modtime c = ml_utime e path modtime c"

definition fuse_symlink :: "env \<Rightarrow> string \<Rightarrow> string \<Rightarrow> client \<Rightarrow> (int \<times> client) option" where
  "fuse_symlink e path1 path2 c = ml_symlink e path1 path2 c"

definition fuse_rename :: "env \<Rightarrow> string \<Rightarrow> string \<Rightarrow> client \<Rightarrow> (int \<times> client) option" where
  "fuse_rename e path_from path_to c = ml_rename e path_from path_to c"

definition fuse_statfs :: "env \<Rightarrow> client \<Rightarrow> (int \<times> statvfs option \<times> client) option" where
  "fuse_statfs e c = ml_statfs e c"

text \<open>The path is cut at the character before \<open>(null)\<close>; \<open>None\<close> is the null pointer.\<close>

definition cut_null :: "string \<Rightarrow> string" where
  "cut_null path = (case strstr path ''(null)'' of
     Some (Suc n) \<Rightarrow> take n path
   | _ \<Rightarrow> path)"

definition fuse_getattr :: "env \<Rightarrow> string option \<Rightarrow> client \<Rightarrow> (int \<times> stat \<times> client) option" where
  "fuse_getattr e path c = (case path of
     None \<Rightarrow> Some (- EIO, zero_stat, c)
   | Some path \<Rightarrow> ml_getattr e (cut_null path) c)"

subsection \<open>Operations on handles\<close>

definition fuse_open :: "env \<Rightarrow> string \<Rightarrow> client \<Rightarrow> (int \<times> afp_file_info option \<times> client) option" where
  "fuse_open e path c = do {
     let flags = AFP_OPENFORK_ALLOWREAD;
     (ret, fp, c) \<leftarrow> ml_open e path (ucast flags) c;
     Some (ret, if ret = 0 then fp else None, c)
   }"

definition fuse_write ::
  "env \<Rightarrow> string \<Rightarrow> byte list \<Rightarrow> u64 \<Rightarrow> u64 \<Rightarrow> afp_file_info \<Rightarrow> u32 \<Rightarrow> u32 \<Rightarrow> client \<Rightarrow> (int \<times> afp_file_info \<times> client) option" where
  "fuse_write e path data sz offset fp uid gid c = ml_write e path data sz offset fp uid gid c"

text \<open>The third component says whether the handle has been freed.\<close>

definition fuse_release :: "env \<Rightarrow> string \<Rightarrow> afp_file_info option \<Rightarrow> client \<Rightarrow> (int \<times> client \<times> bool) option" where
  "fuse_release e path fh c = do {
     (ret, c) \<leftarrow> ml_close e path fh c;
     Some (ret, c, ret < 0)
   }"

text \<open>The loop of \<open>fuse_read\<close>; \<open>buf\<close> is the whole buffer of the caller.\<close>

partial_function (option) fuse_read_loop ::
  "env \<Rightarrow> string \<Rightarrow> byte list \<Rightarrow> u64 \<Rightarrow> u64 \<Rightarrow> u64 \<Rightarrow> afp_file_info \<Rightarrow> client \<Rightarrow>
     (int \<times> byte list \<times> afp_file_info \<times> client) option" where
  "fuse_read_loop e path buf amount_read sz offset fp c = do {
     (ret, eof, data, fp, c) \<leftarrow> ml_read e path (drop (unat amount_read) buf) sz offset fp c;
     let buf = take (unat amount_read) buf @ data;
     if ret < 0 then Some (ret, buf, fp, c)
     else do {
       let amount_read = amount_read + word_of_int ret;
       let sz = sz - word_of_int ret;
       if eof \<or> sz = 0 then Some (int_of_size amount_read, buf, fp, c)
       else fuse_read_loop e path buf amount_read sz (offset + word_of_int ret) fp c
     }
   }"

declare fuse_read_loop.simps [code]

definition fuse_read ::
  "env \<Rightarrow> string \<Rightarrow> byte list \<Rightarrow> u64 \<Rightarrow> u64 \<Rightarrow> afp_file_info option \<Rightarrow> client \<Rightarrow>
     (int \<times> byte list \<times> afp_file_info option \<times> client) option" where
  "fuse_read e path buf sz offset fh c = (case fh of
     None \<Rightarrow> Some (- EBADF, buf, None, c)
   | Some fp \<Rightarrow> map_option (\<lambda>(ret, buf, fp, c). (ret, buf, Some fp, c)) (fuse_read_loop e path buf 0 sz offset fp c))"

subsection \<open>The loop of reads\<close>

lemma int_of_size_small: "unat n < 2 ^ 31 \<Longrightarrow> int_of_size n = int (unat n)"
proof -
  assume "unat n < 2 ^ 31"
  then have "uint n < 2 ^ 31"
    using of_nat_less_iff [of "unat n" "2 ^ 31", where 'a = int] by simp
  moreover have "- (2 ^ 31) \<le> uint n"
    by (rule order_trans [OF _ uint_ge_0]) simp
  ultimately show ?thesis
    using signed_take_bit_int_eq_self [of 31 "uint n"] by (simp add: signed_ucast_eq)
qed

lemma unat_add_small: "unat (a :: u64) + n < 2 ^ 64 \<Longrightarrow> unat (a + word_of_nat n) = unat a + n"
  by (simp add: unat_word_ariths unat_of_nat)

lemma unat_sub_small: "n \<le> unat (a :: u64) \<Longrightarrow> unat (a - word_of_nat n) = unat a - n"
proof -
  assume n: "n \<le> unat a"
  then have "n < 2 ^ 64"
    using unsigned_less [of a, where 'a = nat] by simp
  then have "unat (word_of_nat n :: u64) = n"
    by (simp add: unat_of_nat)
  then show ?thesis
    using n by (simp add: unat_sub_if')
qed

lemma fuse_read_loop_correct:
  assumes "serves_fork e c0 (fi_forkid fp) file" "\<And>n. env_malloc e n" "30 \<le> version_number (cl_srv c0)"
    and "to_afp c0 path = Some (0, p)" "fi_resource fp = 0" "length buf < 2 ^ 31"
    and "idle c" "lasting c = lasting c0" "unat amt + unat sz \<le> length buf" "unat off + unat sz < 2 ^ 64"
  shows "\<exists>c' d. fuse_read_loop e path buf amt sz off fp c =
      Some (int (unat amt + length d), take (unat amt) buf @ d @ drop (unat amt + length d) buf, fp, c') \<and>
    d = take (unat sz) (drop (unat off) file) \<and> idle c' \<and> lasting c' = lasting c0"
  using assms(6-)
proof (induction "unat sz" arbitrary: buf amt sz off c rule: less_induct)
  case less
  let ?buf = "drop (unat amt) buf"
  have sz: "unat sz \<le> length ?buf" "unat sz < 2 ^ 31"
    using less.prems(1,4) by auto
  obtain c1 d eof where rd: "ll_read e ?buf sz off fp c = Some (int (length d), eof, d @ drop (length d) ?buf, c1)"
    and c1: "idle c1" "lasting c1 = lasting c0" and d: "length d \<le> unat sz" "d = take (length d) (drop (unat off) file)"
    and rest: "if eof then drop (unat off) file = d else d \<noteq> [] \<or> sz = 0"
    using ll_read_piece [OF assms(1-3) less.prems(2,3) sz] by blast
  have eof: "if eof then take (unat sz) (drop (unat off) file) = d else d \<noteq> [] \<or> sz = 0"
    using rest d(1) by (auto split: if_splits)
  have "to_afp c path = Some (0, p)"
    using lasting_eqD(5) [OF less.prems(3)] assms(4) by simp
  then have ml: "ml_read e path ?buf sz off fp c = Some (int (length d), eof, d @ drop (length d) ?buf, fp, c1)"
    using ml_read_data [OF _ assms(5)] rd by simp
  define amt' sz' off' where "amt' = amt + word_of_nat (length d)" and "sz' = sz - word_of_nat (length d)"
    and "off' = off + word_of_nat (length d)"
  have n: "unat amt' = unat amt + length d" "unat sz' = unat sz - length d" "unat off' = unat off + length d"
    unfolding amt'_def sz'_def off'_def using less.prems(1,4,5) d(1)
    by (intro unat_add_small unat_sub_small; simp)+
  have si: "int_of_size amt' = int (unat amt + length d)"
    using int_of_size_small [of amt'] n(1) less.prems(1,4) d(1) by simp
  let ?buf' = "take (unat amt) buf @ d @ drop (unat amt + length d) buf"
  have step: "fuse_read_loop e path buf amt sz off fp c =
      (if eof \<or> sz' = 0 then Some (int (unat amt + length d), ?buf', fp, c1)
       else fuse_read_loop e path ?buf' amt' sz' off' fp c1)"
    using ml si by (subst fuse_read_loop.simps)
      (simp add: Let_def amt'_def [symmetric] sz'_def [symmetric] off'_def [symmetric] add.commute)
  show ?case
  proof (cases "eof \<or> sz' = 0")
    case True
    moreover have "d = take (unat sz) (drop (unat off) file)" if "\<not> eof"
    proof -
      have "length d = unat sz"
        using True that n(2) d(1) by (auto simp: unat_eq_0 [symmetric])
      then show ?thesis
        using d(2) by simp
    qed
    ultimately show ?thesis
      using step eof c1 by (cases eof) auto
  next
    case False
    then have "d \<noteq> []"
      using eof by (auto simp: sz'_def)
    then have "unat sz' < unat sz"
      using n(2) d(1) by (cases d) auto
    moreover have "length ?buf' = length buf"
      using less.prems(4) d(1) by simp
    ultimately obtain c' d' where ih: "fuse_read_loop e path ?buf' amt' sz' off' fp c1 =
        Some (int (unat amt' + length d'), take (unat amt') ?buf' @ d' @ drop (unat amt' + length d') ?buf', fp, c')"
      "d' = take (unat sz') (drop (unat off') file)" "idle c'" "lasting c' = lasting c0"
      using less.hyps [of sz' ?buf' c1 amt' off'] c1 less.prems n d(1) by auto
    have dd: "d @ d' = take (unat sz) (drop (unat off) file)"
      using d n ih(2) by (metis add.commute drop_drop le_add_diff_inverse take_add)
    have eq: "take (unat amt') ?buf' @ d' @ drop (unat amt' + length d') ?buf' =
        take (unat amt) buf @ (d @ d') @ drop (unat amt + length (d @ d')) buf"
      "int (unat amt' + length d') = int (unat amt + length (d @ d'))"
      using less.prems(4) d(1) n(1) by (simp_all add: min_absorb2 add.assoc add.commute add.left_commute)
    have "fuse_read_loop e path buf amt sz off fp c = fuse_read_loop e path ?buf' amt' sz' off' fp c1"
      using step False by simp
    from this [unfolded ih(1) eq] have "fuse_read_loop e path buf amt sz off fp c = Some (int (unat amt + length (d @ d')),
        take (unat amt) buf @ (d @ d') @ drop (unat amt + length (d @ d')) buf, fp, c')" .
    then show ?thesis
      using dd ih(3,4) by blast
  qed
qed

subsection \<open>A server with one fork\<close>

text \<open>The server that delivers at most \<open>q\<close> bytes of \<open>file\<close> for a request, and says so when these are the last ones. It
  grants all locks.\<close>

definition fork_peer :: "nat \<Rightarrow> byte list \<Rightarrow> peer" where
  "fork_peer q file h f =
     (if rd8 f 0 = Some afpReadExt then (case (rd64 f 4, rd64 f 12) of
        (Some off, Some n) \<Rightarrow> (let k = min q (unat n) in
          (if length file \<le> unat off + k then kFPEOFErr else kFPNoErr, take k (drop (unat off) file)))
      | _ \<Rightarrow> (kFPParamErr, []))
      else (kFPNoErr, []))"

lemma rd_read_fields:
  "rd64 (read_fields i off n) 4 = Some off" "rd64 (read_fields i off n) 12 = Some n" "rd8 (read_fields i off n) 0 = Some afpReadExt"
proof -
  have "holds_at (read_fields i off n) 4 (be64 off @ be64 n)" "holds_at (read_fields i off n) 12 (be64 n @ [])"
    by (simp_all add: read_fields_def holds_at_def)
  then show "rd64 (read_fields i off n) 4 = Some off" "rd64 (read_fields i off n) 12 = Some n"
    using f64.rd_holds_at by blast+
qed (simp add: read_fields_def rd8_def)

lemma fork_peer_serves:
  assumes "env_net e = peer_server (fork_peer q file)" "0 < q" "q \<le> 4080" "q \<le> unat (srv_rx_quantum (cl_srv c0))"
  shows "serves_fork e c0 forkid file"
proof -
  have "talks e (fork_peer q file)"
    by (rule peer_server_talks [OF assms(1)])
       (use assms(3) in \<open>auto simp: fork_peer_def Let_def split: option.splits\<close>)
  note t = this [unfolded talks_def, rule_format]
  show ?thesis
    unfolding serves_fork_def
  proof (intro allI impI conjI; elim conjE)
    fix c :: client and off n :: u64 and flag
    assume c: "idle c" "lasting c = lasting c0"
    show "\<exists>body. answers_request e c (lock_fields flag forkid off n) kFPNoErr body"
      using t [OF c(1), of "lock_fields flag forkid off n"]
      by (auto simp: fork_peer_def lock_fields_def rd8_def)
    let ?k = "min q (unat n)"
    let ?rc = "if length file \<le> unat off + ?k then kFPEOFErr else kFPNoErr"
    have "answers_read e c (read_fields forkid off n) ?rc (take ?k (drop (unat off) file))"
      using answers_request_read [OF t [OF c(1), of "read_fields forkid off n"]]
      by (simp add: fork_peer_def rd_read_fields Let_def)
    then show "\<exists>rc k. answers_read e c (read_fields forkid off n) rc (take k (drop (unat off) file)) \<and>
        k \<le> unat n \<and> k \<le> unat (srv_rx_quantum (cl_srv c0)) \<and>
        (rc = kFPEOFErr \<and> length file \<le> unat off + k \<or> rc = kFPNoErr \<and> (unat off < length file \<and> 0 < k \<or> n = 0))"
      using assms(2,4) by (intro exI [of _ ?rc] exI [of _ ?k]) (auto simp: unat_gt_0 not_le)
  qed
qed

subsection \<open>Main results\<close>

text \<open>(C1) Reading through FUSE. On a server that has the file and delivers it piece by piece, \<open>fuse_read\<close> ends, and it
  returns exactly the bytes of the file from the given offset on, as many as were asked for or as the file has, at the beginning of the buffer;
  the rest of the buffer is as before, and the session is ready for the next request.\<close>

theorem fuse_read_correct:
  assumes "idle c" and "serves_fork e c (fi_forkid fp) file" and "\<And>n. env_malloc e n" and "30 \<le> version_number (cl_srv c)"
    and "to_afp c path = Some (0, p)" and "fi_resource fp = 0"
    and "length buf < 2 ^ 31" and "unat sz \<le> length buf" and "unat offset + unat sz < 2 ^ 64"
    and "d = take (unat sz) (drop (unat offset) file)"
  shows "\<exists>c'. fuse_read e path buf sz offset (Some fp) c = Some (int (length d), d @ drop (length d) buf, Some fp, c') \<and>
    idle c' \<and> lasting c' = lasting c"
  using fuse_read_loop_correct [OF assms(2-7,1) refl, of 0 sz offset] assms(8-10)
  by (auto simp: fuse_read_def)

theorem fuse_read_correct_witness:
  "\<exists>c'. fuse_read (example_env (peer_server (fork_peer 3 [1, 2, 3, 4, 5, 6, 7, 8]))) ''/a'' (replicate 10 0) 10 1
     (Some zero_file_info) (map_srv (srv_rx_quantum_update (\<lambda>_. 1024)) example_client) =
       Some (7, [2, 3, 4, 5, 6, 7, 8, 0, 0, 0], Some zero_file_info, c')"
proof -
  let ?file = "[1, 2, 3, 4, 5, 6, 7, 8] :: byte list"
  let ?e = "example_env (peer_server (fork_peer 3 ?file))"
  let ?c = "map_srv (srv_rx_quantum_update (\<lambda>_. 1024)) example_client"
  have fork: "serves_fork ?e ?c (fi_forkid zero_file_info) ?file"
    by (rule fork_peer_serves [where q = 3]) (simp_all add: example_env_def)
  have m: "env_malloc ?e n" for n
    by (simp add: example_env_def)
  have i: "idle ?c"
    using example_client_idle by (simp add: idle_def session_ready_def queue_ok_def buffer_ok_def server_still_valid_def)
  have v: "30 \<le> version_number (cl_srv ?c)"
    by (simp add: example_client_def example_server_def afp_server_init_def)
  have p: "to_afp ?c ''/a'' = Some (0, ''/a'')"
    using example_paths(1) example_srv by simp
  have r: "fi_resource zero_file_info = 0"
    by (simp add: zero_file_info_def)
  have d: "[2, 3, 4, 5, 6, 7, 8] = take (unat (10 :: u64)) (drop (unat (1 :: u64)) ?file)"
    by simp
  have z: "drop (length [2 :: byte, 3, 4, 5, 6, 7, 8]) (replicate 10 (0 :: byte)) = [0, 0, 0]"
    by (simp add: numeral_3_eq_3)
  from fuse_read_correct [OF i fork m v p r _ _ _ d, of "replicate 10 0"] z
  show ?thesis
    by (auto simp del: drop_replicate)
qed

text \<open>(C40) Opening through FUSE on a read-only volume. \<open>fuse_open\<close> hands \<open>AFP_OPENFORK_ALLOWREAD\<close> to \<open>ml_open\<close>, which reads
  it as \<open>O_WRONLY\<close>: no file of a read-only volume can be opened, for reading either, and nothing is sent to the server.\<close>

theorem fuse_open_readonly:
  assumes "volume_is_readonly c" and "to_afp c path = Some (0, p)" and "invalid_filename (cl_srv c) p = Some False"
  shows "fuse_open e path c = Some (- EACCES, None, c)"
  using assms by (simp add: fuse_open_def ml_open_def)

theorem fuse_open_readonly_witness:
  "fuse_open (example_env (\<lambda>_. Sent [])) ''/a'' (map_vol (vol_attributes_update (\<lambda>_. kReadOnly)) example_client) =
    Some (- EACCES, None, map_vol (vol_attributes_update (\<lambda>_. kReadOnly)) example_client)"
  by (rule fuse_open_readonly [where p = "''/a''"])
     (use example_paths(1) example_srv in \<open>simp_all add: volume_is_readonly_def\<close>)

end
