(* ===== verification/Dsi_Threads.thy ===== *)
theory Dsi_Threads
  imports Dsi_Packets
begin

text \<open>
  The threads of the client on one connection. Any number of threads send requests, the main loop
  receives: what each does at a time is a step, and the steps come in any order. The connection stays consistent, and
  a request somebody waits for stays in the queue until it has been answered. The runs are those of one session: \<open>afp_server_reconnect\<close> and
  \<open>dsi_incoming_closesession\<close>, which begin another one and end it, are no steps of theirs.
\<close>

subsection \<open>What a step keeps\<close>

definition conn_ok :: "client \<Rightarrow> bool" where
  "conn_ok c \<longleftrightarrow> queue_ok c \<and> length (recv_buf c) = 4096 \<and> srv_bufsize (cl_srv c) = 4096"

definition req_state :: "dsi_request \<Rightarrow> nat \<times> int \<times> bool" where
  "req_state r = (req_addr r, req_wait r, req_done_waiting r)"

text \<open>The requests that are in the queue stay, in the same states; others may come behind them.\<close>

definition frame :: "client \<Rightarrow> client \<Rightarrow> bool" where
  "frame c c' \<longleftrightarrow> (conn_ok c \<longrightarrow> conn_ok c' \<and> (\<exists>x. map req_state (queue c') = map req_state (queue c) @ x))"

lemma frame_refl [intro, simp]: "frame c c"
  by (simp add: frame_def)

lemma frame_trans [trans]: "frame c c' \<Longrightarrow> frame c' c'' \<Longrightarrow> frame c c''"
  by (auto simp: frame_def)

lemma map_state_addr: "map req_addr q = map fst (map req_state q)"
  by (simp add: req_state_def comp_def)

lemma frameI:
  assumes "map req_state (queue c') = map req_state (queue c)" "cl_registered c' = cl_registered c"
    and "cl_fresh c' = cl_fresh c" "requests_pending (cl_srv c') = requests_pending (cl_srv c)"
    and "length (recv_buf c') = length (recv_buf c)" "srv_bufsize (cl_srv c') = srv_bufsize (cl_srv c)"
  shows "frame c c'"
proof -
  have a: "map req_addr (queue c') = map req_addr (queue c)"
    using assms(1) by (simp add: map_state_addr)
  then have s: "req_addr ` set (queue c') = req_addr ` set (queue c)"
    by (metis list.set_map)
  have l: "length (queue c') = length (queue c)"
    using arg_cong [OF a, of length] by simp
  have "(\<forall>r\<in>set (queue c'). req_addr r < n) = (\<forall>r\<in>set (queue c). req_addr r < n)" for n
    using s by (metis (no_types, lifting) image_iff)
  then show ?thesis
    using assms a l by (auto simp: frame_def conn_ok_def queue_ok_def server_still_valid_def)
qed

lemma frame_update_request:
  assumes "\<And>r. req_state (f r) = req_state r"
  shows "frame c (update_request a f c)"
  by (rule frameI) (simp_all add: update_request_def assms)

lemma frame_count_rx [intro, simp]: "frame c (count_rx n c)"
  by (rule frameI) (simp_all add: count_rx_def)

lemma frame_disconnect: "frame c (loop_disconnect c)"
  by (rule frameI) (simp_all add: loop_disconnect_def)

subsection \<open>Handlers of replies\<close>

definition same_conn :: "afp_server \<Rightarrow> afp_server \<Rightarrow> bool" where
  "same_conn s s' \<longleftrightarrow> srv_command_requests s' = srv_command_requests s \<and> srv_stats s' = srv_stats s \<and>
     srv_incoming_buffer s' = srv_incoming_buffer s \<and> srv_bufsize s' = srv_bufsize s"

lemma same_conn_refl [simp]: "same_conn s s"
  by (simp add: same_conn_def)

lemma frame_server: "same_conn (cl_srv c) s \<Longrightarrow> frame c (c\<lparr>cl_srv := s\<rparr>)"
  by (rule frameI) (simp_all add: same_conn_def)

lemma srvrparms_conn: "afp_getsrvrparms_reply s buf sz = Some (rc, s') \<Longrightarrow> same_conn s s'"
  by (auto simp: afp_getsrvrparms_reply_def same_conn_def split: if_splits bind_splits)

lemma afp_reply_conn: "afp_reply m sub s x = Some (rc, s', x') \<Longrightarrow> same_conn s s'"
  using afp_reply_server [of m sub s x rc s' x']
  by (cases "sub = afpGetSrvrParms")
     (auto simp: afp_reply_def blank_subcommands_def Let_def dest!: srvrparms_conn split: if_splits)

lemma same_conn_trans: "same_conn s s' \<Longrightarrow> same_conn s' s'' \<Longrightarrow> same_conn s s''"
  by (simp add: same_conn_def)

lemma getstatus_parts_conn:
  "getstatus_machine buf i j s = Some s' \<Longrightarrow> same_conn s s'" "dsi_parse_versions buf p s = Some s' \<Longrightarrow> same_conn s s'"
  "dsi_parse_uams buf p s = Some s' \<Longrightarrow> same_conn s s'" "getstatus_utf8_name buf p s = Some s' \<Longrightarrow> same_conn s s'"
  by (auto simp: getstatus_machine_def dsi_parse_versions_def dsi_parse_uams_def getstatus_utf8_name_def same_conn_def
      Let_def split: bind_splits)

lemma same_conn_fields [simp]:
  "same_conn s (s'\<lparr>srv_flags := f\<rparr>) = same_conn s s'" "same_conn s (s'\<lparr>srv_server_name := n\<rparr>) = same_conn s s'"
  "same_conn s (s'\<lparr>srv_signature := g\<rparr>) = same_conn s s'" "same_conn s (s'\<lparr>srv_server_name_printable := n\<rparr>) = same_conn s s'"
  "same_conn (s\<lparr>srv_flags := f\<rparr>) s' = same_conn s s'" "same_conn (s\<lparr>srv_server_name := n\<rparr>) s' = same_conn s s'"
  "same_conn (s\<lparr>srv_signature := g\<rparr>) s' = same_conn s s'"
  by (simp_all add: same_conn_def)

lemma getstatus_conn: "dsi_getstatus_reply e s = Some s' \<Longrightarrow> same_conn s s'"
  unfolding dsi_getstatus_reply_def Let_def
  by (auto dest!: getstatus_parts_conn split: if_splits bind_splits option.splits) (simp_all add: same_conn_def)

lemma opensession_conn: "dsi_opensession_reply s = Some s' \<Longrightarrow> same_conn s s'"
  by (auto simp: dsi_opensession_reply_def same_conn_def split: bind_splits)

lemma frame_more [intro, simp]: "frame c (map_srv (srv_data_read_update f) c)"
  by (rule frameI) simp_all

lemma frame_other: "frame c (update_request a (req_other_update f) c)"
  by (rule frame_update_request) (simp add: req_state_def)

lemma reply_frame:
  assumes "afp_reply m sub (cl_srv c) x = Some (rc, s, y)"
  shows "frame c (update_request a (req_other_update (\<lambda>_. y)) (c\<lparr>cl_srv := s\<rparr>))"
  by (rule frame_trans [OF frame_server [OF afp_reply_conn [OF assms]] frame_other])

lemma reply_frame_more:
  assumes "afp_reply m sub (srv_data_read_update g (cl_srv c)) x = Some (rc, s, y)"
  shows "frame c (update_request a (req_other_update (\<lambda>_. y)) (c\<lparr>cl_srv := s\<rparr>))"
proof -
  have "same_conn (cl_srv c) s"
    using afp_reply_conn [OF assms] by (simp add: same_conn_def)
  then show ?thesis
    by (rule frame_trans [OF frame_server frame_other])
qed

lemma command_reply_frame:
  assumes "dsi_command_reply e r left c = Some (left', c')"
  shows "frame c c'"
proof (cases "recv_count c < 16 \<or> req_subcommand r \<notin> {afpRead, afpReadExt}")
  case True
  then show ?thesis
    using assms by (auto simp: dsi_command_reply_def Let_def intro: reply_frame split: if_splits)
next
  case False
  then obtain rx ev where rx: "req_other r = Rx_Buffer rx" "left = Some ev"
    using assms by (auto simp: dsi_command_reply_def Let_def split: other.splits option.splits)
  obtain ret d left1 where sr: "sock_read ev (rx_maxsize rx - rx_size rx) = (ret, d, left1)"
    by (cases "sock_read ev (rx_maxsize rx - rx_size rx)") auto
  have cnt: "frame c (update_request a (req_other_update f) (count_rx n c))" for a f n
    using frame_trans [OF frame_count_rx frame_other] .
  show ?thesis
    using assms False rx sr
    by (auto simp: dsi_command_reply_def Let_def intro: cnt frame_trans [OF cnt reply_frame_more] split: if_splits bind_splits)
qed

subsection \<open>Steps of the threads\<close>

text \<open>A request for which a thread waits, and one that has been answered while its thread has not yet taken it out of the queue.\<close>

definition awaited :: "nat \<Rightarrow> client \<Rightarrow> bool" where
  "awaited a c \<longleftrightarrow> (\<exists>r \<in> set (queue c). req_addr r = a \<and> req_wait r \<noteq> 0)"

definition answered :: "nat \<Rightarrow> client \<Rightarrow> bool" where
  "answered a c \<longleftrightarrow> (\<exists>r \<in> set (queue c). req_addr r = a \<and> req_done_waiting r)"

definition evolves :: "client \<Rightarrow> client \<Rightarrow> bool" where
  "evolves c c' \<longleftrightarrow> (conn_ok c \<longrightarrow> conn_ok c' \<and> (\<forall>a. awaited a c \<longrightarrow> awaited a c' \<or> answered a c'))"

lemma awaited_state: "awaited a c \<longleftrightarrow> (\<exists>s \<in> set (map req_state (queue c)). fst s = a \<and> fst (snd s) \<noteq> 0)"
  by (simp add: awaited_def req_state_def)

lemma frame_awaited: "frame c c' \<Longrightarrow> conn_ok c \<Longrightarrow> awaited a c \<Longrightarrow> awaited a c'"
  unfolding frame_def awaited_state by (elim impE conjE exE) (simp_all del: set_map add: bex_Un)

lemma frame_evolves: "frame c c' \<Longrightarrow> evolves c c'"
  using frame_awaited [of c c'] by (simp add: frame_def evolves_def)

lemma frame_evolves_trans: "frame c c' \<Longrightarrow> evolves c' c'' \<Longrightarrow> evolves c c''"
  using frame_awaited [of c c'] by (simp add: frame_def evolves_def)

text \<open>The lemmas on the functions that send and receive hold for every outside whose functions to re-establish a session and to end it are steps of
  this kind too.\<close>

definition outside_ok :: "env \<Rightarrow> bool" where
  "outside_ok e \<longleftrightarrow> (\<forall>c c'. env_reconnect e c = Some c' \<longrightarrow> frame c c') \<and>
     (\<forall>c c'. env_close_session e c = Some c' \<longrightarrow> frame c c')"

text \<open>The real ones are not: \<open>dsi_incoming_closesession\<close> unmounts every volume and frees the server after the last one, and
  \<open>afp_server_reconnect\<close> sends requests of its own. Within one session neither is called: a function that reaches the call does not return.\<close>

definition in_session :: "env \<Rightarrow> env" where
  "in_session e = e\<lparr>env_reconnect := (\<lambda>_. None), env_close_session := (\<lambda>_. None)\<rparr>"

lemma in_session_ok [simp]: "outside_ok (in_session e)"
  by (simp add: in_session_def outside_ok_def)

lemma frame_queue_request: "frame c (snd (dsi_queue_request w sub x c))"
proof -
  have "queue (snd (dsi_queue_request w sub x c)) = queue c @
      [\<lparr>req_addr = cl_fresh c, req_requestid = srv_lastrequestid (cl_srv c), req_subcommand = sub,
        req_other = x, req_wait = w, req_done_waiting = False, req_return_code = 0\<rparr>]"
    "recv_buf (snd (dsi_queue_request w sub x c)) = recv_buf c"
    "srv_bufsize (cl_srv (snd (dsi_queue_request w sub x c))) = srv_bufsize (cl_srv c)"
    by (simp_all add: dsi_queue_request_def Let_def)
  then show ?thesis
    using queue_request(3) [of c w sub x] by (simp add: frame_def conn_ok_def)
qed

lemma conn_ok_remove: "conn_ok c \<Longrightarrow> conn_ok (snd (dsi_remove_from_request_queue a c))"
  using remove_from_queue(2) [of c a]
  by (auto simp: conn_ok_def dsi_remove_from_request_queue_def split: option.splits)

lemma map_state_filter: "map req_state (filter (\<lambda>r. req_addr r \<noteq> a) q) = filter (\<lambda>s. fst s \<noteq> a) (map req_state q)"
  by (induction q) (auto simp: req_state_def)

text \<open>A request that is taken out of the queue again leaves the others alone.\<close>

lemma frame_own_request:
  assumes "frame (snd (dsi_queue_request w sub x c)) d"
  shows "frame c (snd (dsi_remove_from_request_queue (cl_fresh c) d))"
  unfolding frame_def
proof (intro impI conjI)
  assume ok: "conn_ok c"
  let ?d = "snd (dsi_queue_request w sub x c)" and ?a = "cl_fresh c"
  have "conn_ok ?d"
    using frame_queue_request [of c w sub x] ok by (simp add: frame_def)
  then obtain y where d: "conn_ok d" "map req_state (queue d) = map req_state (queue ?d) @ y"
    using assms by (auto simp: frame_def)
  then show "conn_ok (snd (dsi_remove_from_request_queue ?a d))"
    by (intro conn_ok_remove)
  have new: "filter (\<lambda>s. fst s \<noteq> ?a) (map req_state (queue ?d)) = filter (\<lambda>s. fst s \<noteq> ?a) (map req_state (queue c))"
    by (simp add: dsi_queue_request_def req_state_def Let_def)
  have "filter (\<lambda>r. req_addr r \<noteq> ?a) (queue c) = queue c"
    using ok by (intro filter_other_addr) (auto simp: conn_ok_def queue_ok_def)
  then have old: "filter (\<lambda>s. fst s \<noteq> ?a) (map req_state (queue c)) = map req_state (queue c)"
    by (simp only: map_state_filter [symmetric])
  have "map req_state (queue (snd (dsi_remove_from_request_queue ?a d))) = filter (\<lambda>s. fst s \<noteq> ?a) (map req_state (queue d))"
    using d(1) remove_from_queue(1) [of d ?a] by (simp only: conn_ok_def map_state_filter)
  also have "\<dots> = map req_state (queue c) @ filter (\<lambda>s. fst s \<noteq> ?a) y"
    unfolding d(2) filter_append new old ..
  finally show "\<exists>x. map req_state (queue (snd (dsi_remove_from_request_queue ?a d))) = map req_state (queue c) @ x"
    by blast
qed

text \<open>Up to the answer of the network, \<open>dsi_start\<close> has queued the request.\<close>

lemma dsi_start_cases:
  assumes "outside_ok e" "dsi_start e msg w sub x c = Some (r, c')"
  obtains (early) v where "r = Inl v" "c' = c"
  | (failed) v d where "r = Inl v" "frame (snd (dsi_queue_request w sub x c)) d"
      "c' = snd (dsi_remove_from_request_queue (cl_fresh c) d)"
  | (broken) v where "r = Inl v" "frame (snd (dsi_queue_request w sub x c)) c'"
  | (sent) evs where "r = Inr (cl_fresh c, evs)" "frame (snd (dsi_queue_request w sub x c)) c'"
proof (cases "\<not> server_still_valid c \<or> srv_fd (cl_srv c) = 0 \<or> \<not> env_malloc e sizeof_dsi_request")
  case True
  then show ?thesis
    using assms(2) by (intro early [of "- 1"]) (simp_all add: dsi_start_def Let_def split: if_splits)
next
  case False
  let ?q = "snd (dsi_queue_request w sub x c)"
  obtain d where d: "(if srv_connect_state (cl_srv ?q) = SERVER_STATE_DISCONNECTED then env_reconnect e ?q else Some ?q) = Some d"
    "\<not> cl_send_mutex d"
    using assms(2) False by (auto simp: dsi_start_def Let_def split: prod.splits bind_splits if_splits)
  then have fd: "frame ?q d"
    using assms(1) by (auto simp: outside_ok_def split: if_splits)
  let ?d = "d\<lparr>cl_sent := cl_sent d @ [set_length msg]\<rparr>"
  have f: "frame ?q ?d"
    by (rule frame_trans [OF fd]) (rule frameI, simp_all)
  have a: "fst (dsi_queue_request w sub x c) = cl_fresh c"
    by (simp add: dsi_queue_request_def Let_def)
  have st: "dsi_start e msg w sub x c = (case env_net e (cl_sent ?d) of
      Write_Error errno \<Rightarrow> (if errno = EPIPE \<or> errno = EBADF
        then Some (Inl (- 1), map_srv (srv_connect_state_update (\<lambda>_. SERVER_STATE_DISCONNECTED)) (?d\<lparr>cl_send_mutex := True\<rparr>))
        else Some (Inl (- 1), snd (dsi_remove_from_request_queue (cl_fresh c) ?d)))
    | Sent evs \<Rightarrow> Some (Inr (cl_fresh c, evs),
        map_srv (srv_stats_update (st_tx_bytes_update (\<lambda>n. n + word_of_nat (length (set_length msg))))) ?d))"
    using False d a
    by (cases "dsi_queue_request w sub x c"; cases "srv_connect_state (cl_srv ?q) = SERVER_STATE_DISCONNECTED")
       (simp_all add: dsi_start_def Let_def)
  show ?thesis
  proof (cases "env_net e (cl_sent ?d)")
    case (Sent evs)
    have "frame ?q (map_srv (srv_stats_update (st_tx_bytes_update g)) ?d)" for g
      by (rule frame_trans [OF f]) (rule frameI, simp_all)
    then show ?thesis
      using assms(2) st Sent by (intro sent [of evs]) auto
  next
    case (Write_Error errno)
    have "frame ?q (map_srv (srv_connect_state_update g) (?d\<lparr>cl_send_mutex := True\<rparr>))" for g
      by (rule frame_trans [OF f]) (rule frameI, simp_all)
    then show ?thesis
      using assms(2) st Write_Error f failed broken by (auto split: if_splits)
  qed
qed

lemma start_frame:
  assumes "outside_ok e" "dsi_start e msg w sub x c = Some (r, c')"
  shows "frame c c'"
  using assms
proof (cases rule: dsi_start_cases)
  case (failed v d)
  then show ?thesis
    using frame_own_request by blast
qed (auto intro: frame_trans [OF frame_queue_request])

lemma frame_setup_header: "frame c (c\<lparr>cl_srv := fst (dsi_setup_header cmd (cl_srv c))\<rparr>)"
  by (rule frameI) simp_all

lemma tickle_frame:
  assumes "outside_ok e" "dsi_incoming_tickle e c = Some c'"
  shows "frame c c'"
proof -
  obtain server header where h: "dsi_setup_header DSI_DSITickle (cl_srv c) = (server, header)"
    by fastforce
  let ?c = "c\<lparr>cl_srv := server\<rparr>"
  obtain r d where d: "dsi_start e header 0 0 No_Other ?c = Some (r, d)"
    "c' = (case r of Inl _ \<Rightarrow> d | Inr (a, _) \<Rightarrow> snd (dsi_remove_from_request_queue a d))"
    using assms(2) h by (auto simp: dsi_incoming_tickle_def split: bind_splits)
  have "frame ?c c'"
    using assms(1) d(1)
  proof (cases rule: dsi_start_cases)
    case (sent evs)
    then show ?thesis
      using d(2) frame_own_request [of 0 0 No_Other ?c d] by simp
  qed (use d(2) start_frame [OF assms(1) d(1)] in simp_all)
  then show ?thesis
    using frame_trans [OF frame_setup_header [of c DSI_DSITickle]] h by simp
qed

subsection \<open>Receiving is a step\<close>

lemma awaited_kept:
  assumes "awaited b c" "queue c' = map (\<lambda>r. if req_addr r = a then r\<lparr>req_wait := 0, req_done_waiting := True\<rparr> else r) (queue c)"
  shows "awaited b c' \<or> answered b c'"
proof -
  obtain r where r: "r \<in> set (queue c)" "req_addr r = b" "req_wait r \<noteq> 0"
    using assms(1) by (auto simp: awaited_def)
  let ?r = "if req_addr r = a then r\<lparr>req_wait := 0, req_done_waiting := True\<rparr> else r"
  have "?r \<in> set (queue c')"
    using r(1) assms(2) by auto
  moreover have "req_addr ?r = b" "req_wait ?r \<noteq> 0 \<or> req_done_waiting ?r"
    using r by auto
  ultimately show ?thesis
    unfolding awaited_def answered_def by blast
qed

lemma evolves_wake: "evolves c (update_request a (\<lambda>r. r\<lparr>req_wait := 0, req_done_waiting := True\<rparr>) c)"
proof -
  let ?f = "\<lambda>r. if req_addr r = a then r\<lparr>req_wait := 0, req_done_waiting := True\<rparr> else r"
  define c' where "c' = update_request a (\<lambda>r. r\<lparr>req_wait := 0, req_done_waiting := True\<rparr>) c"
  have q: "queue c' = map ?f (queue c)"
    by (simp add: c'_def update_request_def)
  have "req_addr (?f r) = req_addr r" for r
    by simp
  then have addr: "map req_addr (queue c') = map req_addr (queue c)"
    unfolding q list.map_comp by (intro list.map_cong refl) simp
  have "cl_registered c' = cl_registered c" "cl_fresh c' = cl_fresh c" "recv_buf c' = recv_buf c"
    "srv_bufsize (cl_srv c') = srv_bufsize (cl_srv c)" "requests_pending (cl_srv c') = requests_pending (cl_srv c)"
    "length (queue c') = length (queue c)"
    by (simp_all add: c'_def update_request_def)
  moreover have "(\<forall>r \<in> set (queue c'). req_addr r < n) = (\<forall>r \<in> set (queue c). req_addr r < n)" for n
    using arg_cong [OF addr, of "\<lambda>l. \<forall>x \<in> set l. x < n"] by simp
  ultimately have "conn_ok c \<Longrightarrow> conn_ok c'"
    using addr by (simp add: conn_ok_def queue_ok_def server_still_valid_def)
  then show ?thesis
    using awaited_kept [OF _ q] by (simp add: evolves_def c'_def [symmetric])
qed

lemma evolves_remove:
  assumes "request_at a c = Some r" "req_wait r = 0"
  shows "evolves c (snd (dsi_remove_from_request_queue a c))"
  unfolding evolves_def
proof (intro impI conjI allI)
  assume ok: "conn_ok c"
  then show "conn_ok (snd (dsi_remove_from_request_queue a c))"
    by (rule conn_ok_remove)
  fix b
  assume "awaited b c"
  then obtain r' where r': "r' \<in> set (queue c)" "req_addr r' = b" "req_wait r' \<noteq> 0"
    by (auto simp: awaited_def)
  have r: "r \<in> set (queue c)" "req_addr r = a"
    using assms(1) by (auto simp: request_at_def find_Some_iff)
  have "b \<noteq> a"
  proof
    assume "b = a"
    moreover have "inj_on req_addr (set (queue c))"
      using ok by (simp add: conn_ok_def queue_ok_def distinct_map)
    ultimately have "r' = r"
      using r r' by (auto dest: inj_onD)
    then show False
      using r' assms(2) by simp
  qed
  then have "r' \<in> set (queue (snd (dsi_remove_from_request_queue a c)))"
    using ok remove_from_queue(1) [of c a] r' by (simp add: conn_ok_def)
  then show "awaited b (snd (dsi_remove_from_request_queue a c)) \<or> answered b (snd (dsi_remove_from_request_queue a c))"
    using r' by (auto simp: awaited_def)
qed

lemma out_evolves: "dsi_out request left c = Some (ret, left', c') \<Longrightarrow> evolves c c'"
  by (auto simp: dsi_out_def evolves_wake evolves_remove frame_evolves split: option.splits if_splits)

lemma after_processing_evolves:
  assumes "dsi_after_processing e request left c = Some (ret, left', c')"
  shows "evolves c c'"
proof -
  have moved: "frame c (map_srv (\<lambda>s. s\<lparr>srv_incoming_buffer := buf, srv_data_read := f s\<rparr>) c)"
    if "wr_bytes (recv_buf c) p d = Some buf" for buf p d f
    by (rule frameI) (simp_all add: length_wr_bytes [OF that])
  show ?thesis
    using assms
    by (auto simp: dsi_after_processing_def Let_def frame_evolves split: bind_splits if_splits
        dest!: out_evolves intro: frame_evolves_trans [OF frame_more] frame_evolves_trans [OF moved])
qed

lemma process_packet_evolves:
  assumes "outside_ok e" "dsi_process_packet e runt request left c = Some (ret, left', c')"
  shows "evolves c c'"
proof -
  have after: "evolves c c'" if "frame c d" "dsi_after_processing e a l d = Some (ret, left', c')" for a l d
    using frame_evolves_trans [OF that(1) after_processing_evolves [OF that(2)]] .
  have close: "frame c (loop_disconnect d)" if "env_close_session e c = Some d" for d
    using assms(1) that frame_trans [OF _ frame_disconnect] by (auto simp: outside_ok_def)
  have attention: "frame c (map_srv (srv_attention_buffer_update f) (c\<lparr>cl_attention_threads := n\<rparr>))" for f n
    by (rule frameI) simp_all
  show ?thesis
    using assms(2)
    by (auto simp: dsi_process_packet_def Let_def frame_evolves split: bind_splits if_splits option.splits
        intro: after [OF frame_refl] after [OF close] after [OF frame_server [OF getstatus_conn]]
          after [OF frame_server [OF opensession_conn]] after [OF tickle_frame [OF assms(1)]]
          after [OF command_reply_frame] after [OF attention])
qed

lemma buffer_frame:
  assumes "wr_bytes (recv_buf c) p d = Some buf"
  shows "frame c (map_srv (\<lambda>s. s\<lparr>srv_incoming_buffer := buf, srv_data_read := f s\<rparr>) (count_rx n c))"
  by (rule frameI) (simp_all add: count_rx_def length_wr_bytes [OF assms])

lemma recv_read_evolves:
  assumes "outside_ok e" "dsi_recv_read e request len left c = Some (ret, left', c')"
  shows "evolves c c'"
proof -
  obtain rx where rx: "req_other request = Rx_Buffer rx"
    using assms(2) by (auto simp: dsi_recv_read_def split: other.splits)
  have out: "evolves c c'" if "frame c d" "dsi_out a l (map_srv (srv_data_read_update f) d) = Some (ret, left', c')" for a l d f
    using frame_evolves_trans [OF frame_trans [OF that(1) frame_more] out_evolves [OF that(2)]] .
  have rcv: "frame c (update_request a (req_other_update f) (count_rx n c))" for a f n
    by (rule frame_trans [OF frame_count_rx frame_other])
  have pack: "evolves c c'" if "wr_bytes (recv_buf d) p x = Some buf" "frame c d"
    "dsi_process_packet e False r l (map_srv (\<lambda>s. s\<lparr>srv_incoming_buffer := buf, srv_data_read := f s\<rparr>) d) =
      Some (ret, left', c')" for d p x buf f r l
  proof -
    have "frame d (map_srv (\<lambda>s. s\<lparr>srv_incoming_buffer := buf, srv_data_read := f s\<rparr>) d)"
      by (rule frameI) (simp_all add: length_wr_bytes [OF that(1)])
    then show ?thesis
      using frame_evolves_trans [OF frame_trans [OF that(2)] process_packet_evolves [OF assms(1) that(3)]] by blast
  qed
  show ?thesis
    using assms(2) rx
    by (auto simp: dsi_recv_read_def Let_def frame_evolves rcv split: if_splits option.splits prod.splits bind_splits
        intro: out [OF frame_refl] out [OF rcv] pack [OF _ rcv])
qed

lemma recv_rest_evolves:
  assumes "outside_ok e" "dsi_recv_rest e runt request len left c = Some (ret, left', c')"
  shows "evolves c c'"
proof -
  have after: "evolves c c'" if "frame c d" "dsi_after_processing e a l d = Some (ret, left', c')" for a l d
    using frame_evolves_trans [OF that(1) after_processing_evolves [OF that(2)]] .
  have pack: "evolves c c'" if "frame c d" "dsi_process_packet e b a l d = Some (ret, left', c')" for a b l d
    using frame_evolves_trans [OF that(1) process_packet_evolves [OF assms(1) that(2)]] .
  show ?thesis
    using assms(2)
    by (auto simp: dsi_recv_rest_def Let_def frame_evolves buffer_frame split: if_splits option.splits prod.splits bind_splits
        intro: after [OF buffer_frame] pack [OF buffer_frame] pack [OF frame_refl])
qed

lemma gotenough_evolves:
  assumes "outside_ok e" "dsi_gotenough e left c = Some (ret, left', c')"
  shows "evolves c c'"
proof -
  have runt: "frame c (map_srv (srv_stats_update (st_runt_packets_update f)) c)" for f
    by (rule frameI) simp_all
  have code: "frame c (update_request a (req_return_code_update f) c)" for a f
    by (rule frame_update_request) (simp add: req_state_def)
  have rest: "evolves c c'" if "frame c d" "dsi_recv_rest e b r n left d = Some (ret, left', c')" for b r n d
    using frame_evolves_trans [OF that(1) recv_rest_evolves [OF assms(1) that(2)]] .
  have read: "evolves c c'" if "frame c d" "dsi_recv_read e r n left d = Some (ret, left', c')" for r n d
    using frame_evolves_trans [OF that(1) recv_read_evolves [OF assms(1) that(2)]] .
  show ?thesis
    using assms(2)
    by (auto simp: dsi_gotenough_def Let_def split: bind_splits option.splits if_splits
        intro: rest [OF runt] rest [OF code] rest [OF frame_refl] read [OF code])
qed

lemma recv_evolves:
  assumes "outside_ok e" "dsi_recv e ev c = Some (ret, left', c')"
  shows "evolves c c'"
proof -
  have got: "evolves c c'" if "frame c d" "dsi_gotenough e l d = Some (ret, left', c')" for l d
    using frame_evolves_trans [OF that(1) gotenough_evolves [OF assms(1) that(2)]] .
  show ?thesis
    using assms(2)
    by (auto simp: dsi_recv_def Let_def frame_evolves buffer_frame split: if_splits prod.splits bind_splits
        intro: got [OF buffer_frame] got [OF frame_refl])
qed

subsection \<open>The connection as a state machine\<close>

text \<open>What a thread does at a time: prepare a header, queue a request and write it, take its own request out of the queue when it has
  been answered or has waited long enough; and what the main loop does: receive, and give the connection up. A thread that finds the connection
  lost and begins to re-establish it, or a packet with which the server closes the session, is no step: a run is what happens until then.\<close>

datatype thread_step = Setup | Start | Finish nat | Receive | Disconnect

inductive conn_step :: "env \<Rightarrow> client \<Rightarrow> thread_step \<Rightarrow> client \<Rightarrow> bool" for e where
  setup_step: "conn_step e c Setup (c\<lparr>cl_srv := fst (dsi_setup_header cmd (cl_srv c))\<rparr>)"
| start_step: "dsi_start (in_session e) msg w sub x c = Some (r, c') \<Longrightarrow> conn_step e c Start c'"
| finish_step: "conn_step e c (Finish a) (snd (dsi_remove_from_request_queue a c))"
| receive_step: "dsi_recv (in_session e) ev c = Some (ret, left, c') \<Longrightarrow> conn_step e c Receive c'"
| disconnect_step: "conn_step e c Disconnect (loop_disconnect c)"

inductive conn_run :: "env \<Rightarrow> client \<Rightarrow> thread_step list \<Rightarrow> client \<Rightarrow> bool" for e where
  run_nil: "conn_run e c [] c"
| run_step: "conn_run e c ss c' \<Longrightarrow> conn_step e c' s c'' \<Longrightarrow> conn_run e c (ss @ [s]) c''"

inductive_cases conn_finishE: "conn_step e c (Finish a) c'"
inductive_simps conn_setup_simp: "conn_step e c Setup c'"

lemma step_evolves:
  assumes "conn_step e c s c'" "\<And>a. s \<noteq> Finish a"
  shows "evolves c c'"
  using assms
  by cases (auto intro: frame_evolves frame_setup_header frame_disconnect start_frame [OF in_session_ok] recv_evolves [OF in_session_ok])

lemma step_conn_ok: "conn_step e c s c' \<Longrightarrow> conn_ok c \<Longrightarrow> conn_ok c'"
  using step_evolves [of e c s c'] by (cases s) (auto simp: evolves_def conn_ok_remove elim!: conn_finishE)

lemma run_conn_ok: "conn_run e c ss c' \<Longrightarrow> conn_ok c \<Longrightarrow> conn_ok c'"
  by (induction rule: conn_run.induct) (auto intro: step_conn_ok)

text \<open>A thread that takes another request out of the queue does not touch this one.\<close>

lemma finish_other:
  assumes "conn_ok c" "a \<noteq> b" "awaited a c"
  shows "awaited a (snd (dsi_remove_from_request_queue b c))"
  using assms remove_from_queue(1) [of c b] by (auto simp: awaited_def conn_ok_def)

lemma run_waits:
  assumes "conn_run e c ss c'" "conn_ok c" "awaited a c" "Finish a \<notin> set ss"
  shows "awaited a c' \<or> (\<exists>ss1 ss2 d. ss = ss1 @ ss2 \<and> conn_run e c ss1 d \<and> conn_run e d ss2 c' \<and> answered a d)"
  using assms
proof (induction rule: conn_run.induct)
  case (run_step c ss c' s c'')
  have ok: "conn_ok c'"
    using run_conn_ok run_step by blast
  have whole: "conn_run e c (ss @ [s]) c''"
    using run_step.hyps by (rule conn_run.run_step)
  from run_step consider "awaited a c'"
    | ss1 ss2 d where "ss = ss1 @ ss2" "conn_run e c ss1 d" "conn_run e d ss2 c'" "answered a d"
    by auto
  then show ?case
  proof cases
    case 1
    have "awaited a c'' \<or> answered a c''"
    proof (cases "\<exists>b. s = Finish b")
      case True
      then show ?thesis
        using run_step ok 1 by (auto intro: finish_other elim!: conn_finishE)
    next
      case False
      then show ?thesis
        using step_evolves [OF run_step.hyps(2)] ok 1 by (auto simp: evolves_def)
    qed
    then show ?thesis
      using whole conn_run.run_nil [of e c''] by (auto intro: exI [of _ "ss @ [s]"])
  next
    case 2
    then show ?thesis
      using conn_run.run_step [OF 2(3) run_step.hyps(2)] by (metis append.assoc)
  qed
qed simp

subsection \<open>Main results\<close>

text \<open>(C7) Threads. Whatever the threads of the client and its main loop do on a connection within one session, and in whatever order, the queue
  stays a queue of different requests whose number is counted, and the buffer keeps its size. A request a thread waits for, and
  does not take out of the queue itself, is still waiting or has been answered at some moment: no packet, no other request, no tickle
  and no lost connection makes it disappear unanswered. The run ends where a thread begins to re-establish a lost session
  (\<open>afp_server_reconnect\<close>) or the server closes it (\<open>dsi_incoming_closesession\<close>, which may free the server with its queue).\<close>

theorem threads_keep_requests:
  assumes "conn_run e c ss c'" and "conn_ok c"
  shows "conn_ok c' \<and> (\<forall>a. awaited a c \<and> Finish a \<notin> set ss \<longrightarrow>
    awaited a c' \<or> (\<exists>ss1 ss2 d. ss = ss1 @ ss2 \<and> conn_run e c ss1 d \<and> conn_run e d ss2 c' \<and> answered a d))"
  using run_conn_ok [OF assms] run_waits [OF assms] by simp

definition example_waiting :: client where
  "example_waiting = waiting (replicate 20 0) 5 afpDelete No_Other example_client"

lemma example_run:
  "conn_run (example_env (\<lambda>_. Sent [])) example_waiting [Receive, Disconnect] (loop_disconnect example_waiting)"
proof -
  let ?e = "example_env (\<lambda>_. Sent [])"
  have "recv_count example_waiting < 16"
    by (simp add: example_waiting_def example_client_def example_server_def afp_server_init_def)
  then have recv: "dsi_recv (in_session ?e) Eof example_waiting = Some (- 1, Some Eof, example_waiting)"
    by (simp add: dsi_recv_def)
  from run_step [OF run_step [OF run_nil receive_step [OF recv]] disconnect_step] show ?thesis
    by simp
qed

lemma example_waiting_ok: "conn_ok example_waiting"
proof -
  let ?e = "in_session (example_env (\<lambda>_. Sent []))"
  have "dsi_start ?e (replicate 20 0) 5 afpDelete No_Other example_client = Some (Inr (cl_fresh example_client, []), example_waiting)"
    unfolding example_waiting_def by (rule dsi_start_sent [OF example_client_ready]) (simp_all add: in_session_def example_env_def)
  moreover have "conn_ok example_client"
    using example_client_ready by (simp add: conn_ok_def session_ready_def buffer_ok_def)
  ultimately show ?thesis
    using start_frame [OF in_session_ok] by (fastforce simp: frame_def)
qed

theorem threads_keep_requests_witness:
  "conn_ok (loop_disconnect example_waiting) \<and> (awaited 0 (loop_disconnect example_waiting) \<or>
     (\<exists>ss1 ss2 d. [Receive, Disconnect] = ss1 @ ss2 \<and> conn_run (example_env (\<lambda>_. Sent [])) example_waiting ss1 d \<and> answered 0 d))"
proof -
  have "awaited 0 example_waiting"
    by (simp add: awaited_def example_waiting_def new_request_def example_client_def)
  moreover have "Finish 0 \<notin> set [Receive, Disconnect]"
    by simp
  ultimately show ?thesis
    using threads_keep_requests [OF example_run example_waiting_ok] by blast
qed

text \<open>A second packet with the identifier of a request that has been answered, but not yet been taken out of the queue by
  its thread, removes and frees it; the thread then reads the freed structure.\<close>

lemma second_reply_frees:
  assumes "request_at a c = Some r" "answered a c" "req_wait r = 0" "conn_ok c"
  shows "\<exists>c'. dsi_out (Some a) left c = Some (0, left, c') \<and> request_at a c' = None"
proof -
  have "a \<notin> req_addr ` set (queue (snd (dsi_remove_from_request_queue a c)))"
    using assms(4) remove_from_queue(1) [of c a] by (auto simp: conn_ok_def)
  then have "request_at a (snd (dsi_remove_from_request_queue a c)) = None"
    by (force simp: request_at_def find_None_iff)
  then show ?thesis
    using assms(1,3) by (simp add: dsi_out_def)
qed

end
