(* ===== verification/Spec2Isabelle.thy ===== *)
theory Spec2Isabelle
  imports Path_Utils Unicode_Conv Proto_Replies Uams_Def Dsi_Packets Proto_Exchange Write_Loop File_Attributes Afp_Url Uams_Login Afp_Server Afp_Mount Fuse_Mount Fuse_Int Dsi_Threads
begin

text \<open>
  A verification library for \<open>afpfs-ng\<close>, the AFP client of TimeCapsuleMount (\<open>src/afpfs-ng\<close>).

  \<^bold>\<open>The program.\<close> A client for the Apple Filing Protocol in C. The bottom layer, DSI, exchanges packets over TCP: a thread that wants
  something writes a request, queues it and waits; the main loop reads the socket, matches a reply with its request by an identifier, calls the
  handler of the reply, and wakes the thread up. Above it are the requests of the protocol with their handlers, a cache that maps the paths of
  directories to their identifiers, the low-level and mid-level file operations (with hidden files for the resource fork and Finder
  information), and on top the operations FUSE calls. Beside them are the authentication methods, URLs, the list of
  servers with their volumes, and the conversion of names between decomposed and precomposed UTF-8. A daemon has the list of servers and
  carries out the commands of a small client program: mount, unmount, suspend, resume, status, exit.

  \<^bold>\<open>How code is represented.\<close> Bytes and machine integers are words of their width; a C string is a \<open>string\<close>, a buffer
  a list of bytes. A structure is a record (\<open>Afp_Types\<close>). The state of a connection is the record \<open>client\<close> of \<open>Dsi\<close>: the server, the
  volume in use, the packets sent so far, the lock of the sender and counters for time and allocation. The state of the
  process is the record \<open>servers\<close> of \<open>Afp_Connect\<close>, a heap of such connections with the linked list through it and the set of freed addresses, and around it
  the record \<open>daemon\<close> of \<open>Fuse_Commands\<close>. What the program does not contain is
  the record \<open>env\<close>: the network as a function from the packets sent so far to what arrives or fails, the clock, whether an allocation
  succeeds, what fresh memory holds, \<open>iconv\<close>. A function returns an option: \<open>None\<close> means that it does not return normally, because
  it reads or writes outside a buffer, follows a null pointer, waits for ever or does not end; return codes and errors
  are values. Loops over the network that may not end are partial functions with this \<open>None\<close>; that a call returns is part of the theorems
  about what it does. Only invariants of all outcomes (\<open>full_connect_keeps_list\<close>, \<open>reply_fits\<close>) and theorems about what comes after a call start from its
  result. There is no fuel anywhere; all other recursions terminate structurally or by a measure.

  \<^bold>\<open>The theories, from the bottom up.\<close>
  \<^item> \<open>Afp_Prelude\<close>: buffers with checked access, the fields of packets as instances of the locale \<open>wire_field\<close> (8 to 64 bits), strings,
    search in strings. \<open>Afp_Protocol\<close>: the constants of \<open>afp_protocol.h\<close>, \<open>afp.h\<close> and \<open>errno.h\<close>. \<open>Afp_Types\<close>: the structures.
  \<^item> \<open>Path_Utils\<close> (\<open>utils.c\<close>): Pascal strings and paths in packets; round trips, the test for names that are too long, and the overflow it
    does not prevent.
  \<^item> \<open>Unicode_Table\<close>, \<open>Unicode_Conv\<close> (\<open>unicode.c\<close>, \<open>codepage.c\<close>): the binary search is a lookup in the table, UTF-8 round trip, paths
    to the server and back.
  \<^item> \<open>Reply_Block\<close> (\<open>proto_replyblock.c\<close>), \<open>Proto_Replies\<close> (handlers of \<open>proto_*.c\<close>, the table of \<open>afp.c\<close>): what a server packs is
    what the handler stores, for single files and for enumerations.
  \<^item> \<open>Dsi\<close> (\<open>dsi.c\<close>, part of \<open>loop.c\<close>): all of \<open>dsi_send\<close> and \<open>dsi_recv\<close>, one definition per label. \<open>Dsi_Queue\<close>: the queue as an
    instance of the locale \<open>pool\<close>. \<open>Dsi_Receive\<close>, \<open>Dsi_Send\<close>: a reply in pieces of any size, the contract of \<open>dsi_send\<close>, time-outs, lost
    connections. \<open>Dsi_Packets\<close>: tickles and packets that are too large. \<open>Dsi_Read\<close>: replies to reads. \<open>Dsi_Threads\<close>: threads
    and main loop of one session as an inductive step relation with its invariants.
  \<^item> \<open>Proto_Requests\<close>, \<open>Proto_Exchange\<close> (requests of \<open>proto_*.c\<close>): the packets, and what a request returns when it is answered.
    \<open>Dir_Server\<close>: what it means that a server has directories, refuses requests or answers at all, and servers that do so.
  \<^item> \<open>Did_Cache\<close>, \<open>Did_Lookup\<close> (\<open>did.c\<close>, \<open>forklist.c\<close>): while nothing expires the cache refines a stack of identifiers for every path
    (locale \<open>stack_cache\<close>), and what happens when an entry expires; the lookup finds the right directory; open forks are a \<open>pool\<close> again.
  \<^item> \<open>Users\<close> (\<open>users.c\<close>, \<open>map_def.c\<close>), \<open>Unix_Privs\<close>, \<open>Lowlevel\<close> (\<open>lowlevel.c\<close>), \<open>Resource\<close> (\<open>resource.c\<close>), \<open>Midlevel\<close>
    (\<open>midlevel.c\<close>): the operations. \<open>Write_Loop\<close>, \<open>Readdir_Loop\<close>, \<open>Fork_Read\<close>: their loops against a server. \<open>Midlevel_Calls\<close>: all calls as
    one datatype; results are errno values, nothing changes on read-only volumes, what a refusal becomes. \<open>File_Attributes\<close>: attributes of
    files and of the hidden files.
  \<^item> \<open>Fuse_Int\<close> (\<open>fuse/fuse_int.c\<close>): the operations of FUSE; reading a file end to end.
  \<^item> \<open>Uams_Def\<close>, \<open>Uams\<close> (\<open>uams_def.c\<close>, \<open>uams.c\<close>): the registry and the methods of authentication over the record \<open>gcrypt\<close>, which stands
    for libgcrypt. \<open>Uams_Login\<close>: its documented laws (\<open>gcrypt_ok\<close>), and the two Diffie-Hellman logins against a server.
  \<^item> \<open>Afp_Url\<close> (\<open>afp_url.c\<close>), \<open>Afp_Server\<close> (\<open>afp.c\<close>, \<open>server.c\<close>, descriptors of \<open>loop.c\<close>).
  \<^item> \<open>Afp_Volume\<close>, \<open>Afp_Mount\<close> (rest of \<open>afp.c\<close>): opening and closing volumes, reconnecting; what is sent, and the state of the volume afterwards.
    \<open>Afp_Connect\<close> (\<open>connect.c\<close>): connecting to a server; the list of servers stays a list, and what the error path reads. \<open>Afp_Status\<close>
    (\<open>status.c\<close>, \<open>debug.c\<close>): the text of the status.
  \<^item> \<open>Fuse_Messages\<close> (\<open>fuse/afp_server.h\<close>): requests and answers between client and daemon as bytes, the layout of structures that both programs
    only cast. \<open>Fuse_Commands\<close> (\<open>fuse/commands.c\<close>,
    \<open>fuse/daemon.c\<close>, \<open>fuse/fuse_error.c\<close>, \<open>log.c\<close>): the handlers of the commands. \<open>Fuse_Client\<close> (\<open>fuse/client.c\<close>): the command lines and the answer.
    \<open>Fuse_Daemon\<close>: the handlers as instances of the locale \<open>reply_handler\<close>, unmounting end to end, the end of the daemon, resuming. \<open>Fuse_Mount\<close>: mounting
    from the request to the mounted volume.

  \<^bold>\<open>Servers in theorems.\<close> A theorem about a request assumes how the other end answers: \<open>answers_request\<close> (this code and body, in pieces of any
  size), \<open>serves\<close> (it has these directories), \<open>serves_fork\<close> (it has this file), \<open>responsive\<close> and \<open>refuses\<close>, \<open>talks\<close> (it follows a protocol). Each
  predicate has a server written as a function that satisfies it, which the witnesses use.

  \<^bold>\<open>Bounds.\<close> The receive buffer has 4096 bytes, as in \<open>afp_server_init\<close>; replies other than reads are assumed to have at most 4080 bytes
  behind the header, and \<open>large_packet_overflows\<close> shows that the code needs this. Reads are below 2 GB, since \<open>ll_read\<close> returns an \<open>int\<close>.

  \<^bold>\<open>Parameters for code below a layer.\<close> \<open>dsi_send\<close> and \<open>dsi_recv\<close> call \<open>afp_server_reconnect\<close> and \<open>dsi_incoming_closesession\<close>, which belong to the layers
  above and send requests themselves. In \<open>Dsi\<close> they are the fields \<open>env_reconnect\<close> and \<open>env_close_session\<close>; the functions are defined in \<open>Afp_Volume\<close>, on
  top of it. Theorems about a request assume a session that is connected, and the runs of \<open>Dsi_Threads\<close> are those of one session, so that neither is
  called there. \<open>fuse_run\<close> of the record \<open>host\<close> is the FUSE library with \<open>afp_init\<close>, from \<open>fuse_main\<close> until the daemon looks; \<open>out_unmount\<close> is the hook with
  which the library unmounts.

  \<^bold>\<open>Not modelled.\<close> A \<open>write\<close> to a socket that takes only part of a packet: in the model it takes all of it or fails. That \<open>free_entire_did_cache\<close>
  leaves a dangling pointer in the volume. Locks other than the one of the sender, and the scheduling of threads below the steps of \<open>Dsi_Threads\<close>.
  The body of the thread for attention packets (\<open>dsi_incoming_attention\<close>), which sleeps and prints messages.
  Sockets, the main loop around \<open>select\<close> and its signals (rest of \<open>loop.c\<close>), the options, the listening socket and the forking of the daemon (\<open>main\<close> of
  \<open>fuse/daemon.c\<close>), and starting the daemon from the client: calls of the operating system. The FUSE library.
  The interactive shell (\<open>cmdline\<close>). The scripts of the container.
\<close>

end
